(* ===== verification/Prelude.thy ===== *)
theory Prelude
  imports Main "HOL-Library.Multiset"
begin

text \<open>
  Shared by every component theory: the result type of fallible Go functions, the
  collections of rewrite rules the component proofs use, and generic lemmas on lists
  and maps that more than one component needs.

  A Go function that returns \<open>(T, error)\<close> is a HOL function into \<open>'a res\<close>: \<open>Inl\<close> holds
  the error, \<open>Inr\<close> the value. An error is a \<open>goerr\<close>: the only thing the code ever asks of
  an error is whether it is \<open>os.ErrNotExist\<close> and what its text is.
\<close>

named_theorems frame_simps \<open>operations leave the other parts of the world alone\<close>
named_theorems ok_simps \<open>characterisations of the successful branch of a fallible operation\<close>

datatype goerr = NotExist string | Failure string

fun err_text :: "goerr \<Rightarrow> string" where
  "err_text (NotExist p) = ''open '' @ p @ '': no such file or directory''"
| "err_text (Failure m) = m"

fun is_not_exist :: "goerr \<Rightarrow> bool" where
  "is_not_exist (NotExist p) = True"
| "is_not_exist (Failure m) = False"

type_synonym 'a res = "goerr + 'a"

text \<open>\<open>fmt.Errorf\<close> with the cause at the end.\<close>

definition prefix_err :: "string \<Rightarrow> goerr \<Rightarrow> goerr" where
  "prefix_err s err = Failure (s @ err_text err)"

definition is_ok :: "'e + 'a \<Rightarrow> bool" where
  "is_ok r = (case r of Inl _ \<Rightarrow> False | Inr _ \<Rightarrow> True)"

lemma is_ok_simps [simp]: "is_ok (Inr x)" "\<not> is_ok (Inl e)"
  by (simp_all add: is_ok_def)

lemma is_ok_iff: "is_ok r \<longleftrightarrow> (\<exists>x. r = Inr x)"
  by (cases r) auto

subsection \<open>Lists\<close>

text \<open>A loop that stops at the first failure.\<close>

fun fold_opt :: "('a \<Rightarrow> 'b \<Rightarrow> 'b option) \<Rightarrow> 'a list \<Rightarrow> 'b \<Rightarrow> 'b option" where
  "fold_opt f [] b = Some b"
| "fold_opt f (x # xs) b = (case f x b of None \<Rightarrow> None | Some b' \<Rightarrow> fold_opt f xs b')"

text \<open>Lines of a file with their numbers, as a \<open>for i, ln := range lines\<close> loop sees them.\<close>

fun index_from :: "nat \<Rightarrow> 'a list \<Rightarrow> (nat \<times> 'a) list" where
  "index_from i [] = []"
| "index_from i (x # xs) = (i, x) # index_from (Suc i) xs"

lemma index_from_append [simp]:
  "index_from i (xs @ ys) = index_from i xs @ index_from (i + length xs) ys"
  by (induction xs arbitrary: i) auto

lemma length_index_from [simp]: "length (index_from i xs) = length xs"
  by (induction xs arbitrary: i) auto

lemma map_snd_index_from [simp]: "map snd (index_from i xs) = xs"
  by (induction xs arbitrary: i) auto

lemma nth_index_from: "k < length xs \<Longrightarrow> index_from i xs ! k = (i + k, xs ! k)"
  by (induction xs arbitrary: i k) (auto simp: nth_Cons split: nat.splits)

text \<open>A stable insertion sort by a key comparison, the shape of the code's hand-written sort.\<close>

fun insert_by :: "('a \<Rightarrow> 'a \<Rightarrow> bool) \<Rightarrow> 'a \<Rightarrow> 'a list \<Rightarrow> 'a list" where
  "insert_by lt x [] = [x]"
| "insert_by lt x (y # ys) = (if lt x y then x # y # ys else y # insert_by lt x ys)"

definition sort_by :: "('a \<Rightarrow> 'a \<Rightarrow> bool) \<Rightarrow> 'a list \<Rightarrow> 'a list" where
  "sort_by lt xs = fold (insert_by lt) xs []"

lemma set_insert_by [simp]: "set (insert_by lt x xs) = insert x (set xs)"
  by (induction xs) auto

lemma length_insert_by [simp]: "length (insert_by lt x xs) = Suc (length xs)"
  by (induction xs) auto

lemma set_fold_insert_by: "set (fold (insert_by lt) xs acc) = set xs \<union> set acc"
  by (induction xs arbitrary: acc) auto

lemma set_sort_by [simp]: "set (sort_by lt xs) = set xs"
  by (simp add: sort_by_def set_fold_insert_by)

lemma length_fold_insert_by: "length (fold (insert_by lt) xs acc) = length xs + length acc"
  by (induction xs arbitrary: acc) auto

lemma length_sort_by [simp]: "length (sort_by lt xs) = length xs"
  by (simp add: sort_by_def length_fold_insert_by)

lemma mset_insert_by [simp]: "mset (insert_by lt x xs) = add_mset x (mset xs)"
  by (induction xs) auto

lemma mset_sort_by [simp]: "mset (sort_by lt xs) = mset xs"
proof -
  have "mset (fold (insert_by lt) xs acc) = mset xs + mset acc" for acc
    by (induction xs arbitrary: acc) auto
  then show ?thesis by (simp add: sort_by_def)
qed

lemma distinct_map_sort_by: "distinct (map f (sort_by lt xs)) = distinct (map f xs)"
  by (metis mset_sort_by mset_map mset_eq_imp_distinct_iff)

subsection \<open>Keyed stores\<close>

text \<open>
  The contract the sidecar, the user database and the archive share: a finite map that is
  read by key, updated at one key and shrunk at one key. \<open>ok\<close> is the invariant the
  operations keep.
\<close>

locale keyed_store =
  fixes get :: "'s \<Rightarrow> 'k \<Rightarrow> 'v option"
    and put :: "'k \<Rightarrow> 'v \<Rightarrow> 's \<Rightarrow> 's"
    and del :: "'k \<Rightarrow> 's \<Rightarrow> 's"
    and ok :: "'s \<Rightarrow> bool"
  assumes get_put: "ok s \<Longrightarrow> get (put k v s) = (get s)(k \<mapsto> v)"
    and get_del: "ok s \<Longrightarrow> get (del k s) = (get s)(k := None)"
    and ok_put: "ok s \<Longrightarrow> ok (put k v s)"
    and ok_del: "ok s \<Longrightarrow> ok (del k s)"
begin

lemma put_del_fresh: "ok s \<Longrightarrow> get s k = None \<Longrightarrow> get (del k (put k v s)) = get s"
  by (auto simp: get_put get_del ok_put)

lemma put_comm: "ok s \<Longrightarrow> k \<noteq> l \<Longrightarrow> get (put k v (put l u s)) = get (put l u (put k v s))"
  by (auto simp: get_put ok_put)

lemma put_twice: "ok s \<Longrightarrow> get (put k v (put k u s)) = get (put k v s)"
  by (auto simp: get_put ok_put)

lemma ok_foldr_del: "ok s \<Longrightarrow> ok (fold del ks s)"
  by (induction ks arbitrary: s) (auto simp: ok_del)

lemma get_fold_del: "ok s \<Longrightarrow> get (fold del ks s) = (\<lambda>k. if k \<in> set ks then None else get s k)"
proof (induction ks arbitrary: s)
  case (Cons l ks)
  from Cons.IH [OF ok_del [OF Cons.prems]] show ?case by (auto simp: get_del [OF Cons.prems])
qed simp

end

end
