(* ===== verification/GoStrings.thy ===== *)
theory GoStrings
  imports Prelude
begin

text \<open>
  The part of Go's standard library for strings that the program calls: \<open>strings\<close>,
  \<open>strconv.Atoi\<close> and the \<open>%d\<close> verb. A Go string is a sequence of bytes, as is \<open>string\<close>.
  \<open>go_trim_space\<close> strips the byte encodings of every Unicode white-space rune, as
  \<open>strings.TrimSpace\<close> does; the regular expressions of the program use the ASCII class
  \<open>\s\<close>, which is \<open>re_space\<close>. \<open>go_to_lower\<close> is exact on ASCII and on the two non-ASCII
  letters whose lower case is ASCII (U+0130 and U+212A); it leaves every other byte alone.
\<close>

subsection \<open>Prefixes, search, split and join\<close>

definition has_prefix :: "string \<Rightarrow> string \<Rightarrow> bool" where
  "has_prefix s p \<longleftrightarrow> take (length p) s = p"

definition has_suffix :: "string \<Rightarrow> string \<Rightarrow> bool" where
  "has_suffix s p \<longleftrightarrow> length p \<le> length s \<and> drop (length s - length p) s = p"

definition trim_prefix :: "string \<Rightarrow> string \<Rightarrow> string" where
  "trim_prefix s p = (if has_prefix s p then drop (length p) s else s)"

definition trim_suffix :: "string \<Rightarrow> string \<Rightarrow> string" where
  "trim_suffix s p = (if has_suffix s p then take (length s - length p) s else s)"

fun contains :: "string \<Rightarrow> string \<Rightarrow> bool" where
  "contains s sub = (has_prefix s sub \<or> (case s of [] \<Rightarrow> False | _ # t \<Rightarrow> contains t sub))"

declare contains.simps [simp del]

fun split_on :: "char \<Rightarrow> string \<Rightarrow> string list" where
  "split_on c [] = [[]]"
| "split_on c (x # xs) =
     (if x = c then [] # split_on c xs
      else (case split_on c xs of [] \<Rightarrow> [[x]] | l # ls \<Rightarrow> (x # l) # ls))"

text \<open>\<open>strings.SplitN(s, c, 2)\<close>.\<close>

definition split2 :: "char \<Rightarrow> string \<Rightarrow> string list" where
  "split2 c s = (let a = takeWhile (\<lambda>x. x \<noteq> c) s; r = dropWhile (\<lambda>x. x \<noteq> c) s
                 in if r = [] then [a] else [a, tl r])"

fun join :: "string \<Rightarrow> string list \<Rightarrow> string" where
  "join sep [] = []"
| "join sep [x] = x"
| "join sep (x # y # ys) = x @ sep @ join sep (y # ys)"

lemma has_prefix_append [simp]: "has_prefix (p @ s) p"
  by (simp add: has_prefix_def)

lemma has_prefix_refl [simp]: "has_prefix s s"
  by (simp add: has_prefix_def)

lemma has_prefix_iff: "has_prefix s p \<longleftrightarrow> (\<exists>r. s = p @ r)"
  by (metis append_take_drop_id append_eq_conv_conj has_prefix_def)

lemma has_prefix_Nil [simp]: "has_prefix s []"
  by (simp add: has_prefix_def)

lemma has_prefix_Cons [simp]:
  "has_prefix [] (c # p) = False" "has_prefix (x # s) (c # p) \<longleftrightarrow> x = c \<and> has_prefix s p"
  by (auto simp: has_prefix_def)

lemma has_suffix_iff: "has_suffix s p \<longleftrightarrow> (\<exists>r. s = r @ p)"
  by (auto simp: has_suffix_def) (metis append_take_drop_id)

lemma trim_prefix_append [simp]: "trim_prefix (p @ s) p = s"
  by (simp add: trim_prefix_def)

lemma contains_iff: "contains s sub \<longleftrightarrow> (\<exists>a b. s = a @ sub @ b)"
proof (induction s)
  case Nil
  show ?case by (subst contains.simps) (auto simp: has_prefix_iff)
next
  case (Cons x s)
  show ?case
  proof
    assume "contains (x # s) sub"
    then have "has_prefix (x # s) sub \<or> contains s sub"
      by (subst (asm) contains.simps) simp
    then show "\<exists>a b. x # s = a @ sub @ b"
      using Cons.IH by (metis append_Cons append_Nil has_prefix_iff)
  next
    assume "\<exists>a b. x # s = a @ sub @ b"
    then obtain a b where e: "x # s = a @ sub @ b" by blast
    show "contains (x # s) sub"
    proof (cases a)
      case Nil
      with e show ?thesis by (subst contains.simps) (auto simp: has_prefix_iff)
    next
      case (Cons y a')
      with e have "s = a' @ sub @ b" by simp
      with Cons.IH show ?thesis by (subst contains.simps) auto
    qed
  qed
qed

lemma split_on_nonempty [simp]: "split_on c s \<noteq> []"
  by (induction s) (auto split: list.splits)

lemma split_on_no_sep: "l \<in> set (split_on c s) \<Longrightarrow> c \<notin> set l"
  by (induction s arbitrary: l) (auto split: list.splits if_splits)

lemma join_Cons: "ls \<noteq> [] \<Longrightarrow> join sep (l # ls) = l @ sep @ join sep ls"
  by (cases ls) auto

lemma join_snoc: "ls \<noteq> [] \<Longrightarrow> join sep (ls @ [x]) = join sep ls @ sep @ x"
  by (induction sep ls rule: join.induct) auto

lemma join_split_on [simp]: "join [c] (split_on c s) = s"
proof (induction s)
  case (Cons x s)
  show ?case
  proof (cases "split_on c s")
    case Nil
    then show ?thesis by simp
  next
    case (Cons l ls)
    with Cons.IH show ?thesis by (cases ls) auto
  qed
qed simp

lemma split_on_append_sep: "c \<notin> set l \<Longrightarrow> split_on c (l @ c # s) = l # split_on c s"
  by (induction l) auto

lemma split_on_single: "c \<notin> set l \<Longrightarrow> split_on c l = [l]"
  by (induction l) auto

lemma split_on_join:
  "ls \<noteq> [] \<Longrightarrow> (\<forall>l \<in> set ls. c \<notin> set l) \<Longrightarrow> split_on c (join [c] ls) = ls"
  by (induction "[c]" ls rule: join.induct)
     (auto simp: split_on_single split_on_append_sep)

lemma split_on_append_newline:
  "split_on c (s @ c # t) = split_on c s @ split_on c t"
  by (induction s) (auto split: list.splits)

subsection \<open>White space and trimming\<close>

definition byte :: "nat \<Rightarrow> char" where
  "byte n = char_of n"

text \<open>The class \<open>\s\<close> of Go's regular expressions: tab, line feed, form feed, carriage return, space.\<close>

definition re_space :: "char \<Rightarrow> bool" where
  "re_space c \<longleftrightarrow> c \<in> {CHR 0x09, CHR 0x0A, CHR 0x0C, CHR 0x0D, CHR 0x20}"

text \<open>Every Unicode white-space rune, in UTF-8.\<close>

definition space_runes :: "string list" where
  "space_runes =
     [[CHR 0x09], [CHR 0x0A], [CHR 0x0B], [CHR 0x0C], [CHR 0x0D], [CHR 0x20],
      [CHR 0xC2, CHR 0x85], [CHR 0xC2, CHR 0xA0],
      [CHR 0xE1, CHR 0x9A, CHR 0x80], [CHR 0xE2, CHR 0x80, CHR 0x80],
      [CHR 0xE2, CHR 0x80, CHR 0x81], [CHR 0xE2, CHR 0x80, CHR 0x82],
      [CHR 0xE2, CHR 0x80, CHR 0x83], [CHR 0xE2, CHR 0x80, CHR 0x84],
      [CHR 0xE2, CHR 0x80, CHR 0x85], [CHR 0xE2, CHR 0x80, CHR 0x86],
      [CHR 0xE2, CHR 0x80, CHR 0x87], [CHR 0xE2, CHR 0x80, CHR 0x88],
      [CHR 0xE2, CHR 0x80, CHR 0x89], [CHR 0xE2, CHR 0x80, CHR 0x8A],
      [CHR 0xE2, CHR 0x80, CHR 0xA8], [CHR 0xE2, CHR 0x80, CHR 0xA9],
      [CHR 0xE2, CHR 0x80, CHR 0xAF], [CHR 0xE2, CHR 0x81, CHR 0x9F],
      [CHR 0xE3, CHR 0x80, CHR 0x80]]"

lemma space_runes_nonempty: "e \<in> set space_runes \<Longrightarrow> e \<noteq> []"
  by (auto simp: space_runes_def)

function (sequential) trim_left_space :: "string \<Rightarrow> string" where
  "trim_left_space s =
     (case find (\<lambda>e. has_prefix s e) space_runes of
        None \<Rightarrow> s | Some e \<Rightarrow> trim_left_space (drop (length e) s))"
  by pat_completeness auto
termination
proof (relation "measure length")
  fix s e
  assume "find (\<lambda>e. has_prefix s e) space_runes = Some e"
  then have "e \<in> set space_runes" and p: "has_prefix s e"
    by (auto simp: find_Some_iff)
  then have "e \<noteq> []" by (simp add: space_runes_nonempty)
  with p show "(drop (length e) s, s) \<in> measure length"
    by (auto simp: has_prefix_iff)
qed simp

declare trim_left_space.simps [simp del]

function (sequential) trim_right_space :: "string \<Rightarrow> string" where
  "trim_right_space s =
     (case find (\<lambda>e. has_suffix s e) space_runes of
        None \<Rightarrow> s | Some e \<Rightarrow> trim_right_space (take (length s - length e) s))"
  by pat_completeness auto
termination
proof (relation "measure length")
  fix s e
  assume "find (\<lambda>e. has_suffix s e) space_runes = Some e"
  then have "e \<in> set space_runes" and p: "has_suffix s e"
    by (auto simp: find_Some_iff)
  then have "e \<noteq> []" by (simp add: space_runes_nonempty)
  with p show "(take (length s - length e) s, s) \<in> measure length"
    by (auto simp: has_suffix_iff)
qed simp

declare trim_right_space.simps [simp del]

definition go_trim_space :: "string \<Rightarrow> string" where
  "go_trim_space s = trim_right_space (trim_left_space s)"

text \<open>The first of \<open>strings.Fields(s)\<close>, empty when there is none.\<close>

fun take_word :: "string \<Rightarrow> string" where
  "take_word [] = []"
| "take_word (c # cs) = (if list_ex (has_prefix (c # cs)) space_runes then [] else c # take_word cs)"

definition go_first_field :: "string \<Rightarrow> string" where
  "go_first_field s = take_word (trim_left_space s)"

text \<open>\<open>strings.Trim(s, cutset)\<close> for a cutset of one ASCII byte.\<close>

definition trim_char :: "char \<Rightarrow> string \<Rightarrow> string" where
  "trim_char c s = rev (dropWhile (\<lambda>x. x = c) (rev (dropWhile (\<lambda>x. x = c) s)))"

subsection \<open>Character classes and case\<close>

definition is_lower :: "char \<Rightarrow> bool" where
  "is_lower c \<longleftrightarrow> 97 \<le> (of_char c :: nat) \<and> (of_char c :: nat) \<le> 122"

definition is_upper :: "char \<Rightarrow> bool" where
  "is_upper c \<longleftrightarrow> 65 \<le> (of_char c :: nat) \<and> (of_char c :: nat) \<le> 90"

definition is_digit :: "char \<Rightarrow> bool" where
  "is_digit c \<longleftrightarrow> 48 \<le> (of_char c :: nat) \<and> (of_char c :: nat) \<le> 57"

definition is_alpha :: "char \<Rightarrow> bool" where
  "is_alpha c \<longleftrightarrow> is_lower c \<or> is_upper c"

text \<open>The class \<open>\w\<close> of Go's regular expressions.\<close>

definition is_word :: "char \<Rightarrow> bool" where
  "is_word c \<longleftrightarrow> is_alpha c \<or> is_digit c \<or> c = CHR ''_''"

definition lower_char :: "char \<Rightarrow> char" where
  "lower_char c = (if is_upper c then char_of ((of_char c :: nat) + 32) else c)"

fun go_to_lower :: "string \<Rightarrow> string" where
  "go_to_lower [] = []"
| "go_to_lower (c # cs) =
     (case cs of
        d # ds \<Rightarrow>
          if c = CHR 0xC4 \<and> d = CHR 0xB0 then CHR ''i'' # go_to_lower ds
          else (case ds of
                  e # es \<Rightarrow>
                    if c = CHR 0xE2 \<and> d = CHR 0x84 \<and> e = CHR 0xAA
                    then CHR ''k'' # go_to_lower es
                    else lower_char c # go_to_lower cs
                | [] \<Rightarrow> lower_char c # go_to_lower cs)
      | [] \<Rightarrow> [lower_char c])"

subsection \<open>Numbers\<close>

fun show_nat :: "nat \<Rightarrow> string" where
  "show_nat n = (if n < 10 then [char_of (48 + n)]
                 else show_nat (n div 10) @ [char_of (48 + n mod 10)])"

declare show_nat.simps [simp del]

definition show_int :: "int \<Rightarrow> string" where
  "show_int i = (if i < 0 then CHR ''-'' # show_nat (nat (- i)) else show_nat (nat i))"

definition digit_val :: "char \<Rightarrow> nat" where
  "digit_val c = (of_char c :: nat) - 48"

definition digits_val :: "string \<Rightarrow> nat" where
  "digits_val s = foldl (\<lambda>n c. 10 * n + digit_val c) 0 s"

text \<open>\<open>strconv.Atoi\<close>: an optional sign, at least one decimal digit, and a value that fits \<open>int64\<close>.\<close>

definition atoi :: "string \<Rightarrow> int option" where
  "atoi s =
     (let (neg, ds) = (case s of
             [] \<Rightarrow> (False, [])
           | c # cs \<Rightarrow> if c = CHR ''-'' then (True, cs)
                       else if c = CHR ''+'' then (False, cs) else (False, s));
          v = int (digits_val ds);
          n = (if neg then - v else v)
      in if ds \<noteq> [] \<and> list_all is_digit ds \<and> - (2 ^ 63) \<le> n \<and> n < 2 ^ 63 then Some n else None)"

text \<open>
  The \<open>%q\<close> verb: a double-quoted Go literal. Bytes above 127 are taken to belong to printable
  runes, which \<open>%q\<close> leaves as they are.
\<close>

definition hex_digit :: "nat \<Rightarrow> char" where
  "hex_digit n = char_of (if n < 10 then 48 + n else 87 + n)"

definition quote_char :: "char \<Rightarrow> string" where
  "quote_char c =
     (let n = (of_char c :: nat); bs = CHR 92 in
      if n = 34 \<or> n = 92 then [bs, c]
      else if n = 7 then [bs, CHR ''a''] else if n = 8 then [bs, CHR ''b'']
      else if n = 9 then [bs, CHR ''t''] else if n = 10 then [bs, CHR ''n'']
      else if n = 11 then [bs, CHR ''v''] else if n = 12 then [bs, CHR ''f'']
      else if n = 13 then [bs, CHR ''r'']
      else if n < 32 \<or> n = 127 then [bs, CHR ''x'', hex_digit (n div 16), hex_digit (n mod 16)]
      else [c])"

definition go_quote :: "string \<Rightarrow> string" where
  "go_quote s = CHR 34 # concat (map quote_char s) @ [CHR 34]"

lemma of_char_digit: "d < 10 \<Longrightarrow> (of_char (char_of (48 + d) :: char) :: nat) = 48 + d"
  by (simp add: of_char_of)

lemma is_digit_char_of [simp]: "(d::nat) < 10 \<Longrightarrow> is_digit (char_of (48 + d))"
  by (simp add: is_digit_def of_char_digit del: of_char_of)

lemma digit_val_char_of [simp]: "d < 10 \<Longrightarrow> digit_val (char_of (48 + d)) = d"
  by (simp add: digit_val_def of_char_digit del: of_char_of)

lemma show_nat_nonempty [simp]: "show_nat n \<noteq> []"
  by (subst show_nat.simps) simp

lemma show_nat_digits: "list_all is_digit (show_nat n)"
proof (induction n rule: show_nat.induct)
  case (1 n)
  then show ?case by (subst show_nat.simps) auto
qed

lemma digits_val_show_nat: "digits_val (show_nat n) = n"
proof (induction n rule: show_nat.induct)
  case (1 n)
  show ?case
  proof (cases "n < 10")
    case True
    then show ?thesis by (subst show_nat.simps) (simp add: digits_val_def)
  next
    case False
    with 1 have "digits_val (show_nat (n div 10)) = n div 10" by simp
    with False show ?thesis by (subst show_nat.simps) (simp add: digits_val_def)
  qed
qed

lemma show_nat_head_digit: "\<exists>c cs. show_nat n = c # cs \<and> is_digit c"
  using show_nat_digits[of n] show_nat_nonempty[of n] by (cases "show_nat n") auto

lemma atoi_show_nat: "int n < 2 ^ 63 \<Longrightarrow> atoi (show_nat n) = Some (int n)"
proof -
  assume b: "int n < 2 ^ 63"
  obtain c cs where s: "show_nat n = c # cs" and d: "is_digit c"
    using show_nat_head_digit by blast
  have "c \<noteq> CHR ''-''" "c \<noteq> CHR ''+''" using d by (auto simp: is_digit_def)
  then show ?thesis
    using b s show_nat_digits[of n] digits_val_show_nat[of n] by (auto simp: atoi_def Let_def)
qed

end
