(* ===== verification/GoPath.thy ===== *)
theory GoPath
  imports GoStrings
begin

text \<open>
  \<open>path/filepath\<close> on a Unix host: \<open>Clean\<close> (lexical), \<open>Join\<close> and \<open>Dir\<close>. A cleaned path is
  determined by whether it is rooted and by its list of components, and the string prefix
  test "equal, or longer by a separator" on cleaned rooted paths is the list prefix test on
  their components.
\<close>

fun clean_comps :: "bool \<Rightarrow> string list \<Rightarrow> string list \<Rightarrow> string list" where
  "clean_comps rooted acc [] = rev acc"
| "clean_comps rooted acc (c # cs) =
     (if c = [] \<or> c = ''.'' then clean_comps rooted acc cs
      else if c = ''..'' then
        (case acc of
           a # rest \<Rightarrow> if a = ''..'' then clean_comps rooted (c # acc) cs
                       else clean_comps rooted rest cs
         | [] \<Rightarrow> if rooted then clean_comps rooted [] cs else clean_comps rooted [c] cs)
      else clean_comps rooted (c # acc) cs)"

definition path_comps :: "string \<Rightarrow> string list" where
  "path_comps s = clean_comps (has_prefix s ''/'') [] (split_on CHR ''/'' s)"

definition filepath_clean :: "string \<Rightarrow> string" where
  "filepath_clean s =
     (if has_prefix s ''/'' then ''/'' @ join ''/'' (path_comps s)
      else if path_comps s = [] then ''.'' else join ''/'' (path_comps s))"

definition filepath_join :: "string list \<Rightarrow> string" where
  "filepath_join es =
     (let ne = filter (\<lambda>x. x \<noteq> []) es
      in if ne = [] then [] else filepath_clean (join ''/'' ne))"

text \<open>\<open>filepath.Dir\<close>: everything up to the last separator, cleaned.\<close>

definition filepath_dir :: "string \<Rightarrow> string" where
  "filepath_dir s = filepath_clean (rev (dropWhile (\<lambda>c. c \<noteq> CHR ''/'') (rev s)))"

definition plain_comp :: "string \<Rightarrow> bool" where
  "plain_comp c \<longleftrightarrow> c \<noteq> [] \<and> c \<noteq> ''.'' \<and> c \<noteq> ''..'' \<and> CHR ''/'' \<notin> set c"

lemma clean_comps_no_sep:
  "\<forall>c \<in> set acc \<union> set cs. CHR ''/'' \<notin> set c \<Longrightarrow>
   x \<in> set (clean_comps r acc cs) \<Longrightarrow> CHR ''/'' \<notin> set x"
  by (induction r acc cs rule: clean_comps.induct)
     (auto split: if_splits list.splits)

lemma clean_comps_nonempty:
  "[] \<notin> set acc \<Longrightarrow> [] \<notin> set (clean_comps r acc cs)"
  by (induction r acc cs rule: clean_comps.induct) (auto split: if_splits list.splits)

lemma clean_comps_rooted_no_up:
  "''..'' \<notin> set acc \<Longrightarrow> ''..'' \<notin> set (clean_comps True acc cs)"
proof (induction cs arbitrary: acc)
  case (Cons c cs)
  show ?case
  proof (cases "c = [] \<or> c = ''.''")
    case True
    with Cons show ?thesis by auto
  next
    case False
    show ?thesis
    proof (cases "c = ''..''")
      case True
      with Cons show ?thesis by (cases acc) auto
    next
      case other: False
      with False Cons.prems Cons.IH [of "c # acc"] show ?thesis by auto
    qed
  qed
qed simp

lemma clean_comps_plain:
  "\<forall>c \<in> set cs. plain_comp c \<Longrightarrow> clean_comps r acc cs = rev acc @ cs"
  by (induction cs arbitrary: acc) (auto simp: plain_comp_def)

lemma path_comps_no_sep: "x \<in> set (path_comps s) \<Longrightarrow> CHR ''/'' \<notin> set x"
  unfolding path_comps_def
  by (erule clean_comps_no_sep [rotated]) (auto dest: split_on_no_sep)

lemma path_comps_nonempty: "x \<in> set (path_comps s) \<Longrightarrow> x \<noteq> []"
  unfolding path_comps_def using clean_comps_nonempty [of "[]"] by fastforce

lemma clean_comps_no_dot: "''.'' \<notin> set acc \<Longrightarrow> ''.'' \<notin> set (clean_comps r acc cs)"
  by (induction r acc cs rule: clean_comps.induct) (auto split: if_splits list.splits)

lemma path_comps_no_dot: "x \<in> set (path_comps s) \<Longrightarrow> x \<noteq> ''.''"
  unfolding path_comps_def using clean_comps_no_dot [of "[]"] by fastforce

lemma path_comps_rooted_no_up: "has_prefix s ''/'' \<Longrightarrow> ''..'' \<notin> set (path_comps s)"
  using clean_comps_rooted_no_up [of "[]"] by (simp add: path_comps_def)

lemma has_prefix_join_sep:
  assumes "\<forall>x \<in> set xs. CHR ''/'' \<notin> set x \<and> x \<noteq> []" "\<forall>y \<in> set ys. CHR ''/'' \<notin> set y \<and> y \<noteq> []"
    and "ys \<noteq> []"
  shows "has_prefix (join ''/'' xs) (join ''/'' ys @ ''/'') \<longleftrightarrow> (\<exists>zs. zs \<noteq> [] \<and> xs = ys @ zs)"
proof
  assume "has_prefix (join ''/'' xs) (join ''/'' ys @ ''/'')"
  then obtain r where r: "join ''/'' xs = join ''/'' ys @ CHR ''/'' # r"
    by (auto simp: has_prefix_iff)
  have nx: "xs \<noteq> []" using r by auto
  have "split_on CHR ''/'' (join ''/'' xs) = ys @ split_on CHR ''/'' r"
    unfolding r using assms(2,3) by (simp add: split_on_append_newline split_on_join)
  moreover have "split_on CHR ''/'' (join ''/'' xs) = xs"
    using assms(1) nx by (simp add: split_on_join)
  ultimately have "xs = ys @ split_on CHR ''/'' r" by simp
  then show "\<exists>zs. zs \<noteq> [] \<and> xs = ys @ zs" by (metis split_on_nonempty)
next
  assume "\<exists>zs. zs \<noteq> [] \<and> xs = ys @ zs"
  then obtain zs where z: "zs \<noteq> []" "xs = ys @ zs" by blast
  have "join ''/'' (ys @ zs) = join ''/'' ys @ ''/'' @ join ''/'' zs"
    using assms(3) z(1) by (induction ys rule: list_nonempty_induct) (auto simp: join_Cons)
  with z show "has_prefix (join ''/'' xs) (join ''/'' ys @ ''/'')"
    by (simp add: has_prefix_iff)
qed

lemma join_eq_iff:
  assumes "\<forall>x \<in> set xs. CHR ''/'' \<notin> set x \<and> x \<noteq> []" "\<forall>y \<in> set ys. CHR ''/'' \<notin> set y \<and> y \<noteq> []"
  shows "join ''/'' xs = join ''/'' ys \<longleftrightarrow> xs = ys"
proof
  assume e: "join ''/'' xs = join ''/'' ys"
  show "xs = ys"
  proof (cases "xs = [] \<or> ys = []")
    case True
    have ne: "join ''/'' (z # zs) \<noteq> []" if "z \<noteq> []" for z zs using that by (cases zs) auto
    from True e assms show ?thesis by (metis join.simps(1) list.set_intros(1) ne neq_Nil_conv)
  next
    case False
    with e assms show ?thesis by (metis split_on_join)
  qed
qed simp

text \<open>The prefix test the code performs on cleaned paths, on components.\<close>

lemma clean_prefix_iff:
  assumes p: "has_prefix p ''/''" and q: "has_prefix q ''/''" and ne: "path_comps q \<noteq> []"
  shows "(filepath_clean p = filepath_clean q \<or>
          has_prefix (filepath_clean p) (filepath_clean q @ ''/''))
         \<longleftrightarrow> (\<exists>zs. path_comps p = path_comps q @ zs)"
proof -
  have a: "\<forall>x \<in> set (path_comps s). CHR ''/'' \<notin> set x \<and> x \<noteq> []" for s
    using path_comps_no_sep path_comps_nonempty by blast
  have "filepath_clean p = filepath_clean q \<longleftrightarrow> path_comps p = path_comps q"
    using p q join_eq_iff [OF a a] by (simp add: filepath_clean_def)
  moreover have "has_prefix (filepath_clean p) (filepath_clean q @ ''/'')
      \<longleftrightarrow> (\<exists>zs. zs \<noteq> [] \<and> path_comps p = path_comps q @ zs)"
    using p q has_prefix_join_sep [OF a a ne, of p] by (simp add: filepath_clean_def)
  ultimately show ?thesis by auto
qed

text \<open>Joining a plain file name to a rooted directory appends one component.\<close>

lemma path_comps_join_name:
  assumes "has_prefix d ''/''" "plain_comp n"
  shows "filepath_join [d, n] = ''/'' @ join ''/'' (path_comps d @ [n])"
proof -
  have "d \<noteq> []" "n \<noteq> []" using assms by (auto simp: plain_comp_def)
  have app: "clean_comps r acc (xs @ ys) = clean_comps r (rev (clean_comps r acc xs)) ys" for r acc xs ys
    by (induction r acc xs rule: clean_comps.induct) (auto split: list.splits)
  have "split_on CHR ''/'' (d @ CHR ''/'' # n) = split_on CHR ''/'' d @ [n]"
    using assms(2) by (simp add: split_on_append_newline split_on_single plain_comp_def)
  moreover have "has_prefix (d @ CHR ''/'' # n) ''/''" using assms(1) by (auto simp: has_prefix_iff)
  ultimately have "path_comps (d @ CHR ''/'' # n) = path_comps d @ [n]"
    using assms by (auto simp: path_comps_def app plain_comp_def)
  with \<open>d \<noteq> []\<close> \<open>n \<noteq> []\<close> \<open>has_prefix (d @ CHR ''/'' # n) ''/''\<close> show ?thesis
    by (simp add: filepath_join_def filepath_clean_def)
qed

subsection \<open>Base names\<close>

text \<open>The last component of a path.\<close>

definition base_name :: "string \<Rightarrow> string" where
  "base_name p = rev (takeWhile (\<lambda>c. c \<noteq> CHR ''/'') (rev p))"

lemma clean_comps_snoc: "plain_comp n \<Longrightarrow> clean_comps r acc (cs @ [n]) = clean_comps r acc cs @ [n]"
  by (induction r acc cs rule: clean_comps.induct) (auto simp: plain_comp_def split: list.splits)

lemma base_name_append: "CHR ''/'' \<notin> set n \<Longrightarrow> base_name (p @ n) = base_name p @ n"
  by (auto simp: base_name_def takeWhile_append)

lemma base_name_join: "CHR ''/'' \<notin> set n \<Longrightarrow> base_name (join ''/'' (xs @ [n])) = n"
proof (cases "xs = []")
  case False
  assume "CHR ''/'' \<notin> set n"
  then show ?thesis unfolding join_snoc [OF False]
    by (auto simp: base_name_def takeWhile_append)
qed (use base_name_append [of n "[]"] in \<open>simp add: base_name_def\<close>)

lemma split_on_snoc: "CHR ''/'' \<notin> set n \<Longrightarrow> split_on CHR ''/'' (x @ CHR ''/'' # n) = split_on CHR ''/'' x @ [n]"
  by (simp add: split_on_append_newline split_on_single)

lemma base_name_filepath_join:
  assumes "plain_comp n"
  shows "base_name (filepath_join (ds @ [n])) = n"
proof -
  have n: "CHR ''/'' \<notin> set n" "n \<noteq> []" using assms by (auto simp: plain_comp_def)
  let ?ds = "filter (\<lambda>x. x \<noteq> []) ds"
  let ?s = "join ''/'' (?ds @ [n])"
  have "\<exists>pc. path_comps ?s = pc @ [n]"
  proof (cases "?ds = []")
    case True
    have "split_on CHR ''/'' n = [n]" by (rule split_on_single [OF n(1)])
    then show ?thesis using True assms by (simp add: path_comps_def plain_comp_def)
  next
    case False
    then show ?thesis unfolding join_snoc [OF False] path_comps_def
      using split_on_snoc [OF n(1)] clean_comps_snoc [OF assms] by simp
  qed
  then obtain pc where "path_comps ?s = pc @ [n]" by blast
  then have "filepath_clean ?s = join ''/'' (pc @ [n]) \<or> filepath_clean ?s = ''/'' @ join ''/'' (pc @ [n])"
    by (auto simp: filepath_clean_def)
  moreover have "base_name (''/'' @ join ''/'' (pc @ [n])) = n"
    using base_name_join [OF n(1), of "[] # pc"] by (cases pc) (auto simp: base_name_def)
  ultimately show ?thesis using base_name_join [OF n(1)] n by (auto simp: filepath_join_def Let_def)
qed
end
