(* ===== verification/GoTime.thy ===== *)
theory GoTime
  imports GoStrings
begin

text \<open>
  \<open>time.Time\<close> as the number of nanoseconds since the Unix epoch (UTC), with the rendering
  \<open>time.RFC3339\<close> and the parser \<open>time.Parse(time.RFC3339, s)\<close>, which accepts an optional
  fraction, a numeric offset and an hour of one digit.
\<close>

type_synonym gotime = int

definition zero_time :: gotime where
  "zero_time = - 62135596800 * 1000000000"

definition second :: gotime where "second = 1000000000"

text \<open>
  The proleptic Gregorian calendar the way package \<open>time\<close> computes it: 400-year, 100-year,
  4-year and 1-year cycles counted from 1 January of year 1 (719162 days before the epoch),
  then the month from the day of the year. \<open>civil_ok\<close> shows that \<open>days_from_civil\<close> undoes it.
\<close>

definition is_leap :: "int \<Rightarrow> bool" where
  "is_leap y \<longleftrightarrow> y mod 4 = 0 \<and> (y mod 100 \<noteq> 0 \<or> y mod 400 = 0)"

definition days_in_month :: "int \<Rightarrow> int \<Rightarrow> int" where
  "days_in_month y m =
     (if m = 2 then (if is_leap y then 29 else 28)
      else if m \<in> {4, 6, 9, 11} then 30 else 31)"

fun days_before :: "int \<Rightarrow> int" where
  "days_before m =
     (if m \<le> 1 then 0 else if m = 2 then 31 else if m = 3 then 59 else if m = 4 then 90
      else if m = 5 then 120 else if m = 6 then 151 else if m = 7 then 181 else if m = 8 then 212
      else if m = 9 then 243 else if m = 10 then 273 else if m = 11 then 304
      else if m = 12 then 334 else 365)"

declare days_before.simps [simp del]

lemma days_before_nums [simp]:
  "days_before 1 = 0" "days_before 2 = 31" "days_before 3 = 59" "days_before 4 = 90"
  "days_before 5 = 120" "days_before 6 = 151" "days_before 7 = 181" "days_before 8 = 212"
  "days_before 9 = 243" "days_before 10 = 273" "days_before 11 = 304" "days_before 12 = 334"
  "days_before 13 = 365"
  by (simp_all add: days_before.simps)

definition year_split :: "int \<Rightarrow> int \<times> int" where
  "year_split z =
     (let a = z div 146097; d0 = z mod 146097;
          b0 = d0 div 36524; b = b0 - b0 div 4; d1 = d0 - 36524 * b;
          q = d1 div 1461; d2 = d1 - 1461 * q;
          r0 = d2 div 365; r = r0 - r0 div 4
      in (1 + 400 * a + 100 * b + 4 * q + r, d2 - 365 * r))"

definition month_split :: "int \<Rightarrow> int \<times> int" where
  "month_split yd =
     (let m = yd div 31 + 1 in
      if yd \<ge> days_before (m + 1) then (m + 1, yd - days_before (m + 1) + 1)
      else (m, yd - days_before m + 1))"

definition civil_from_days :: "int \<Rightarrow> int \<times> int \<times> int" where
  "civil_from_days days =
     (case year_split (days + 719162) of
        (y, yd) \<Rightarrow>
          if is_leap y \<and> yd = 59 then (y, 2, 29)
          else (y, month_split (if is_leap y \<and> yd > 59 then yd - 1 else yd)))"

definition days_from_civil :: "int \<Rightarrow> int \<Rightarrow> int \<Rightarrow> int" where
  "days_from_civil y m d =
     365 * (y - 1) + (y - 1) div 4 - (y - 1) div 100 + (y - 1) div 400
     + days_before m + (if is_leap y \<and> m \<ge> 3 then 1 else 0) + (d - 1) - 719162"

lemma div_bounds: "0 < n \<Longrightarrow> n * (x div n) \<le> x \<and> x < n * (x div n) + n" for n x :: int
  using mult_div_mod_eq [of n x] pos_mod_sign [of n x] pos_mod_bound [of n x] by linarith

lemma year_split_parts:
  assumes "year_split z = (y, yd)"
  obtains a b q r where "y = 1 + 400 * a + 100 * b + 4 * q + r"
    "0 \<le> b" "b \<le> 3" "0 \<le> q" "q \<le> 24" "0 \<le> r" "r \<le> 3" "0 \<le> yd"
    "yd \<le> 364 \<or> (yd = 365 \<and> r = 3 \<and> (q \<noteq> 24 \<or> b = 3))"
    "z = 146097 * a + 36524 * b + 1461 * q + 365 * r + yd"
proof -
  define a d0 b0 where "a = z div 146097" and "d0 = z mod 146097" and "b0 = d0 div 36524"
  define b d1 q where "b = b0 - b0 div 4" and "d1 = d0 - 36524 * b" and "q = d1 div 1461"
  define d2 r0 where "d2 = d1 - 1461 * q" and "r0 = d2 div 365"
  define r where "r = r0 - r0 div 4"
  have d0: "0 \<le> d0" "d0 \<le> 146096" "z = 146097 * a + d0"
    unfolding a_def d0_def by (simp_all, (smt (verit) pos_mod_bound)?)
  have b0: "0 \<le> b0" "b0 \<le> 4" "36524 * b0 \<le> d0" "d0 \<le> 36524 * b0 + 36523"
    using d0 div_bounds [of 36524 d0] unfolding b0_def by auto
  have b: "0 \<le> b" "b \<le> 3" "(b = b0 \<or> (b = 3 \<and> b0 = 4))" using b0(1,2) unfolding b_def by (cases "b0 = 4"; auto simp: div_pos_pos_trivial)+
  have d1: "0 \<le> d1" "d1 \<le> 36524" "b = 3 \<or> d1 \<le> 36523" using b b0 d0 unfolding d1_def by auto
  have q: "0 \<le> q" "q \<le> 24" "1461 * q \<le> d1" "d1 \<le> 1461 * q + 1460"
    using d1 div_bounds [of 1461 d1] unfolding q_def by auto
  have d2: "0 \<le> d2" "d2 \<le> 1460" "q \<noteq> 24 \<or> b = 3 \<or> d2 \<le> 1459" using q d1 unfolding d2_def by auto
  have r0: "0 \<le> r0" "r0 \<le> 4" "365 * r0 \<le> d2" "d2 \<le> 365 * r0 + 364"
    using d2 div_bounds [of 365 d2] unfolding r0_def by auto
  have r: "0 \<le> r" "r \<le> 3" "(r = r0 \<and> r0 \<le> 3) \<or> (r = 3 \<and> r0 = 4)" using r0(1,2) unfolding r_def by (cases "r0 = 4"; auto simp: div_pos_pos_trivial)+
  have "year_split z = (1 + 400 * a + 100 * b + 4 * q + r, d2 - 365 * r)"
    by (simp only: year_split_def Let_def a_def b_def q_def r_def d0_def b0_def d1_def d2_def r0_def)
  with assms have y: "y = 1 + 400 * a + 100 * b + 4 * q + r" "yd = d2 - 365 * r" by auto
  have z: "z = 146097 * a + 36524 * b + 1461 * q + 365 * r + yd"
    using y(2) unfolding d0(3) d2_def d1_def by linarith
  have "0 \<le> yd" "yd \<le> 364 \<or> (yd = 365 \<and> r = 3 \<and> (q \<noteq> 24 \<or> b = 3))"
    using y(2) r(3) r0 d2 by (elim disjE conjE; simp)+
  from that [OF y(1) b(1,2) q(1,2) r(1,2) this z] show thesis .
qed

lemma year_div: fixes a :: int
  assumes "0 \<le> b" "b \<le> 3" "0 \<le> q" "q \<le> 24" "0 \<le> r" "r \<le> 3"
  defines "y1 \<equiv> 400 * a + 100 * b + 4 * q + r"
  shows "y1 div 4 = 100 * a + 25 * b + q" "y1 div 100 = 4 * a + b" "y1 div 400 = a"
    "is_leap (y1 + 1) \<longleftrightarrow> r = 3 \<and> (q \<noteq> 24 \<or> b = 3)"
proof -
  show "y1 div 4 = 100 * a + 25 * b + q"
    by (rule int_div_pos_eq [of _ _ _ r]) (use assms in auto)
  show "y1 div 100 = 4 * a + b"
    by (rule int_div_pos_eq [of _ _ _ "4 * q + r"]) (use assms in auto)
  show "y1 div 400 = a"
    by (rule int_div_pos_eq [of _ _ _ "100 * b + 4 * q + r"]) (use assms in auto)
  have e: "y1 + 1 = (r + 1) + 4 * (100 * a + 25 * b + q)" "y1 + 1 = (4 * q + r + 1) + 100 * (4 * a + b)"
    "y1 + 1 = (100 * b + 4 * q + r + 1) + 400 * a"
    unfolding y1_def by simp_all
  have k: "x mod n = 0 \<longleftrightarrow> x = n" if "0 < x" "x \<le> n" for x n :: int
    using that by (cases "x = n") auto
  have m: "(y1 + 1) mod 4 = 0 \<longleftrightarrow> r = 3"
    using k [of "r + 1" 4] assms(5,6) unfolding e(1) mod_mult_self2 by auto
  have m100: "(y1 + 1) mod 100 = 0 \<longleftrightarrow> q = 24 \<and> r = 3"
  proof -
    have "4 * q + r + 1 = 100 \<longleftrightarrow> q = 24 \<and> r = 3" using assms(3-6) by (intro iffI conjI; linarith)
    with k [of "4 * q + r + 1" 100] assms(3-6) show ?thesis unfolding e(2) mod_mult_self2 by simp
  qed
  have m400: "(y1 + 1) mod 400 = 0 \<longleftrightarrow> b = 3 \<and> q = 24 \<and> r = 3"
  proof -
    have "100 * b + 4 * q + r + 1 = 400 \<longleftrightarrow> b = 3 \<and> q = 24 \<and> r = 3" using assms(1-6) by (intro iffI conjI; linarith)
    with k [of "100 * b + 4 * q + r + 1" 400] assms(1-6) show ?thesis unfolding e(3) mod_mult_self2 by simp
  qed
  show "is_leap (y1 + 1) \<longleftrightarrow> r = 3 \<and> (q \<noteq> 24 \<or> b = 3)"
    unfolding is_leap_def m m100 m400 by blast
qed

lemma month_split_ok:
  assumes "0 \<le> yd" "yd \<le> 364" "month_split yd = (m, d)"
  shows "1 \<le> m \<and> m \<le> 12 \<and> 1 \<le> d \<and> d \<le> days_in_month 1 m \<and> days_before m + (d - 1) = yd
    \<and> (m \<ge> 3 \<longleftrightarrow> yd \<ge> 59)"
proof -
  have "yd div 31 \<in> {0..11}" using assms(1,2) by auto
  then obtain k where k: "yd div 31 = int k" "k \<le> 11"
    by (metis atLeastAtMost_iff int_nat_eq nat_le_iff of_nat_le_iff of_nat_numeral)
  then have "k < 12" by simp
  then have "k \<in> {0, 1, 2, 3, 4, 5, 6, 7, 8, 9, 10, 11}" by (auto simp: numeral_eq_Suc less_Suc_eq)
  with k consider "yd div 31 = 0" | "yd div 31 = 1" | "yd div 31 = 2" | "yd div 31 = 3" | "yd div 31 = 4"
    | "yd div 31 = 5" | "yd div 31 = 6" | "yd div 31 = 7" | "yd div 31 = 8" | "yd div 31 = 9"
    | "yd div 31 = 10" | "yd div 31 = 11" by fastforce
  moreover have "31 * (yd div 31) \<le> yd" "yd \<le> 31 * (yd div 31) + 30" using div_bounds [of 31 yd] by auto
  ultimately show ?thesis
    using assms by cases (auto simp: month_split_def days_in_month_def Let_def split: if_splits)
qed

lemma civil_ok:
  assumes "civil_from_days days = (y, m, d)"
  shows "days_from_civil y m d = days \<and> 1 \<le> m \<and> m \<le> 12 \<and> 1 \<le> d \<and> d \<le> days_in_month y m"
proof -
  obtain y' yd where s: "year_split (days + 719162) = (y', yd)" by fastforce
  then obtain a b q r where p: "y' = 1 + 400 * a + 100 * b + 4 * q + r"
    "0 \<le> b" "b \<le> 3" "0 \<le> q" "q \<le> 24" "0 \<le> r" "r \<le> 3" "0 \<le> yd"
    "yd \<le> 364 \<or> (yd = 365 \<and> r = 3 \<and> (q \<noteq> 24 \<or> b = 3))"
    "days + 719162 = 146097 * a + 36524 * b + 1461 * q + 365 * r + yd"
    by (rule year_split_parts)
  have y': "y' - 1 = 400 * a + 100 * b + 4 * q + r" using p(1) by simp
  have lp: "is_leap y' \<longleftrightarrow> r = 3 \<and> (q \<noteq> 24 \<or> b = 3)"
    using year_div(4) [OF p(2-7), of a] p(1) by (simp add: algebra_simps)
  have days: "365 * (y' - 1) + (y' - 1) div 4 - (y' - 1) div 100 + (y' - 1) div 400 + yd - 719162 = days"
    unfolding y' year_div(1-3) [OF p(2-7)] using p(10) by simp
  have y: "y = y'" using assms s by (auto simp: civil_from_days_def split: if_splits)
  show ?thesis
  proof (cases "is_leap y' \<and> yd = 59")
    case True
    with assms s have "m = 2" "d = 29" by (auto simp: civil_from_days_def)
    with True y days show ?thesis
      by (simp add: days_from_civil_def days_in_month_def)
  next
    case False
    let ?yd = "if is_leap y' \<and> yd > 59 then yd - 1 else yd"
    have ms: "month_split ?yd = (m, d)" using assms s False by (auto simp: civil_from_days_def)
    have "0 \<le> ?yd" "?yd \<le> 364" using p(8,9) lp by auto
    from month_split_ok [OF this ms]
    have k: "1 \<le> m" "m \<le> 12" "1 \<le> d" "d \<le> days_in_month 1 m" "days_before m + (d - 1) = ?yd"
      "m \<ge> 3 \<longleftrightarrow> ?yd \<ge> 59" by auto
    have "days_in_month 1 m \<le> days_in_month y m" by (simp add: days_in_month_def is_leap_def)
    moreover have "days_before m + (if is_leap y \<and> m \<ge> 3 then 1 else 0) + (d - 1) = yd"
      using k(5,6) False y by (auto split: if_splits)
    ultimately show ?thesis using k days y by (simp add: days_from_civil_def)
  qed
qed
definition pad :: "nat \<Rightarrow> int \<Rightarrow> string" where
  "pad k n = (let s = show_int n in replicate (k - length s) CHR ''0'' @ s)"

definition fmt_date :: "gotime \<Rightarrow> string" where
  "fmt_date t =
     (case civil_from_days (t div second div 86400) of
        (y, m, d) \<Rightarrow> pad 4 y @ ''-'' @ pad 2 m @ ''-'' @ pad 2 d)"

definition fmt_hm :: "gotime \<Rightarrow> string" where
  "fmt_hm t =
     (let s = (t div second) mod 86400
      in pad 2 (s div 3600) @ '':'' @ pad 2 (s mod 3600 div 60))"

definition fmt_hms :: "gotime \<Rightarrow> string" where
  "fmt_hms t = fmt_hm t @ '':'' @ pad 2 ((t div second) mod 60)"

definition fmt_rfc3339 :: "gotime \<Rightarrow> string" where
  "fmt_rfc3339 t = fmt_date t @ ''T'' @ fmt_hms t @ ''Z''"

text \<open>\<open>time.RFC3339Nano\<close>, the format \<open>encoding/json\<close> uses: the fraction without trailing zeros.\<close>

definition fmt_frac :: "int \<Rightarrow> string" where
  "fmt_frac ns =
     (if ns = 0 then []
      else CHR ''.'' # rev (dropWhile (\<lambda>c. c = CHR ''0'') (rev (pad 9 ns))))"

definition fmt_nano :: "gotime \<Rightarrow> string" where
  "fmt_nano t = fmt_date t @ ''T'' @ fmt_hms t @ fmt_frac (t mod second) @ ''Z''"

definition time_year :: "gotime \<Rightarrow> int" where
  "time_year t = fst (civil_from_days (t div second div 86400))"

text \<open>\<open>t.Format("2006-01-02 15:04")\<close> and the layout with a trailing \<open>UTC\<close>.\<close>

definition fmt_minute :: "gotime \<Rightarrow> string" where
  "fmt_minute t = fmt_date t @ '' '' @ fmt_hm t"

definition fmt_minute_utc :: "gotime \<Rightarrow> string" where
  "fmt_minute_utc t = fmt_minute t @ '' UTC''"

text \<open>Parsing: fixed-width digit groups, literals, and the parts of RFC 3339.\<close>

definition take_digits :: "nat \<Rightarrow> string \<Rightarrow> (int \<times> string) option" where
  "take_digits k s =
     (if length (take k s) = k \<and> list_all is_digit (take k s)
      then Some (int (digits_val (take k s)), drop k s) else None)"

definition take_hour :: "string \<Rightarrow> (int \<times> string) option" where
  "take_hour s = (case take_digits 2 s of Some r \<Rightarrow> Some r | None \<Rightarrow> take_digits 1 s)"

definition take_lit :: "char \<Rightarrow> string \<Rightarrow> string option" where
  "take_lit c s = (case s of x # xs \<Rightarrow> if x = c then Some xs else None | [] \<Rightarrow> None)"

definition take_frac :: "string \<Rightarrow> int \<times> string" where
  "take_frac s =
     (case s of
        p # d # r \<Rightarrow>
          if (p = CHR ''.'' \<or> p = CHR '','') \<and> is_digit d then
            (let ds = takeWhile is_digit (d # r); k = take 9 ds
             in (int (digits_val k) * 10 ^ (9 - length k), dropWhile is_digit (d # r)))
          else (0, s)
      | _ \<Rightarrow> (0, s))"

definition take_zone :: "string \<Rightarrow> int option" where
  "take_zone s =
     (case s of
        [] \<Rightarrow> None
      | c # r \<Rightarrow>
          if c = CHR ''Z'' then (if r = [] then Some 0 else None)
          else if c = CHR ''+'' \<or> c = CHR ''-'' then
            (case take_digits 2 r of
               None \<Rightarrow> None
             | Some (h, r1) \<Rightarrow>
                 (case take_lit CHR '':'' r1 of
                    None \<Rightarrow> None
                  | Some r2 \<Rightarrow>
                      (case take_digits 2 r2 of
                         None \<Rightarrow> None
                       | Some (m, r3) \<Rightarrow>
                           if r3 = [] \<and> h \<le> 24 \<and> m \<le> 60
                           then Some ((if c = CHR ''-'' then - 1 else 1) * (h * 3600 + m * 60))
                           else None)))
          else None)"

definition parse_date :: "string \<Rightarrow> ((int \<times> int \<times> int) \<times> string) option" where
  "parse_date s =
     (case take_digits 4 s of None \<Rightarrow> None | Some (y, s1) \<Rightarrow>
      (case take_lit CHR ''-'' s1 of None \<Rightarrow> None | Some s2 \<Rightarrow>
      (case take_digits 2 s2 of None \<Rightarrow> None | Some (m, s3) \<Rightarrow>
      (case take_lit CHR ''-'' s3 of None \<Rightarrow> None | Some s4 \<Rightarrow>
      (case take_digits 2 s4 of None \<Rightarrow> None | Some (d, s5) \<Rightarrow>
        if 1 \<le> m \<and> m \<le> 12 \<and> 1 \<le> d \<and> d \<le> days_in_month y m
        then Some ((y, m, d), s5) else None)))))"

definition parse_clock :: "string \<Rightarrow> (int \<times> string) option" where
  "parse_clock s =
     (case take_hour s of None \<Rightarrow> None | Some (h, s1) \<Rightarrow>
      (case take_lit CHR '':'' s1 of None \<Rightarrow> None | Some s2 \<Rightarrow>
      (case take_digits 2 s2 of None \<Rightarrow> None | Some (m, s3) \<Rightarrow>
      (case take_lit CHR '':'' s3 of None \<Rightarrow> None | Some s4 \<Rightarrow>
      (case take_digits 2 s4 of None \<Rightarrow> None | Some (sec, s5) \<Rightarrow>
        if h < 24 \<and> m < 60 \<and> sec < 60 then
          (case take_frac s5 of
             (ns, s6) \<Rightarrow> Some ((h * 3600 + m * 60 + sec) * second + ns, s6))
        else None)))))"

definition parse_rfc3339 :: "string \<Rightarrow> gotime option" where
  "parse_rfc3339 s =
     (case parse_date s of None \<Rightarrow> None | Some ((y, m, d), s1) \<Rightarrow>
      (case take_lit CHR ''T'' s1 of None \<Rightarrow> None | Some s2 \<Rightarrow>
      (case parse_clock s2 of None \<Rightarrow> None | Some (t, s3) \<Rightarrow>
      (case take_zone s3 of None \<Rightarrow> None | Some off \<Rightarrow>
        Some (days_from_civil y m d * 86400 * second + t - off * second)))))"

text \<open>The layouts \<open>2006-01-02 15:04:05\<close>, with an optional fraction, without a zone and with
  a numeric zone. A space of a layout matches one or more spaces.\<close>

definition take_spaces :: "string \<Rightarrow> string option" where
  "take_spaces s =
     (if s \<noteq> [] \<and> hd s \<noteq> CHR '' '' then None else Some (dropWhile (\<lambda>c. c = CHR '' '') s))"

definition parse_stamp :: "string \<Rightarrow> (gotime \<times> string) option" where
  "parse_stamp s =
     (case parse_date s of None \<Rightarrow> None | Some ((y, m, d), s1) \<Rightarrow>
      (case take_spaces s1 of None \<Rightarrow> None | Some s2 \<Rightarrow>
      (case parse_clock s2 of None \<Rightarrow> None | Some (t, s3) \<Rightarrow>
        Some (days_from_civil y m d * 86400 * second + t, s3))))"

definition parse_datetime :: "string \<Rightarrow> gotime option" where
  "parse_datetime s =
     (case parse_stamp s of Some (t, r) \<Rightarrow> (if r = [] then Some t else None) | None \<Rightarrow> None)"

definition parse_datetime_zone :: "string \<Rightarrow> gotime option" where
  "parse_datetime_zone s =
     (case parse_stamp s of
        Some (t, c # r) \<Rightarrow>
          (if c = CHR ''+'' \<or> c = CHR ''-''
           then map_option (\<lambda>off. t - off * second) (take_zone (c # r)) else None)
      | _ \<Rightarrow> None)"

subsection \<open>Parsing what was rendered\<close>

lemma length_show_nat: "k > 0 \<Longrightarrow> n < 10 ^ k \<Longrightarrow> length (show_nat n) \<le> k"
proof (induction n arbitrary: k rule: show_nat.induct)
  case (1 n)
  show ?case
  proof (cases "n < 10")
    case True
    with 1 show ?thesis by (subst show_nat.simps) simp
  next
    case False
    obtain j where k: "k = Suc j" using "1.prems" by (cases k) auto
    have "j > 0" using "1.prems" False k by (cases j) auto
    have "n div 10 < 10 ^ j" using "1.prems" k by (auto simp: div_less_iff_less_mult mult.commute)
    with "1.IH" [OF False \<open>j > 0\<close>] False k show ?thesis by (subst show_nat.simps) simp
  qed
qed

lemma digits_val_zeros [simp]: "digits_val (replicate j CHR ''0'' @ s) = digits_val s"
proof -
  have "foldl (\<lambda>n c. 10 * n + digit_val c) 0 (replicate j CHR ''0'') = 0"
    by (induction j) (auto simp: digit_val_def)
  then show ?thesis by (simp add: digits_val_def)
qed

lemma digits_val_trailing: "digits_val (s @ replicate j CHR ''0'') = digits_val s * 10 ^ j"
proof -
  have "foldl (\<lambda>n c. 10 * n + digit_val c) a (replicate j CHR ''0'') = a * 10 ^ j" for a
    by (induction j arbitrary: a) (auto simp: digit_val_def)
  then show ?thesis by (simp add: digits_val_def)
qed

lemma pad_props:
  assumes "0 \<le> n" "n < 10 ^ k" "k > 0"
  shows "length (pad k n) = k \<and> list_all is_digit (pad k n) \<and> int (digits_val (pad k n)) = n"
proof -
  have "nat n < 10 ^ k" using assms by (simp add: nat_less_iff)
  then have "length (show_nat (nat n)) \<le> k" using length_show_nat assms(3) by blast
  then show ?thesis
    using assms show_nat_digits [of "nat n"]
    by (auto simp: pad_def show_int_def Let_def digits_val_show_nat is_digit_def list_all_iff)
qed

lemma take_digits_pad:
  assumes "0 \<le> n" "n < 10 ^ k" "k > 0"
  shows "take_digits k (pad k n @ s) = Some (n, s)"
  using pad_props [OF assms] by (simp add: take_digits_def)

lemma take_lit_Cons [simp]: "take_lit c (c # s) = Some s"
  by (simp add: take_lit_def)

lemma parse_date_fmt:
  assumes "0 \<le> time_year t" "time_year t \<le> 9999"
  shows "\<exists>y m d. parse_date (fmt_date t @ s) = Some ((y, m, d), s)
           \<and> days_from_civil y m d = t div second div 86400"
proof -
  obtain y m d where c: "civil_from_days (t div second div 86400) = (y, m, d)"
    by (metis prod.exhaust)
  have y: "0 \<le> y" "y < 10 ^ 4" using assms c by (auto simp: time_year_def)
  have r: "days_from_civil y m d = t div second div 86400" "1 \<le> m" "m \<le> 12" "1 \<le> d"
    "d \<le> days_in_month y m" using civil_ok [OF c] by auto
  have d: "d < 10 ^ 2" using r(5) by (auto simp: days_in_month_def split: if_splits)
  have "fmt_date t @ s = pad 4 y @ CHR ''-'' # pad 2 m @ CHR ''-'' # pad 2 d @ s"
    by (simp add: fmt_date_def c)
  then have "parse_date (fmt_date t @ s) = Some ((y, m, d), s)"
    using y d r take_digits_pad [of y 4] take_digits_pad [of m 2] take_digits_pad [of d 2]
    by (simp add: parse_date_def)
  with r(1) show ?thesis by blast
qed

lemma take_frac_fmt:
  assumes "0 \<le> ns" "ns < second"
  shows "take_frac (fmt_frac ns @ ''Z'') = (ns, ''Z'')"
proof (cases "ns = 0")
  case True
  then show ?thesis by (simp add: fmt_frac_def take_frac_def)
next
  case False
  let ?z = "\<lambda>c. c = CHR ''0''"
  define k where "k = rev (dropWhile ?z (rev (pad 9 ns)))"
  define j where "j = length (takeWhile ?z (rev (pad 9 ns)))"
  have p: "length (pad 9 ns) = 9" "list_all is_digit (pad 9 ns)" "int (digits_val (pad 9 ns)) = ns"
    using pad_props [of ns 9] assms by (auto simp: second_def)
  have "takeWhile ?z (rev (pad 9 ns)) = replicate j CHR ''0''"
    unfolding j_def by (rule replicate_eqI) (auto dest: set_takeWhileD)
  then have s: "pad 9 ns = k @ replicate j CHR ''0''"
    unfolding k_def by (metis rev_append rev_replicate rev_rev_ident takeWhile_dropWhile_id)
  have l: "length k + j = 9" using p(1) s by simp
  have v: "int (digits_val k) * 10 ^ j = ns" using p(3) s by (simp add: digits_val_trailing)
  have k: "list_all is_digit k" using p(2) s by simp
  have "k \<noteq> []" using v False by (auto simp: digits_val_def)
  then obtain c cs where c: "k = c # cs" by (cases k) auto
  have tw: "takeWhile is_digit (c # cs @ ''Z'') = k" "dropWhile is_digit (c # cs @ ''Z'') = ''Z''"
    using k c by (auto simp: takeWhile_append2 dropWhile_append2 list_all_iff is_digit_def)
  have "9 - length k = j" using l by simp
  with False c k tw v l show ?thesis
    by (simp add: fmt_frac_def k_def [symmetric] take_frac_def Let_def)
qed

lemma parse_clock_pads:
  assumes "0 \<le> h" "h < 24" "0 \<le> m" "m < 60" "0 \<le> x" "x < 60" "take_frac s = (ns, ''Z'')"
  shows "parse_clock (pad 2 h @ CHR '':'' # pad 2 m @ CHR '':'' # pad 2 x @ s)
           = Some ((h * 3600 + m * 60 + x) * second + ns, ''Z'')"
proof -
  have "take_digits 2 (pad 2 h @ r) = Some (h, r)" "take_digits 2 (pad 2 m @ r) = Some (m, r)"
    "take_digits 2 (pad 2 x @ r) = Some (x, r)" for r
    using assms by (auto intro!: take_digits_pad)
  with assms show ?thesis by (simp add: parse_clock_def take_hour_def)
qed

lemma parse_clock_fmt:
  assumes "take_frac s = (ns, ''Z'')"
  shows "parse_clock (fmt_hms t @ s) = Some ((t div second) mod 86400 * second + ns, ''Z'')"
proof -
  define x where "x = (t div second) mod 86400"
  have x: "0 \<le> x" "x < 86400" unfolding x_def by simp_all
  have h: "0 \<le> x div 3600" "x div 3600 < 24" using x by auto
  have m: "0 \<le> x mod 3600 div 60" "x mod 3600 div 60 < 60"
    using pos_mod_sign [of 3600 x] pos_mod_bound [of 3600 x] by auto
  have s: "(t div second) mod 60 = x mod 60"
    unfolding x_def by (simp add: mod_mod_cancel)
  have sec: "0 \<le> x mod 60" "x mod 60 < 60" by simp_all
  have sum: "x div 3600 * 3600 + x mod 3600 div 60 * 60 + x mod 60 = x"
  proof -
    have "x mod 60 = x mod 3600 mod 60" by (simp add: mod_mod_cancel)
    then show ?thesis by simp
  qed
  have "fmt_hms t @ s = pad 2 (x div 3600) @ CHR '':'' # pad 2 (x mod 3600 div 60) @ CHR '':''
      # pad 2 (x mod 60) @ s"
    by (simp add: fmt_hms_def fmt_hm_def Let_def x_def [symmetric] s)
  moreover have "parse_clock \<dots> = Some (x * second + ns, ''Z'')"
    unfolding parse_clock_pads [OF h m sec assms] sum by (rule refl)
  ultimately show ?thesis by (simp add: x_def)
qed

lemma parse_rendered:
  assumes "0 \<le> time_year t" "time_year t \<le> 9999" "take_frac s = (ns, ''Z'')"
  shows "parse_rfc3339 (fmt_date t @ ''T'' @ fmt_hms t @ s) = Some (t div second * second + ns)"
proof -
  obtain y m d where "parse_date (fmt_date t @ CHR ''T'' # fmt_hms t @ s) = Some ((y, m, d), CHR ''T'' # fmt_hms t @ s)"
    "days_from_civil y m d = t div second div 86400"
    using parse_date_fmt [OF assms(1,2)] by blast
  moreover have "t div second div 86400 * 86400 + (t div second) mod 86400 = t div second" by simp
  then have "t div second div 86400 * 86400 * second + (t div second) mod 86400 * second = t div second * second"
    by (metis distrib_right)
  ultimately show ?thesis
    using parse_clock_fmt [OF assms(3), of t] by (simp add: parse_rfc3339_def take_zone_def)
qed

lemma parse_fmt_rfc3339:
  "0 \<le> time_year t \<Longrightarrow> time_year t \<le> 9999 \<Longrightarrow> parse_rfc3339 (fmt_rfc3339 t) = Some (t div second * second)"
  using parse_rendered [of t "''Z''" 0] by (simp add: fmt_rfc3339_def take_frac_def)

lemma parse_fmt_nano:
  "0 \<le> time_year t \<Longrightarrow> time_year t \<le> 9999 \<Longrightarrow> parse_rfc3339 (fmt_nano t) = Some t"
  using parse_rendered [of t "fmt_frac (t mod second) @ ''Z''" "t mod second"] take_frac_fmt [of "t mod second"]
  by (simp add: fmt_nano_def second_def)

end
