(* ===== verification/World.thy ===== *)
theory World
  imports GoPath GoTime "HOL-Library.Word"
begin

text \<open>
  The state the program acts on and the operating system it calls.

  \<^item> \<open>world\<close> is the mutable state: the files by path, the history of executed commands, the
    number of draws made from the system's random source, the clock reading (one handler
    runs within one reading), the process-wide caches of the server, and what its backup page
    keeps: the lock, the operations of the tracker, the goroutines started and not yet run.
  \<^item> \<open>env\<close> is everything that is not code of the repository: which file operations fail and
    with what text, what a command prints and how it exits (given the commands run before),
    what a script writes to disk, random bytes, X25519 key pairs (as raw keys), the argon2id
    and PBKDF2 functions, the YAML library, the certificate parser, the floating-point formatter,
    name resolution, connections and HTTP replies (given the network events before).
  \<^item> A file holds bytes, or a document of one of the three formats the program reads and
    writes through a library: a JSON value, a YAML node tree, or the lines of the audit log.
    A file whose text is valid in its format is represented by the document; \<open>Bytes\<close> is any
    other text. \<open>render\<close> gives the text of a document to code that reads it as text.

  Writing is all or nothing, except where the code truncates in place. An operation that
  fails leaves the files as they were.
\<close>

subsection \<open>Documents\<close>

datatype json =
    JNull | JBool bool | JNum string | JStr string | JArr "json list"
  | JObj "(string \<times> json) list"

definition jget :: "string \<Rightarrow> (string \<times> json) list \<Rightarrow> json option" where
  "jget k kvs = map_of (rev kvs) k"

datatype ykind = YZero | YDocument | YMapping | YSequence | YScalar | YAlias

datatype ynode =
  YNode (ykind: ykind) (ytag: string) (yvalue: string) (ycontent: "ynode list")

text \<open>One account of Authelia's \<open>users_database.yml\<close>, as the YAML library decodes it.\<close>

record user =
  u_disabled :: bool
  u_displayname :: string
  u_password :: string
  u_email :: string
  u_groups :: "string list"

text \<open>What Nextcloud reports of one account.\<close>

record nc_info =
  nc_quota_used :: int
  nc_file_count :: int
  nc_last_login :: gotime

record audit_entry =
  a_time :: gotime
  a_action :: string
  a_actor :: string
  a_target :: string
  a_result :: string
  a_note :: string
  a_peer :: string
  a_pubkey :: string
  a_ip :: string

datatype log_line = Entry audit_entry | Junk string

datatype content = Bytes string | Json json | Yaml ynode | Log "log_line list"

datatype node = File content | Dir

subsection \<open>The outside\<close>

datatype io_op =
    OpRead string | OpWrite string | OpTruncate string | OpSync string | OpAppend string
  | OpRename string string | OpStat string | OpMkdir string | OpChmod string
  | OpRemove string | OpRemoveAll string

record proc_result =
  pr_stdout :: string
  pr_stderr :: string
  pr_error :: "string option"

type_synonym cmd = "string list \<times> string"  \<comment> \<open>argument vector and standard input\<close>

text \<open>
  The network. An address is the byte slice of \<open>net.IP\<close>. What a client did is a list of events:
  names looked up, addresses connected to, requests sent. A reply may break off after the bytes
  of its body.
\<close>

type_synonym ip = "8 word list"

record http_call =
  hc_method :: string
  hc_url :: string
  hc_headers :: "(string \<times> string) list"
  hc_body :: string

record http_reply =
  hr_status :: int
  hr_headers :: "(string \<times> string) list"
  hr_body :: string
  hr_read_error :: "string option"

text \<open>An operation of the backup page: the identifier, the events it logged, how it ended.\<close>

record backup_op =
  bo_id :: string
  bo_stack :: string
  bo_verb :: string
  bo_started :: gotime
  bo_done :: bool
  bo_done_at :: gotime
  bo_failed :: bool
  bo_logs :: "(string \<times> string) list"

datatype backup_job = CreateJob string string | RestoreJob string string string

datatype net_event = Lookup string | Dial ip string | Call http_call

record env =
  io_fault :: "io_op \<Rightarrow> string option"
  run :: "cmd list \<Rightarrow> cmd \<Rightarrow> proc_result"
  render :: "content \<Rightarrow> string"
  rand_bytes :: "nat \<Rightarrow> nat \<Rightarrow> string option"
  keygen :: "nat \<Rightarrow> (string \<times> string) res"
  idkey :: "string \<Rightarrow> string \<Rightarrow> nat \<Rightarrow> nat \<Rightarrow> nat \<Rightarrow> nat \<Rightarrow> string"
  json_decode :: "string \<Rightarrow> json option"
  yaml_unmarshal :: "content \<Rightarrow> ynode res"
  yaml_marshal :: "ynode \<Rightarrow> content res"
  yaml_decode :: "ynode \<Rightarrow> user res"
  yaml_encode :: "user \<Rightarrow> ynode res"
  unicode_class :: "string \<Rightarrow> bool"  \<comment> \<open>letters and numbers, by the UTF-8 of one rune\<close>
  unicode_upper :: "string \<Rightarrow> string"  \<comment> \<open>upper case of one rune\<close>
  net_lookup :: "net_event list \<Rightarrow> string \<Rightarrow> ip list res"
  net_dial :: "net_event list \<Rightarrow> ip \<Rightarrow> string \<Rightarrow> unit res"
  net_call :: "net_event list \<Rightarrow> http_call \<Rightarrow> http_reply res"
  url_ref :: "string \<Rightarrow> string \<Rightarrow> string res"  \<comment> \<open>a reference resolved against a base\<close>
  getenv :: "string \<Rightarrow> string"
  statfs :: "string \<Rightarrow> (int \<times> int \<times> int) option"  \<comment> \<open>blocks, available blocks, block size\<close>
  effect :: "cmd list \<Rightarrow> cmd \<Rightarrow> (string \<rightharpoonup> node) \<Rightarrow> (string \<rightharpoonup> node)"  \<comment> \<open>what a script writes\<close>
  weave :: "string list \<Rightarrow> string list \<Rightarrow> string list"  \<comment> \<open>the order two streams are read in\<close>
  look_path :: "string \<Rightarrow> bool"
  pbkdf2 :: "string \<Rightarrow> string \<Rightarrow> string"
  json_first :: "string \<Rightarrow> json option"  \<comment> \<open>the first value of a stream\<close>
  multipart :: "(string \<times> string \<times> string) list \<Rightarrow> string \<times> string"  \<comment> \<open>content type and body\<close>
  parse_ip :: "string \<Rightarrow> ip option"
  pem_block :: "string \<Rightarrow> string option"
  x509_names :: "string \<Rightarrow> string list res"
  yaml_user_names :: "content \<Rightarrow> string list res"  \<comment> \<open>keys under \<open>users\<close>, each holding a mapping\<close>
  fixed1 :: "int \<Rightarrow> int \<Rightarrow> string"  \<comment> \<open>a quotient in floating point, printed with one decimal\<close>
  list_tree :: "(string \<rightharpoonup> node) \<Rightarrow> string \<Rightarrow> string list"  \<comment> \<open>\<open>filepath.Walk\<close>\<close>
  zip_bytes :: "(string \<times> string option) list \<Rightarrow> string"  \<comment> \<open>an archive of files and directories\<close>

record world =
  files :: "string \<rightharpoonup> node"
  cmds :: "cmd list"
  draws :: nat
  now :: gotime
  du_cache :: "string \<rightharpoonup> int \<times> bool \<times> gotime"
  backup_cache :: "int \<times> gotime"
  nc_cache :: "string \<rightharpoonup> nc_info res \<times> gotime"
  task_pwd :: "string \<times> gotime"
  secrets :: "string \<rightharpoonup> string"
  net :: "net_event list"
  bk_lock :: bool
  bk_ops :: "backup_op list"
  bk_jobs :: "(string \<times> backup_job) list"
  bk_sizes :: "string \<rightharpoonup> int"

definition content_text :: "env \<Rightarrow> content \<Rightarrow> string" where
  "content_text e c = (case c of Bytes s \<Rightarrow> s | _ \<Rightarrow> render e c)"

subsection \<open>File operations\<close>

definition read_file :: "env \<Rightarrow> string \<Rightarrow> world \<Rightarrow> content res" where
  "read_file e p w =
     (case io_fault e (OpRead p) of
        Some m \<Rightarrow> Inl (Failure m)
      | None \<Rightarrow>
          (case files w p of
             None \<Rightarrow> Inl (NotExist p)
           | Some Dir \<Rightarrow> Inl (Failure (''read '' @ p @ '': is a directory''))
           | Some (File c) \<Rightarrow> Inr c))"

definition write_file :: "env \<Rightarrow> string \<Rightarrow> content \<Rightarrow> world \<Rightarrow> unit res \<times> world" where
  "write_file e p c w =
     (case io_fault e (OpWrite p) of
        Some m \<Rightarrow> (Inl (Failure m), w)
      | None \<Rightarrow>
          (if files w p = Some Dir then (Inl (Failure (''open '' @ p @ '': is a directory'')), w)
           else (Inr (), w\<lparr>files := (files w)(p \<mapsto> File c)\<rparr>)))"

definition rename_file :: "env \<Rightarrow> string \<Rightarrow> string \<Rightarrow> world \<Rightarrow> unit res \<times> world" where
  "rename_file e p q w =
     (case io_fault e (OpRename p q) of
        Some m \<Rightarrow> (Inl (Failure m), w)
      | None \<Rightarrow>
          (case files w p of
             None \<Rightarrow> (Inl (NotExist p), w)
           | Some n \<Rightarrow> (Inr (), w\<lparr>files := (files w)(p := None, q \<mapsto> n)\<rparr>)))"

definition stat_file :: "env \<Rightarrow> string \<Rightarrow> world \<Rightarrow> node res" where
  "stat_file e p w =
     (case io_fault e (OpStat p) of
        Some m \<Rightarrow> Inl (Failure m)
      | None \<Rightarrow> (case files w p of None \<Rightarrow> Inl (NotExist p) | Some n \<Rightarrow> Inr n))"

definition remove_file :: "env \<Rightarrow> string \<Rightarrow> world \<Rightarrow> unit res \<times> world" where
  "remove_file e p w =
     (case io_fault e (OpRemove p) of
        Some m \<Rightarrow> (Inl (Failure m), w)
      | None \<Rightarrow>
          (case files w p of
             None \<Rightarrow> (Inl (NotExist p), w)
           | Some n \<Rightarrow> (Inr (), w\<lparr>files := (files w)(p := None)\<rparr>)))"

text \<open>\<open>os.RemoveAll\<close>: the path and everything below it; a missing path is no error.\<close>

definition remove_all :: "env \<Rightarrow> string \<Rightarrow> world \<Rightarrow> unit res \<times> world" where
  "remove_all e p w =
     (case io_fault e (OpRemoveAll p) of
        Some m \<Rightarrow> (Inl (Failure m), w)
      | None \<Rightarrow>
          (Inr (), w\<lparr>files := (\<lambda>q. if q = p \<or> has_prefix q (p @ ''/'') then None else files w q)\<rparr>))"

definition mkdir_all :: "env \<Rightarrow> string \<Rightarrow> world \<Rightarrow> unit res \<times> world" where
  "mkdir_all e p w =
     (case io_fault e (OpMkdir p) of
        Some m \<Rightarrow> (Inl (Failure m), w)
      | None \<Rightarrow>
          (case files w p of
             Some (File _) \<Rightarrow> (Inl (Failure (''mkdir '' @ p @ '': not a directory'')), w)
           | _ \<Rightarrow> (Inr (), w\<lparr>files := (files w)(p \<mapsto> Dir)\<rparr>)))"

definition chmod_path :: "env \<Rightarrow> string \<Rightarrow> world \<Rightarrow> unit res" where
  "chmod_path e p w =
     (case io_fault e (OpChmod p) of Some m \<Rightarrow> Inl (Failure m)
      | None \<Rightarrow> (case files w p of None \<Rightarrow> Inl (NotExist p) | Some _ \<Rightarrow> Inr ()))"

subsection \<open>Network operations\<close>

definition lookup_ip :: "env \<Rightarrow> string \<Rightarrow> world \<Rightarrow> ip list res \<times> world" where
  "lookup_ip e h w = (net_lookup e (net w) h, w\<lparr>net := net w @ [Lookup h]\<rparr>)"

definition dial_ip :: "env \<Rightarrow> ip \<Rightarrow> string \<Rightarrow> world \<Rightarrow> unit res \<times> world" where
  "dial_ip e a port w = (net_dial e (net w) a port, w\<lparr>net := net w @ [Dial a port]\<rparr>)"

definition send_http :: "env \<Rightarrow> http_call \<Rightarrow> world \<Rightarrow> http_reply res \<times> world" where
  "send_http e c w = (net_call e (net w) c, w\<lparr>net := net w @ [Call c]\<rparr>)"

subsection \<open>Commands and random draws\<close>

definition exec :: "env \<Rightarrow> string list \<Rightarrow> string \<Rightarrow> world \<Rightarrow> proc_result \<times> world" where
  "exec e argv stdin w =
     (run e (cmds w) (argv, stdin), w\<lparr>cmds := cmds w @ [(argv, stdin)]\<rparr>)"

text \<open>A script that writes files: what it leaves on disk is part of the environment.\<close>

definition exec_script :: "env \<Rightarrow> string list \<Rightarrow> string \<Rightarrow> world \<Rightarrow> proc_result \<times> world" where
  "exec_script e argv stdin w =
     (run e (cmds w) (argv, stdin),
      w\<lparr>files := effect e (cmds w) (argv, stdin) (files w), cmds := cmds w @ [(argv, stdin)]\<rparr>)"

text \<open>\<open>CombinedOutput\<close>: both streams; the model puts standard output first.\<close>

definition combined :: "proc_result \<Rightarrow> string" where
  "combined r = pr_stdout r @ pr_stderr r"

definition draw_bytes :: "env \<Rightarrow> nat \<Rightarrow> world \<Rightarrow> string option \<times> world" where
  "draw_bytes e n w =
     (map_option (\<lambda>s. take n (s @ replicate n (byte 0))) (rand_bytes e (draws w) n),
      w\<lparr>draws := Suc (draws w)\<rparr>)"

text \<open>64-bit signed arithmetic.\<close>

definition wrap64 :: "int \<Rightarrow> int" where
  "wrap64 i = (i + 2 ^ 63) mod 2 ^ 64 - 2 ^ 63"

lemma wrap64_id: "- (2 ^ 63) \<le> i \<Longrightarrow> i < 2 ^ 63 \<Longrightarrow> wrap64 i = i"
  by (simp add: wrap64_def)

lemma wrap64_range: "- (2 ^ 63) \<le> wrap64 i \<and> wrap64 i < 2 ^ 63"
  using pos_mod_sign [of "2 ^ 64" "i + 2 ^ 63"] pos_mod_bound [of "2 ^ 64" "i + 2 ^ 63"]
  by (simp add: wrap64_def)

lemma read_file_cong: "files w p = files w' p \<Longrightarrow> read_file e p w = read_file e p w'"
  by (cases "io_fault e (OpRead p)") (auto simp: read_file_def)

lemma write_file_ok [ok_simps]:
  "write_file e p c w = (Inr (), w') \<longleftrightarrow>
     io_fault e (OpWrite p) = None \<and> files w p \<noteq> Some Dir \<and> w' = w\<lparr>files := (files w)(p \<mapsto> File c)\<rparr>"
  by (auto simp: write_file_def split: option.splits)

lemma write_file_frame [frame_simps]:
  "q \<noteq> p \<Longrightarrow> files (snd (write_file e p c w)) q = files w q"
  "cmds (snd (write_file e p c w)) = cmds w"
  "now (snd (write_file e p c w)) = now w"
  "draws (snd (write_file e p c w)) = draws w"
  by (auto simp: write_file_def split: option.splits)

lemma rename_file_frame [frame_simps]:
  "r \<noteq> p \<Longrightarrow> r \<noteq> q \<Longrightarrow> files (snd (rename_file e p q w)) r = files w r"
  "cmds (snd (rename_file e p q w)) = cmds w"
  "now (snd (rename_file e p q w)) = now w"
  "draws (snd (rename_file e p q w)) = draws w"
  by (auto simp: rename_file_def split: option.splits)

lemma remove_file_frame [frame_simps]:
  "q \<noteq> p \<Longrightarrow> files (snd (remove_file e p w)) q = files w q"
  "cmds (snd (remove_file e p w)) = cmds w"
  "now (snd (remove_file e p w)) = now w"
  "draws (snd (remove_file e p w)) = draws w"
  by (auto simp: remove_file_def split: option.splits)

lemma mkdir_all_frame [frame_simps]:
  "q \<noteq> p \<Longrightarrow> files (snd (mkdir_all e p w)) q = files w q"
  "cmds (snd (mkdir_all e p w)) = cmds w"
  "now (snd (mkdir_all e p w)) = now w"
  "draws (snd (mkdir_all e p w)) = draws w"
  by (auto simp: mkdir_all_def split: option.splits node.splits)

lemma exec_frame [frame_simps]:
  "files (snd (exec e a s w)) = files w"
  "now (snd (exec e a s w)) = now w"
  "draws (snd (exec e a s w)) = draws w"
  by (simp_all add: exec_def)

lemma draw_bytes_frame [frame_simps]:
  "files (snd (draw_bytes e n w)) = files w"
  "cmds (snd (draw_bytes e n w)) = cmds w"
  "now (snd (draw_bytes e n w)) = now w"
  by (simp_all add: draw_bytes_def)

lemma net_frame [frame_simps]:
  "net (snd (write_file e p c w)) = net w" "net (snd (rename_file e p q w)) = net w"
  "net (snd (remove_file e p w)) = net w" "net (snd (mkdir_all e p w)) = net w"
  "net (snd (exec e a s w)) = net w" "net (snd (draw_bytes e n w)) = net w"
  "files (snd (lookup_ip e h w)) = files w" "cmds (snd (lookup_ip e h w)) = cmds w"
  "now (snd (lookup_ip e h w)) = now w" "draws (snd (lookup_ip e h w)) = draws w"
  "files (snd (dial_ip e i h w)) = files w" "cmds (snd (dial_ip e i h w)) = cmds w"
  "now (snd (dial_ip e i h w)) = now w" "draws (snd (dial_ip e i h w)) = draws w"
  "files (snd (send_http e ca w)) = files w" "cmds (snd (send_http e ca w)) = cmds w"
  "now (snd (send_http e ca w)) = now w" "draws (snd (send_http e ca w)) = draws w"
  by (auto simp: write_file_def rename_file_def remove_file_def mkdir_all_def exec_def draw_bytes_def
      lookup_ip_def dial_ip_def send_http_def split: option.splits node.splits)

lemma draw_bytes_length: "draw_bytes e n w = (Some b, w') \<Longrightarrow> length b = n"
  by (auto simp: draw_bytes_def)

subsection \<open>A calm environment\<close>

text \<open>Nothing fails, commands succeed silently, random bytes are zero: the environment the
  concrete instances of the properties run in.\<close>

definition proc_ok :: proc_result where
  "proc_ok = \<lparr>pr_stdout = [], pr_stderr = [], pr_error = None\<rparr>"

definition calm_decode :: "ynode \<Rightarrow> user res" where
  "calm_decode n =
     (case map yvalue (ycontent n) of
        d # n1 # p # m # gs \<Rightarrow>
          Inr \<lparr>u_disabled = (d = ''true''), u_displayname = n1, u_password = p, u_email = m, u_groups = gs\<rparr>
      | _ \<Rightarrow> Inl (Failure ''not a user''))"

definition calm_encode :: "user \<Rightarrow> ynode res" where
  "calm_encode u =
     Inr (YNode YMapping [] [] (map (\<lambda>s. YNode YScalar [] s [])
       ((if u_disabled u then ''true'' else ''false'') # u_displayname u # u_password u # u_email u # u_groups u)))"

definition calm_unmarshal :: "content \<Rightarrow> ynode res" where
  "calm_unmarshal c =
     (case c of Yaml n \<Rightarrow> (if ykind n = YDocument then Inr n else Inl (Failure ''yaml: no document''))
      | Bytes [] \<Rightarrow> Inr (YNode YZero [] [] []) | _ \<Rightarrow> Inl (Failure ''yaml: bad''))"

definition calm_user_names :: "content \<Rightarrow> string list res" where
  "calm_user_names c =
     (case c of
        Yaml (YNode k t v (YNode YMapping t1 v1 (YNode k2 t2 v2 [] # YNode YMapping t3 v3 kvs # r) # s)) \<Rightarrow>
          Inr (map yvalue kvs)
      | _ \<Rightarrow> Inr [])"

definition calm_env :: env where
  "calm_env = \<lparr>io_fault = (\<lambda>_. None), run = (\<lambda>_ _. proc_ok), render = (\<lambda>_. []),
     rand_bytes = (\<lambda>_ n. Some (replicate n CHR 0x00)), keygen = (\<lambda>_. Inr (''s'', ''p'')),
     idkey = (\<lambda>p _ _ _ _ n. take n (p @ replicate n CHR 0x00)), json_decode = (\<lambda>_. None),
     yaml_unmarshal = calm_unmarshal, yaml_marshal = (\<lambda>n. Inr (Yaml n)),
     yaml_decode = calm_decode, yaml_encode = calm_encode, unicode_class = (\<lambda>_. False), unicode_upper = id,
     net_lookup = (\<lambda>_ _. Inr []), net_dial = (\<lambda>_ _ _. Inr ()),
     net_call = (\<lambda>_ _. Inr \<lparr>hr_status = 200, hr_headers = [], hr_body = [], hr_read_error = None\<rparr>),
     url_ref = (\<lambda>_ r. Inr r), getenv = (\<lambda>_. []), statfs = (\<lambda>_. None),
     effect = (\<lambda>_ _ fs. fs), weave = (@), look_path = (\<lambda>_. False),
     pbkdf2 = (\<lambda>p s. take 64 (p @ s @ replicate 64 CHR 0x00)), json_first = (\<lambda>_. None),
     multipart = (\<lambda>_. ([], [])), parse_ip = (\<lambda>_. None), pem_block = (\<lambda>_. None),
     x509_names = (\<lambda>_. Inl (Failure ''x509: malformed certificate'')), yaml_user_names = calm_user_names,
     fixed1 = (\<lambda>_ _. []), list_tree = (\<lambda>_ _. []), zip_bytes = (\<lambda>_. [])\<rparr>"

definition blank_world :: world where
  "blank_world = \<lparr>files = Map.empty, cmds = [], draws = 0, now = 0,
     du_cache = Map.empty, backup_cache = (0, zero_time), nc_cache = Map.empty,
     task_pwd = ([], zero_time), secrets = Map.empty, net = [],
     bk_lock = False, bk_ops = [], bk_jobs = [], bk_sizes = Map.empty\<rparr>"

lemma calm_env_simps [simp]:
  "io_fault calm_env p = None" "run calm_env h c = proc_ok"
  "pr_stdout proc_ok = []" "pr_stderr proc_ok = []" "pr_error proc_ok = None"
  "rand_bytes calm_env k n = Some (replicate n CHR 0x00)" "keygen calm_env k = Inr (''s'', ''p'')"
  "getenv calm_env v = []" "render calm_env ct = []" "json_decode calm_env s = None"
  "yaml_unmarshal calm_env = calm_unmarshal" "yaml_marshal calm_env nd = Inr (Yaml nd)"
  "yaml_decode calm_env = calm_decode" "yaml_encode calm_env = calm_encode"
  "idkey calm_env pw salt a1 a2 a3 a4 = take a4 (pw @ replicate a4 CHR 0x00)"
  "effect calm_env h c fs = fs" "weave calm_env xs ys = xs @ ys" "look_path calm_env s = False"
  "pbkdf2 calm_env pw salt = take 64 (pw @ salt @ replicate 64 CHR 0x00)"
  by (simp_all add: calm_env_def proc_ok_def)

lemma blank_world_simps [simp]:
  "files blank_world = Map.empty" "cmds blank_world = []" "draws blank_world = 0" "now blank_world = 0"
  "net blank_world = []"
  by (simp_all add: blank_world_def)

end
