(* ===== verification/Validate.thy ===== *)
theory Validate
  imports World
begin

text \<open>
  The validation and naming helpers of \<open>peers.go\<close>: the anchored regular expressions as
  predicates on byte strings, \<open>sanitize\<close>, \<open>subnetPrefix\<close>, \<open>normalizeDeviceTag\<close>,
  \<open>peerNameFor\<close> and \<open>peer.User\<close>. The Unicode classes of the display-name expression are
  the parameter \<open>uni\<close>, a predicate on the UTF-8 encodings of single runes.
\<close>

subsection \<open>Regular expressions\<close>

definition valid_name :: "string \<Rightarrow> bool" where
  "valid_name s \<longleftrightarrow> 1 \<le> length s \<and> length s \<le> 64 \<and>
     list_all (\<lambda>c. is_alpha c \<or> is_digit c \<or> c \<in> set ''._-'') s"

definition valid_username :: "string \<Rightarrow> bool" where
  "valid_username s =
     (case s of [] \<Rightarrow> False
      | c # cs \<Rightarrow> is_lower c \<and> length cs \<le> 31 \<and>
                  list_all (\<lambda>d. is_lower d \<or> is_digit d \<or> d = CHR ''_'' \<or> d = CHR ''-'') cs)"

definition valid_device_tag :: "string \<Rightarrow> bool" where
  "valid_device_tag s =
     (case s of [] \<Rightarrow> False
      | c # cs \<Rightarrow> (is_lower c \<or> is_digit c) \<and> length cs \<le> 31 \<and>
                  list_all (\<lambda>d. is_lower d \<or> is_digit d \<or> d = CHR ''-'') cs)"

definition email_local_char :: "char \<Rightarrow> bool" where
  "email_local_char c \<longleftrightarrow> is_alpha c \<or> is_digit c \<or> c \<in> set ''._%+-''"

definition email_domain_char :: "char \<Rightarrow> bool" where
  "email_domain_char c \<longleftrightarrow> is_alpha c \<or> is_digit c \<or> c \<in> set ''.-''"

text \<open>The top-level label has no dot, so it starts after the last dot of the domain.\<close>

definition valid_email :: "string \<Rightarrow> bool" where
  "valid_email s =
     (case split2 CHR ''@'' s of
        [lpart, dm] \<Rightarrow>
          (let tld = rev (takeWhile (\<lambda>c. c \<noteq> CHR ''.'') (rev dm));
               front = take (length dm - length tld) dm
           in lpart \<noteq> [] \<and> list_all email_local_char lpart \<and>
              2 \<le> length front \<and> list_all email_domain_char front \<and>
              2 \<le> length tld \<and> list_all is_alpha tld)
      | _ \<Rightarrow> False)"

text \<open>The runes of a UTF-8 string; a byte that starts no complete rune stands alone.\<close>

definition is_cont :: "char \<Rightarrow> bool" where
  "is_cont c \<longleftrightarrow> (of_char c :: nat) div 64 = 2"

definition rune_len :: "char \<Rightarrow> nat" where
  "rune_len c = (let n = (of_char c :: nat) in
     if n < 192 then 1 else if n < 224 then 2 else if n < 240 then 3 else if n < 248 then 4 else 1)"

function (sequential) runes :: "string \<Rightarrow> string list" where
  "runes [] = []"
| "runes (c # cs) =
     (let k = rune_len c - 1 in
      if length (take k cs) = k \<and> list_all is_cont (take k cs)
      then (c # take k cs) # runes (drop k cs) else [c] # runes cs)"
  by pat_completeness auto
termination by (relation "measure length") auto

definition valid_display_name :: "(string \<Rightarrow> bool) \<Rightarrow> string \<Rightarrow> bool" where
  "valid_display_name uni s =
     (let rs = runes s in
      1 \<le> length rs \<and> length rs \<le> 64 \<and>
      list_all (\<lambda>r. case r of
          [c] \<Rightarrow> is_alpha c \<or> is_digit c \<or> c \<in> set '' ._'' \<or> c = CHR 0x27 \<or> c = CHR ''-''
        | _ \<Rightarrow> uni r) rs)"

subsection \<open>Cleaning\<close>

definition sanitize :: "string \<Rightarrow> string" where
  "sanitize s =
     (let out = map (\<lambda>c. if c = CHR 10 \<or> c = CHR 13 then CHR '' '' else c) s
      in if length out > 256 then take 256 out else out)"

definition parse_octet :: "string \<Rightarrow> nat option" where
  "parse_octet s =
     (if s \<noteq> [] \<and> list_all is_digit s \<and> (length s = 1 \<or> hd s \<noteq> CHR ''0'') \<and> digits_val s \<le> 255
      then Some (digits_val s) else None)"

definition parse_ipv4 :: "string \<Rightarrow> nat option" where
  "parse_ipv4 s =
     (case map parse_octet (split_on CHR ''.'' s) of
        [Some a, Some b, Some c, Some d] \<Rightarrow> Some (((a * 256 + b) * 256 + c) * 256 + d)
      | _ \<Rightarrow> None)"

text \<open>\<open>net.ParseCIDR\<close> on IPv4 notation: the network address, masked.\<close>

definition parse_cidr4 :: "string \<Rightarrow> nat option" where
  "parse_cidr4 s =
     (case split2 CHR ''/'' s of
        [ip, m] \<Rightarrow>
          (case parse_ipv4 ip of
             None \<Rightarrow> None
           | Some a \<Rightarrow>
               if m \<noteq> [] \<and> list_all is_digit m \<and> digits_val m \<le> 32
               then Some (a div 2 ^ (32 - digits_val m) * 2 ^ (32 - digits_val m)) else None)
      | _ \<Rightarrow> None)"

definition subnet_prefix :: "string \<Rightarrow> string res" where
  "subnet_prefix cidr =
     (case parse_cidr4 cidr of
        None \<Rightarrow> Inl (Failure (''invalid CIDR address: '' @ cidr))
      | Some a \<Rightarrow>
          Inr (show_nat (a div 16777216 mod 256) @ ''.'' @ show_nat (a div 65536 mod 256)
               @ ''.'' @ show_nat (a div 256 mod 256) @ ''.''))"

subsection \<open>Device tags\<close>

definition tag_char :: "char \<Rightarrow> char" where
  "tag_char c = (if c = CHR '' '' \<or> c = CHR ''_'' \<or> c = CHR ''.'' then CHR ''-'' else c)"

text \<open>One pass of \<open>strings.ReplaceAll(s, "--", "-")\<close>, which does not look at its own output.\<close>

fun replace_dashes :: "string \<Rightarrow> string" where
  "replace_dashes (x # y # r) =
     (if x = CHR ''-'' \<and> y = CHR ''-'' then CHR ''-'' # replace_dashes r
      else x # replace_dashes (y # r))"
| "replace_dashes s = s"

lemma length_replace_dashes: "length (replace_dashes s) \<le> length s"
  by (induction s rule: replace_dashes.induct) auto

lemma contains_Cons:
  "contains (x # s) sub \<longleftrightarrow> has_prefix (x # s) sub \<or> contains s sub"
  by (subst contains.simps) simp

lemma contains_dashes_Nil [simp]: "\<not> contains [] ''--''"
  by (subst contains.simps) simp

lemma replace_dashes_shorter: "contains s ''--'' \<Longrightarrow> length (replace_dashes s) < length s"
proof (induction s rule: replace_dashes.induct)
  case (1 x y r)
  then show ?case
    using length_replace_dashes [of r] by (auto simp: contains_Cons)
qed (auto simp: contains_Cons)

function collapse_dashes :: "string \<Rightarrow> string" where
  "collapse_dashes s = (if contains s ''--'' then collapse_dashes (replace_dashes s) else s)"
  by pat_completeness auto
termination
  by (relation "measure length") (auto simp: replace_dashes_shorter)

declare collapse_dashes.simps [simp del]

definition normalize_device_tag :: "string \<Rightarrow> string" where
  "normalize_device_tag s =
     trim_char CHR ''-'' (collapse_dashes (map tag_char (go_to_lower (go_trim_space s))))"

text \<open>The reference: keep one dash of every run.\<close>

fun squeeze :: "string \<Rightarrow> string" where
  "squeeze [] = []"
| "squeeze [x] = [x]"
| "squeeze (x # y # r) =
     (if x = CHR ''-'' \<and> y = CHR ''-'' then squeeze (y # r) else x # squeeze (y # r))"

lemma squeeze_id: "\<not> contains s ''--'' \<Longrightarrow> squeeze s = s"
  by (induction s rule: squeeze.induct) (auto simp: contains_Cons)

lemma squeeze_dash_cong:
  "squeeze r = squeeze r' \<Longrightarrow> (r = [] \<longleftrightarrow> r' = []) \<Longrightarrow>
   (r \<noteq> [] \<longrightarrow> (hd r = CHR ''-'' \<longleftrightarrow> hd r' = CHR ''-'')) \<Longrightarrow> squeeze (x # r) = squeeze (x # r')"
  by (cases r; cases r') auto

lemma hd_replace_dashes: "s \<noteq> [] \<Longrightarrow> replace_dashes s \<noteq> [] \<and> hd (replace_dashes s) = hd s"
  by (induction s rule: replace_dashes.induct) auto

lemma squeeze_replace_dashes: "squeeze (replace_dashes s) = squeeze s"
proof (induction s rule: replace_dashes.induct)
  case (1 x y r)
  show ?case
  proof (cases "x = CHR ''-'' \<and> y = CHR ''-''")
    case True
    with "1.IH"(1) have "squeeze (CHR ''-'' # replace_dashes r) = squeeze (CHR ''-'' # r)"
      using hd_replace_dashes [of r] by (intro squeeze_dash_cong) (cases r; auto)+
    with True show ?thesis by simp
  next
    case False
    with "1.IH"(2) have "squeeze (x # replace_dashes (y # r)) = squeeze (x # y # r)"
      using hd_replace_dashes [of "y # r"] by (intro squeeze_dash_cong) auto
    with False show ?thesis by auto
  qed
qed auto

lemma collapse_dashes_no_double: "\<not> contains (collapse_dashes s) ''--''"
  by (induction s rule: collapse_dashes.induct) (subst collapse_dashes.simps, simp)

lemma collapse_dashes_squeeze: "collapse_dashes s = squeeze s"
proof (induction s rule: collapse_dashes.induct)
  case (1 s)
  then show ?case
    by (subst collapse_dashes.simps) (simp add: squeeze_replace_dashes squeeze_id)
qed

subsection \<open>Peer names\<close>

definition peer_name_for :: "string \<Rightarrow> string \<Rightarrow> string res" where
  "peer_name_for user tag =
     (if \<not> valid_username user then Inl (Failure (''invalid username '' @ go_quote user))
      else if \<not> valid_device_tag tag then
        Inl (Failure (''invalid device name '' @ go_quote tag
          @ '' (allowed: letters, digits, spaces and hyphens; up to 32 chars)''))
      else Inr (user @ ''-'' @ tag))"

text \<open>\<open>strings.IndexByte(p.Name, '-')\<close>, and \<open>peer.User\<close> on the name.\<close>

definition peer_user :: "string \<Rightarrow> string" where
  "peer_user name =
     (let u = takeWhile (\<lambda>c. c \<noteq> CHR ''-'') name
      in if u = name \<or> u = [] then [] else u)"

end
