(* ===== verification/AuditLog.thy ===== *)
theory AuditLog
  imports World
begin

text \<open>
  \<open>audit.go\<close>: the append-only audit log. A line is an entry or text that does not decode
  (\<open>Junk\<close>), which the reader skips.
\<close>

definition blank_entry :: audit_entry where
  "blank_entry = \<lparr>a_time = zero_time, a_action = [], a_actor = [], a_target = [], a_result = [],
     a_note = [], a_peer = [], a_pubkey = [], a_ip = []\<rparr>"

text \<open>The composite literal most handlers use: action, actor, target, result and note.\<close>

definition entry :: "string \<Rightarrow> string \<Rightarrow> string \<Rightarrow> string \<Rightarrow> string \<Rightarrow> audit_entry" where
  "entry action actor target result note =
     blank_entry\<lparr>a_action := action, a_actor := actor, a_target := target,
       a_result := result, a_note := note\<rparr>"

definition stamp_entry :: "world \<Rightarrow> audit_entry \<Rightarrow> audit_entry" where
  "stamp_entry w x =
     (let x1 = (if a_time x = zero_time then x\<lparr>a_time := now w\<rparr> else x)
      in if a_result x1 = [] then x1\<lparr>a_result := ''ok''\<rparr> else x1)"

definition append_line :: "env \<Rightarrow> content option \<Rightarrow> log_line \<Rightarrow> content" where
  "append_line e old l =
     (case old of
        None \<Rightarrow> Log [l]
      | Some (Log ls) \<Rightarrow> Log (ls @ [l])
      | Some c \<Rightarrow>
          (let s = content_text e c
           in if s = [] then Log [l]
              else if has_suffix s ''\<newline>'' then Log [Junk s, l]
              else Log [Junk (s @ render e (Log [l]))]))"

definition write_audit :: "env \<Rightarrow> string \<Rightarrow> audit_entry \<Rightarrow> world \<Rightarrow> world" where
  "write_audit e path x w =
     (case io_fault e (OpAppend path) of
        Some _ \<Rightarrow> w
      | None \<Rightarrow>
          (case files w path of
             Some Dir \<Rightarrow> w
           | Some (File c) \<Rightarrow>
               w\<lparr>files := (files w)(path \<mapsto> File (append_line e (Some c) (Entry (stamp_entry w x))))\<rparr>
           | None \<Rightarrow>
               w\<lparr>files := (files w)(path \<mapsto> File (append_line e None (Entry (stamp_entry w x))))\<rparr>))"

definition upgrade_entry :: "audit_entry \<Rightarrow> audit_entry" where
  "upgrade_entry x =
     (let x1 = (if a_target x = [] \<and> a_peer x \<noteq> [] then x\<lparr>a_target := a_peer x\<rparr> else x)
      in if a_note x1 = [] \<and> a_ip x1 \<noteq> [] then x1\<lparr>a_note := a_ip x1\<rparr> else x1)"

fun log_entries :: "log_line list \<Rightarrow> audit_entry list" where
  "log_entries [] = []"
| "log_entries (Entry x # ls) = upgrade_entry x # log_entries ls"
| "log_entries (Junk s # ls) = log_entries ls"

definition last_n :: "nat \<Rightarrow> 'a list \<Rightarrow> 'a list" where
  "last_n n xs = (if length xs > n then drop (length xs - n) xs else xs)"

definition read_audit :: "env \<Rightarrow> string \<Rightarrow> nat \<Rightarrow> world \<Rightarrow> audit_entry list" where
  "read_audit e path mx w =
     (case read_file e path w of
        Inl _ \<Rightarrow> []
      | Inr (Log ls) \<Rightarrow> rev (last_n mx (log_entries ls))
      | Inr _ \<Rightarrow> [])"

lemma write_audit_frame [frame_simps]:
  "p \<noteq> path \<Longrightarrow> files (write_audit e path x w) p = files w p"
  "cmds (write_audit e path x w) = cmds w"
  "now (write_audit e path x w) = now w"
  "draws (write_audit e path x w) = draws w"
  by (auto simp: write_audit_def split: option.splits node.splits)

lemma log_entries_append [simp]: "log_entries (xs @ ys) = log_entries xs @ log_entries ys"
  by (induction xs rule: log_entries.induct) auto

lemma rev_last_n: "rev (last_n n xs) = take n (rev xs)"
  by (auto simp: last_n_def take_rev)

lemma read_file_write_audit:
  assumes "io_fault e (OpAppend path) = None" "io_fault e (OpRead path) = None"
    and "files w path = None \<or> (\<exists>ls. files w path = Some (File (Log ls)))"
  shows "read_file e path (write_audit e path x w) =
           Inr (Log ((case files w path of Some (File (Log ls)) \<Rightarrow> ls | _ \<Rightarrow> []) @ [Entry (stamp_entry w x)]))"
  using assms by (auto simp: write_audit_def read_file_def append_line_def)

text \<open>Reading the log after an append shows the new entry first (with its defaults filled
  in), then what the reader showed before, cut to the requested number of entries. So the
  \<open>/audit\<close> page is newest first and never longer than its limit.\<close>

theorem read_audit_after_write:
  assumes "io_fault e (OpAppend path) = None" and "io_fault e (OpRead path) = None"
    and "files w path = None \<or> (\<exists>ls. files w path = Some (File (Log ls)))"
  shows "read_audit e path mx (write_audit e path x w)
           = take mx (upgrade_entry (stamp_entry w x) # read_audit e path mx w)"
proof -
  define ls where "ls = (case files w path of Some (File (Log ls)) \<Rightarrow> ls | _ \<Rightarrow> [])"
  have r: "read_audit e path mx (write_audit e path x w)
      = take mx (rev (log_entries (ls @ [Entry (stamp_entry w x)])))"
    using read_file_write_audit [OF assms, of x]
    by (simp add: read_audit_def rev_last_n ls_def)
  have o: "read_audit e path mx w = take mx (rev (log_entries ls))"
    using assms by (auto simp: read_audit_def read_file_def rev_last_n ls_def)
  show ?thesis unfolding r o by (cases mx) (simp_all add: take_take [symmetric] min_def)
qed

theorem read_audit_witness:
  "read_audit calm_env ''a'' 3 (write_audit calm_env ''a'' (entry ''x'' ''y'' ''z'' [] []) blank_world)
     = [upgrade_entry (stamp_entry blank_world (entry ''x'' ''y'' ''z'' [] []))]"
  using read_audit_after_write [of calm_env "''a''" blank_world 3 "entry ''x'' ''y'' ''z'' [] []"]
  by (simp add: read_audit_def read_file_def)

end
