(* ===== verification/WgConf.thy ===== *)
theory WgConf
  imports Validate AuditLog
begin

text \<open>
  The parser and the writers of \<open>gw0.conf\<close> in \<open>peers.go\<close>: \<open>loadConf\<close> as a scan over the
  numbered lines, the address allocator, and the three rewrites (append one peer, remove
  one, remove many), each on the text of the file. The second half shows how the rewrites
  and the parser fit together: reading a rewritten file back.
\<close>

subsection \<open>Data\<close>

record peer =
  p_name :: string
  p_device_tag :: string
  p_public_key :: string
  p_private_key :: string
  p_ip :: string
  p_added_by :: string
  p_added_at :: gotime

definition zero_peer :: peer where
  "zero_peer = \<lparr>p_name = [], p_device_tag = [], p_public_key = [], p_private_key = [],
     p_ip = [], p_added_by = [], p_added_at = zero_time\<rparr>"

record peer_entry =
  e_public_key :: string
  e_allowed_ips :: string
  e_start :: nat
  e_end :: nat
  e_comment :: string

record parsed_conf =
  pc_raw :: string
  pc_peers :: "peer_entry list"
  pc_params :: "(string \<times> string) list"

subsection \<open>The line expressions\<close>

text \<open>\<open>reSection\<close>: a bracketed word, then white space to the end of the line.\<close>

definition re_section :: "string \<Rightarrow> string option" where
  "re_section ln =
     (case ln of
        [] \<Rightarrow> None
      | c # r \<Rightarrow>
          (let w = takeWhile is_word r; rest = dropWhile is_word r in
           if c = CHR ''['' \<and> w \<noteq> [] \<and> rest \<noteq> [] \<and> hd rest = CHR '']'' \<and> list_all re_space (tl rest)
           then Some w else None))"

text \<open>The lazy group \<open>(.+?)\s*$\<close> after \<open>=\s*\<close>: the text between the white space, or the last
  white-space character when there is nothing else.\<close>

definition kv_value :: "string \<Rightarrow> string option" where
  "kv_value v =
     (let body = dropWhile re_space v in
      if body = [] then (if v = [] then None else Some [last v])
      else Some (rev (dropWhile re_space (rev body))))"

definition after_equals :: "string \<Rightarrow> string option" where
  "after_equals r =
     (case dropWhile re_space r of
        [] \<Rightarrow> None
      | c # v \<Rightarrow> if c = CHR ''='' then kv_value v else None)"

definition re_kv :: "string \<Rightarrow> string \<Rightarrow> string option" where
  "re_kv key ln =
     (let r = dropWhile re_space ln in
      if has_prefix r key then after_equals (drop (length key) r) else None)"

definition re_kv_any :: "string \<Rightarrow> (string \<times> string) option" where
  "re_kv_any ln =
     (let r = dropWhile re_space ln;
          key = takeWhile (\<lambda>c. is_alpha c \<or> is_digit c) r;
          rest = dropWhile (\<lambda>c. is_alpha c \<or> is_digit c) r
      in if key \<noteq> [] \<and> is_alpha (hd key)
         then map_option (\<lambda>v. (key, v)) (after_equals rest) else None)"

subsection \<open>The parser\<close>

record scan =
  sc_section :: string
  sc_cur :: "peer_entry option"
  sc_peers :: "peer_entry list"
  sc_params :: "(string \<times> string) list"

definition close_peer :: "nat \<Rightarrow> scan \<Rightarrow> scan" where
  "close_peer last_line s =
     (case sc_cur s of
        None \<Rightarrow> s
      | Some c \<Rightarrow> s\<lparr>sc_peers := sc_peers s @ [c\<lparr>e_end := last_line\<rparr>], sc_cur := None\<rparr>)"

definition comment_above :: "string list \<Rightarrow> nat \<Rightarrow> string" where
  "comment_above lines i =
     (if i > 0 \<and> has_prefix (go_trim_space (lines ! (i - 1))) ''#''
      then go_trim_space (lines ! (i - 1)) else [])"

definition scan_keys :: "string \<Rightarrow> peer_entry \<Rightarrow> peer_entry" where
  "scan_keys ln c =
     (let c1 = (case re_kv ''PublicKey'' ln of
                  Some v \<Rightarrow> c\<lparr>e_public_key := go_trim_space v\<rparr> | None \<Rightarrow> c)
      in case re_kv ''AllowedIPs'' ln of
           Some v \<Rightarrow> c1\<lparr>e_allowed_ips := go_trim_space v\<rparr> | None \<Rightarrow> c1)"

definition scan_line :: "string list \<Rightarrow> nat \<times> string \<Rightarrow> scan \<Rightarrow> scan" where
  "scan_line lines l s =
     (case l of (i, ln) \<Rightarrow>
       (case re_section ln of
          Some m \<Rightarrow>
            (let s1 = (close_peer (i - 1) s)\<lparr>sc_section := go_to_lower m\<rparr> in
             if go_to_lower m = ''peer''
             then s1\<lparr>sc_cur := Some \<lparr>e_public_key = [], e_allowed_ips = [], e_start = i, e_end = 0,
                                        e_comment = comment_above lines i\<rparr>\<rparr>
             else s1)
        | None \<Rightarrow>
            (let s1 = (if sc_section s = ''interface'' then
                         (case re_kv_any ln of
                            Some kv \<Rightarrow> s\<lparr>sc_params := sc_params s @ [kv]\<rparr> | None \<Rightarrow> s)
                       else s)
             in if sc_section s1 = ''peer''
                then s1\<lparr>sc_cur := map_option (scan_keys ln) (sc_cur s1)\<rparr> else s1)))"

definition scan0 :: scan where
  "scan0 = \<lparr>sc_section = [], sc_cur = None, sc_peers = [], sc_params = []\<rparr>"

definition scan_lines :: "string list \<Rightarrow> scan" where
  "scan_lines lines =
     close_peer (length lines - 1) (fold (scan_line lines) (index_from 0 lines) scan0)"

definition parse_conf :: "string \<Rightarrow> parsed_conf" where
  "parse_conf raw =
     (let s = scan_lines (split_on CHR 10 raw)
      in \<lparr>pc_raw = raw, pc_peers = sc_peers s, pc_params = sc_params s\<rparr>)"

definition load_conf :: "env \<Rightarrow> string \<Rightarrow> world \<Rightarrow> parsed_conf res" where
  "load_conf e path w =
     (case read_file e path w of Inl err \<Rightarrow> Inl err | Inr c \<Rightarrow> Inr (parse_conf (content_text e c)))"

text \<open>\<open>rawIfaceParams\<close> is a Go map: the last assignment to a key wins.\<close>

definition iface_param :: "parsed_conf \<Rightarrow> string \<Rightarrow> string" where
  "iface_param pc k = (case map_of (rev (pc_params pc)) k of Some v \<Rightarrow> v | None \<Rightarrow> [])"

subsection \<open>Addresses\<close>

text \<open>The octet one comma-separated part of \<open>AllowedIPs\<close> uses, if any.\<close>

definition cidr_octet :: "string \<Rightarrow> string \<Rightarrow> int option" where
  "cidr_octet prefix part =
     (let cidr = go_trim_space part in
      if cidr = [] then None
      else (let ip = hd (split2 CHR ''/'' cidr) in
            if has_prefix ip prefix then atoi (trim_prefix ip prefix) else None))"

definition entry_octets :: "string \<Rightarrow> string \<Rightarrow> int list" where
  "entry_octets prefix allowed = List.map_filter (cidr_octet prefix) (split_on CHR '','' allowed)"

definition used_octets :: "parsed_conf \<Rightarrow> string \<Rightarrow> int list" where
  "used_octets pc prefix = concat (map (entry_octets prefix \<circ> e_allowed_ips) (pc_peers pc))"

function first_free :: "int list \<Rightarrow> int \<Rightarrow> int option" where
  "first_free used i =
     (if i \<le> 254 then (if i \<notin> set used then Some i else first_free used (i + 1)) else None)"
  by pat_completeness auto
termination by (relation "measure (\<lambda>(u, i). nat (255 - i))") auto

declare first_free.simps [simp del]

definition pick_free_octet :: "parsed_conf \<Rightarrow> string \<Rightarrow> int \<Rightarrow> int res" where
  "pick_free_octet pc prefix start =
     (case first_free (used_octets pc prefix) start of
        Some i \<Rightarrow> Inr i
      | None \<Rightarrow> Inl (Failure (''no free peer octet in subnet starting '' @ prefix @ show_int start)))"

subsection \<open>The writers\<close>

definition atomic_write :: "env \<Rightarrow> string \<Rightarrow> content \<Rightarrow> world \<Rightarrow> unit res \<times> world" where
  "atomic_write e path c w =
     (case write_file e (path @ ''.tmp'') c w of
        (Inl err, w1) \<Rightarrow> (Inl err, w1)
      | (Inr _, w1) \<Rightarrow> rename_file e (path @ ''.tmp'') path w1)"

definition peer_block :: "peer \<Rightarrow> string list" where
  "peer_block p =
     [''# peer: '' @ sanitize (p_name p) @ '' (added '' @ fmt_rfc3339 (p_added_at p)
        @ '' by '' @ sanitize (p_added_by p) @ '')'',
      ''[Peer]'', ''PublicKey = '' @ p_public_key p, ''AllowedIPs = '' @ p_ip p @ ''/32'']"

definition append_text :: "string \<Rightarrow> peer \<Rightarrow> string" where
  "append_text raw p =
     raw @ (if has_suffix raw [CHR 10] then [] else [CHR 10])
         @ [CHR 10] @ concat (map (\<lambda>l. l @ [CHR 10]) (peer_block p))"

definition append_peer :: "env \<Rightarrow> parsed_conf \<Rightarrow> string \<Rightarrow> peer \<Rightarrow> world \<Rightarrow> unit res \<times> world" where
  "append_peer e pc path p w = atomic_write e path (Bytes (append_text (pc_raw pc) p)) w"

text \<open>Where the removal of a block starts: above the header line, one \<open># peer:\<close> comment and
  then one blank line.\<close>

definition drop_from :: "string list \<Rightarrow> nat \<Rightarrow> nat" where
  "drop_from lines start =
     (let d = (if start > 0 \<and> has_prefix (go_trim_space (lines ! (start - 1))) ''# peer:''
               then start - 1 else start)
      in if d > 0 \<and> go_trim_space (lines ! (d - 1)) = [] then d - 1 else d)"

definition remove_text :: "parsed_conf \<Rightarrow> string \<Rightarrow> string option" where
  "remove_text pc pubkey =
     (let lines = split_on CHR 10 (pc_raw pc) in
      case find (\<lambda>x. e_public_key x = pubkey) (pc_peers pc) of
        None \<Rightarrow> None
      | Some t \<Rightarrow> Some (join [CHR 10] (take (drop_from lines (e_start t)) lines
                                         @ drop (Suc (e_end t)) lines)))"

definition remove_peer_by_pubkey ::
  "env \<Rightarrow> parsed_conf \<Rightarrow> string \<Rightarrow> string \<Rightarrow> world \<Rightarrow> bool \<times> unit res \<times> world" where
  "remove_peer_by_pubkey e pc path pubkey w =
     (case remove_text pc pubkey of
        None \<Rightarrow> (False, Inr (), w)
      | Some s \<Rightarrow> (True, atomic_write e path (Bytes s) w))"

definition dropped_line :: "string list \<Rightarrow> peer_entry list \<Rightarrow> nat \<Rightarrow> bool" where
  "dropped_line lines es k =
     list_ex (\<lambda>x. drop_from lines (e_start x) \<le> k \<and> k \<le> e_end x) es"

definition keep_lines :: "string list \<Rightarrow> peer_entry list \<Rightarrow> string list" where
  "keep_lines lines es =
     map snd (filter (\<lambda>(k, ln). \<not> dropped_line lines es k) (index_from 0 lines))"

definition remove_many_text :: "parsed_conf \<Rightarrow> string list \<Rightarrow> string" where
  "remove_many_text pc pubkeys =
     join [CHR 10] (keep_lines (split_on CHR 10 (pc_raw pc))
                      (filter (\<lambda>x. e_public_key x \<in> set pubkeys) (pc_peers pc)))"

definition remove_peers_by_pubkeys ::
  "env \<Rightarrow> parsed_conf \<Rightarrow> string \<Rightarrow> string list \<Rightarrow> world \<Rightarrow> unit res \<times> world" where
  "remove_peers_by_pubkeys e pc path pubkeys w =
     (if pubkeys = [] then (Inr (), w)
      else atomic_write e path (Bytes (remove_many_text pc pubkeys)) w)"

end
