(* ===== verification/WgConfSpec.thy ===== *)
theory WgConfSpec
  imports WgConf
begin

text \<open>
  What \<open>loadConf\<close> reads, stated on the block structure of the file: the lines before the
  first section header, then one block per header. A block yields its entry from its own
  lines alone, so a rewrite that removes whole blocks, together with lines no expression
  matches, removes exactly those entries. Used for both removal functions.
\<close>

subsection \<open>Lines no expression matches\<close>

definition is_header :: "string \<Rightarrow> bool" where
  "is_header ln \<longleftrightarrow> re_section ln \<noteq> None"

definition inert :: "string \<Rightarrow> bool" where
  "inert ln \<longleftrightarrow> re_section ln = None \<and> re_kv_any ln = None \<and>
     re_kv ''PublicKey'' ln = None \<and> re_kv ''AllowedIPs'' ln = None"

lemma trim_left_space_Cons: "re_space c \<Longrightarrow> trim_left_space (c # s) = trim_left_space s"
proof -
  assume "re_space c"
  then have "find (\<lambda>e. has_prefix (c # s) e) space_runes = Some [c]"
    unfolding re_space_def by (elim insertE emptyE; simp add: space_runes_def)
  then show ?thesis by (subst trim_left_space.simps) simp
qed

lemma trim_left_space_dropWhile: "trim_left_space (dropWhile re_space s) = trim_left_space s"
  by (induction s) (auto simp: trim_left_space_Cons)

lemma trim_left_space_cases:
  "trim_left_space s = s \<or> (\<exists>e \<in> set space_runes. has_prefix s e)"
  by (subst trim_left_space.simps) (auto split: option.splits simp: find_Some_iff)

lemma trim_left_space_no_rune: "e \<in> set space_runes \<Longrightarrow> \<not> has_prefix (trim_left_space s) e"
proof (induction s rule: trim_left_space.induct)
  case (1 s)
  show ?case
  proof (cases "find (\<lambda>e. has_prefix s e) space_runes")
    case None
    then have "trim_left_space s = s" by (subst trim_left_space.simps) simp
    with None 1 show ?thesis by (auto simp: find_None_iff)
  next
    case (Some x)
    with 1 show ?thesis by (subst trim_left_space.simps) simp
  qed
qed

lemma trim_right_space_prefix: "\<exists>r. s = trim_right_space s @ r"
proof (induction s rule: trim_right_space.induct)
  case (1 s)
  show ?case
  proof (cases "find (\<lambda>e. has_suffix s e) space_runes")
    case None
    then show ?thesis by (subst trim_right_space.simps) simp
  next
    case (Some x)
    with 1 obtain r where "take (length s - length x) s = trim_right_space (take (length s - length x) s) @ r"
      by blast
    with Some show ?thesis
      by (subst trim_right_space.simps) (simp, metis append.assoc append_take_drop_id)
  qed
qed

lemma trim_right_space_Nil: "trim_right_space s = [] \<Longrightarrow> s = [] \<or> (\<exists>e \<in> set space_runes. has_prefix s e)"
proof (induction s rule: trim_right_space.induct)
  case (1 s)
  show ?case
  proof (cases "find (\<lambda>e. has_suffix s e) space_runes")
    case None
    with "1.prems" show ?thesis by (subst (asm) trim_right_space.simps) simp
  next
    case (Some x)
    then have x: "x \<in> set space_runes" "has_suffix s x" by (auto simp: find_Some_iff)
    then obtain u where u: "s = u @ x" by (auto simp: has_suffix_iff)
    from Some "1.prems" have "trim_right_space u = []"
      by (subst (asm) trim_right_space.simps) (simp add: u)
    with "1.IH" [OF Some] have "u = [] \<or> (\<exists>e \<in> set space_runes. has_prefix u e)" by (simp add: u)
    then show ?thesis
    proof
      assume "u = []"
      with x u have "has_prefix s x" by simp
      with x show ?thesis by blast
    next
      assume "\<exists>e \<in> set space_runes. has_prefix u e"
      then obtain e r where "e \<in> set space_runes" "u = e @ r" by (auto simp: has_prefix_iff)
      then have "e \<in> set space_runes" "has_prefix s e" by (simp_all add: u)
      then show ?thesis by blast
    qed
  qed
qed

text \<open>A blank or comment line starts, after ASCII white space, with a hash, with a byte of a
  longer white-space rune, or not at all.\<close>

definition dull :: "char \<Rightarrow> bool" where
  "dull c \<longleftrightarrow> c \<in> {CHR ''#'', CHR 0x0B, CHR 0xC2, CHR 0xE1, CHR 0xE2, CHR 0xE3}"

lemma blank_or_comment_dull:
  assumes "go_trim_space s = [] \<or> has_prefix (go_trim_space s) ''#''"
  shows "dropWhile re_space s = [] \<or> dull (hd (dropWhile re_space s))"
proof -
  define r where "r = dropWhile re_space s"
  define t where "t = trim_left_space r"
  have g: "go_trim_space s = trim_right_space t"
    by (simp add: go_trim_space_def t_def r_def trim_left_space_dropWhile)
  have t: "t = [] \<or> has_prefix t ''#''"
  proof (cases "trim_right_space t = []")
    case True
    then show ?thesis using trim_right_space_Nil trim_left_space_no_rune t_def by blast
  next
    case False
    with assms g have "has_prefix (trim_right_space t) ''#''" by simp
    then show ?thesis using trim_right_space_prefix [of t]
      by (metis append.assoc has_prefix_iff)
  qed
  have h: "r \<noteq> [] \<Longrightarrow> \<not> re_space (hd r)" by (simp add: r_def hd_dropWhile)
  have "r = [] \<or> dull (hd r)"
  proof (cases "t = r")
    case True
    with t show ?thesis by (cases r) (auto simp: dull_def)
  next
    case False
    then obtain x where "x \<in> set space_runes" "has_prefix r x"
      using trim_left_space_cases [of r] t_def by blast
    with h show ?thesis
      by (cases r) (auto simp: space_runes_def dull_def re_space_def)
  qed
  then show ?thesis by (simp add: r_def)
qed

lemma dull_inert:
  assumes "dropWhile re_space s = [] \<or> dull (hd (dropWhile re_space s))"
  shows "inert s"
proof -
  let ?r = "dropWhile re_space s"
  have nd: "\<not> is_alpha c \<and> \<not> is_digit c \<and> c \<notin> {CHR ''['', CHR ''P'', CHR ''A''}" if "dull c" for c
    using that by (auto simp: dull_def is_alpha_def is_lower_def is_upper_def is_digit_def)
  have 1: "re_section s = None"
  proof (cases s)
    case (Cons c cs)
    show ?thesis
    proof (rule ccontr)
      assume "re_section s \<noteq> None"
      then have "c = CHR ''[''" using Cons by (auto simp: re_section_def Let_def split: if_splits)
      with Cons have "?r = s" by (simp add: re_space_def)
      with assms Cons \<open>c = CHR ''[''\<close> show False by (auto simp: dull_def)
    qed
  qed (simp add: re_section_def)
  have "re_kv ''PublicKey'' s = None" "re_kv ''AllowedIPs'' s = None" "re_kv_any s = None"
    using assms nd by (cases ?r; auto simp: re_kv_def re_kv_any_def Let_def)+
  with 1 show ?thesis by (simp add: inert_def)
qed

lemma blank_inert: "go_trim_space s = [] \<Longrightarrow> inert s"
  by (rule dull_inert, rule blank_or_comment_dull) simp

lemma comment_inert: "has_prefix (go_trim_space s) ''# peer:'' \<Longrightarrow> inert s"
  by (rule dull_inert, rule blank_or_comment_dull) (auto simp: has_prefix_iff)

subsection \<open>Blocks\<close>

definition block_ok :: "string list \<Rightarrow> bool" where
  "block_ok b \<longleftrightarrow> b \<noteq> [] \<and> is_header (hd b) \<and> (\<forall>l \<in> set (tl b). \<not> is_header l)"

fun segs :: "string list \<Rightarrow> string list \<times> string list list" where
  "segs [] = ([], [])"
| "segs (l # ls) =
     (case segs ls of (h, bs) \<Rightarrow> if is_header l then ([], (l # h) # bs) else (l # h, bs))"

lemma segs_wf: "segs ls = (h, bs) \<Longrightarrow>
   ls = h @ concat bs \<and> (\<forall>l \<in> set h. \<not> is_header l) \<and> (\<forall>b \<in> set bs. block_ok b)"
  by (induction ls arbitrary: h bs) (auto split: prod.splits if_splits simp: block_ok_def)

definition block_section :: "string list \<Rightarrow> string" where
  "block_section b = go_to_lower (the (re_section (hd b)))"

definition is_peer_block :: "string list \<Rightarrow> bool" where
  "is_peer_block b \<longleftrightarrow> block_section b = ''peer''"

definition new_entry :: "string list \<Rightarrow> nat \<Rightarrow> peer_entry" where
  "new_entry lines i =
     \<lparr>e_public_key = [], e_allowed_ips = [], e_start = i, e_end = 0, e_comment = comment_above lines i\<rparr>"

definition block_entry :: "string list \<Rightarrow> nat \<Rightarrow> string list \<Rightarrow> peer_entry" where
  "block_entry lines i b = (fold scan_keys (tl b) (new_entry lines i))\<lparr>e_end := i + length b - 1\<rparr>"

fun ents :: "string list \<Rightarrow> nat \<Rightarrow> string list list \<Rightarrow> peer_entry list" where
  "ents lines i [] = []"
| "ents lines i (b # bs) =
     (if is_peer_block b then [block_entry lines i b] else []) @ ents lines (i + length b) bs"

definition block_params :: "string list \<Rightarrow> (string \<times> string) list" where
  "block_params b = (if block_section b = ''interface'' then List.map_filter re_kv_any (tl b) else [])"

lemma scan_keys_fields [simp]:
  "e_start (scan_keys l c) = e_start c" "e_end (scan_keys l c) = e_end c"
  "e_comment (scan_keys l c) = e_comment c"
  by (auto simp: scan_keys_def Let_def split: option.splits)

lemma fold_scan_keys_fields [simp]:
  "e_start (fold scan_keys ls c) = e_start c" "e_end (fold scan_keys ls c) = e_end c"
  "e_comment (fold scan_keys ls c) = e_comment c"
  by (induction ls arbitrary: c) auto

definition kv :: "peer_entry \<Rightarrow> string \<times> string" where
  "kv c = (e_public_key c, e_allowed_ips c)"

lemma kv_end [simp]: "kv (c\<lparr>e_end := n\<rparr>) = kv c"
  by (simp add: kv_def)

lemma kv_scan_keys:
  "kv (scan_keys l c) =
     ((case re_kv ''PublicKey'' l of Some v \<Rightarrow> go_trim_space v | None \<Rightarrow> fst (kv c)),
      (case re_kv ''AllowedIPs'' l of Some v \<Rightarrow> go_trim_space v | None \<Rightarrow> snd (kv c)))"
  by (cases "re_kv ''PublicKey'' l"; cases "re_kv ''AllowedIPs'' l") (simp_all add: kv_def scan_keys_def)

lemma kv_scan_keys_cong: "kv c = kv c' \<Longrightarrow> kv (scan_keys l c) = kv (scan_keys l c')"
  by (metis kv_scan_keys)

lemma kv_fold_cong: "kv c = kv c' \<Longrightarrow> kv (fold scan_keys ls c) = kv (fold scan_keys ls c')"
proof (induction ls arbitrary: c c')
  case (Cons l ls)
  from Cons.IH [OF kv_scan_keys_cong [OF Cons.prems]] show ?case by simp
qed simp

definition block_kv :: "string list \<Rightarrow> string \<times> string" where
  "block_kv b = kv (fold scan_keys (tl b) (new_entry [] 0))"

lemma kv_block_entry: "kv (block_entry lines i b) = block_kv b"
  unfolding block_entry_def block_kv_def
  by (simp, rule kv_fold_cong) (simp add: new_entry_def kv_def)

lemma map_kv_ents: "map kv (ents lines i bs) = map block_kv (filter is_peer_block bs)"
  by (induction bs arbitrary: i) (auto simp: kv_block_entry)

subsection \<open>The scan follows the blocks\<close>

lemma scan_plain_lines:
  assumes "\<forall>l \<in> set h. \<not> is_header l"
  shows "fold (scan_line lines) (index_from i h) s =
     s\<lparr>sc_cur := (if sc_section s = ''peer'' then map_option (fold scan_keys h) (sc_cur s) else sc_cur s),
       sc_params := sc_params s @
         (if sc_section s = ''interface'' then List.map_filter re_kv_any h else [])\<rparr>"
  using assms
proof (induction h arbitrary: i s)
  case Nil
  then show ?case by (simp add: option.map_id0 map_filter_simps)
next
  case (Cons l h)
  from Cons.prems have n: "re_section l = None" by (simp add: is_header_def)
  have step: "scan_line lines (i, l) s =
     s\<lparr>sc_cur := (if sc_section s = ''peer'' then map_option (scan_keys l) (sc_cur s) else sc_cur s),
       sc_params := sc_params s @
         (if sc_section s = ''interface'' then List.map_filter re_kv_any [l] else [])\<rparr>"
  proof (cases "sc_section s = ''interface''")
    case True
    with n show ?thesis by (cases "re_kv_any l") (simp_all add: scan_line_def List.map_filter_def)
  next
    case False
    with n show ?thesis by (simp add: scan_line_def)
  qed
  have "fold (scan_line lines) (index_from i (l # h)) s
      = fold (scan_line lines) (index_from (Suc i) h) (scan_line lines (i, l) s)" by simp
  also have "\<dots> = (scan_line lines (i, l) s)
     \<lparr>sc_cur := (if sc_section s = ''peer''
                then map_option (fold scan_keys h) (map_option (scan_keys l) (sc_cur s)) else sc_cur s),
      sc_params := (sc_params s @
         (if sc_section s = ''interface'' then List.map_filter re_kv_any [l] else [])) @
         (if sc_section s = ''interface'' then List.map_filter re_kv_any h else [])\<rparr>"
    using Cons.prems by (subst Cons.IH) (simp_all add: step)
  finally show ?case
    by (simp add: step option.map_comp comp_def map_filter_simps split: option.split)
qed

lemma scan_block:
  assumes "block_ok b"
  shows "fold (scan_line lines) (index_from i b) s =
     (close_peer (i - 1) s)\<lparr>sc_section := block_section b,
        sc_cur := (if is_peer_block b then Some (fold scan_keys (tl b) (new_entry lines i))
                   else sc_cur (close_peer (i - 1) s)),
        sc_params := sc_params s @ block_params b\<rparr>"
proof -
  obtain l h where b: "b = l # h" "is_header l" "\<forall>x \<in> set h. \<not> is_header x"
    using assms by (cases b) (auto simp: block_ok_def)
  then obtain m where m: "re_section l = Some m" by (auto simp: is_header_def)
  have p: "sc_params (close_peer n s) = sc_params s" for n s
    by (auto simp: close_peer_def split: option.splits)
  show ?thesis
    using b m by (auto simp: scan_line_def scan_plain_lines Let_def block_section_def is_peer_block_def
        block_params_def new_entry_def p)
qed

lemma close_peer_cur [simp]: "sc_cur (close_peer n s) = None"
  by (auto simp: close_peer_def split: option.splits)

lemma close_peer_params [simp]: "sc_params (close_peer n s) = sc_params s"
  by (auto simp: close_peer_def split: option.splits)

lemma close_peer_add:
  "sc_cur s = Some c \<Longrightarrow> close_peer n s = s\<lparr>sc_peers := sc_peers s @ [c\<lparr>e_end := n\<rparr>], sc_cur := None\<rparr>"
  "sc_cur s = None \<Longrightarrow> close_peer n s = s"
  by (simp_all add: close_peer_def)

lemma scan_blocks:
  assumes "\<forall>b \<in> set bs. block_ok b"
  shows "sc_peers (close_peer (i + length (concat bs) - 1) (fold (scan_line lines) (index_from i (concat bs)) s))
           = sc_peers (close_peer (i - 1) s) @ ents lines i bs
       \<and> sc_params (fold (scan_line lines) (index_from i (concat bs)) s)
           = sc_params s @ concat (map block_params bs)"
  using assms
proof (induction bs arbitrary: i s)
  case (Cons b bs)
  let ?s1 = "fold (scan_line lines) (index_from i b) s"
  from Cons.prems have b: "block_ok b" by simp
  have c: "sc_peers (close_peer (i + length b - 1) ?s1)
      = sc_peers (close_peer (i - 1) s) @ (if is_peer_block b then [block_entry lines i b] else [])"
    unfolding scan_block [OF b]
    by (simp add: close_peer_add block_entry_def)
  have p: "sc_params ?s1 = sc_params s @ block_params b" by (simp add: scan_block [OF b])
  from Cons.IH [of "i + length b" ?s1] Cons.prems c p show ?case by (simp add: add.assoc)
qed simp

lemma scan_lines_blocks:
  assumes "\<forall>l \<in> set h. \<not> is_header l" "\<forall>b \<in> set bs. block_ok b"
  shows "sc_peers (scan_lines (h @ concat bs)) = ents (h @ concat bs) (length h) bs"
    and "sc_params (scan_lines (h @ concat bs)) = concat (map block_params bs)"
proof -
  let ?L = "h @ concat bs"
  have s: "fold (scan_line ?L) (index_from 0 h) scan0 = scan0"
    using assms(1) by (simp add: scan_plain_lines scan0_def)
  show "sc_peers (scan_lines ?L) = ents ?L (length h) bs"
    using scan_blocks [OF assms(2), of "length h" ?L scan0] s
    by (simp add: scan_lines_def) (simp add: close_peer_def scan0_def)
  show "sc_params (scan_lines ?L) = concat (map block_params bs)"
    using scan_blocks [OF assms(2), of "length h" ?L scan0] s
    by (simp add: scan_lines_def) (simp add: scan0_def)
qed

end
