(* ===== verification/WgConfEdit.thy ===== *)
theory WgConfEdit
  imports WgConfSpec
begin

text \<open>
  The rewrites of \<open>gw0.conf\<close> against the parser. Removing a set of entries leaves exactly
  the other entries, in order, and the \<open>[Interface]\<close> parameters; appending a peer adds
  exactly its entry. What a rewrite does not keep is the comment above the next header,
  which the parser counts to the block before it.
\<close>

subsection \<open>Removing whole blocks\<close>

lemma mem_index_from: "(k, ln) \<in> set (index_from i xs) \<longleftrightarrow> (\<exists>j < length xs. k = i + j \<and> xs ! j = ln)"
proof (induction xs arbitrary: i)
  case (Cons x xs)
  then show ?case by (auto simp: less_Suc_eq_0_disj)
qed simp

lemma inert_above: "drop_from lines st \<le> k \<Longrightarrow> k < st \<Longrightarrow> inert (lines ! k)"
proof -
  assume a: "drop_from lines st \<le> k" "k < st"
  define c where "c = (st > 0 \<and> has_prefix (go_trim_space (lines ! (st - 1))) ''# peer:'')"
  define d where "d = (if c then st - 1 else st)"
  have df: "drop_from lines st = (if d > 0 \<and> go_trim_space (lines ! (d - 1)) = [] then d - 1 else d)"
    by (simp add: drop_from_def d_def c_def Let_def)
  show ?thesis
  proof (cases "d \<le> k")
    case True
    with a have c and "k = st - 1" by (auto simp: d_def split: if_splits)
    then show ?thesis by (auto simp: c_def intro: comment_inert)
  next
    case False
    with a df have "k = d - 1" "go_trim_space (lines ! (d - 1)) = []" by (auto split: if_splits)
    then show ?thesis by (simp add: blank_inert)
  qed
qed

lemma drop_from_le: "drop_from lines st \<le> st"
  by (auto simp: drop_from_def Let_def)

lemma ents_append: "ents lines i (xs @ ys) = ents lines i xs @ ents lines (i + length (concat xs)) ys"
  by (induction xs arbitrary: i) (auto simp: add.assoc)

lemma block_entry_range [simp]:
  "e_start (block_entry lines i b) = i" "e_end (block_entry lines i b) = i + length b - 1"
  by (simp_all add: block_entry_def new_entry_def)

lemma ents_range:
  "\<forall>b \<in> set bs. block_ok b \<Longrightarrow> x \<in> set (ents lines i bs) \<Longrightarrow>
   i \<le> e_start x \<and> e_start x \<le> e_end x \<and> e_end x < i + length (concat bs)"
proof (induction bs arbitrary: i)
  case (Cons b bs)
  then have p: "length b > 0" by (auto simp: block_ok_def)
  show ?case
  proof (cases "x \<in> set (ents lines (i + length b) bs)")
    case True
    with Cons.IH [of "i + length b"] Cons.prems show ?thesis by auto
  next
    case False
    with Cons.prems have "x = block_entry lines i b" by (auto split: if_splits)
    with p show ?thesis by (cases b) auto
  qed
qed simp

text \<open>The only entry whose block covers a line of a block is that block's own.\<close>

lemma covering_entry:
  assumes wf: "\<forall>b \<in> set (pre @ b # post). block_ok b"
    and x: "x \<in> set (ents lines i (pre @ b # post))"
    and k: "i + length (concat pre) \<le> k" "k < i + length (concat pre) + length b"
    and c: "e_start x \<le> k" "k \<le> e_end x"
  shows "is_peer_block b \<and> x = block_entry lines (i + length (concat pre)) b"
proof -
  let ?o = "i + length (concat pre)"
  have "x \<in> set (ents lines i pre) \<or> (is_peer_block b \<and> x = block_entry lines ?o b)
      \<or> x \<in> set (ents lines (?o + length b) post)"
    using x by (auto simp: ents_append split: if_splits)
  moreover have "x \<notin> set (ents lines i pre)"
    using ents_range [of pre x lines i] wf k c by auto
  moreover have "x \<notin> set (ents lines (?o + length b) post)"
    using ents_range [of post x lines "?o + length b"] wf k c by auto
  ultimately show ?thesis by blast
qed

definition kept :: "string list \<Rightarrow> peer_entry list \<Rightarrow> nat \<Rightarrow> string list \<Rightarrow> string list" where
  "kept lines es i xs = map snd (filter (\<lambda>(k, ln). \<not> dropped_line lines es k) (index_from i xs))"

lemma kept_simps [simp]:
  "kept lines es i [] = []"
  "kept lines es i (x # xs) =
     (if dropped_line lines es i then [] else [x]) @ kept lines es (Suc i) xs"
  by (simp_all add: kept_def)

lemma kept_append: "kept lines es i (xs @ ys) = kept lines es i xs @ kept lines es (i + length xs) ys"
  by (simp add: kept_def)

lemma keep_lines_kept: "keep_lines lines es = kept lines es 0 lines"
  by (simp add: keep_lines_def kept_def)

lemma kept_inert:
  assumes "\<forall>j < length xs. dropped_line lines es (i + j) \<longrightarrow> inert (xs ! j)"
  shows "fold scan_keys (kept lines es i xs) c = fold scan_keys xs c"
    and "List.map_filter re_kv_any (kept lines es i xs) = List.map_filter re_kv_any xs"
    and "set (kept lines es i xs) \<subseteq> set xs"
proof -
  have "fold scan_keys (kept lines es i xs) c = fold scan_keys xs c \<and>
        List.map_filter re_kv_any (kept lines es i xs) = List.map_filter re_kv_any xs \<and>
        set (kept lines es i xs) \<subseteq> set xs"
    using assms
  proof (induction xs arbitrary: i c)
    case (Cons x xs)
    have tl: "\<forall>j < length xs. dropped_line lines es (Suc i + j) \<longrightarrow> inert (xs ! j)"
      using Cons.prems by (metis Suc_less_eq add_Suc_shift length_Cons nth_Cons_Suc)
    have hd: "dropped_line lines es i \<longrightarrow> inert x" using Cons.prems by force
    have "inert x \<Longrightarrow> scan_keys x c = c \<and> re_kv_any x = None"
      by (simp add: inert_def scan_keys_def)
    with Cons.IH [OF tl] hd show ?case by (cases "re_kv_any x") (auto simp: map_filter_simps)
  qed simp
  then show "fold scan_keys (kept lines es i xs) c = fold scan_keys xs c"
    and "List.map_filter re_kv_any (kept lines es i xs) = List.map_filter re_kv_any xs"
    and "set (kept lines es i xs) \<subseteq> set xs" by auto
qed

lemma kept_all_dropped:
  "\<forall>j < length xs. dropped_line lines es (i + j) \<Longrightarrow> kept lines es i xs = []"
proof (induction xs arbitrary: i)
  case (Cons x xs)
  have "\<forall>j < length xs. dropped_line lines es (Suc i + j)"
    using Cons.prems by (metis Suc_less_eq add_Suc_shift length_Cons)
  with Cons show ?case by force
qed simp

lemma header_not_inert: "is_header l \<Longrightarrow> \<not> inert l"
  by (simp add: is_header_def inert_def)

lemma kept_block:
  assumes b: "block_ok b"
    and i: "\<forall>j < length b. dropped_line lines es (i + j) \<longrightarrow> inert (b ! j)"
  shows "block_ok (kept lines es i b)" "block_section (kept lines es i b) = block_section b"
    "block_kv (kept lines es i b) = block_kv b" "block_params (kept lines es i b) = block_params b"
proof -
  obtain l t where bt: "b = l # t" "is_header l" using b by (cases b) (auto simp: block_ok_def)
  have nl: "\<not> dropped_line lines es i" using i bt header_not_inert by force
  have it: "\<forall>j < length t. dropped_line lines es (Suc i + j) \<longrightarrow> inert (t ! j)"
    using i bt by (metis Suc_less_eq add_Suc_shift length_Cons nth_Cons_Suc)
  show "block_ok (kept lines es i b)" "block_section (kept lines es i b) = block_section b"
    using b kept_inert(3) [OF it] by (auto simp: nl bt(1) block_ok_def block_section_def)
  then show "block_kv (kept lines es i b) = block_kv b"
    "block_params (kept lines es i b) = block_params b"
    using kept_inert(1,2) [OF it] by (auto simp: nl bt(1) block_kv_def block_params_def)
qed

lemma kept_blocks:
  assumes L: "lines = h @ concat (pre @ bs)" and wf: "\<forall>b \<in> set (pre @ bs). block_ok b"
    and es: "es = filter sel (ents lines (length h) (pre @ bs))"
  shows "\<exists>bs'. kept lines es (length h + length (concat pre)) (concat bs) = concat bs' \<and>
      (\<forall>b \<in> set bs'. block_ok b) \<and>
      map block_kv (filter is_peer_block bs')
        = map kv (filter (\<lambda>x. \<not> sel x) (ents lines (length h + length (concat pre)) bs)) \<and>
      concat (map block_params bs') = concat (map block_params bs)"
  using assms
proof (induction bs arbitrary: pre)
  case Nil
  show ?case by (rule exI [of _ "[]"]) simp
next
  case (Cons b bs)
  let ?o = "length h + length (concat pre)"
  have "\<exists>bs'. kept lines es (length h + length (concat (pre @ [b]))) (concat bs) = concat bs' \<and>
      (\<forall>b \<in> set bs'. block_ok b) \<and>
      map block_kv (filter is_peer_block bs')
        = map kv (filter (\<lambda>x. \<not> sel x) (ents lines (length h + length (concat (pre @ [b]))) bs)) \<and>
      concat (map block_params bs') = concat (map block_params bs)"
    using Cons.prems by (intro Cons.IH) simp_all
  then obtain bs' where bs': "kept lines es (?o + length b) (concat bs) = concat bs'"
      "\<forall>b \<in> set bs'. block_ok b"
      "map block_kv (filter is_peer_block bs')
        = map kv (filter (\<lambda>x. \<not> sel x) (ents lines (?o + length b) bs))"
      "concat (map block_params bs') = concat (map block_params bs)"
    by (auto simp: add.assoc)
  have b: "block_ok b" using Cons.prems(2) by simp
  have at: "lines ! (?o + j) = b ! j" if "j < length b" for j
    using that by (simp add: Cons.prems(1) nth_append)
  show ?case
  proof (cases "is_peer_block b \<and> sel (block_entry lines ?o b)")
    case True
    then have "block_entry lines ?o b \<in> set es" by (simp add: Cons.prems(3) ents_append)
    moreover have "drop_from lines ?o \<le> ?o" by (rule drop_from_le)
    ultimately have "kept lines es ?o b = []"
      by (intro kept_all_dropped) (auto simp: dropped_line_def list_ex_iff intro!: bexI)
    moreover have "block_params b = []"
      using True by (simp add: is_peer_block_def block_params_def)
    ultimately show ?thesis
      using bs' True by (intro exI [of _ bs']) (simp add: kept_append)
  next
    case False
    have "inert (b ! j)" if j: "j < length b" and d: "dropped_line lines es (?o + j)" for j
    proof -
      obtain x where x: "x \<in> set es" "drop_from lines (e_start x) \<le> ?o + j" "?o + j \<le> e_end x"
        using d by (auto simp: dropped_line_def list_ex_iff)
      have "\<not> e_start x \<le> ?o + j"
      proof
        assume "e_start x \<le> ?o + j"
        then have "is_peer_block b \<and> x = block_entry lines ?o b"
          using covering_entry [of pre b bs x lines "length h" "?o + j"] Cons.prems x j by auto
        with x(1) False show False by (simp add: Cons.prems(3))
      qed
      with x(2) show ?thesis using inert_above at [OF j] by (metis not_le_imp_less)
    qed
    then have kb: "block_ok (kept lines es ?o b)" "block_section (kept lines es ?o b) = block_section b"
      "block_kv (kept lines es ?o b) = block_kv b" "block_params (kept lines es ?o b) = block_params b"
      using kept_block [OF b, of lines es ?o] by blast+
    have pb: "is_peer_block (kept lines es ?o b) = is_peer_block b"
      by (simp add: is_peer_block_def kb(2))
    show ?thesis
      using bs' kb False
      by (intro exI [of _ "kept lines es ?o b # bs'"])
         (auto simp: kept_append pb kv_block_entry)
  qed
qed

lemma kept_before: "\<forall>j < length xs. \<not> is_header (xs ! j) \<Longrightarrow> l \<in> set (kept lines es i xs) \<Longrightarrow> \<not> is_header l"
  by (auto simp: kept_def mem_index_from)

text \<open>The lines that remain parse to the entries that were not selected.\<close>

lemma scan_keep_lines:
  assumes "es = filter sel (sc_peers (scan_lines lines))"
  shows "map kv (sc_peers (scan_lines (keep_lines lines es)))
           = map kv (filter (\<lambda>x. \<not> sel x) (sc_peers (scan_lines lines)))"
    and "sc_params (scan_lines (keep_lines lines es)) = sc_params (scan_lines lines)"
proof -
  obtain h bs where s: "segs lines = (h, bs)" by fastforce
  from segs_wf [OF s] have L: "lines = h @ concat bs" and hh: "\<forall>l \<in> set h. \<not> is_header l"
    and wf: "\<forall>b \<in> set bs. block_ok b" by blast+
  have sc: "sc_peers (scan_lines lines) = ents lines (length h) bs"
    "sc_params (scan_lines lines) = concat (map block_params bs)"
    using scan_lines_blocks [OF hh wf] L by simp_all
  obtain bs' where k: "kept lines es (length h) (concat bs) = concat bs'" and wf': "\<forall>b \<in> set bs'. block_ok b"
    and e: "map block_kv (filter is_peer_block bs') = map kv (filter (\<lambda>x. \<not> sel x) (ents lines (length h) bs))"
    and p: "concat (map block_params bs') = concat (map block_params bs)"
    using kept_blocks [of lines h "[]" bs es sel] L wf assms sc by auto
  have kl: "keep_lines lines es = kept lines es 0 h @ concat bs'"
  proof -
    have "kept lines es 0 lines = kept lines es 0 (h @ concat bs)"
      by (rule arg_cong [OF L])
    with k show ?thesis by (simp add: keep_lines_kept kept_append)
  qed
  have hh': "\<forall>l \<in> set (kept lines es 0 h). \<not> is_header l"
    using hh by (auto simp: kept_def mem_index_from)
  show "map kv (sc_peers (scan_lines (keep_lines lines es)))
           = map kv (filter (\<lambda>x. \<not> sel x) (sc_peers (scan_lines lines)))"
    and "sc_params (scan_lines (keep_lines lines es)) = sc_params (scan_lines lines)"
    unfolding kl using scan_lines_blocks [OF hh' wf'] e p sc by (simp_all add: map_kv_ents)
qed

end
