(* ===== verification/WgConfReload.thy ===== *)
theory WgConfReload
  imports WgConfEdit
begin

text \<open>
  Reading \<open>gw0.conf\<close> back after each rewrite, on the text of the file, and the allocator.
\<close>

subsection \<open>Text and lines\<close>

lemma split_lines_no_newline: "l \<in> set (split_on CHR 10 s) \<Longrightarrow> CHR 10 \<notin> set l"
  by (rule split_on_no_sep)

lemma set_keep_lines: "set (keep_lines lines es) \<subseteq> set lines"
  by (auto simp: keep_lines_def mem_index_from)

lemma scan_empty: "sc_peers (scan_lines []) = []" "sc_params (scan_lines []) = []"
  "sc_peers (scan_lines [[]]) = []" "sc_params (scan_lines [[]]) = []"
  by (simp_all add: scan_lines_def scan0_def close_peer_def scan_line_def re_section_def)

lemma parse_join:
  assumes "\<forall>l \<in> set ls. CHR 10 \<notin> set l"
  shows "pc_peers (parse_conf (join [CHR 10] ls)) = sc_peers (scan_lines ls)"
    "pc_params (parse_conf (join [CHR 10] ls)) = sc_params (scan_lines ls)"
proof -
  have "split_on CHR 10 (join [CHR 10] ls) = (if ls = [] then [[]] else ls)"
    using assms by (auto simp: split_on_join)
  then show "pc_peers (parse_conf (join [CHR 10] ls)) = sc_peers (scan_lines ls)"
    "pc_params (parse_conf (join [CHR 10] ls)) = sc_params (scan_lines ls)"
    by (auto simp: parse_conf_def Let_def scan_empty)
qed

lemma parse_keep:
  assumes "es = filter sel (pc_peers (parse_conf raw))"
  defines "out \<equiv> join [CHR 10] (keep_lines (split_on CHR 10 raw) es)"
  shows "map kv (pc_peers (parse_conf out)) = map kv (filter (\<lambda>x. \<not> sel x) (pc_peers (parse_conf raw)))"
    "pc_params (parse_conf out) = pc_params (parse_conf raw)"
proof -
  have n: "\<forall>l \<in> set (keep_lines (split_on CHR 10 raw) es). CHR 10 \<notin> set l"
    using set_keep_lines split_lines_no_newline by blast
  have e: "es = filter sel (sc_peers (scan_lines (split_on CHR 10 raw)))"
    using assms(1) by (simp add: parse_conf_def Let_def)
  show "map kv (pc_peers (parse_conf out)) = map kv (filter (\<lambda>x. \<not> sel x) (pc_peers (parse_conf raw)))"
    "pc_params (parse_conf out) = pc_params (parse_conf raw)"
    using scan_keep_lines [OF e] unfolding out_def parse_join [OF n]
    by (simp_all add: parse_conf_def Let_def)
qed

lemma pc_raw_parse [simp]: "pc_raw (parse_conf raw) = raw"
  by (simp add: parse_conf_def Let_def)

lemma filter_index_gap:
  assumes "d \<le> Suc n" "n < length xs"
  shows "map snd (filter (\<lambda>(k, x). \<not> (d \<le> i + k - i \<and> d + i \<le> k \<and> k \<le> n + i)) (index_from i xs))
           = take d xs @ drop (Suc n) xs"
proof -
  let ?P = "\<lambda>(k, x). \<not> (d \<le> i + k - i \<and> d + i \<le> k \<and> k \<le> n + i)"
  have x: "xs = take d xs @ take (Suc n - d) (drop d xs) @ drop (Suc n) xs"
    using assms by (metis append_take_drop_id drop_drop le_add_diff_inverse2)
  have a: "filter ?P (index_from i (take d xs)) = index_from i (take d xs)"
    by (auto simp: filter_id_conv mem_index_from)
  have b: "filter ?P (index_from (i + d) (take (Suc n - d) (drop d xs))) = []"
    using assms by (auto simp: filter_empty_conv mem_index_from)
  have c: "filter ?P (index_from (i + Suc n) (drop (Suc n) xs)) = index_from (i + Suc n) (drop (Suc n) xs)"
    by (auto simp: filter_id_conv mem_index_from)
  have "index_from i xs = index_from i (take d xs) @ index_from (i + d) (take (Suc n - d) (drop d xs))
      @ index_from (i + Suc n) (drop (Suc n) xs)"
    using assms by (subst x) (simp only: index_from_append, simp)
  then show ?thesis using a b c by simp
qed

lemma keep_lines_gap:
  assumes "set es = {t}" "e_start t \<le> e_end t" "e_end t < length lines"
  shows "keep_lines lines es = take (drop_from lines (e_start t)) lines @ drop (Suc (e_end t)) lines"
proof -
  have "dropped_line lines es k \<longleftrightarrow> drop_from lines (e_start t) \<le> k \<and> k \<le> e_end t" for k
    using assms(1) by (simp add: dropped_line_def list_ex_iff)
  moreover have "drop_from lines (e_start t) \<le> Suc (e_end t)"
    using drop_from_le [of lines "e_start t"] assms(2) by simp
  ultimately show ?thesis
    using filter_index_gap [of "drop_from lines (e_start t)" "e_end t" lines 0] assms(3)
    by (simp add: keep_lines_def)
qed

lemma distinct_ents:
  "\<forall>b \<in> set bs. block_ok b \<Longrightarrow> distinct (ents lines i bs)"
proof (induction bs arbitrary: i)
  case (Cons b bs)
  have "block_entry lines i b \<notin> set (ents lines (i + length b) bs)"
    using ents_range [of bs "block_entry lines i b" lines "i + length b"] Cons.prems
    by (cases b) (auto simp: block_ok_def)
  with Cons show ?case by simp
qed simp

lemma pc_peers_wf:
  "distinct (pc_peers (parse_conf raw))"
  "x \<in> set (pc_peers (parse_conf raw)) \<Longrightarrow> e_start x \<le> e_end x \<and> e_end x < length (split_on CHR 10 raw)"
proof -
  obtain h bs where s: "segs (split_on CHR 10 raw) = (h, bs)" by fastforce
  from segs_wf [OF s] have L: "split_on CHR 10 raw = h @ concat bs"
    and hh: "\<forall>l \<in> set h. \<not> is_header l" and wf: "\<forall>b \<in> set bs. block_ok b" by blast+
  have p: "pc_peers (parse_conf raw) = ents (h @ concat bs) (length h) bs"
    using scan_lines_blocks(1) [OF hh wf] L by (simp add: parse_conf_def Let_def)
  show "distinct (pc_peers (parse_conf raw))" using distinct_ents [OF wf] p by simp
  show "e_start x \<le> e_end x \<and> e_end x < length (split_on CHR 10 raw)"
    if "x \<in> set (pc_peers (parse_conf raw))"
    using ents_range [OF wf, of x "h @ concat bs" "length h"] that L p by simp
qed

lemma remove_text_Some:
  assumes "remove_text (parse_conf raw) key = Some out"
  obtains xs t ys where "pc_peers (parse_conf raw) = xs @ t # ys" "e_public_key t = key"
    "\<forall>x \<in> set xs. e_public_key x \<noteq> key"
    "out = join [CHR 10] (keep_lines (split_on CHR 10 raw) (filter (\<lambda>x. x = t) (pc_peers (parse_conf raw))))"
proof -
  let ?L = "split_on CHR 10 raw"
  obtain t where f: "find (\<lambda>x. e_public_key x = key) (pc_peers (parse_conf raw)) = Some t"
    and out: "out = join [CHR 10] (take (drop_from ?L (e_start t)) ?L @ drop (Suc (e_end t)) ?L)"
    using assms by (auto simp: remove_text_def Let_def split: option.splits)
  from f obtain i where i: "i < length (pc_peers (parse_conf raw))" "pc_peers (parse_conf raw) ! i = t"
      "e_public_key t = key" "\<forall>j < i. e_public_key (pc_peers (parse_conf raw) ! j) \<noteq> key"
    by (auto simp: find_Some_iff)
  have sp: "pc_peers (parse_conf raw) = take i (pc_peers (parse_conf raw)) @ t # drop (Suc i) (pc_peers (parse_conf raw))"
    using i by (metis id_take_nth_drop)
  have tin: "t \<in> set (pc_peers (parse_conf raw))" using i by auto
  have "set (filter (\<lambda>x. x = t) (pc_peers (parse_conf raw))) = {t}" using tin by auto
  then have "keep_lines ?L (filter (\<lambda>x. x = t) (pc_peers (parse_conf raw)))
      = take (drop_from ?L (e_start t)) ?L @ drop (Suc (e_end t)) ?L"
    using pc_peers_wf(2) [OF tin] by (intro keep_lines_gap) auto
  moreover have "\<forall>x \<in> set (take i (pc_peers (parse_conf raw))). e_public_key x \<noteq> key"
    using i by (auto simp: in_set_conv_nth)
  ultimately show ?thesis using that [OF sp i(3)] out by simp
qed

text \<open>C6. Removing many peers in one rewrite leaves exactly the peers whose public key is not
  in the set, with their keys and allowed addresses, in file order, and all \<open>[Interface]\<close>
  parameters: for every file, whatever its layout and comments.\<close>

theorem remove_many_reload:
  "map kv (pc_peers (parse_conf (remove_many_text (parse_conf raw) keys)))
     = map kv (filter (\<lambda>x. e_public_key x \<notin> set keys) (pc_peers (parse_conf raw)))
   \<and> pc_params (parse_conf (remove_many_text (parse_conf raw) keys)) = pc_params (parse_conf raw)"
  using parse_keep [OF refl, where sel = "\<lambda>x. e_public_key x \<in> set keys" and raw = raw]
  by (simp add: remove_many_text_def)

text \<open>Removing one peer by public key removes the first block with that key and nothing
  else the parser reads; it reports "not found" exactly when no block has the key.\<close>

theorem remove_one_reload:
  "case remove_text (parse_conf raw) key of
     None \<Rightarrow> key \<notin> e_public_key ` set (pc_peers (parse_conf raw))
   | Some out \<Rightarrow> \<exists>xs t ys. pc_peers (parse_conf raw) = xs @ t # ys \<and> e_public_key t = key
       \<and> key \<notin> e_public_key ` set xs
       \<and> map kv (pc_peers (parse_conf out)) = map kv (xs @ ys)
       \<and> pc_params (parse_conf out) = pc_params (parse_conf raw)"
proof (cases "remove_text (parse_conf raw) key")
  case None
  then show ?thesis by (auto simp: remove_text_def Let_def find_None_iff split: option.splits)
next
  case (Some out)
  then obtain xs t ys where r: "pc_peers (parse_conf raw) = xs @ t # ys" "e_public_key t = key"
    "\<forall>x \<in> set xs. e_public_key x \<noteq> key"
    "out = join [CHR 10] (keep_lines (split_on CHR 10 raw) (filter (\<lambda>x. x = t) (pc_peers (parse_conf raw))))"
    by (rule remove_text_Some)
  have "t \<notin> set xs" "t \<notin> set ys" using pc_peers_wf(1) [of raw] r(1) by auto
  then have "filter (\<lambda>x. \<not> x = t) xs = xs" "filter (\<lambda>x. \<not> x = t) ys = ys"
    by (auto intro!: filter_True)
  then have "filter (\<lambda>x. \<not> x = t) (xs @ t # ys) = xs @ ys" by simp
  then have "map kv (pc_peers (parse_conf out)) = map kv (xs @ ys)"
    "pc_params (parse_conf out) = pc_params (parse_conf raw)"
    using parse_keep [OF refl, where sel = "\<lambda>x. x = t" and raw = raw] r(1,4) by simp_all
  with r(1,2,3) Some show ?thesis
    by (simp only: option.case, intro exI [of _ xs] exI [of _ t] exI [of _ ys]) auto
qed

end
