(* ===== verification/WgConfAppend.thy ===== *)
theory WgConfAppend
  imports WgConfReload
begin

text \<open>
  Appending a peer to \<open>gw0.conf\<close> and reading the file back, the comment line as the
  record of a peer's name, and the address allocator.
\<close>

subsection \<open>Solid text: printable ASCII without white space\<close>

definition solid :: "char \<Rightarrow> bool" where
  "solid c \<longleftrightarrow> 33 \<le> (of_char c :: nat) \<and> (of_char c :: nat) \<le> 126"

definition solid_text :: "string \<Rightarrow> bool" where
  "solid_text s \<longleftrightarrow> s \<noteq> [] \<and> list_all solid s"

lemma solid_not_space [simp]: "solid c \<Longrightarrow> \<not> re_space c"
  by (auto simp: solid_def re_space_def)

lemma solid_not_newline [simp]: "solid c \<Longrightarrow> c \<noteq> CHR 10"
  by (auto simp: solid_def)

lemma solid_no_newline: "list_all solid s \<Longrightarrow> CHR 10 \<notin> set s"
  by (metis list_all_iff solid_not_newline)

lemma space_rune_ends: "e \<in> set space_runes \<Longrightarrow> \<not> solid (hd e) \<and> \<not> solid (last e)"
proof -
  have "list_all (\<lambda>e. \<not> solid (hd e) \<and> \<not> solid (last e)) space_runes"
    by (simp add: space_runes_def solid_def)
  then show "e \<in> set space_runes \<Longrightarrow> ?thesis" by (simp add: list_all_iff)
qed

lemma trim_left_solid: "solid c \<Longrightarrow> trim_left_space (c # s) = c # s"
proof -
  assume c: "solid c"
  have "\<not> has_prefix (c # s) e" if "e \<in> set space_runes" for e
    using space_rune_ends [OF that] space_runes_nonempty [OF that] c by (cases e) auto
  then have "find (\<lambda>e. has_prefix (c # s) e) space_runes = None" by (simp add: find_None_iff)
  then show ?thesis by (subst trim_left_space.simps) simp
qed

lemma trim_right_solid: "solid c \<Longrightarrow> trim_right_space (s @ [c]) = s @ [c]"
proof -
  assume c: "solid c"
  have "\<not> has_suffix (s @ [c]) e" if "e \<in> set space_runes" for e
  proof
    assume "has_suffix (s @ [c]) e"
    then obtain r where "s @ [c] = r @ e" by (auto simp: has_suffix_iff)
    moreover have "e \<noteq> []" using that by (rule space_runes_nonempty)
    ultimately have "last e = c" by (metis last_appendR last_snoc)
    with space_rune_ends [OF that] c show False by simp
  qed
  then have "find (\<lambda>e. has_suffix (s @ [c]) e) space_runes = None" by (simp add: find_None_iff)
  then show ?thesis by (subst trim_right_space.simps) simp
qed

lemma trim_solid_ends: "s \<noteq> [] \<Longrightarrow> solid (hd s) \<Longrightarrow> solid (last s) \<Longrightarrow> go_trim_space s = s"
proof -
  assume s: "s \<noteq> []" "solid (hd s)" "solid (last s)"
  then have "trim_left_space s = s" using trim_left_solid [of "hd s" "tl s"] by simp
  moreover have "trim_right_space s = s"
    using s trim_right_solid [of "last s" "butlast s"] by simp
  ultimately show ?thesis by (simp add: go_trim_space_def)
qed

lemma trim_solid_text: "solid_text s \<Longrightarrow> go_trim_space s = s"
  by (rule trim_solid_ends) (auto simp: solid_text_def list_all_iff)

lemma space_is_space: "re_space CHR '' ''" "\<not> re_space CHR ''=''"
  by (simp_all add: re_space_def)

lemma kv_value_solid: "solid_text s \<Longrightarrow> kv_value (CHR '' '' # s) = Some s"
proof -
  assume s: "solid_text s"
  then have 1: "dropWhile re_space (CHR '' '' # s) = s"
    by (cases s) (auto simp: solid_text_def space_is_space)
  have 2: "dropWhile re_space (rev s) = rev s"
    using s by (cases s rule: rev_cases) (auto simp: solid_text_def)
  from s have "s \<noteq> []" by (simp add: solid_text_def)
  with 1 2 show ?thesis by (simp add: kv_value_def)
qed

lemma re_kv_line:
  assumes "solid_text v" "key \<noteq> []" "list_all solid key"
  shows "re_kv key (key @ '' = '' @ v) = Some v"
proof -
  have "dropWhile re_space (key @ '' = '' @ v) = key @ '' = '' @ v"
    using assms by (cases key) auto
  then show ?thesis
    using kv_value_solid [OF assms(1)] by (simp add: re_kv_def after_equals_def space_is_space)
qed

lemma re_kv_other:
  assumes "list_all solid key" "key \<noteq> []" "\<not> has_prefix (key @ '' = '' @ v) other"
  shows "re_kv other (key @ '' = '' @ v) = None"
proof -
  have "dropWhile re_space (key @ '' = '' @ v) = key @ '' = '' @ v"
    using assms by (cases key) auto
  with assms(3) show ?thesis by (simp add: re_kv_def)
qed

lemma show_nat_solid: "list_all solid (show_nat n)"
  using show_nat_digits [of n] by (auto simp: list_all_iff is_digit_def solid_def)

lemma show_int_solid: "list_all solid (show_int i)"
  using show_nat_solid by (auto simp: show_int_def solid_def)

lemma pad_solid: "list_all solid (pad k n)"
  using show_int_solid by (auto simp: pad_def Let_def list_all_iff solid_def)

lemma fmt_rfc3339_solid: "list_all solid (fmt_rfc3339 t)"
  using pad_solid
  by (auto simp: fmt_rfc3339_def fmt_date_def fmt_hms_def fmt_hm_def Let_def solid_def split: prod.split)

lemma sanitize_no_newline: "CHR 10 \<notin> set (sanitize s)"
  by (auto simp: sanitize_def Let_def dest: in_set_takeD)

subsection \<open>The appended block\<close>

definition comment_line :: "peer \<Rightarrow> string" where
  "comment_line p = hd (peer_block p)"

lemma comment_line_eq:
  "comment_line p = ''# peer: '' @ sanitize (p_name p) @ '' (added '' @ fmt_rfc3339 (p_added_at p)
        @ '' by '' @ sanitize (p_added_by p) @ '')''"
  by (simp add: comment_line_def peer_block_def)

lemma trim_comment_line: "go_trim_space (comment_line p) = comment_line p"
  by (rule trim_solid_ends) (simp_all add: comment_line_eq solid_def)

lemma comment_line_hash: "has_prefix (comment_line p) ''#''"
  by (simp add: comment_line_eq)

lemma comment_line_inert: "inert (comment_line p)"
  by (rule comment_inert, subst trim_comment_line) (simp add: comment_line_eq)

lemma comment_line_no_newline: "CHR 10 \<notin> set (comment_line p)"
  using sanitize_no_newline solid_no_newline [OF fmt_rfc3339_solid, of "p_added_at p"]
  by (auto simp: comment_line_eq)

definition body_lines :: "peer \<Rightarrow> string list" where
  "body_lines p = [''PublicKey = '' @ p_public_key p, ''AllowedIPs = '' @ p_ip p @ ''/32'', []]"

lemma append_text_lines:
  assumes "solid_text (p_public_key p)" "solid_text (p_ip p)"
  shows "\<exists>pad. set pad \<subseteq> {[]} \<and>
     split_on CHR 10 (append_text raw p)
       = split_on CHR 10 raw @ pad @ comment_line p # ''[Peer]'' # body_lines p"
proof -
  define base where "base = raw @ (if has_suffix raw [CHR 10] then [] else [CHR 10])"
  have t: "concat (map (\<lambda>l. l @ [CHR 10]) (peer_block p))
      = comment_line p @ CHR 10 # ''[Peer]'' @ CHR 10 # (''PublicKey = '' @ p_public_key p) @ CHR 10
        # (''AllowedIPs = '' @ p_ip p @ ''/32'') @ [CHR 10]"
    by (simp add: comment_line_def peer_block_def)
  have n: "CHR 10 \<notin> set (''PublicKey = '' @ p_public_key p)"
    "CHR 10 \<notin> set (''AllowedIPs = '' @ p_ip p @ ''/32'')" "CHR 10 \<notin> set ''[Peer]''"
    using assms solid_no_newline by (auto simp: solid_text_def)
  have s: "split_on CHR 10 (concat (map (\<lambda>l. l @ [CHR 10]) (peer_block p)))
      = comment_line p # ''[Peer]'' # body_lines p"
    unfolding t body_lines_def
    by (simp only: split_on_append_sep [OF comment_line_no_newline] split_on_append_sep [OF n(3)]
        split_on_append_sep [OF n(1)] split_on_append_sep [OF n(2)] split_on.simps)
  have "split_on CHR 10 (append_text raw p)
      = split_on CHR 10 base @ comment_line p # ''[Peer]'' # body_lines p"
    unfolding append_text_def base_def
    using split_on_append_newline [of "CHR 10" base] s by (simp add: base_def)
  moreover have "\<exists>pad. set pad \<subseteq> {[]} \<and> split_on CHR 10 base = split_on CHR 10 raw @ pad"
  proof (cases "has_suffix raw [CHR 10]")
    case True
    then show ?thesis by (intro exI [of _ "[]"]) (simp add: base_def)
  next
    case False
    then show ?thesis
      using split_on_append_newline [of "CHR 10" raw "[]"] by (intro exI [of _ "[[]]"]) (simp add: base_def)
  qed
  ultimately show ?thesis by force
qed

lemma scan_append_inert:
  assumes hh: "\<forall>l \<in> set h. \<not> is_header l" and wf: "\<forall>b \<in> set bs. block_ok b"
    and ex: "\<forall>l \<in> set ex. inert l"
  obtains h' bs' where "h' @ concat bs' = h @ concat bs @ ex"
    "\<forall>l \<in> set h'. \<not> is_header l" "\<forall>b \<in> set bs'. block_ok b"
    "map block_kv (filter is_peer_block bs') = map block_kv (filter is_peer_block bs)"
    "concat (map block_params bs') = concat (map block_params bs)"
proof -
  have nh: "\<forall>l \<in> set ex. \<not> is_header l" using ex header_not_inert by blast
  show ?thesis
  proof (cases bs rule: rev_cases)
    case Nil
    show ?thesis by (rule that [of "h @ ex" "[]"]) (use Nil hh nh in auto)
  next
    case (snoc cs b)
    then obtain l t where b: "b = l # t" using wf by (cases b) (auto simp: block_ok_def)
    have f: "fold scan_keys ex c = c" for c
      using ex by (induction ex arbitrary: c) (auto simp: inert_def scan_keys_def)
    have m: "List.map_filter re_kv_any (t @ ex) = List.map_filter re_kv_any t"
    proof -
      have "List.map_filter re_kv_any ex = []"
        using ex by (induction ex) (auto simp: inert_def map_filter_simps)
      then show ?thesis by (simp add: List.map_filter_def)
    qed
    have "block_section (b @ ex) = block_section b" by (simp add: b block_section_def)
    then have "is_peer_block (b @ ex) = is_peer_block b" "block_kv (b @ ex) = block_kv b"
      "block_params (b @ ex) = block_params b" "block_ok (b @ ex)"
      using f m wf nh snoc b by (auto simp: is_peer_block_def block_kv_def block_params_def block_ok_def)
    with snoc hh wf show ?thesis by (intro that [of h "cs @ [b @ ex]"]) auto
  qed
qed

lemma go_to_lower_Peer: "go_to_lower ''Peer'' = ''peer''"
  by code_simp

lemma peer_header: "is_header ''[Peer]''" "block_section (''[Peer]'' # ls) = ''peer''"
proof -
  have "re_section ''[Peer]'' = Some ''Peer''" by code_simp
  then show "is_header ''[Peer]''" "block_section (''[Peer]'' # ls) = ''peer''"
    by (simp_all add: is_header_def block_section_def go_to_lower_Peer del: go_to_lower.simps)
qed

lemma body_not_header: "l \<in> set (body_lines p) \<Longrightarrow> \<not> is_header l"
  by (auto simp: body_lines_def is_header_def re_section_def)

lemma body_kv:
  assumes "solid_text (p_public_key p)" "solid_text (p_ip p)"
  shows "kv (fold scan_keys (body_lines p) c) = (p_public_key p, p_ip p @ ''/32'')"
proof -
  have ip: "solid_text (p_ip p @ ''/32'')" using assms(2) by (simp add: solid_text_def solid_def)
  have k: "list_all solid ''PublicKey''" "list_all solid ''AllowedIPs''" by (simp_all add: solid_def)
  have pk: "re_kv ''PublicKey'' (''PublicKey = '' @ p_public_key p) = Some (p_public_key p)"
    "re_kv ''AllowedIPs'' (''PublicKey = '' @ p_public_key p) = None"
    using re_kv_line [OF assms(1) _ k(1)] re_kv_other [OF k(1), of "p_public_key p" "''AllowedIPs''"]
    by simp_all
  have ai: "re_kv ''AllowedIPs'' (''AllowedIPs = '' @ p_ip p @ ''/32'') = Some (p_ip p @ ''/32'')"
    "re_kv ''PublicKey'' (''AllowedIPs = '' @ p_ip p @ ''/32'') = None"
    using re_kv_line [OF ip _ k(2)] re_kv_other [OF k(2), of "p_ip p @ ''/32''" "''PublicKey''"]
    by simp_all
  have e: "re_kv ''PublicKey'' [] = None" "re_kv ''AllowedIPs'' [] = None" by (simp_all add: re_kv_def)
  show ?thesis
    using trim_solid_text [OF assms(1)] trim_solid_text [OF ip]
    by (simp only: body_lines_def fold.simps comp_def id_apply kv_scan_keys pk ai e option.case fst_conv snd_conv)
qed

lemma append_parsed_text:
  assumes "solid_text (p_public_key p)" and "solid_text (p_ip p)"
  shows "let pc = parse_conf raw; pc' = parse_conf (append_text raw p) in
     map kv (pc_peers pc') = map kv (pc_peers pc) @ [(p_public_key p, p_ip p @ ''/32'')]
     \<and> pc_params pc' = pc_params pc
     \<and> e_comment (last (pc_peers pc')) = comment_line p"
proof -
  obtain pd where pd: "set pd \<subseteq> {[]}" "split_on CHR 10 (append_text raw p)
       = split_on CHR 10 raw @ pd @ comment_line p # ''[Peer]'' # body_lines p"
    using append_text_lines [OF assms] by blast
  obtain h bs where s: "segs (split_on CHR 10 raw) = (h, bs)" by fastforce
  from segs_wf [OF s] have L: "split_on CHR 10 raw = h @ concat bs"
    and hh: "\<forall>l \<in> set h. \<not> is_header l" and wf: "\<forall>b \<in> set bs. block_ok b" by blast+
  have "inert []" by (rule blank_inert) (simp add: go_trim_space_def trim_left_space.simps
        trim_right_space.simps space_runes_def has_suffix_def)
  then have ex: "\<forall>l \<in> set (pd @ [comment_line p]). inert l"
    using pd(1) comment_line_inert by auto
  obtain h' bs' where hb: "h' @ concat bs' = h @ concat bs @ pd @ [comment_line p]"
    "\<forall>l \<in> set h'. \<not> is_header l" "\<forall>b \<in> set bs'. block_ok b"
    "map block_kv (filter is_peer_block bs') = map block_kv (filter is_peer_block bs)"
    "concat (map block_params bs') = concat (map block_params bs)"
    using scan_append_inert [OF hh wf ex] by blast
  let ?b = "''[Peer]'' # body_lines p"
  let ?L' = "h' @ concat (bs' @ [?b])"
  have bok: "block_ok ?b" using body_not_header peer_header by (auto simp: block_ok_def)
  have L': "split_on CHR 10 (append_text raw p) = ?L'" using pd(2) L hb(1) by simp
  have wf': "\<forall>b \<in> set (bs' @ [?b]). block_ok b" using hb(3) bok by simp
  have ipb: "is_peer_block ?b" by (simp add: is_peer_block_def peer_header)
  have bkv: "block_kv ?b = (p_public_key p, p_ip p @ ''/32'')"
    using body_kv [OF assms] by (simp add: block_kv_def)
  have bp: "block_params ?b = []" by (simp add: block_params_def peer_header)
  note new = scan_lines_blocks [OF hb(2) wf'] and old = scan_lines_blocks [OF hh wf]
  have P: "map kv (sc_peers (scan_lines ?L'))
      = map kv (sc_peers (scan_lines (h @ concat bs))) @ [(p_public_key p, p_ip p @ ''/32'')]"
    unfolding new old by (simp add: map_kv_ents hb(4) ipb bkv)
  have Q: "sc_params (scan_lines ?L') = sc_params (scan_lines (h @ concat bs))"
    unfolding new old by (simp add: hb(5) bp)
  have lst: "last (sc_peers (scan_lines ?L')) = block_entry ?L' (length h' + length (concat bs')) ?b"
    unfolding new by (simp add: ents_append ipb)
  have "?L' = (h @ concat bs @ pd) @ comment_line p # ?b" using hb(1) by simp
  moreover have "length h' + length (concat bs') = Suc (length (h @ concat bs @ pd))"
    using arg_cong [OF hb(1), of length] by simp
  ultimately have "comment_above ?L' (length h' + length (concat bs')) = comment_line p"
    using comment_line_hash by (simp only: comment_above_def) (simp add: nth_append trim_comment_line)
  then have C: "e_comment (last (sc_peers (scan_lines ?L'))) = comment_line p"
    unfolding lst by (simp add: block_entry_def new_entry_def)
  show ?thesis using P Q C by (simp add: parse_conf_def Let_def L L')
qed

text \<open>C5. Appending a peer keeps every block already in \<open>gw0.conf\<close>, adds one block at the end
  with the peer's public key and its address as a /32, keeps the \<open>[Interface]\<close> parameters,
  and puts the peer's comment line directly above the new block.\<close>

theorem append_reload:
  assumes "solid_text (p_public_key p)" and "solid_text (p_ip p)"
  shows "let pc = parse_conf raw; pc' = parse_conf (append_text raw p) in
     map kv (pc_peers pc') = map kv (pc_peers pc) @ [(p_public_key p, p_ip p @ ''/32'')]
     \<and> pc_params pc' = pc_params pc
     \<and> e_comment (last (pc_peers pc')) = comment_line p"
  by (rule append_parsed_text [OF assms])

subsection \<open>The allocator\<close>

lemma first_free_Some:
  "first_free used i = Some n \<Longrightarrow> i \<le> n \<and> n \<le> 254 \<and> n \<notin> set used \<and> (\<forall>j. i \<le> j \<and> j < n \<longrightarrow> j \<in> set used)"
proof (induction used i rule: first_free.induct)
  case (1 used i)
  show ?case
  proof (cases "i \<le> 254 \<and> i \<in> set used")
    case True
    with "1.prems" have "first_free used (i + 1) = Some n" by (simp add: first_free.simps [of used i])
    with 1 True have "i + 1 \<le> n \<and> n \<le> 254 \<and> n \<notin> set used \<and> (\<forall>j. i + 1 \<le> j \<and> j < n \<longrightarrow> j \<in> set used)"
      by blast
    with True show ?thesis by (metis add1_zle_eq order_le_less zle_add1_eq_le linorder_not_le)
  next
    case False
    with "1.prems" show ?thesis by (auto simp: first_free.simps [of used i] split: if_splits)
  qed
qed

lemma first_free_None:
  "first_free used i = None \<longleftrightarrow> (\<forall>j. i \<le> j \<and> j \<le> 254 \<longrightarrow> j \<in> set used)"
proof (induction used i rule: first_free.induct)
  case (1 used i)
  show ?case
  proof (cases "i \<le> 254 \<and> i \<in> set used")
    case True
    with 1 have "first_free used (i + 1) = None \<longleftrightarrow> (\<forall>j. i + 1 \<le> j \<and> j \<le> 254 \<longrightarrow> j \<in> set used)" by blast
    with True show ?thesis
      by (simp add: first_free.simps [of used i]) (metis add1_zle_eq order_le_less)
  next
    case False
    then show ?thesis by (auto simp: first_free.simps [of used i])
  qed
qed

text \<open>The allocator returns the least octet from the start value to 254 that no peer's
  \<open>AllowedIPs\<close> uses in the subnet, and fails exactly when every octet of that range is used.\<close>

lemma pick_free_octet_least:
  "case pick_free_octet pc prefix start of
     Inr n \<Rightarrow> start \<le> n \<and> n \<le> 254 \<and> n \<notin> set (used_octets pc prefix)
       \<and> {start..<n} \<subseteq> set (used_octets pc prefix)
   | Inl e \<Rightarrow> {start..254} \<subseteq> set (used_octets pc prefix)"
proof (cases "first_free (used_octets pc prefix) start")
  case None
  moreover from None have "\<forall>j. start \<le> j \<and> j \<le> 254 \<longrightarrow> j \<in> set (used_octets pc prefix)"
    by (simp only: first_free_None)
  ultimately show ?thesis by (auto simp: pick_free_octet_def)
next
  case (Some n)
  with first_free_Some [OF Some] show ?thesis by (auto simp: pick_free_octet_def)
qed

end
