(* ===== verification/MetaStore.thy ===== *)
theory MetaStore
  imports WgConfAppend "HOL-Library.AList"
begin

text \<open>
  The sidecar of \<open>peers.go\<close>: \<open>metaStore\<close> (a JSON file with one record per public key),
  \<open>parsePeerComment\<close> (the fallback for peers without a record) and \<open>listPeersWithMeta\<close>
  (the merged view every page shows). The Go map is an association list with distinct keys;
  \<open>None\<close> is the nil map that decoding a JSON \<open>null\<close> leaves behind.
\<close>

subsection \<open>Encoding and decoding a record\<close>

definition json_time :: "gotime \<Rightarrow> json res" where
  "json_time t =
     (if 0 \<le> time_year t \<and> time_year t \<le> 9999 then Inr (JStr (fmt_nano t))
      else Inl (Failure ''Time.MarshalJSON: year outside of range [0,9999]''))"

definition peer_json :: "peer \<Rightarrow> json res" where
  "peer_json p =
     (case json_time (p_added_at p) of
        Inl err \<Rightarrow> Inl err
      | Inr t \<Rightarrow> Inr (JObj ([(''name'', JStr (p_name p))]
          @ (if p_device_tag p = [] then [] else [(''device_tag'', JStr (p_device_tag p))])
          @ [(''public_key'', JStr (p_public_key p)), (''ip'', JStr (p_ip p)),
             (''added_by'', JStr (p_added_by p)), (''added_at'', t)])))"

text \<open>\<open>Time.UnmarshalJSON\<close> is stricter than \<open>time.Parse\<close>: two-digit hour, no comma before the
  fraction, an offset below 24 hours and 60 minutes.\<close>

definition strict_time :: "string \<Rightarrow> bool" where
  "strict_time s \<longleftrightarrow>
     \<not> (length s > 12 \<and> s ! 12 = CHR '':'') \<and> CHR '','' \<notin> set s \<and>
     (has_suffix s ''Z'' \<or>
      (digits_val (take 2 (drop (length s - 5) s)) < 24 \<and> digits_val (drop (length s - 2) s) < 60))"

definition decode_string :: "json \<Rightarrow> string \<Rightarrow> string option" where
  "decode_string j old = (case j of JStr s \<Rightarrow> Some s | JNull \<Rightarrow> Some old | _ \<Rightarrow> None)"

definition decode_time :: "json \<Rightarrow> gotime \<Rightarrow> gotime option" where
  "decode_time j old =
     (case j of
        JStr s \<Rightarrow> (if strict_time s then parse_rfc3339 s else None)
      | JNull \<Rightarrow> Some old
      | _ \<Rightarrow> None)"

definition decode_field :: "string \<times> json \<Rightarrow> peer \<Rightarrow> peer option" where
  "decode_field fld p =
     (let k = go_to_lower (fst fld); j = snd fld in
      if k = ''name'' then map_option (\<lambda>s. p\<lparr>p_name := s\<rparr>) (decode_string j (p_name p))
      else if k = ''device_tag'' then map_option (\<lambda>s. p\<lparr>p_device_tag := s\<rparr>) (decode_string j (p_device_tag p))
      else if k = ''public_key'' then map_option (\<lambda>s. p\<lparr>p_public_key := s\<rparr>) (decode_string j (p_public_key p))
      else if k = ''ip'' then map_option (\<lambda>s. p\<lparr>p_ip := s\<rparr>) (decode_string j (p_ip p))
      else if k = ''added_by'' then map_option (\<lambda>s. p\<lparr>p_added_by := s\<rparr>) (decode_string j (p_added_by p))
      else if k = ''added_at'' then map_option (\<lambda>t. p\<lparr>p_added_at := t\<rparr>) (decode_time j (p_added_at p))
      else Some p)"

fun decode_fields :: "(string \<times> json) list \<Rightarrow> peer \<Rightarrow> peer option" where
  "decode_fields [] p = Some p"
| "decode_fields (fld # kvs) p =
     (case decode_field fld p of None \<Rightarrow> None | Some p' \<Rightarrow> decode_fields kvs p')"

definition decode_peer :: "json \<Rightarrow> peer option" where
  "decode_peer j =
     (case j of JObj kvs \<Rightarrow> decode_fields kvs zero_peer | JNull \<Rightarrow> Some zero_peer | _ \<Rightarrow> None)"

fun decode_entries :: "(string \<times> json) list \<Rightarrow> (string \<times> peer) list \<Rightarrow> (string \<times> peer) list option" where
  "decode_entries [] d = Some d"
| "decode_entries ((k, j) # kvs) d =
     (case decode_peer j of None \<Rightarrow> None | Some p \<Rightarrow> decode_entries kvs (AList.update k p d))"

definition decode_meta :: "json \<Rightarrow> (string \<times> peer) list option option" where
  "decode_meta j =
     (case j of
        JObj kvs \<Rightarrow> map_option Some (decode_entries kvs [])
      | JNull \<Rightarrow> Some None
      | _ \<Rightarrow> None)"

fun encode_entries :: "(string \<times> peer) list \<Rightarrow> (string \<times> json) list res" where
  "encode_entries [] = Inr []"
| "encode_entries ((k, p) # d) =
     (case peer_json p of
        Inl err \<Rightarrow> Inl err
      | Inr j \<Rightarrow> (case encode_entries d of Inl err \<Rightarrow> Inl err | Inr kvs \<Rightarrow> Inr ((k, j) # kvs)))"

text \<open>Byte-wise string order, the order of Go's \<open><\<close> and of the keys of an encoded map.\<close>

fun str_less :: "string \<Rightarrow> string \<Rightarrow> bool" where
  "str_less [] [] = False"
| "str_less [] (y # ys) = True"
| "str_less (x # xs) [] = False"
| "str_less (x # xs) (y # ys) =
     ((of_char x :: nat) < of_char y \<or> (x = y \<and> str_less xs ys))"

subsection \<open>The store\<close>

record meta_store =
  ms_path :: string
  ms_data :: "(string \<times> peer) list option"

definition content_json :: "env \<Rightarrow> content \<Rightarrow> json option" where
  "content_json e c = (case c of Json j \<Rightarrow> Some j | _ \<Rightarrow> json_decode e (content_text e c))"

definition new_meta_store :: "env \<Rightarrow> string \<Rightarrow> world \<Rightarrow> meta_store res" where
  "new_meta_store e path w =
     (let empty = \<lparr>ms_path = path, ms_data = Some []\<rparr> in
      case read_file e path w of
        Inl err \<Rightarrow> (if is_not_exist err then Inr empty else Inl err)
      | Inr c \<Rightarrow>
          (if c = Bytes [] then Inr empty
           else (case content_json e c of
                   None \<Rightarrow> Inl (Failure (''parse '' @ path @ '': invalid JSON''))
                 | Some j \<Rightarrow>
                     (case decode_meta j of
                        None \<Rightarrow> Inl (Failure (''parse '' @ path @ '': json: cannot unmarshal''))
                      | Some d \<Rightarrow> Inr \<lparr>ms_path = path, ms_data = d\<rparr>))))"

definition ms_get :: "meta_store \<Rightarrow> string \<Rightarrow> peer option" where
  "ms_get m pubkey = (case ms_data m of None \<Rightarrow> None | Some d \<Rightarrow> map_of d pubkey)"

definition ms_flush :: "env \<Rightarrow> meta_store \<Rightarrow> world \<Rightarrow> unit res \<times> world" where
  "ms_flush e m w =
     (case ms_data m of
        None \<Rightarrow> atomic_write e (ms_path m) (Json JNull) w
      | Some d \<Rightarrow>
          (case encode_entries (sort_by (\<lambda>x y. str_less (fst x) (fst y)) d) of
             Inl err \<Rightarrow> (Inl err, w)
           | Inr kvs \<Rightarrow> atomic_write e (ms_path m) (Json (JObj kvs)) w))"

definition ms_set :: "string \<Rightarrow> peer \<Rightarrow> meta_store \<Rightarrow> meta_store" where
  "ms_set k p m = m\<lparr>ms_data := map_option (AList.update k p) (ms_data m)\<rparr>"

definition ms_unset :: "string \<Rightarrow> meta_store \<Rightarrow> meta_store" where
  "ms_unset k m = m\<lparr>ms_data := map_option (AList.delete k) (ms_data m)\<rparr>"

text \<open>Storing into the nil map panics; the handler's request ends there.\<close>

definition ms_put :: "env \<Rightarrow> meta_store \<Rightarrow> peer \<Rightarrow> world \<Rightarrow> unit res \<times> meta_store \<times> world" where
  "ms_put e m p w =
     (if ms_data m = None then (Inl (Failure ''assignment to entry in nil map''), m, w)
      else (let m1 = ms_set (p_public_key p) p m; (r, w1) = ms_flush e m1 w in (r, m1, w1)))"

definition ms_delete :: "env \<Rightarrow> meta_store \<Rightarrow> string \<Rightarrow> world \<Rightarrow> unit res \<times> meta_store \<times> world" where
  "ms_delete e m pubkey w =
     (let m1 = ms_unset pubkey m; (r, w1) = ms_flush e m1 w in (r, m1, w1))"

subsection \<open>The comment above a block\<close>

text \<open>Greedy repetition: the longest length at which the continuation matches.\<close>

fun try_lens :: "nat \<Rightarrow> (nat \<Rightarrow> 'a option) \<Rightarrow> 'a option" where
  "try_lens 0 f = None"
| "try_lens (Suc n) f = (case f (Suc n) of Some x \<Rightarrow> Some x | None \<Rightarrow> try_lens n f)"

definition word_at :: "string \<Rightarrow> nat" where
  "word_at s = length (takeWhile (\<lambda>c. \<not> re_space c) s)"

text \<open>The closing bracket and white space to the end.\<close>

definition re_close :: "string \<Rightarrow> bool" where
  "re_close s = (case s of [] \<Rightarrow> False | c # r \<Rightarrow> c = CHR '')'' \<and> list_all re_space r)"

text \<open>\<open>\s+by\s+(\S+)\)\s*$\<close>.\<close>

definition re_by :: "string \<Rightarrow> string option" where
  "re_by s =
     (let s1 = dropWhile re_space s; s2 = drop 2 s1; s3 = dropWhile re_space s2 in
      if s1 \<noteq> s \<and> has_prefix s1 ''by'' \<and> s3 \<noteq> s2
      then try_lens (word_at s3) (\<lambda>n. if re_close (drop n s3) then Some (take n s3) else None)
      else None)"

text \<open>The bracketed group: timestamp and actor.\<close>

definition re_added :: "string \<Rightarrow> (string \<times> string) option" where
  "re_added s =
     (let s1 = drop 6 s; s2 = dropWhile re_space s1 in
      if has_prefix s ''(added'' \<and> s2 \<noteq> s1
      then try_lens (word_at s2) (\<lambda>n.
             case re_by (drop n s2) of
               Some by \<Rightarrow> Some (take n s2, by)
             | None \<Rightarrow> if re_close (drop n s2) then Some (take n s2, []) else None)
      else None)"

definition re_peer_comment :: "string \<Rightarrow> (string \<times> string \<times> string) option" where
  "re_peer_comment s =
     (if has_prefix s ''# peer:'' then
        (let s1 = dropWhile re_space (drop 7 s) in
         try_lens (word_at s1) (\<lambda>n.
           let t = dropWhile re_space (drop n s1) in
           case re_added t of
             Some (ts, by) \<Rightarrow> Some (take n s1, ts, by)
           | None \<Rightarrow> if t = [] then Some (take n s1, [], []) else None))
      else None)"

definition parse_peer_comment :: "string \<Rightarrow> string \<times> string \<times> gotime" where
  "parse_peer_comment s =
     (case re_peer_comment s of
        None \<Rightarrow> ([], [], zero_time)
      | Some (name, ts, by) \<Rightarrow>
          (name, by, (if ts = [] then zero_time
                      else (case parse_rfc3339 ts of Some t \<Rightarrow> t | None \<Rightarrow> zero_time))))"

subsection \<open>The merged view\<close>

definition entry_ip :: "peer_entry \<Rightarrow> string" where
  "entry_ip x = hd (split2 CHR ''/'' (go_trim_space (e_allowed_ips x)))"

definition merge_entry :: "meta_store \<Rightarrow> peer_entry \<Rightarrow> peer" where
  "merge_entry m x =
     (case ms_get m (e_public_key x) of
        Some p \<Rightarrow> p\<lparr>p_ip := entry_ip x, p_public_key := e_public_key x\<rparr>
      | None \<Rightarrow>
          (case parse_peer_comment (e_comment x) of
             (name, by, at) \<Rightarrow>
               zero_peer\<lparr>p_name := (if name = [] then ''(unmanaged)'' else name),
                 p_public_key := e_public_key x, p_ip := entry_ip x,
                 p_added_by := by, p_added_at := at\<rparr>))"

text \<open>\<open>sort.Slice\<close> on the address text; the order of equal addresses is the stable one.\<close>

definition list_peers_with_meta :: "parsed_conf \<Rightarrow> meta_store \<Rightarrow> peer list" where
  "list_peers_with_meta pc m =
     sort_by (\<lambda>p q. str_less (p_ip p) (p_ip q)) (map (merge_entry m) (pc_peers pc))"

end
