(* ===== verification/Base64.thy ===== *)
theory Base64
  imports GoStrings
begin

text \<open>
  \<open>encoding/base64\<close> as the program uses it: the standard and the URL alphabet, with and
  without padding, and the decoder without padding, which skips line breaks and ignores the
  unused low bits of the last group. Decoding what was encoded gives the bytes back.
\<close>

definition b64_std :: "nat \<Rightarrow> char" where
  "b64_std n = char_of (if n < 26 then 65 + n else if n < 52 then 71 + n
      else if n < 62 then n - 4 else if n = 62 then 43 else 47)"

definition b64_url :: "nat \<Rightarrow> char" where
  "b64_url n = char_of (if n < 26 then 65 + n else if n < 52 then 71 + n
      else if n < 62 then n - 4 else if n = 62 then 45 else 95)"

definition b64_index :: "char \<Rightarrow> nat option" where
  "b64_index c =
     (let n = (of_char c :: nat) in
      if 65 \<le> n \<and> n \<le> 90 then Some (n - 65) else if 97 \<le> n \<and> n \<le> 122 then Some (n - 71)
      else if 48 \<le> n \<and> n \<le> 57 then Some (n + 4) else if n = 43 then Some 62
      else if n = 47 then Some 63 else None)"

fun b64_groups :: "(nat \<Rightarrow> char) \<Rightarrow> nat list \<Rightarrow> string" where
  "b64_groups f [] = []"
| "b64_groups f [a] = [f (a div 4), f (a mod 4 * 16)]"
| "b64_groups f [a, b] = [f (a div 4), f (a mod 4 * 16 + b div 16), f (b mod 16 * 4)]"
| "b64_groups f (a # b # c # r) =
     [f (a div 4), f (a mod 4 * 16 + b div 16), f (b mod 16 * 4 + c div 64), f (c mod 64)]
     @ b64_groups f r"

definition bytes_of :: "string \<Rightarrow> nat list" where
  "bytes_of s = map of_char s"

definition b64_raw :: "string \<Rightarrow> string" where
  "b64_raw s = b64_groups b64_std (bytes_of s)"

definition b64_raw_url :: "string \<Rightarrow> string" where
  "b64_raw_url s = b64_groups b64_url (bytes_of s)"

definition b64_padded :: "string \<Rightarrow> string" where
  "b64_padded s = b64_raw s @ replicate ((3 - length s mod 3) mod 3) CHR ''=''"

fun b64_ungroup :: "nat list \<Rightarrow> nat list option" where
  "b64_ungroup [] = Some []"
| "b64_ungroup [x] = None"
| "b64_ungroup [x, y] = Some [x * 4 + y div 16]"
| "b64_ungroup [x, y, z] = Some [x * 4 + y div 16, y mod 16 * 16 + z div 4]"
| "b64_ungroup (x # y # z # t # r) =
     map_option (\<lambda>bs. [x * 4 + y div 16, y mod 16 * 16 + z div 4, z mod 4 * 64 + t] @ bs) (b64_ungroup r)"

definition b64_raw_decode :: "string \<Rightarrow> string option" where
  "b64_raw_decode s =
     (let ixs = map b64_index (filter (\<lambda>c. c \<noteq> CHR 10 \<and> c \<noteq> CHR 13) s)
      in if None \<in> set ixs then None
         else map_option (map char_of) (b64_ungroup (map the ixs)))"

lemma b64_index_std: "n < 64 \<Longrightarrow> b64_index (b64_std n) = Some n"
  by (auto simp: b64_index_def b64_std_def Let_def of_char_of)

lemma b64_std_not_break: "n < 64 \<Longrightarrow> b64_std n \<noteq> CHR 10 \<and> b64_std n \<noteq> CHR 13"
proof -
  assume "n < 64"
  then have "b64_index (b64_std n) \<noteq> None" by (simp add: b64_index_std)
  moreover have "b64_index CHR 10 = None" "b64_index CHR 13 = None" by (simp_all add: b64_index_def)
  ultimately show ?thesis by metis
qed

definition sextets :: "nat list \<Rightarrow> nat list" where
  "sextets bs = map (the \<circ> b64_index) (b64_groups b64_std bs)"

lemma pack:
  "r < m \<Longrightarrow> (k * m + r) div m = k" "r < m \<Longrightarrow> (k * m + r) mod m = r" for r m k :: nat
  by simp_all

lemma split_bytes:
  assumes "a < 256" "b < 256" "c < (256 :: nat)"
  shows "(a mod 4 * 16 + b div 16) div 16 = a mod 4"
    "(a mod 4 * 16 + b div 16) mod 16 = b div 16"
    "(b mod 16 * 4 + c div 64) div 4 = b mod 16"
    "(b mod 16 * 4 + c div 64) mod 4 = c div 64"
    "b div 16 * 16 + b mod 16 = b" "c div 64 * 64 + c mod 64 = c" "a div 4 * 4 + a mod 4 = (a::nat)"
  using pack [of "b div 16" 16 "a mod 4"] pack [of "c div 64" 4 "b mod 16"] assms
  by (simp_all add: less_mult_imp_div_less)

lemma sextet_bounds:
  assumes "a < 256" "b < 256" "c < (256 :: nat)"
  shows "a div 4 < 64" "a mod 4 * 16 < 64" "a mod 4 * 16 + b div 16 < 64" "b mod 16 * 4 < 64"
    "b mod 16 * 4 + c div 64 < 64" "c mod 64 < 64"
proof -
  have "a mod 4 \<le> 3" "b div 16 \<le> 15" "b mod 16 \<le> 15" "c div 64 \<le> 3" using assms by auto
  then show "a div 4 < 64" "a mod 4 * 16 < 64" "a mod 4 * 16 + b div 16 < 64" "b mod 16 * 4 < 64"
    "b mod 16 * 4 + c div 64 < 64" "c mod 64 < 64" using assms by linarith+
qed

lemma groups_sextets:
  "\<forall>b \<in> set bs. b < 256 \<Longrightarrow>
   b64_groups b64_std bs = map b64_std (sextets bs) \<and> (\<forall>n \<in> set (sextets bs). n < 64)
   \<and> b64_ungroup (sextets bs) = Some bs"
proof (induction b64_std bs rule: b64_groups.induct)
  case (2 a)
  then have "a < 256" by simp
  with sextet_bounds [OF this this this] split_bytes [OF this this this] show ?case
    by (simp add: sextets_def b64_index_std)
next
  case (3 a b)
  then have "a < 256" "b < 256" by simp_all
  with sextet_bounds [OF this(1,2,2)] split_bytes [OF this(1,2,2)] show ?case
    by (simp add: sextets_def b64_index_std)
next
  case (4 a b c r)
  then have "a < 256" "b < 256" "c < 256" by simp_all
  note b = sextet_bounds [OF this] and e = split_bytes [OF this]
  define n1 n2 n3 n4 where "n1 = a div 4" and "n2 = a mod 4 * 16 + b div 16"
    and "n3 = b mod 16 * 4 + c div 64" and "n4 = c mod 64"
  have n: "n1 < 64" "n2 < 64" "n3 < 64" "n4 < 64" using b by (simp_all add: n1_def n2_def n3_def n4_def)
  have u: "n1 * 4 + n2 div 16 = a" "n2 mod 16 * 16 + n3 div 4 = b" "n3 mod 4 * 64 + n4 = c"
    using e by (simp_all only: n1_def n2_def n3_def n4_def)
  have g: "b64_groups b64_std (a # b # c # r) = map b64_std [n1, n2, n3, n4] @ b64_groups b64_std r"
    by (simp add: n1_def n2_def n3_def n4_def)
  have s: "sextets (a # b # c # r) = [n1, n2, n3, n4] @ sextets r"
    unfolding sextets_def g using n by (simp add: b64_index_std)
  from 4 have "b64_groups b64_std r = map b64_std (sextets r)" "\<forall>n \<in> set (sextets r). n < 64"
    "b64_ungroup (sextets r) = Some r" by simp_all
  then show ?case unfolding g s using n u by simp
qed (simp_all add: sextets_def)

lemma bytes_of_less: "b \<in> set (bytes_of s) \<Longrightarrow> b < 256"
  by (auto simp: bytes_of_def)

lemma char_of_bytes [simp]: "map char_of (bytes_of s) = s"
  by (simp add: bytes_of_def map_idI)

theorem b64_raw_round_trip: "b64_raw_decode (b64_raw s) = Some s"
proof -
  have g: "b64_groups b64_std (bytes_of s) = map b64_std (sextets (bytes_of s))"
    "\<forall>n \<in> set (sextets (bytes_of s)). n < 64" "b64_ungroup (sextets (bytes_of s)) = Some (bytes_of s)"
    using groups_sextets [of "bytes_of s"] bytes_of_less by blast+
  have "filter (\<lambda>c. c \<noteq> CHR 10 \<and> c \<noteq> CHR 13) (b64_raw s) = b64_raw s"
    using g(1,2) b64_std_not_break by (auto simp: b64_raw_def intro!: filter_True)
  moreover have "map b64_index (b64_raw s) = map Some (sextets (bytes_of s))"
    using g(1,2) b64_index_std by (auto simp: b64_raw_def)
  ultimately show ?thesis using g(3) by (auto simp: b64_raw_decode_def Let_def comp_def)
qed

lemma length_b64_groups: "length (b64_groups f bs) = (8 * length bs + 5) div 6"
  by (induction f bs rule: b64_groups.induct) auto

lemma length_b64_raw_url: "length (b64_raw_url s) = (8 * length s + 5) div 6"
  by (simp add: b64_raw_url_def length_b64_groups bytes_of_def)

lemma set_b64_groups:
  "\<forall>b \<in> set bs. b < 256 \<Longrightarrow> c \<in> set (b64_groups f bs) \<Longrightarrow> \<exists>n < 64. c = f n"
proof (induction f bs rule: b64_groups.induct)
  case (2 f a)
  then have "a < 256" by simp
  with sextet_bounds [OF this this this] 2 show ?case by (metis b64_groups.simps(2) empty_iff empty_set set_ConsD)
next
  case (3 f a b)
  then have "a < 256" "b < 256" by simp_all
  with sextet_bounds [OF this(1,2,2)] 3 show ?case
    by (metis b64_groups.simps(3) empty_iff empty_set set_ConsD)
next
  case (4 f a b c' r)
  then have "a < 256" "b < 256" "c' < 256" by simp_all
  note b = sextet_bounds [OF this(1,2,3)]
  from 4(3) consider "c \<in> set [f (a div 4), f (a mod 4 * 16 + b div 16), f (b mod 16 * 4 + c' div 64), f (c' mod 64)]"
    | "c \<in> set (b64_groups f r)" by auto
  then show ?case
  proof cases
    case 1
    with b show ?thesis by (metis empty_iff empty_set set_ConsD)
  next
    case 2
    with 4 show ?thesis by simp
  qed
qed simp

end
