(* ===== verification/UsersDb.thy ===== *)
theory UsersDb
  imports MetaStore Base64
begin

text \<open>
  \<open>users.go\<close>: Authelia's user database as the YAML tree of the whole file together with the
  decoded accounts, and the argon2id password hashes. The YAML library is a parameter
  (\<open>yaml_unmarshal\<close>, \<open>yaml_marshal\<close>, \<open>yaml_decode\<close>, \<open>yaml_encode\<close> of \<open>env\<close>), and so is the
  argon2id function \<open>idkey\<close>.
\<close>

subsection \<open>YAML nodes\<close>

definition document_root :: "ynode \<Rightarrow> ynode" where
  "document_root n = (if ykind n = YDocument \<and> ycontent n \<noteq> [] then hd (ycontent n) else n)"

text \<open>The children of a mapping: keys and values alternate.\<close>

fun content_find :: "string \<Rightarrow> ynode list \<Rightarrow> ynode option" where
  "content_find key (k # v # r) = (if yvalue k = key then Some v else content_find key r)"
| "content_find key r = None"

definition find_child :: "ynode \<Rightarrow> string \<Rightarrow> ynode option" where
  "find_child m key = (if ykind m = YMapping then content_find key (ycontent m) else None)"

text \<open>The code mutates the \<open>users\<close> mapping through a pointer into the tree; the model rebuilds
  the path to it.\<close>

fun content_replace :: "string \<Rightarrow> (ynode \<Rightarrow> ynode) \<Rightarrow> ynode list \<Rightarrow> ynode list" where
  "content_replace key f (k # v # r) =
     (if yvalue k = key then k # f v # r else k # v # content_replace key f r)"
| "content_replace key f r = r"

definition map_content :: "(ynode list \<Rightarrow> ynode list) \<Rightarrow> ynode \<Rightarrow> ynode" where
  "map_content f n = YNode (ykind n) (ytag n) (yvalue n) (f (ycontent n))"

definition update_users :: "(ynode list \<Rightarrow> ynode list) \<Rightarrow> ynode \<Rightarrow> ynode" where
  "update_users f root =
     (let g = map_content (content_replace ''users'' (map_content f)) in
      if ykind root = YDocument \<and> ycontent root \<noteq> []
      then map_content (\<lambda>cs. g (hd cs) # tl cs) root else g root)"

definition users_content :: "ynode \<Rightarrow> ynode list option" where
  "users_content root = map_option ycontent (find_child (document_root root) ''users'')"

subsection \<open>The database\<close>

record users_db =
  db_path :: string
  db_root :: ynode
  db_users :: "(string \<times> user) list"

definition empty_root :: ynode where
  "empty_root = YNode YDocument [] [] [YNode YMapping [] []
     [YNode YScalar [] ''users'' [], YNode YMapping [] [] []]]"

fun decode_users :: "env \<Rightarrow> ynode list \<Rightarrow> (string \<times> user) list \<Rightarrow> (string \<times> user) list res" where
  "decode_users e (k # v # r) us =
     (case yaml_decode e v of
        Inl err \<Rightarrow> Inl (Failure (''decode user '' @ yvalue k @ '': '' @ err_text err))
      | Inr u \<Rightarrow> decode_users e r (AList.update (yvalue k) u us))"
| "decode_users e r us = Inr us"

definition load_users_db :: "env \<Rightarrow> string \<Rightarrow> world \<Rightarrow> users_db res" where
  "load_users_db e path w =
     (case read_file e path w of
        Inl err \<Rightarrow> Inl (Failure (''read '' @ path @ '': '' @ err_text err))
      | Inr c \<Rightarrow>
          (case yaml_unmarshal e c of
             Inl err \<Rightarrow> Inl (Failure (''parse '' @ path @ '': '' @ err_text err))
           | Inr n \<Rightarrow>
               (let root = (if ykind n = YZero then empty_root else n) in
                case users_content root of
                  None \<Rightarrow> Inl (Failure ''users_database.yml: missing top-level `users` mapping'')
                | Some cs \<Rightarrow>
                    (case decode_users e cs [] of
                       Inl err \<Rightarrow> Inl err
                     | Inr us \<Rightarrow> Inr \<lparr>db_path = path, db_root = root, db_users = us\<rparr>))))"

definition db_get :: "users_db \<Rightarrow> string \<Rightarrow> user option" where
  "db_get db name = map_of (db_users db) name"

text \<open>\<open>sortStrings\<close>: insertion sort by adjacent swaps.\<close>

fun sift :: "string list \<Rightarrow> string \<Rightarrow> string list" where
  "sift [] x = [x]"
| "sift (y # ys) x = (if str_less x y then y # sift ys x else x # y # ys)"

definition sort_strings :: "string list \<Rightarrow> string list" where
  "sort_strings xs = rev (foldl sift [] xs)"

definition list_sorted :: "users_db \<Rightarrow> string list" where
  "list_sorted db = sort_strings (map fst (db_users db))"

fun content_set :: "string \<Rightarrow> ynode \<Rightarrow> ynode list \<Rightarrow> ynode list" where
  "content_set name n (k # v # r) =
     (if yvalue k = name then k # n # r else k # v # content_set name n r)"
| "content_set name n r = r @ [YNode YScalar [] name [], n]"

definition untag :: "ynode \<Rightarrow> ynode" where
  "untag n = YNode (ykind n) [] (yvalue n) (ycontent n)"

definition upsert :: "env \<Rightarrow> string \<Rightarrow> user \<Rightarrow> users_db \<Rightarrow> users_db res" where
  "upsert e name u db =
     (if \<not> valid_username name then Inl (Failure (''invalid username '' @ go_quote name))
      else (case users_content (db_root db) of
              None \<Rightarrow> Inl (Failure ''users_database.yml: missing top-level `users` mapping'')
            | Some _ \<Rightarrow>
                (case yaml_encode e u of
                   Inl err \<Rightarrow> Inl (Failure (''encode user '' @ name @ '': '' @ err_text err))
                 | Inr n \<Rightarrow>
                     Inr (db\<lparr>db_root := update_users (content_set name (untag n)) (db_root db),
                             db_users := AList.update name u (db_users db)\<rparr>))))"

fun content_del :: "string \<Rightarrow> ynode list \<Rightarrow> ynode list" where
  "content_del name (k # v # r) = (if yvalue k = name then r else k # v # content_del name r)"
| "content_del name r = r"

definition remove_user :: "string \<Rightarrow> users_db \<Rightarrow> users_db res" where
  "remove_user name db =
     (case users_content (db_root db) of
        None \<Rightarrow> Inl (Failure ''users_database.yml: missing top-level `users` mapping'')
      | Some cs \<Rightarrow>
          (if content_find name cs = None
           then Inl (Failure (''user '' @ go_quote name @ '' not found''))
           else Inr (db\<lparr>db_root := update_users (content_del name) (db_root db),
                        db_users := AList.delete name (db_users db)\<rparr>)))"

text \<open>\<open>flush\<close> truncates the file and writes in place, so a failing write leaves it empty. The
  file is opened without \<open>O_CREATE\<close>.\<close>

definition flush_users :: "env \<Rightarrow> users_db \<Rightarrow> world \<Rightarrow> unit res \<times> world" where
  "flush_users e db w =
     (let p = db_path db in
      case yaml_marshal e (db_root db) of
        Inl err \<Rightarrow> (Inl (Failure (''marshal users_database.yml: '' @ err_text err)), w)
      | Inr c \<Rightarrow>
          (case io_fault e (OpTruncate p) of
             Some m \<Rightarrow> (Inl (Failure (''open users_database.yml: '' @ m)), w)
           | None \<Rightarrow>
               (case files w p of
                  None \<Rightarrow> (Inl (Failure (''open users_database.yml: '' @ err_text (NotExist p))), w)
                | Some Dir \<Rightarrow>
                    (Inl (Failure (''open users_database.yml: open '' @ p @ '': is a directory'')), w)
                | Some (File _) \<Rightarrow>
                    (case io_fault e (OpWrite p) of
                       Some m \<Rightarrow> (Inl (Failure (''write users_database.yml: '' @ m)),
                                  w\<lparr>files := (files w)(p \<mapsto> File (Bytes []))\<rparr>)
                     | None \<Rightarrow>
                         (case io_fault e (OpSync p) of
                            Some m \<Rightarrow> (Inl (Failure m), w\<lparr>files := (files w)(p \<mapsto> File c)\<rparr>)
                          | None \<Rightarrow> (Inr (), w\<lparr>files := (files w)(p \<mapsto> File c)\<rparr>))))))"

subsection \<open>Password hashes\<close>

definition argon2id_hash :: "env \<Rightarrow> string \<Rightarrow> world \<Rightarrow> string res \<times> world" where
  "argon2id_hash e password w =
     (if password = [] then (Inl (Failure ''password is empty''), w)
      else (case draw_bytes e 16 w of
              (None, w1) \<Rightarrow> (Inl (Failure ''crypto/rand: read failed''), w1)
            | (Some salt, w1) \<Rightarrow>
                (Inr (''$argon2id$v=19$m=65536,t=3,p=4$'' @ b64_raw salt @ ''$''
                      @ b64_raw (idkey e password salt 3 65536 4 32)), w1)))"

text \<open>\<open>Sscanf(s, "m=%d,t=%d,p=%d")\<close>: literals match exactly, spaces before a number are
  skipped, a number is at least one digit and must fit its type; what follows is ignored.\<close>

definition scan_lit :: "string \<Rightarrow> string \<Rightarrow> string option" where
  "scan_lit l s = (if has_prefix s l then Some (drop (length l) s) else None)"

definition scan_uint :: "nat \<Rightarrow> string \<Rightarrow> (nat \<times> string) option" where
  "scan_uint bound s =
     (let s1 = dropWhile (\<lambda>c. c \<in> {CHR 9, CHR 11, CHR 12, CHR 13, CHR 32}) s;
          ds = takeWhile is_digit s1
      in if ds \<noteq> [] \<and> digits_val ds < bound then Some (digits_val ds, dropWhile is_digit s1) else None)"

definition scan_params :: "string \<Rightarrow> (nat \<times> nat \<times> nat) option" where
  "scan_params s =
     (case scan_lit ''m='' s of None \<Rightarrow> None | Some s1 \<Rightarrow>
      (case scan_uint (2 ^ 32) s1 of None \<Rightarrow> None | Some (m, s2) \<Rightarrow>
      (case scan_lit '',t='' s2 of None \<Rightarrow> None | Some s3 \<Rightarrow>
      (case scan_uint (2 ^ 32) s3 of None \<Rightarrow> None | Some (t, s4) \<Rightarrow>
      (case scan_lit '',p='' s4 of None \<Rightarrow> None | Some s5 \<Rightarrow>
      (case scan_uint 256 s5 of None \<Rightarrow> None | Some (p, _) \<Rightarrow> Some (m, t, p)))))))"

definition argon2id_verify :: "env \<Rightarrow> string \<Rightarrow> string \<Rightarrow> bool res" where
  "argon2id_verify e password encoded =
     (if password = [] then Inr False
      else (case split_on CHR ''$'' encoded of
              [p0, p1, p2, p3, p4, p5] \<Rightarrow>
                (if p1 \<noteq> ''argon2id'' then
                   Inl (Failure (''argon2id: variant '' @ go_quote p1 @ '' not supported''))
                 else if \<not> has_prefix p2 ''v='' then Inl (Failure ''argon2id: missing version field'')
                 else (case atoi (trim_prefix p2 ''v='') of
                    None \<Rightarrow> Inl (Failure ''argon2id: parse version: invalid syntax'')
                  | Some v \<Rightarrow>
                    if v \<noteq> 19 then
                      Inl (Failure (''argon2id: version '' @ show_int v @ '' not supported (need 19)''))
                    else (case scan_params p3 of
                      None \<Rightarrow> Inl (Failure (''argon2id: parse params '' @ go_quote p3))
                    | Some (m, t, p) \<Rightarrow>
                      (case b64_raw_decode p4 of
                         None \<Rightarrow> Inl (Failure ''argon2id: decode salt: illegal base64 data'')
                       | Some salt \<Rightarrow>
                           (case b64_raw_decode p5 of
                              None \<Rightarrow> Inl (Failure ''argon2id: decode hash: illegal base64 data'')
                            | Some want \<Rightarrow>
                                Inr (idkey e password salt t m p (length want mod 2 ^ 32) = want))))))
            | ps \<Rightarrow> Inl (Failure (''argon2id: malformed PHC string (got ''
                       @ show_nat (length ps) @ '' fields)''))))"

end
