(* ===== verification/MetaSpec.thy ===== *)
theory MetaSpec
  imports MetaStore
begin

text \<open>
  What the sidecar and the comment promise: a record survives the round trip through the
  file without its private key, the comment written above a block is read back, and the
  merged view shows every block of \<open>gw0.conf\<close> exactly once.
\<close>

subsection \<open>The comment\<close>

lemma try_lens_hit: "f n = Some x \<Longrightarrow> n > 0 \<Longrightarrow> try_lens n f = Some x"
  by (cases n) auto

lemma try_lens_second: "f (Suc n) = None \<Longrightarrow> f n = Some x \<Longrightarrow> n > 0 \<Longrightarrow> try_lens (Suc n) f = Some x"
  by (simp add: try_lens_hit)

lemma solid_takeWhile:
  "list_all solid s \<Longrightarrow> takeWhile (\<lambda>c. \<not> re_space c) (s @ CHR '' '' # r) = s"
  by (induction s) (auto simp: re_space_def solid_def)

lemma word_at_solid: "list_all solid s \<Longrightarrow> word_at (s @ CHR '' '' # r) = length s"
  by (simp add: word_at_def solid_takeWhile)

lemma word_at_end: "list_all solid s \<Longrightarrow> word_at s = length s"
  by (induction s) (auto simp: word_at_def)

lemma dropWhile_solid: "solid_text s \<Longrightarrow> dropWhile re_space (s @ r) = s @ r"
  by (cases s) (auto simp: solid_text_def)

lemma re_space_blank [simp]: "re_space CHR '' ''"
  by (simp add: re_space_def)

lemma re_byI:
  assumes "dropWhile re_space s = s1" "s1 \<noteq> s" "has_prefix s1 ''by''"
    "dropWhile re_space (drop 2 s1) = s3" "s3 \<noteq> drop 2 s1"
  shows "re_by s = try_lens (word_at s3) (\<lambda>n. if re_close (drop n s3) then Some (take n s3) else None)"
  unfolding re_by_def Let_def assms(1,4) using assms by simp

lemma re_addedI:
  assumes "has_prefix s ''(added''" "dropWhile re_space (drop 6 s) = s2" "s2 \<noteq> drop 6 s"
  shows "re_added s = try_lens (word_at s2) (\<lambda>n.
             case re_by (drop n s2) of
               Some by \<Rightarrow> Some (take n s2, by)
             | None \<Rightarrow> if re_close (drop n s2) then Some (take n s2, []) else None)"
  unfolding re_added_def Let_def assms(2) using assms by simp

lemma re_peer_commentI:
  assumes "has_prefix s ''# peer:''" "dropWhile re_space (drop 7 s) = s1"
  shows "re_peer_comment s = try_lens (word_at s1) (\<lambda>n.
           case re_added (dropWhile re_space (drop n s1)) of
             Some (ts, by) \<Rightarrow> Some (take n s1, ts, by)
           | None \<Rightarrow> if dropWhile re_space (drop n s1) = [] then Some (take n s1, [], []) else None)"
  unfolding re_peer_comment_def Let_def assms(2) using assms by simp

lemma re_by_written:
  assumes "solid_text by"
  shows "re_by ('' by '' @ by @ '')'') = Some by"
proof -
  have s: "dropWhile re_space ('' by '' @ by @ '')'') = ''by '' @ by @ '')''" by (simp add: re_space_def)
  have s3: "dropWhile re_space (drop 2 (''by '' @ by @ '')'')) = by @ '')''"
    using dropWhile_solid [OF assms, of "'')''"] by simp
  have w: "word_at (by @ '')'') = Suc (length by)"
    using word_at_end [of "by @ '')''"] assms by (simp add: solid_text_def solid_def)
  have "re_by ('' by '' @ by @ '')'')
      = try_lens (Suc (length by)) (\<lambda>n. if re_close (drop n (by @ '')'')) then Some (take n (by @ '')'')) else None)"
    unfolding w [symmetric] by (rule re_byI [OF s _ _ s3]) simp_all
  also have "\<dots> = Some by"
    by (rule try_lens_second) (use assms in \<open>auto simp: re_close_def solid_text_def\<close>)
  finally show ?thesis .
qed

lemma re_added_written:
  assumes "solid_text by" "solid_text ts"
  shows "re_added (''(added '' @ ts @ '' by '' @ by @ '')'') = Some (ts, by)"
proof -
  let ?r = "'' by '' @ by @ '')''"
  have s2: "dropWhile re_space (drop 6 (''(added '' @ ts @ ?r)) = ts @ ?r"
    using dropWhile_solid [OF assms(2), of ?r] by simp
  have w: "word_at (ts @ ?r) = length ts"
    using word_at_solid [of ts "''by '' @ by @ '')''"] assms(2) by (simp add: solid_text_def)
  have "re_by (drop (length ts) (ts @ ?r)) = Some by"
    using re_by_written [OF assms(1)] by simp
  then have hit: "(case re_by (drop (length ts) (ts @ ?r)) of
               Some by \<Rightarrow> Some (take (length ts) (ts @ ?r), by)
             | None \<Rightarrow> if re_close (drop (length ts) (ts @ ?r)) then Some (take (length ts) (ts @ ?r), []) else None)
       = Some (ts, by)" by (simp only: option.case) simp
  have "re_added (''(added '' @ ts @ ?r) = try_lens (length ts) (\<lambda>n.
             case re_by (drop n (ts @ ?r)) of
               Some by \<Rightarrow> Some (take n (ts @ ?r), by)
             | None \<Rightarrow> if re_close (drop n (ts @ ?r)) then Some (take n (ts @ ?r), []) else None)"
    unfolding w [symmetric] by (rule re_addedI [OF _ s2]) simp_all
  also have "\<dots> = Some (ts, by)"
    by (rule try_lens_hit, rule hit) (use assms(2) in \<open>simp add: solid_text_def\<close>)
  finally show ?thesis by simp
qed

lemma re_peer_comment_written:
  assumes "solid_text name" "solid_text by" "solid_text ts"
  shows "re_peer_comment (''# peer: '' @ name @ '' (added '' @ ts @ '' by '' @ by @ '')'') = Some (name, ts, by)"
proof -
  let ?r = "'' (added '' @ ts @ '' by '' @ by @ '')''"
  have s1: "dropWhile re_space (drop 7 (''# peer: '' @ name @ ?r)) = name @ ?r"
    using dropWhile_solid [OF assms(1), of ?r] by simp
  have w: "word_at (name @ ?r) = length name"
    using word_at_solid [of name "''(added '' @ ts @ '' by '' @ by @ '')''"] assms(1) by (simp add: solid_text_def)
  have d: "dropWhile re_space (drop (length name) (name @ ?r)) = ''(added '' @ ts @ '' by '' @ by @ '')''"
    by (simp add: re_space_def)
  have hit: "(case re_added (dropWhile re_space (drop (length name) (name @ ?r))) of
             Some (ts, by) \<Rightarrow> Some (take (length name) (name @ ?r), ts, by)
           | None \<Rightarrow> if dropWhile re_space (drop (length name) (name @ ?r)) = []
                     then Some (take (length name) (name @ ?r), [], []) else None) = Some (name, ts, by)"
    unfolding d re_added_written [OF assms(2,3)] by simp
  have "re_peer_comment (''# peer: '' @ name @ ?r) = try_lens (length name) (\<lambda>n.
           case re_added (dropWhile re_space (drop n (name @ ?r))) of
             Some (ts, by) \<Rightarrow> Some (take n (name @ ?r), ts, by)
           | None \<Rightarrow> if dropWhile re_space (drop n (name @ ?r)) = []
                     then Some (take n (name @ ?r), [], []) else None)"
    unfolding w [symmetric] by (rule re_peer_commentI [OF _ s1]) simp
  also have "\<dots> = Some (name, ts, by)"
    by (rule try_lens_hit, rule hit) (use assms(1) in \<open>simp add: solid_text_def\<close>)
  finally show ?thesis by simp
qed

lemma sanitize_solid: "solid_text s \<Longrightarrow> length s \<le> 256 \<Longrightarrow> sanitize s = s"
proof -
  assume s: "solid_text s" "length s \<le> 256"
  have "map (\<lambda>c. if c = CHR 10 \<or> c = CHR 13 then CHR '' '' else c) s = s"
    by (rule map_idI) (use s(1) in \<open>auto simp: solid_text_def list_all_iff solid_def\<close>)
  with s(2) show ?thesis by (simp add: sanitize_def)
qed

text \<open>The comment that \<open>appendPeer\<close> writes above a block is read back by
  \<open>parsePeerComment\<close>: the name and the actor as they were, the time cut to seconds. So a peer
  whose sidecar record is lost is still listed under its own name.\<close>

theorem comment_round_trip:
  assumes "solid_text (p_name p)" and "length (p_name p) \<le> 256"
    and "solid_text (p_added_by p)" and "length (p_added_by p) \<le> 256"
    and "0 \<le> time_year (p_added_at p)" and "time_year (p_added_at p) \<le> 9999"
  shows "parse_peer_comment (hd (peer_block p))
           = (p_name p, p_added_by p, p_added_at p div second * second)"
proof -
  have t: "solid_text (fmt_rfc3339 (p_added_at p))"
    using fmt_rfc3339_solid by (simp add: solid_text_def fmt_rfc3339_def)
  have "hd (peer_block p) = ''# peer: '' @ p_name p @ '' (added '' @ fmt_rfc3339 (p_added_at p)
      @ '' by '' @ p_added_by p @ '')''"
    using assms by (simp add: peer_block_def sanitize_solid)
  then show ?thesis
    using re_peer_comment_written [OF assms(1,3) t] parse_fmt_rfc3339 [OF assms(5,6)] t
    by (simp add: parse_peer_comment_def solid_text_def)
qed

definition sample_peer :: peer where
  "sample_peer = zero_peer\<lparr>p_name := ''a-b'', p_public_key := ''K'', p_ip := ''10.9.0.2'',
     p_added_by := ''x'', p_added_at := 0\<rparr>"

theorem comment_round_trip_witness:
  "parse_peer_comment (hd (peer_block sample_peer)) = (''a-b'', ''x'', 0)"
proof -
  have y: "time_year 0 = 1970" by code_simp
  show ?thesis
    using comment_round_trip [of sample_peer] y
    by (simp add: sample_peer_def zero_peer_def solid_text_def solid_def second_def)
qed

theorem append_reload_witness:
  "map kv (pc_peers (parse_conf (append_text ''x'' sample_peer)))
     = map kv (pc_peers (parse_conf ''x'')) @ [(''K'', ''10.9.0.2/32'')]"
  using append_reload [of sample_peer "''x''"]
  by (simp add: sample_peer_def zero_peer_def solid_text_def solid_def Let_def)

subsection \<open>The sidecar file\<close>

definition no_priv :: "peer \<Rightarrow> peer" where
  "no_priv p = p\<lparr>p_private_key := []\<rparr>"

definition ms_ok :: "meta_store \<Rightarrow> bool" where
  "ms_ok m = (case ms_data m of None \<Rightarrow> False | Some d \<Rightarrow> distinct (map fst d))"

interpretation ms: keyed_store ms_get ms_set ms_unset ms_ok
  by unfold_locales
     (auto simp: ms_ok_def ms_get_def ms_set_def ms_unset_def update_conv' delete_conv'
        distinct_update distinct_delete fun_eq_iff split: option.splits)

lemma fmt_date_shape:
  assumes "0 \<le> time_year t" "time_year t \<le> 9999"
  shows "length (fmt_date t) = 10 \<and> CHR '','' \<notin> set (fmt_date t)"
proof -
  obtain y m d where c: "civil_from_days (t div second div 86400) = (y, m, d)"
    by (metis prod.exhaust)
  have r: "1 \<le> m" "m \<le> 12" "1 \<le> d" "d \<le> days_in_month y m" using civil_ok [OF c] by auto
  have d: "d < 10 ^ 2" using r(4) by (auto simp: days_in_month_def split: if_splits)
  have "0 \<le> y" "y < 10 ^ 4" using assms c by (auto simp: time_year_def)
  from pad_props [OF this] pad_props [of m 2] pad_props [of d 2] r d
  show ?thesis by (auto simp: fmt_date_def c list_all_iff is_digit_def)
qed

lemma two_digits:
  assumes "0 \<le> n" "n < 100"
  obtains a b where "pad 2 n = [a, b]" "is_digit a" "is_digit b"
  using pad_props [of n 2] assms that by (auto simp: length_Suc_conv numeral_2_eq_2)

lemma digit_not_comma: "is_digit c \<Longrightarrow> c \<noteq> CHR '',''"
  by (auto simp: is_digit_def)

lemma fmt_hms_shape:
  "\<exists>a b r. fmt_hms t = a # b # r \<and> is_digit b \<and> CHR '','' \<notin> set (fmt_hms t)"
proof -
  let ?x = "(t div second) mod 86400"
  have x: "0 \<le> ?x" "?x < 86400" by simp_all
  have h: "0 \<le> ?x div 3600" "?x div 3600 < 10 ^ 2" using x by auto
  have m: "0 \<le> ?x mod 3600 div 60" "?x mod 3600 div 60 < 10 ^ 2"
    using pos_mod_sign [of 3600 ?x] pos_mod_bound [of 3600 ?x] by auto
  have s: "0 \<le> (t div second) mod 60" "(t div second) mod 60 < 10 ^ 2"
    using pos_mod_bound [of 60 "t div second"] by auto
  obtain h1 h2 where "pad 2 (?x div 3600) = [h1, h2]" "is_digit h1" "is_digit h2"
    using two_digits [of "?x div 3600"] h by auto
  moreover obtain m1 m2 where "pad 2 (?x mod 3600 div 60) = [m1, m2]" "is_digit m1" "is_digit m2"
    using two_digits [OF m(1)] m(2) by auto
  moreover obtain s1 s2 where "pad 2 ((t div second) mod 60) = [s1, s2]" "is_digit s1" "is_digit s2"
    using two_digits [OF s(1)] s(2) by auto
  ultimately show ?thesis by (auto simp: fmt_hms_def fmt_hm_def Let_def dest: digit_not_comma)
qed

lemma fmt_frac_no_comma: "0 \<le> ns \<Longrightarrow> ns < second \<Longrightarrow> CHR '','' \<notin> set (fmt_frac ns)"
proof -
  assume ns: "0 \<le> ns" "ns < second"
  then have "CHR '','' \<notin> set (pad 9 ns)"
    using pad_props [of ns 9] by (auto simp: second_def list_all_iff is_digit_def)
  then show ?thesis by (auto simp: fmt_frac_def dest: set_dropWhileD)
qed

lemma fmt_nano_strict: "0 \<le> time_year t \<Longrightarrow> time_year t \<le> 9999 \<Longrightarrow> strict_time (fmt_nano t)"
proof -
  assume y: "0 \<le> time_year t" "time_year t \<le> 9999"
  obtain a b r where h: "fmt_hms t = a # b # r" "is_digit b" "CHR '','' \<notin> set (fmt_hms t)"
    using fmt_hms_shape by blast
  have d: "length (fmt_date t) = 10" "CHR '','' \<notin> set (fmt_date t)" using fmt_date_shape [OF y] by auto
  have "fmt_nano t ! 12 = b" using d(1) by (simp add: fmt_nano_def nth_append h(1))
  moreover have "b \<noteq> CHR '':''" using h(2) by (auto simp: is_digit_def)
  moreover have "CHR '','' \<notin> set (fmt_nano t)"
    using d(2) h(3) fmt_frac_no_comma [of "t mod second"] by (auto simp: fmt_nano_def second_def)
  moreover have "has_suffix (fmt_nano t) ''Z''"
    unfolding has_suffix_iff fmt_nano_def by (metis append_assoc)
  ultimately show ?thesis by (simp add: strict_time_def)
qed

lemma field_names:
  "go_to_lower ''name'' = ''name''" "go_to_lower ''device_tag'' = ''device_tag''"
  "go_to_lower ''public_key'' = ''public_key''" "go_to_lower ''ip'' = ''ip''"
  "go_to_lower ''added_by'' = ''added_by''" "go_to_lower ''added_at'' = ''added_at''"
  by code_simp+

lemma decode_peer_json: "peer_json p = Inr j \<Longrightarrow> decode_peer j = Some (no_priv p)"
proof -
  assume "peer_json p = Inr j"
  then have y: "0 \<le> time_year (p_added_at p)" "time_year (p_added_at p) \<le> 9999"
    and j: "j = JObj ([(''name'', JStr (p_name p))]
          @ (if p_device_tag p = [] then [] else [(''device_tag'', JStr (p_device_tag p))])
          @ [(''public_key'', JStr (p_public_key p)), (''ip'', JStr (p_ip p)),
             (''added_by'', JStr (p_added_by p)), (''added_at'', JStr (fmt_nano (p_added_at p)))])"
    by (auto simp: peer_json_def json_time_def split: if_splits)
  show ?thesis unfolding j
    using fmt_nano_strict [OF y] parse_fmt_nano [OF y]
    by (cases p) (simp add: decode_peer_def decode_field_def field_names decode_string_def
        decode_time_def zero_peer_def no_priv_def del: go_to_lower.simps)
qed

lemma decode_encode:
  "encode_entries d = Inr kvs \<Longrightarrow>
   decode_entries kvs acc = Some (fold (\<lambda>(k, p). AList.update k (no_priv p)) d acc)"
  by (induction d arbitrary: kvs acc rule: encode_entries.induct)
     (auto simp: decode_peer_json split: sum.splits)

lemma map_of_fold_update:
  "map_of (fold (\<lambda>(k, p). AList.update k (f p)) d acc) = map_of acc ++ (map_option f \<circ> map_of (rev d))"
proof (induction d arbitrary: acc)
  case (Cons x d)
  then show ?case
    by (cases x) (auto simp: update_conv' map_add_def fun_eq_iff split: option.splits)
qed simp

lemma map_of_sorted:
  assumes "distinct (map fst d)"
  shows "map_of (rev (sort_by lt d)) = map_of d"
proof -
  have "distinct (map fst (rev (sort_by lt d)))"
    using assms by (simp add: rev_map [symmetric] distinct_map_sort_by)
  then show ?thesis using assms by (simp add: map_of_inject_set)
qed

lemma atomic_write_ok:
  "atomic_write e path c w = (Inr (), w') \<Longrightarrow> files w' path = Some (File c)"
  by (auto simp: atomic_write_def write_file_def rename_file_def split: option.splits if_splits)

lemma reopen_flushed:
  assumes "ms_ok m" "ms_flush e m w = (Inr (), w')" "io_fault e (OpRead (ms_path m)) = None"
  shows "\<exists>m2. new_meta_store e (ms_path m) w' = Inr m2 \<and> ms_ok m2 \<and>
           ms_get m2 = map_option no_priv \<circ> ms_get m"
proof -
  let ?lt = "\<lambda>x y. str_less (fst x) (fst y)"
  obtain d where d: "ms_data m = Some d" "distinct (map fst d)"
    using assms(1) by (auto simp: ms_ok_def split: option.splits)
  obtain kvs where k: "encode_entries (sort_by ?lt d) = Inr kvs"
    and aw: "atomic_write e (ms_path m) (Json (JObj kvs)) w = (Inr (), w')"
    using assms(2) d(1) by (auto simp: ms_flush_def split: sum.splits)
  define d2 where "d2 = fold (\<lambda>(k, p). AList.update k (no_priv p)) (sort_by ?lt d) []"
  have "new_meta_store e (ms_path m) w' = Inr \<lparr>ms_path = ms_path m, ms_data = Some d2\<rparr>"
    using atomic_write_ok [OF aw] assms(3) decode_encode [OF k, of "[]"]
    by (simp add: new_meta_store_def read_file_def content_json_def decode_meta_def d2_def)
  moreover have "map_of d2 = map_option no_priv \<circ> map_of d"
    unfolding d2_def map_of_fold_update map_of_sorted [OF d(2)] by simp
  moreover have D: "distinct (map fst (fold (\<lambda>(k, p). AList.update k (no_priv p)) xs acc))"
    if "distinct (map fst acc)" for xs acc
    using that by (induction xs arbitrary: acc) (auto simp: distinct_update)
  have "distinct (map fst d2)" unfolding d2_def by (rule D) simp
  ultimately show ?thesis using d(1) by (auto simp: ms_get_def ms_ok_def fun_eq_iff)
qed

text \<open>After a successful \<open>put\<close>, a process that opens the sidecar again sees, at the key of
  the stored peer, that peer, and at every other key what the store held before; no record
  carries a private key any more.\<close>

theorem meta_put_reopen:
  assumes "ms_ok m" and "ms_put e m p w = (Inr (), m', w')" and "io_fault e (OpRead (ms_path m)) = None"
  shows "\<exists>m2. new_meta_store e (ms_path m) w' = Inr m2 \<and>
           ms_get m2 = map_option no_priv \<circ> (ms_get m)(p_public_key p \<mapsto> p)"
proof -
  have "m' = ms_set (p_public_key p) p m" "ms_flush e m' w = (Inr (), w')"
    using assms(2) by (auto simp: ms_put_def Let_def split: if_splits prod.splits)
  moreover have "ms_path (ms_set (p_public_key p) p m) = ms_path m" by (simp add: ms_set_def)
  ultimately show ?thesis
    using reopen_flushed [OF ms.ok_put [OF assms(1), of "p_public_key p" p], of e w w'] assms(3)
    unfolding ms.get_put [OF assms(1)] by auto
qed

definition sample_meta :: meta_store where
  "sample_meta = \<lparr>ms_path = ''m'', ms_data = Some []\<rparr>"

lemma sample_put:
  "\<exists>m' w'. ms_put calm_env sample_meta sample_peer blank_world = (Inr (), m', w')"
proof -
  have "time_year 0 = 1970" by code_simp
  then show ?thesis
    by (simp add: ms_put_def sample_meta_def ms_set_def ms_flush_def sort_by_def peer_json_def
        json_time_def sample_peer_def zero_peer_def atomic_write_def write_file_def rename_file_def
        Let_def)
qed

theorem meta_put_reopen_witness:
  "\<exists>m' w' m2. ms_put calm_env sample_meta sample_peer blank_world = (Inr (), m', w')
     \<and> new_meta_store calm_env ''m'' w' = Inr m2 \<and> ms_get m2 ''K'' = Some (no_priv sample_peer)"
proof -
  obtain m' w' where p: "ms_put calm_env sample_meta sample_peer blank_world = (Inr (), m', w')"
    using sample_put by blast
  have "ms_ok sample_meta" "ms_path sample_meta = ''m''" by (simp_all add: ms_ok_def sample_meta_def)
  then show ?thesis
    using p meta_put_reopen [OF _ p] by (auto simp: sample_peer_def zero_peer_def)
qed

text \<open>After a successful \<open>delete\<close>, a process that opens the sidecar again no longer finds
  the peer and finds every other record as it was.\<close>

theorem meta_delete_reopen:
  assumes "ms_ok m" and "ms_delete e m k w = (Inr (), m', w')" and "io_fault e (OpRead (ms_path m)) = None"
  shows "\<exists>m2. new_meta_store e (ms_path m) w' = Inr m2 \<and>
           ms_get m2 = map_option no_priv \<circ> (ms_get m)(k := None)"
proof -
  have "m' = ms_unset k m" "ms_flush e m' w = (Inr (), w')"
    using assms(2) by (auto simp: ms_delete_def Let_def split: prod.splits)
  moreover have "ms_path (ms_unset k m) = ms_path m" by (simp add: ms_unset_def)
  ultimately show ?thesis
    using reopen_flushed [OF ms.ok_del [OF assms(1), of k], of e w w'] assms(3)
    unfolding ms.get_del [OF assms(1)] by auto
qed

theorem meta_delete_reopen_witness:
  "\<exists>m' w' m2. ms_delete calm_env sample_meta ''K'' blank_world = (Inr (), m', w')
     \<and> new_meta_store calm_env ''m'' w' = Inr m2 \<and> ms_get m2 ''K'' = None"
proof -
  obtain m' w' where p: "ms_delete calm_env sample_meta ''K'' blank_world = (Inr (), m', w')"
    by (simp add: ms_delete_def sample_meta_def ms_unset_def ms_flush_def sort_by_def
        atomic_write_def write_file_def rename_file_def Let_def)
  have "ms_ok sample_meta" "ms_path sample_meta = ''m''" by (simp_all add: ms_ok_def sample_meta_def)
  then show ?thesis using p meta_delete_reopen [OF _ p] by auto
qed

text \<open>The merged view lists every block of \<open>gw0.conf\<close> exactly once, under its own public key
  and address, whatever the sidecar says.\<close>

theorem list_peers_complete:
  "mset (map (\<lambda>p. (p_public_key p, p_ip p)) (list_peers_with_meta pc m))
     = mset (map (\<lambda>x. (e_public_key x, entry_ip x)) (pc_peers pc))"
proof -
  have "(p_public_key (merge_entry m x), p_ip (merge_entry m x)) = (e_public_key x, entry_ip x)" for x
    by (auto simp: merge_entry_def zero_peer_def split: option.splits prod.splits)
  then show ?thesis by (simp add: list_peers_with_meta_def image_mset.compositionality comp_def)
qed

end
