(* ===== verification/Config.thy ===== *)
theory Config
  imports World
begin

text \<open>
  \<open>main.go\<close>: the configuration record and \<open>loadConfig\<close>, with \<open>envBool\<close>, \<open>atoiOr\<close> and
  \<open>resolveSetupToken\<close>. A fatal exit at startup is an error value.
\<close>

record config =
  domain :: string
  listen :: string
  awg_dir :: string
  awg_iface :: string
  awg_endpoint :: string
  peer_subnet :: string
  peer_start :: int
  header_user :: string
  header_groups :: string
  required_group :: string
  templates_dir :: string
  static_dir :: string
  forward_auth_secret :: string
  users_db_path :: string
  authelia_container :: string
  authelia_url :: string
  authelia_storage_db :: string
  skip_cloud :: bool
  skip_task :: bool
  launcher_dir :: string
  peers_archive_dir :: string
  setup_state_dir :: string
  setup_complete_sentinel :: string
  setup_token_file :: string
  setup_token :: string
  stacks_dir :: string
  repo_dir :: string
  task_db_container :: string
  task_db_name :: string
  task_db_user :: string
  task_env_file :: string
  backup_repo_dir :: string
  backup_password_file :: string
  backup_restic_bin :: string
  backup_retention_daily :: int

definition env_or :: "env \<Rightarrow> string \<Rightarrow> string \<Rightarrow> string" where
  "env_or e k d = (if getenv e k \<noteq> [] then getenv e k else d)"

definition env_bool :: "env \<Rightarrow> string \<Rightarrow> bool" where
  "env_bool e k \<longleftrightarrow> go_to_lower (go_trim_space (getenv e k)) \<in> {''1'', ''true'', ''yes''}"

definition atoi_or :: "string \<Rightarrow> int \<Rightarrow> int" where
  "atoi_or s d = (if s = [] then d else case atoi s of None \<Rightarrow> d | Some n \<Rightarrow> n)"

definition resolve_setup_token :: "env \<Rightarrow> world \<Rightarrow> string" where
  "resolve_setup_token e w =
     (let v = go_trim_space (getenv e ''SETUP_TOKEN'') in
      if v \<noteq> [] then v
      else (let p = getenv e ''ENROL_SETUP_TOKEN_FILE'';
                path = (if p = [] then ''/etc/raph-installer/setup-token'' else p)
            in case read_file e path w of
                 Inl _ \<Rightarrow> []
               | Inr c \<Rightarrow> go_trim_space (content_text e c)))"

definition load_config :: "env \<Rightarrow> world \<Rightarrow> config res" where
  "load_config e w =
     (case atoi (env_or e ''ENROL_PEER_START'' ''10'') of
        None \<Rightarrow> Inl (Failure ''ENROL_PEER_START: invalid syntax'')
      | Some start \<Rightarrow>
          (let d = getenv e ''ENROL_DOMAIN'' in
           if d = [] then Inl (Failure ''ENROL_DOMAIN is required (set by bootstrap from $DOMAIN)'')
           else Inr
             \<lparr>domain = d,
              listen = env_or e ''ENROL_LISTEN'' '':8080'',
              awg_dir = env_or e ''ENROL_AWG_DIR'' ''/etc/amnezia/amneziawg'',
              awg_iface = env_or e ''ENROL_AWG_IFACE'' ''gw0'',
              awg_endpoint = env_or e ''ENROL_AWG_ENDPOINT'' (''gw.'' @ d @ '':443''),
              peer_subnet = env_or e ''ENROL_PEER_SUBNET'' ''10.99.0.0/24'',
              peer_start = start,
              header_user = env_or e ''ENROL_HEADER_USER'' ''Remote-User'',
              header_groups = env_or e ''ENROL_HEADER_GROUPS'' ''Remote-Groups'',
              required_group = env_or e ''ENROL_REQUIRED_GROUP'' ''admin'',
              templates_dir = env_or e ''ENROL_TEMPLATES'' ''/app/web/templates'',
              static_dir = env_or e ''ENROL_STATIC'' ''/app/web/static'',
              forward_auth_secret = getenv e ''ENROL_FORWARD_AUTH_SECRET'',
              users_db_path = env_or e ''ENROL_USERS_DB'' ''/etc/authelia/users_database.yml'',
              authelia_container = env_or e ''ENROL_AUTHELIA_CONTAINER'' ''authelia'',
              authelia_url = env_or e ''ENROL_AUTHELIA_URL'' ''http://127.0.0.1:9091'',
              authelia_storage_db =
                env_or e ''ENROL_AUTHELIA_STORAGE_DB'' ''/opt/stacks/authelia/data/db.sqlite3'',
              skip_cloud = env_bool e ''ENROL_SKIP_CLOUD'',
              skip_task = env_bool e ''ENROL_SKIP_TASK'',
              launcher_dir = env_or e ''ENROL_LAUNCHER_DIR'' ''/srv/store/enrol-launcher'',
              peers_archive_dir = env_or e ''ENROL_PEERS_ARCHIVE_DIR'' ''/srv/store/enrol-peers-archive'',
              setup_state_dir = env_or e ''ENROL_SETUP_STATE_DIR'' ''/srv/store/setup'',
              setup_complete_sentinel = env_or e ''ENROL_SETUP_COMPLETE'' ''/srv/store/.setup-complete'',
              setup_token_file = env_or e ''ENROL_SETUP_TOKEN_FILE'' ''/etc/raph-installer/setup-token'',
              setup_token = resolve_setup_token e w,
              stacks_dir = env_or e ''ENROL_STACKS_DIR'' ''/opt/stacks'',
              repo_dir = env_or e ''ENROL_REPO_DIR'' ''/opt/raph-server-installer'',
              task_db_container = env_or e ''ENROL_TASK_DB_CONTAINER'' ''task-db'',
              task_db_name = env_or e ''ENROL_TASK_DB_NAME'' ''vikunja'',
              task_db_user = env_or e ''ENROL_TASK_DB_USER'' ''vikunja'',
              task_env_file = env_or e ''ENROL_TASK_ENV_FILE'' ''/opt/stacks/task/.env'',
              backup_repo_dir = env_or e ''ENROL_BACKUP_REPO_DIR'' ''/srv/store/enrol-backups/restic'',
              backup_password_file =
                env_or e ''ENROL_BACKUP_PASSWORD_FILE'' ''/etc/raph-installer/restic-password'',
              backup_restic_bin = env_or e ''ENROL_BACKUP_RESTIC_BIN'' ''restic'',
              backup_retention_daily = atoi_or (env_or e ''ENROL_BACKUP_KEEP_DAILY'' ''10'') 10\<rparr>))"

definition conf_path :: "config \<Rightarrow> string" where
  "conf_path cfg = filepath_join [awg_dir cfg, awg_iface cfg @ ''.conf'']"

definition meta_path :: "config \<Rightarrow> string" where
  "meta_path cfg = filepath_join [awg_dir cfg, ''peers-meta.json'']"

definition audit_path :: "config \<Rightarrow> string" where
  "audit_path cfg = filepath_join [awg_dir cfg, ''peers-audit.log'']"

end
