(* ===== verification/PeerOps.thy ===== *)
theory PeerOps
  imports MetaSpec Config Base64
begin

text \<open>
  The rest of \<open>peers.go\<close> and \<open>peers_archive.go\<close>: key generation, the reload of the host
  interface, the rendered client configuration, and the archive of client configurations.
\<close>

subsection \<open>Keys and names\<close>

definition fixed_bytes :: "nat \<Rightarrow> string \<Rightarrow> string" where
  "fixed_bytes n s = take n (s @ replicate n (byte 0))"

text \<open>An X25519 private and public key are 32 bytes each.\<close>

definition gen_keypair :: "env \<Rightarrow> world \<Rightarrow> (string \<times> string) res \<times> world" where
  "gen_keypair e w =
     (case keygen e (draws w) of
        Inl err \<Rightarrow> (Inl err, w\<lparr>draws := Suc (draws w)\<rparr>)
      | Inr (priv, pub) \<Rightarrow>
          (Inr (b64_padded (fixed_bytes 32 priv), b64_padded (fixed_bytes 32 pub)),
           w\<lparr>draws := Suc (draws w)\<rparr>))"

definition animal_names :: "string list" where
  "animal_names = [
     ''alpaca'', ''badger'', ''beaver'', ''bison'', ''bobcat'', ''camel'', ''capybara'',
     ''caracal'', ''cheetah'', ''chinchilla'', ''cougar'', ''coyote'', ''dingo'',
     ''dolphin'', ''donkey'', ''falcon'', ''fennec'', ''ferret'', ''gazelle'', ''gecko'',
     ''gibbon'', ''giraffe'', ''heron'', ''hedgehog'', ''ibex'', ''iguana'', ''jackal'',
     ''jaguar'', ''kestrel'', ''kiwi'', ''koala'', ''lemur'', ''leopard'', ''llama'',
     ''lynx'', ''macaw'', ''manatee'', ''marmot'', ''meerkat'', ''mongoose'', ''moose'',
     ''narwhal'', ''ocelot'', ''octopus'', ''okapi'', ''osprey'', ''otter'', ''owl'',
     ''panda'', ''pangolin'', ''panther'', ''pelican'', ''penguin'', ''puffin'',
     ''quokka'', ''rabbit'', ''raccoon'', ''raven'', ''seal'', ''serval'', ''skunk'',
     ''sloth'', ''stoat'', ''tapir'', ''toucan'', ''walrus'', ''weasel'', ''wombat'',
     ''yak'', ''zebra'']"

definition random_animal :: "env \<Rightarrow> world \<Rightarrow> string \<times> world" where
  "random_animal e w =
     (case draw_bytes e 2 w of
        (None, w1) \<Rightarrow> (animal_names ! 0, w1)
      | (Some b, w1) \<Rightarrow>
          (animal_names ! ((256 * of_char (b ! 0) + of_char (b ! 1)) mod length animal_names), w1))"

subsection \<open>Reloading the interface\<close>

definition shell_cmd :: "env \<Rightarrow> string \<Rightarrow> string list" where
  "shell_cmd e script =
     (if getenv e ''ENROL_RELOAD_NSENTER'' \<noteq> ''false''
      then [''nsenter'', ''--target'', ''1'', ''--net'', ''--mount'', ''--'', ''bash'', ''-c'', script]
      else [''bash'', ''-c'', script])"

definition reload_interface :: "env \<Rightarrow> string \<Rightarrow> string \<Rightarrow> world \<Rightarrow> unit res \<times> world" where
  "reload_interface e dir iface w =
     (let path = filepath_join [dir, iface @ ''.conf''];
          (r1, w1) = exec e (shell_cmd e (''awg syncconf '' @ iface @ '' <(awg-quick strip '' @ path @ '')'')) [] w
      in case pr_error r1 of
           None \<Rightarrow> (Inr (), w1)
         | Some e1 \<Rightarrow>
             (let (r2, w2) = exec e (shell_cmd e (''wg syncconf '' @ iface @ '' <(wg-quick strip '' @ path @ '')'')) [] w1
              in case pr_error r2 of
                   None \<Rightarrow> (Inr (), w2)
                 | Some e2 \<Rightarrow>
                     (Inl (Failure (''syncconf failed: awg='' @ e1 @ '' ('' @ go_trim_space (combined r1)
                        @ '') wg='' @ e2 @ '' ('' @ go_trim_space (combined r2) @ '')'')), w2)))"

subsection \<open>The client configuration\<close>

text \<open>The first readable, non-empty override file, trimmed.\<close>

fun first_override :: "env \<Rightarrow> world \<Rightarrow> string \<Rightarrow> string list \<Rightarrow> string" where
  "first_override e w d [] = d"
| "first_override e w d (p # ps) =
     (case read_file e p w of
        Inr c \<Rightarrow> (if content_text e c \<noteq> [] then go_trim_space (content_text e c)
                  else first_override e w d ps)
      | Inl _ \<Rightarrow> first_override e w d ps)"

definition obfuscation_keys :: "string list" where
  "obfuscation_keys = [''Jc'', ''Jmin'', ''Jmax'', ''S1'', ''S2'', ''H1'', ''H2'', ''H3'', ''H4'']"

definition client_conf_lines ::
  "config \<Rightarrow> peer \<Rightarrow> parsed_conf \<Rightarrow> gotime \<Rightarrow> string \<Rightarrow> string \<Rightarrow> string \<Rightarrow> string \<Rightarrow> string list" where
  "client_conf_lines cfg p pc t server_pub allowed dns mtu =
     [''# enrol peer: '' @ sanitize (p_name p), ''# generated '' @ fmt_rfc3339 t, ''[Interface]'',
      ''PrivateKey = '' @ (if p_private_key p = [] then ''<PRIVATE_KEY_NOT_AVAILABLE_AFTER_CREATION>''
                           else p_private_key p),
      ''Address = '' @ p_ip p @ ''/32'', ''MTU = '' @ mtu, ''DNS = '' @ dns]
     @ map (\<lambda>k. k @ '' = '' @ iface_param pc k) (filter (\<lambda>k. iface_param pc k \<noteq> []) obfuscation_keys)
     @ [[], ''[Peer]'',
        ''PublicKey = '' @ (if server_pub \<noteq> [] then server_pub else ''<SERVER_PUBLIC_KEY_NOT_FOUND>''),
        ''Endpoint = '' @ awg_endpoint cfg, ''PersistentKeepalive = 25'',
        ''# AllowedIPs managed by update-route-tables.sh'', ''AllowedIPs = '' @ allowed]"

definition render_client_conf :: "env \<Rightarrow> config \<Rightarrow> peer \<Rightarrow> parsed_conf \<Rightarrow> world \<Rightarrow> string" where
  "render_client_conf e cfg p pc w =
     (let spub = (case read_file e (filepath_join [awg_dir cfg, awg_iface cfg @ ''_public.key'']) w of
                          Inr c \<Rightarrow> go_trim_space (content_text e c) | Inl _ \<Rightarrow> []);
          override = (\<lambda>d name. first_override e w d
                        [''/var/cache/raph/'' @ name, filepath_join [awg_dir cfg, name]]);
          allowed = override ''0.0.0.0/0'' ''allowed-ips.txt'';
          dns = override ''1.1.1.1, 8.8.8.8'' ''dns-servers.txt'';
          mtu = override ''1420'' ''peer-mtu.txt''
      in concat (map (\<lambda>l. l @ [CHR 10]) (client_conf_lines cfg p pc (now w) spub allowed dns mtu)))"

definition awg_enabled :: "env \<Rightarrow> config \<Rightarrow> world \<Rightarrow> bool" where
  "awg_enabled e cfg w = is_ok (stat_file e (conf_path cfg) w)"

subsection \<open>The archive\<close>

definition ensure_archive_dir :: "env \<Rightarrow> config \<Rightarrow> world \<Rightarrow> unit res \<times> world" where
  "ensure_archive_dir e cfg w =
     (if peers_archive_dir cfg = [] then (Inl (Failure ''peersArchiveDir is empty''), w)
      else (case mkdir_all e (peers_archive_dir cfg) w of
              (Inl err, w1) \<Rightarrow> (Inl err, w1)
            | (Inr _, w1) \<Rightarrow> (chmod_path e (peers_archive_dir cfg) w1, w1)))"

definition archive_path :: "config \<Rightarrow> string \<Rightarrow> string res" where
  "archive_path cfg name =
     (if valid_name name then Inr (filepath_join [peers_archive_dir cfg, name @ ''.conf''])
      else Inl (Failure (''invalid peer name '' @ go_quote name)))"

definition archive_exists :: "env \<Rightarrow> config \<Rightarrow> string \<Rightarrow> world \<Rightarrow> bool" where
  "archive_exists e cfg name w =
     (case archive_path cfg name of
        Inl _ \<Rightarrow> False
      | Inr p \<Rightarrow> (case stat_file e p w of Inr (File _) \<Rightarrow> True | _ \<Rightarrow> False))"

definition archive_read :: "env \<Rightarrow> config \<Rightarrow> string \<Rightarrow> world \<Rightarrow> string res" where
  "archive_read e cfg name w =
     (case archive_path cfg name of
        Inl err \<Rightarrow> Inl err
      | Inr p \<Rightarrow> (case read_file e p w of Inl err \<Rightarrow> Inl err | Inr c \<Rightarrow> Inr (content_text e c)))"

definition archive_write :: "env \<Rightarrow> config \<Rightarrow> string \<Rightarrow> string \<Rightarrow> world \<Rightarrow> unit res \<times> world" where
  "archive_write e cfg name conf w =
     (case archive_path cfg name of
        Inl err \<Rightarrow> (Inl err, w)
      | Inr p \<Rightarrow>
          (case ensure_archive_dir e cfg w of
             (Inl err, w1) \<Rightarrow> (Inl err, w1)
           | (Inr _, w1) \<Rightarrow> atomic_write e p (Bytes conf) w1))"

definition archive_delete :: "env \<Rightarrow> config \<Rightarrow> string \<Rightarrow> world \<Rightarrow> unit res \<times> world" where
  "archive_delete e cfg name w =
     (case archive_path cfg name of
        Inl err \<Rightarrow> (Inl err, w)
      | Inr p \<Rightarrow>
          (case remove_file e p w of
             (Inl err, w1) \<Rightarrow> (if is_not_exist err then Inr () else Inl err, w1)
           | (Inr _, w1) \<Rightarrow> (Inr (), w1)))"

end
