(* ===== verification/PeerSpec.thy ===== *)
theory PeerSpec
  imports PeerOps
begin

text \<open>
  What the archive and the key generator promise: an archived configuration lies directly in
  the archive directory, different peers never share a file, and what was written is read
  back; a generated public key is text the parser of \<open>gw0.conf\<close> reads back unchanged.
\<close>

definition sample_config :: config where
  "sample_config =
     \<lparr>domain = ''d'', listen = [], awg_dir = ''/w'', awg_iface = ''g'', awg_endpoint = ''g:1'',
      peer_subnet = ''10.9.0.0/24'', peer_start = 2, header_user = ''Remote-User'',
      header_groups = ''Remote-Groups'', required_group = ''admin'', templates_dir = [],
      static_dir = [], forward_auth_secret = ''s'', users_db_path = ''/u'', authelia_container = ''a'',
      authelia_url = [], authelia_storage_db = ''/b'', skip_cloud = False, skip_task = False,
      launcher_dir = ''/l'', peers_archive_dir = ''/p'', setup_state_dir = ''/t'',
      setup_complete_sentinel = ''/c'', setup_token_file = [], setup_token = [], stacks_dir = ''/s'',
      repo_dir = ''/r'', task_db_container = ''k'', task_db_name = ''k'', task_db_user = ''k'',
      task_env_file = ''/e'', backup_repo_dir = ''/x'', backup_password_file = ''/y'',
      backup_restic_bin = ''restic'', backup_retention_daily = 10\<rparr>"

subsection \<open>Keys\<close>

lemma b64_std_solid: "n < 64 \<Longrightarrow> solid (b64_std n)"
  by (auto simp: b64_std_def solid_def of_char_of)

lemma length_b64_raw: "length (b64_raw s) = (8 * length s + 5) div 6"
  by (simp add: b64_raw_def length_b64_groups bytes_of_def)

lemma b64_padded_solid: "s \<noteq> [] \<Longrightarrow> solid_text (b64_padded s)"
proof -
  assume s: "s \<noteq> []"
  then have "b64_raw s \<noteq> []" using length_b64_raw [of s] by (cases s) auto
  moreover have "list_all solid (b64_raw s)"
    using set_b64_groups [of "bytes_of s" _ b64_std] bytes_of_less b64_std_solid
    by (fastforce simp: b64_raw_def list_all_iff)
  ultimately show ?thesis
    by (auto simp: solid_text_def b64_padded_def list_all_iff solid_def)
qed

lemma length_fixed_bytes [simp]: "length (fixed_bytes n s) = n"
  by (simp add: fixed_bytes_def)

lemma gen_keypair_ok:
  "gen_keypair e w = (Inr (priv, pub), w') \<Longrightarrow>
   solid_text pub \<and> files w' = files w \<and> cmds w' = cmds w \<and> now w' = now w"
  using b64_padded_solid [of "fixed_bytes 32 _"] length_fixed_bytes [of 32]
  by (auto simp: gen_keypair_def split: sum.splits simp flip: length_greater_0_conv)

subsection \<open>Paths\<close>

lemma valid_name_plain: "valid_name name \<Longrightarrow> plain_comp (name @ ''.conf'')"
proof -
  assume v: "valid_name name"
  then have "CHR ''/'' \<notin> set name"
    by (auto simp: valid_name_def list_all_iff is_alpha_def is_lower_def is_upper_def is_digit_def)
  moreover have "length (name @ ''.conf'') > 2" by simp
  then have "name @ ''.conf'' \<noteq> ''.''" "name @ ''.conf'' \<noteq> ''..''" "name @ ''.conf'' \<noteq> []"
    by (metis One_nat_def length_Cons less_Suc_eq less_numeral_extra(3) list.size(3) not_less_eq
        numeral_2_eq_2, metis length_Cons less_irrefl list.size(3) numeral_2_eq_2, simp)
  ultimately show ?thesis by (simp add: plain_comp_def)
qed

lemma archive_path_eq:
  assumes "has_prefix (peers_archive_dir cfg) ''/''" "valid_name name"
  shows "archive_path cfg name
      = Inr (''/'' @ join ''/'' (path_comps (peers_archive_dir cfg) @ [name @ ''.conf'']))"
  using path_comps_join_name [OF assms(1) valid_name_plain [OF assms(2)]] assms(2)
  by (simp add: archive_path_def)

text \<open>C29. For a rooted archive directory, the file of a valid peer name is the child
  \<open>name.conf\<close> of that directory, whatever dots the name contains, and two different names
  have different files.\<close>

theorem archive_paths_confined:
  assumes "has_prefix (peers_archive_dir cfg) ''/''" and "valid_name n1" and "valid_name n2"
  shows "path_comps (projr (archive_path cfg n1)) = path_comps (peers_archive_dir cfg) @ [n1 @ ''.conf'']
     \<and> (archive_path cfg n1 = archive_path cfg n2 \<longleftrightarrow> n1 = n2)"
proof -
  let ?d = "path_comps (peers_archive_dir cfg)"
  have c: "\<forall>x \<in> set (?d @ [n @ ''.conf'']). CHR ''/'' \<notin> set x \<and> x \<noteq> []" if "valid_name n" for n
    using path_comps_no_sep path_comps_nonempty valid_name_plain [OF that] by (auto simp: plain_comp_def)
  have up: "''..'' \<notin> set ?d" by (rule path_comps_rooted_no_up [OF assms(1)])
  have "path_comps (''/'' @ join ''/'' (?d @ [n1 @ ''.conf''])) = ?d @ [n1 @ ''.conf'']"
  proof -
    have s: "split_on CHR ''/'' (''/'' @ join ''/'' (?d @ [n1 @ ''.conf''])) = [] # ?d @ [n1 @ ''.conf'']"
      using c [OF assms(2)] by (simp add: split_on_join)
    have "\<forall>x \<in> set ?d. x \<noteq> ''.''" using path_comps_no_dot by blast
    then have "\<forall>x \<in> set (?d @ [n1 @ ''.conf'']). plain_comp x"
      using c [OF assms(2)] up valid_name_plain [OF assms(2)] by (auto simp: plain_comp_def)
    then show ?thesis unfolding path_comps_def [of "''/'' @ _"] s by (simp add: clean_comps_plain)
  qed
  moreover have "join ''/'' (?d @ [n1 @ ''.conf'']) = join ''/'' (?d @ [n2 @ ''.conf''])
      \<longleftrightarrow> ?d @ [n1 @ ''.conf''] = ?d @ [n2 @ ''.conf'']"
    by (rule join_eq_iff [OF c [OF assms(2)] c [OF assms(3)]])
  ultimately show ?thesis by (simp add: archive_path_eq assms)
qed
theorem archive_paths_confined_witness:
  "path_comps (projr (archive_path (sample_config\<lparr>peers_archive_dir := ''/a/b''\<rparr>) ''..''))
     = [''a'', ''b'', ''...conf'']"
proof -
  have "path_comps ''/a/b'' = [''a'', ''b'']" by (simp add: path_comps_def)
  then show ?thesis
    using archive_paths_confined [of "sample_config\<lparr>peers_archive_dir := ''/a/b''\<rparr>" "''..''" "''..''"]
    by (simp add: valid_name_def)
qed

subsection \<open>Writing and reading\<close>

lemma atomic_write_frame:
  "q \<noteq> p \<Longrightarrow> q \<noteq> p @ ''.tmp'' \<Longrightarrow> files (snd (atomic_write e p c w)) q = files w q"
  "cmds (snd (atomic_write e p c w)) = cmds w"
  "now (snd (atomic_write e p c w)) = now w"
  "draws (snd (atomic_write e p c w)) = draws w"
  by (auto simp: atomic_write_def write_file_def rename_file_def split: option.splits sum.splits prod.splits)

lemma conf_suffix_neq_tmp: "''/'' @ join ''/'' (d @ [m @ ''.conf'']) \<noteq> (''/'' @ join ''/'' (d @ [n @ ''.conf''])) @ ''.tmp''"
proof
  have l: "has_suffix (''/'' @ join ''/'' (d @ [m @ ''.conf''])) ''conf''"
  proof -
    have "\<exists>r. join ''/'' (d @ [x]) = r @ x" for x
    proof (cases "d = []")
      case False
      then show ?thesis unfolding join_snoc [OF False] by (metis append.assoc)
    qed simp
    then obtain r where "join ''/'' (d @ [m @ ''.conf'']) = r @ m @ ''.conf''" by blast
    then have "''/'' @ join ''/'' (d @ [m @ ''.conf'']) = (''/'' @ r @ m @ ''.'') @ ''conf''" by simp
    then show ?thesis unfolding has_suffix_iff by blast
  qed
  assume "''/'' @ join ''/'' (d @ [m @ ''.conf'']) = (''/'' @ join ''/'' (d @ [n @ ''.conf''])) @ ''.tmp''"
  with l obtain r where "r @ ''conf'' = (''/'' @ join ''/'' (d @ [n @ ''.conf''])) @ ''.tmp''"
    by (metis has_suffix_iff)
  then have "rev (r @ ''conf'') = rev ((''/'' @ join ''/'' (d @ [n @ ''.conf''])) @ ''.tmp'')" by (rule arg_cong)
  then show False by simp
qed

lemma ensure_archive_frame:
  "q \<noteq> peers_archive_dir cfg \<Longrightarrow> files (snd (ensure_archive_dir e cfg w)) q = files w q"
  by (auto simp: ensure_archive_dir_def mkdir_all_def split: option.splits sum.splits prod.splits node.splits)

text \<open>A configuration that was archived is what \<open>archiveRead\<close> returns, and the archived
  configurations of all other peers are untouched.\<close>

theorem archive_write_read:
  assumes "has_prefix (peers_archive_dir cfg) ''/''"
    and "archive_write e cfg name conf w = (Inr (), w')"
    and "io_fault e (OpRead (projr (archive_path cfg name))) = None"
  shows "archive_read e cfg name w' = Inr conf
    \<and> (\<forall>other. other \<noteq> name \<longrightarrow> archive_read e cfg other w' = archive_read e cfg other w)"
proof -
  have v: "valid_name name" using assms(2) by (auto simp: archive_write_def archive_path_def split: if_splits)
  let ?p = "\<lambda>n. ''/'' @ join ''/'' (path_comps (peers_archive_dir cfg) @ [n @ ''.conf''])"
  have ap: "archive_path cfg n = Inr (?p n)" if "valid_name n" for n
    by (rule archive_path_eq [OF assms(1) that])
  obtain w1 where w1: "ensure_archive_dir e cfg w = (Inr (), w1)"
    and aw: "atomic_write e (?p name) (Bytes conf) w1 = (Inr (), w')"
    using assms(2) ap [OF v] by (auto simp: archive_write_def split: sum.splits prod.splits)
  have "archive_read e cfg name w' = Inr conf"
    using atomic_write_ok [OF aw] assms(3) ap [OF v]
    by (simp add: archive_read_def read_file_def content_text_def)
  moreover have "archive_read e cfg other w' = archive_read e cfg other w" if o: "other \<noteq> name" for other
  proof (cases "valid_name other")
    case True
    have n1: "?p other \<noteq> ?p name"
      using archive_paths_confined [OF assms(1) True v] ap [OF True] ap [OF v] o by simp
    have n2: "?p other \<noteq> ?p name @ ''.tmp''" by (rule conf_suffix_neq_tmp)
    have n3: "?p other \<noteq> peers_archive_dir cfg"
    proof
      assume "?p other = peers_archive_dir cfg"
      then have "path_comps (?p other) = path_comps (peers_archive_dir cfg)" by simp
      with archive_paths_confined [OF assms(1) True v] ap [OF True] show False by simp
    qed
    have "files w' (?p other) = files w1 (?p other)" using atomic_write_frame(1) [OF n1 n2, of e "Bytes conf" w1] aw by simp
    also have "\<dots> = files w (?p other)" using ensure_archive_frame [OF n3, of e w] w1 by simp
    finally show ?thesis
      unfolding archive_read_def ap [OF True] sum.case by (simp only: read_file_cong [of w' "?p other" w e])
  next
    case False
    then show ?thesis by (simp add: archive_read_def archive_path_def)
  qed
  ultimately show ?thesis by blast
qed

theorem archive_write_read_witness:
  "\<exists>w'. archive_write calm_env (sample_config\<lparr>peers_archive_dir := ''/a''\<rparr>) ''p'' ''c'' blank_world = (Inr (), w')
     \<and> archive_read calm_env (sample_config\<lparr>peers_archive_dir := ''/a''\<rparr>) ''p'' w' = Inr ''c''"
proof -
  let ?cfg = "sample_config\<lparr>peers_archive_dir := ''/a''\<rparr>"
  have "archive_path ?cfg ''p'' = Inr ''/a/p.conf''" by code_simp
  then obtain w' where w': "archive_write calm_env ?cfg ''p'' ''c'' blank_world = (Inr (), w')"
    by (simp add: archive_write_def ensure_archive_dir_def mkdir_all_def chmod_path_def
        atomic_write_def write_file_def rename_file_def)
  from archive_write_read [of ?cfg calm_env "''p''" "''c''" blank_world w'] w' show ?thesis by simp
qed

end
