(* ===== verification/UsersSpec.thy ===== *)
theory UsersSpec
  imports UsersDb PeerSpec
begin

text \<open>
  What the user database promises: an account that is written is the account a process reads
  after the flush, all other accounts and the order of the file stay as they were, and a
  password hash verifies exactly the passwords with the same argon2id digest.
\<close>

subsection \<open>The children of a mapping as key-value pairs\<close>

fun pairs :: "ynode list \<Rightarrow> (string \<times> ynode) list" where
  "pairs (k # v # r) = (yvalue k, v) # pairs r"
| "pairs r = []"

definition pairs_ok :: "ynode list \<Rightarrow> bool" where
  "pairs_ok cs \<longleftrightarrow> even (length cs) \<and> distinct (map fst (pairs cs))"

lemma content_find_pairs: "content_find k cs = map_of (pairs cs) k"
  by (induction k cs rule: content_find.induct) auto

lemma pairs_content_set:
  "even (length cs) \<Longrightarrow> pairs (content_set k n cs) = AList.update k n (pairs cs)"
  by (induction k n cs rule: content_set.induct) auto

lemma even_content_set: "even (length (content_set k n cs)) = even (length cs)"
  by (induction k n cs rule: content_set.induct) auto

lemma even_content_del: "even (length (content_del k cs)) = even (length cs)"
  by (induction k cs rule: content_del.induct) auto

lemma delete_notin: "k \<notin> fst ` set xs \<Longrightarrow> AList.delete k xs = xs"
  by (induction xs) auto

lemma pairs_content_del:
  "distinct (map fst (pairs cs)) \<Longrightarrow> pairs (content_del k cs) = AList.delete k (pairs cs)"
  by (induction k cs rule: content_del.induct) (auto simp: delete_notin)

interpretation ucs: keyed_store "\<lambda>cs k. content_find k cs" content_set content_del pairs_ok
  by unfold_locales
     (auto simp: pairs_ok_def content_find_pairs pairs_content_set pairs_content_del update_conv'
        delete_conv' even_content_set even_content_del distinct_update distinct_delete fun_eq_iff)

lemma keys_content_set:
  "pairs_ok cs \<Longrightarrow> map fst (pairs (content_set k n cs))
     = map fst (pairs cs) @ (if content_find k cs = None then [k] else [])"
  by (simp add: pairs_ok_def pairs_content_set content_find_pairs map_of_eq_None_iff update_keys)

lemma keys_content_del:
  "pairs_ok cs \<Longrightarrow> map fst (pairs (content_del k cs)) = filter (\<lambda>x. x \<noteq> k) (map fst (pairs cs))"
  by (simp add: pairs_ok_def pairs_content_del delete_keys removeAll_filter_not_eq) (metis (mono_tags, lifting))

subsection \<open>Decoding\<close>

lemma decode_users_iff:
  "decode_users e cs us = Inr us' \<longleftrightarrow>
     (\<forall>(k, v) \<in> set (pairs cs). is_ok (yaml_decode e v)) \<and>
     us' = fold (\<lambda>(k, v). AList.update k (projr (yaml_decode e v))) (pairs cs) us"
  by (induction e cs us rule: decode_users.induct) (auto split: sum.splits)

lemma decoded_users:
  assumes "distinct (map fst (pairs cs))" "decode_users e cs [] = Inr us"
  shows "map_of us = map_option (projr \<circ> yaml_decode e) \<circ> map_of (pairs cs)"
proof -
  have "us = fold (\<lambda>(k, v). AList.update k ((projr \<circ> yaml_decode e) v)) (pairs cs) []"
    using assms(2) by (simp add: decode_users_iff)
  moreover have "map_of (rev (pairs cs)) = map_of (pairs cs)"
    using assms(1) by (simp add: map_of_inject_set rev_map [symmetric])
  ultimately show ?thesis by (simp only: map_of_fold_update) (simp add: comp_def)
qed

subsection \<open>What the code relies on of the YAML library\<close>

text \<open>Two trees are alike when they have the same kinds, values and children, and every node
  decodes to the same account; tags may differ, since the parser fills in the tag that the
  writer left out.\<close>

inductive yaml_like :: "env \<Rightarrow> ynode \<Rightarrow> ynode \<Rightarrow> bool" for e where
  like: "ykind n = ykind m \<Longrightarrow> yvalue n = yvalue m \<Longrightarrow> yaml_decode e n = yaml_decode e m \<Longrightarrow>
         list_all2 (yaml_like e) (ycontent n) (ycontent m) \<Longrightarrow> yaml_like e n m"
monos list.rel_mono

inductive_simps yaml_like_iff: "yaml_like e n m"

definition yaml_ok :: "env \<Rightarrow> bool" where
  "yaml_ok e \<longleftrightarrow>
     (\<forall>n c. ykind n = YDocument \<longrightarrow> yaml_marshal e n = Inr c \<longrightarrow>
        (\<exists>m. yaml_unmarshal e c = Inr m \<and> yaml_like e n m)) \<and>
     (\<forall>c n. yaml_unmarshal e c = Inr n \<longrightarrow> ykind n = YZero \<or> ykind n = YDocument) \<and>
     (\<forall>u n. yaml_encode e u = Inr n \<longrightarrow> yaml_decode e (untag n) = Inr u)"

lemma like_decode_users:
  "list_all2 (yaml_like e) cs ds \<Longrightarrow> decode_users e ds us = decode_users e cs us"
proof (induction e cs us arbitrary: ds rule: decode_users.induct)
  case (1 e k v r us)
  then obtain k' v' r' where d: "ds = k' # v' # r'" "yaml_like e k k'" "yaml_like e v v'"
    "list_all2 (yaml_like e) r r'" by (auto simp: list_all2_Cons1)
  then have "yvalue k' = yvalue k" "yaml_decode e v' = yaml_decode e v" by (auto simp: yaml_like_iff)
  with 1 d show ?case by (auto split: sum.splits)
qed (auto simp: list_all2_Cons1)

lemma like_pairs: "list_all2 (yaml_like e) cs ds \<Longrightarrow> map fst (pairs ds) = map fst (pairs cs)"
proof (induction cs arbitrary: ds rule: pairs.induct)
  case (1 k v r)
  then obtain k' v' r' where d: "ds = k' # v' # r'" "yaml_like e k k'" "list_all2 (yaml_like e) r r'"
    by (auto simp: list_all2_Cons1)
  then have "yvalue k' = yvalue k" by (auto simp: yaml_like_iff)
  with 1 d show ?case by auto
qed (auto simp: list_all2_Cons1)

lemma like_content_find:
  "list_all2 (yaml_like e) cs ds \<Longrightarrow> rel_option (yaml_like e) (content_find k cs) (content_find k ds)"
proof (induction k cs arbitrary: ds rule: content_find.induct)
  case (1 key k v r)
  then obtain k' v' r' where d: "ds = k' # v' # r'" "yaml_like e k k'" "yaml_like e v v'"
    "list_all2 (yaml_like e) r r'" by (auto simp: list_all2_Cons1)
  then have "yvalue k' = yvalue k" by (auto simp: yaml_like_iff)
  with 1 d show ?case by auto
qed (auto simp: list_all2_Cons1)

lemma like_users_content:
  assumes "yaml_like e n m"
  shows "rel_option (list_all2 (yaml_like e)) (users_content n) (users_content m)"
proof -
  have "yaml_like e (document_root n) (document_root m)"
    using assms by (cases "ycontent n"; cases "ycontent m")
      (auto simp: document_root_def yaml_like_iff [of e n m])
  then have "rel_option (yaml_like e) (find_child (document_root n) ''users'') (find_child (document_root m) ''users'')"
    using like_content_find by (auto simp: find_child_def yaml_like_iff [of e "document_root n"])
  then show ?thesis
    by (cases "find_child (document_root n) ''users''"; cases "find_child (document_root m) ''users''")
       (auto simp: users_content_def yaml_like_iff)
qed

lemma content_find_replace: "content_find k (content_replace k f cs) = map_option f (content_find k cs)"
  by (induction k f cs rule: content_replace.induct) auto

lemma map_content_simps [simp]:
  "ykind (map_content f n) = ykind n" "yvalue (map_content f n) = yvalue n"
  "ycontent (map_content f n) = f (ycontent n)"
  by (simp_all add: map_content_def)

lemma find_child_update:
  "find_child (map_content (content_replace k (map_content f)) m) k = map_option (map_content f) (find_child m k)"
  by (simp add: find_child_def content_find_replace)

lemma users_content_update: "users_content (update_users f n) = map_option f (users_content n)"
proof (cases "ykind n = YDocument \<and> ycontent n \<noteq> []")
  case True
  then show ?thesis
    by (simp add: users_content_def update_users_def document_root_def find_child_update option.map_comp comp_def)
next
  case False
  let ?g = "map_content (content_replace ''users'' (map_content f))"
  have "content_replace k g cs = [] \<longleftrightarrow> cs = []" for k g cs
    by (induction k g cs rule: content_replace.induct) auto
  then have "document_root (?g n) = ?g n" "document_root n = n"
    using False by (auto simp: document_root_def)
  moreover have "update_users f n = ?g n" using False by (auto simp: update_users_def Let_def)
  ultimately show ?thesis
    by (simp add: users_content_def find_child_update option.map_comp comp_def)
qed

lemma update_users_kind: "ykind (update_users f n) = ykind n"
  by (simp add: update_users_def Let_def)

subsection \<open>Loading\<close>

definition db_content :: "users_db \<Rightarrow> ynode list" where
  "db_content db = the (users_content (db_root db))"

definition db_ok :: "users_db \<Rightarrow> bool" where
  "db_ok db \<longleftrightarrow> ykind (db_root db) = YDocument \<and> users_content (db_root db) \<noteq> None \<and> pairs_ok (db_content db)"

lemma load_users_content:
  assumes "load_users_db e p w = Inr db"
  shows "db_path db = p \<and> users_content (db_root db) = Some (db_content db) \<and>
    decode_users e (db_content db) [] = Inr (db_users db) \<and> io_fault e (OpRead p) = None"
  using assms
  by (auto simp: load_users_db_def db_content_def read_file_def Let_def split: sum.splits option.splits)

lemma flush_then_load:
  assumes y: "yaml_ok e" and d: "db_ok db" and fl: "flush_users e db w = (Inr (), w')"
    and io: "io_fault e (OpRead (db_path db)) = None"
    and dec: "decode_users e (db_content db) [] = Inr us"
  shows "\<exists>db2. load_users_db e (db_path db) w' = Inr db2 \<and> db_users db2 = us \<and>
           map fst (pairs (db_content db2)) = map fst (pairs (db_content db)) \<and> db_ok db2"
proof -
  obtain c where c: "yaml_marshal e (db_root db) = Inr c" "files w' (db_path db) = Some (File c)"
    using fl by (auto simp: flush_users_def Let_def split: sum.splits option.splits node.splits)
  obtain m where m: "yaml_unmarshal e c = Inr m" "yaml_like e (db_root db) m"
    using y d c(1) unfolding yaml_ok_def db_ok_def by metis
  have k: "ykind m = YDocument" using m(2) d by (auto simp: yaml_like_iff db_ok_def)
  obtain ds where ds: "users_content m = Some ds" "list_all2 (yaml_like e) (db_content db) ds"
    using like_users_content [OF m(2)] d
    by (cases "users_content (db_root db)"; cases "users_content m") (auto simp: db_ok_def db_content_def)
  have p: "map fst (pairs ds) = map fst (pairs (db_content db))" "length ds = length (db_content db)"
    using like_pairs [OF ds(2)] list_all2_lengthD [OF ds(2)] by simp_all
  let ?db2 = "\<lparr>db_path = db_path db, db_root = m, db_users = us\<rparr>"
  have "load_users_db e (db_path db) w' = Inr ?db2"
    using c(2) io m(1) k ds(1) like_decode_users [OF ds(2), of "[]"] dec
    by (simp add: load_users_db_def read_file_def)
  moreover have "db_content ?db2 = ds" using ds(1) by (simp add: db_content_def)
  ultimately show ?thesis using p d ds(1) k by (auto simp: db_ok_def pairs_ok_def)
qed

text \<open>Loading, changing the children of \<open>users\<close> and writing the file: what the next load sees.\<close>

lemma edit_then_load:
  assumes y: "yaml_ok e" and l: "load_users_db e p w = Inr db" and ok: "db_ok db"
    and r: "db_root db' = update_users f (db_root db)" "db_path db' = p"
    and f: "pairs_ok (f (db_content db))" "\<forall>(k, v) \<in> set (pairs (f (db_content db))). is_ok (yaml_decode e v)"
    and fl: "flush_users e db' w2 = (Inr (), w')"
  shows "\<exists>db2. load_users_db e p w' = Inr db2 \<and> db_ok db2 \<and>
           db_get db2 = map_option (projr \<circ> yaml_decode e) \<circ> map_of (pairs (f (db_content db))) \<and>
           map fst (pairs (db_content db2)) = map fst (pairs (f (db_content db)))"
proof -
  have c: "users_content (db_root db) = Some (db_content db)" "io_fault e (OpRead p) = None"
    using load_users_content [OF l] by auto
  have c': "db_content db' = f (db_content db)" unfolding db_content_def [of db'] r(1) users_content_update c(1) by simp
  have ok': "db_ok db'"
    using ok f(1) c' c(1) by (simp add: db_ok_def r(1) update_users_kind users_content_update)
  define us where "us = fold (\<lambda>(k, v). AList.update k (projr (yaml_decode e v))) (pairs (f (db_content db))) []"
  have dec: "decode_users e (db_content db') [] = Inr us"
    using f(2) by (simp add: decode_users_iff c' us_def)
  have "io_fault e (OpRead (db_path db')) = None" using c(2) r(2) by simp
  from flush_then_load [OF y ok' fl this dec] r(2)
  obtain db2 where db2: "load_users_db e p w' = Inr db2" "db_users db2 = us" "db_ok db2"
    "map fst (pairs (db_content db2)) = map fst (pairs (db_content db'))" by auto
  have "map_of us = map_option (projr \<circ> yaml_decode e) \<circ> map_of (pairs (f (db_content db)))"
    using decoded_users [OF _ dec] f(1) c' by (simp add: pairs_ok_def)
  with db2 show ?thesis by (auto simp: db_get_def c' fun_eq_iff)
qed

lemma loaded_get:
  assumes "load_users_db e p w = Inr db" "db_ok db"
  shows "db_get db = map_option (projr \<circ> yaml_decode e) \<circ> map_of (pairs (db_content db))"
    and "\<forall>(k, v) \<in> set (pairs (db_content db)). is_ok (yaml_decode e v)"
  using load_users_content [OF assms(1)] assms(2) decoded_users [of "db_content db" e "db_users db"]
  by (auto simp: db_ok_def pairs_ok_def db_get_def decode_users_iff fun_eq_iff)

lemma set_update: "x \<in> set (AList.update k v xs) \<Longrightarrow> x = (k, v) \<or> x \<in> set xs"
  by (induction xs) (auto split: if_splits)

lemma set_delete: "x \<in> set (AList.delete k xs) \<Longrightarrow> x \<in> set xs"
  by (induction xs) (auto split: if_splits)

lemma upsert_reload:
  assumes "yaml_ok e" and "load_users_db e p w = Inr db" and "db_ok db"
    and "upsert e name u db = Inr db'" and "flush_users e db' w2 = (Inr (), w')"
  shows "\<exists>db2. load_users_db e p w' = Inr db2 \<and> db_ok db2 \<and> db_get db2 = (db_get db)(name \<mapsto> u)
     \<and> map fst (pairs (db_content db2)) = map fst (pairs (db_content db))
         @ (if db_get db name = None then [name] else [])"
proof -
  note g = loaded_get [OF assms(2,3)]
  obtain n where n: "yaml_encode e u = Inr n"
    and db': "db' = db\<lparr>db_root := update_users (content_set name (untag n)) (db_root db),
                     db_users := AList.update name u (db_users db)\<rparr>"
    using assms(4) by (auto simp: upsert_def split: if_splits option.splits sum.splits)
  have d: "yaml_decode e (untag n) = Inr u" using assms(1) n by (simp add: yaml_ok_def)
  have ok: "pairs_ok (db_content db)" using assms(3) by (simp add: db_ok_def)
  let ?c = "content_set name (untag n) (db_content db)"
  have pc: "pairs ?c = AList.update name (untag n) (pairs (db_content db))"
    using ok by (simp add: pairs_ok_def pairs_content_set)
  have "\<forall>(k, v) \<in> set (pairs ?c). is_ok (yaml_decode e v)"
    unfolding pc using g(2) d by (auto dest!: set_update)
  moreover have "db_path db' = p" using load_users_content [OF assms(2)] db' by simp
  ultimately obtain db2 where db2: "load_users_db e p w' = Inr db2" "db_ok db2"
    "db_get db2 = map_option (projr \<circ> yaml_decode e) \<circ> map_of (pairs ?c)"
    "map fst (pairs (db_content db2)) = map fst (pairs ?c)"
    using edit_then_load [where f = "content_set name (untag n)", OF assms(1-3) _ _ _ _ assms(5)]
      ucs.ok_put [OF ok, of name "untag n"] db' by auto
  have "db_get db2 = (db_get db)(name \<mapsto> u)"
    unfolding db2(3) g(1) pc by (auto simp: update_conv' d fun_eq_iff)
  moreover have "db_get db name = None \<longleftrightarrow> content_find name (db_content db) = None"
    by (simp add: g(1) content_find_pairs)
  ultimately show ?thesis using db2(1,2,4) keys_content_set [OF ok, of name "untag n"] by auto
qed


text \<open>An account that is removed and flushed is gone at the next load; every other account
  and the order of the file stay.\<close>

theorem remove_persists:
  assumes "yaml_ok e" and "load_users_db e p w = Inr db" and "db_ok db"
    and "remove_user name db = Inr db'" and "flush_users e db' w2 = (Inr (), w')"
  shows "\<exists>db2. load_users_db e p w' = Inr db2 \<and> db_ok db2 \<and> db_get db2 = (db_get db)(name := None)
     \<and> map fst (pairs (db_content db2)) = filter (\<lambda>k. k \<noteq> name) (map fst (pairs (db_content db)))"
proof -
  note g = loaded_get [OF assms(2,3)]
  have db': "db' = db\<lparr>db_root := update_users (content_del name) (db_root db),
                     db_users := AList.delete name (db_users db)\<rparr>"
    using assms(4) by (auto simp: remove_user_def split: if_splits option.splits)
  have ok: "pairs_ok (db_content db)" using assms(3) by (simp add: db_ok_def)
  let ?c = "content_del name (db_content db)"
  have pc: "pairs ?c = AList.delete name (pairs (db_content db))"
    using ok by (simp add: pairs_ok_def pairs_content_del)
  have "\<forall>(k, v) \<in> set (pairs ?c). is_ok (yaml_decode e v)"
    unfolding pc using g(2) by (auto dest!: set_delete)
  moreover have "db_path db' = p" using load_users_content [OF assms(2)] db' by simp
  ultimately obtain db2 where db2: "load_users_db e p w' = Inr db2" "db_ok db2"
    "db_get db2 = map_option (projr \<circ> yaml_decode e) \<circ> map_of (pairs ?c)"
    "map fst (pairs (db_content db2)) = map fst (pairs ?c)"
    using edit_then_load [where f = "content_del name", OF assms(1-3) _ _ _ _ assms(5)]
      ucs.ok_del [OF ok, of name] db' by auto
  have "db_get db2 = (db_get db)(name := None)"
    unfolding db2(3) g(1) pc by (auto simp: delete_conv' fun_eq_iff)
  then show ?thesis using db2(1,2,4) keys_content_del [OF ok, of name] by auto
qed

subsection \<open>A concrete database\<close>

definition sample_user :: user where
  "sample_user = \<lparr>u_disabled = False, u_displayname = ''A'', u_password = ''h'', u_email = ''m'', u_groups = [''users'']\<rparr>"

definition sample_root :: ynode where
  "sample_root = YNode YDocument [] [] [YNode YMapping [] [] [YNode YScalar [] ''users'' [],
     YNode YMapping [] [] [YNode YScalar [] ''a'' [], projr (calm_encode sample_user)]]]"

definition sample_world :: world where
  "sample_world = blank_world\<lparr>files := [''u'' \<mapsto> File (Yaml sample_root)]\<rparr>"

definition sample_db :: users_db where
  "sample_db = \<lparr>db_path = ''u'', db_root = sample_root, db_users = [(''a'', sample_user)]\<rparr>"

lemma yaml_like_refl: "yaml_like e n n"
  by (induction n) (rule yaml_like.like, auto intro: list.rel_refl_strong)

lemma calm_decode_encode: "calm_encode u = Inr n \<Longrightarrow> calm_decode (untag n) = Inr u"
  by (cases u) (auto simp: calm_encode_def calm_decode_def untag_def comp_def)

lemma calm_yaml_document: "ykind n = YDocument \<Longrightarrow> calm_unmarshal (Yaml n) = Inr n"
  by (simp add: calm_unmarshal_def)

lemma sample_load: "load_users_db calm_env ''u'' sample_world = Inr sample_db"
  by (simp add: load_users_db_def read_file_def sample_world_def calm_unmarshal_def sample_root_def
      users_content_def document_root_def find_child_def calm_encode_def calm_decode_def
      sample_user_def sample_db_def)

lemma sample_db_ok: "db_ok sample_db"
  by (simp add: db_ok_def sample_db_def sample_root_def users_content_def document_root_def
      find_child_def db_content_def pairs_ok_def)

text \<open>The YAML part of the calm environment keeps the laws: every tree is alike to itself.\<close>

lemma calm_yaml_ok: "yaml_ok calm_env"
  by (auto simp: yaml_ok_def yaml_like_refl calm_decode_encode calm_unmarshal_def
      split: content.splits if_splits list.splits)


theorem remove_persists_witness:
  "\<exists>db' w' db2. remove_user ''a'' sample_db = Inr db'
     \<and> flush_users calm_env db' sample_world = (Inr (), w')
     \<and> load_users_db calm_env ''u'' w' = Inr db2 \<and> db_get db2 ''a'' = None"
proof -
  have c: "users_content sample_root = Some [YNode YScalar [] ''a'' [], projr (calm_encode sample_user)]"
    by (simp add: sample_root_def users_content_def document_root_def find_child_def)
  obtain db' where db': "remove_user ''a'' sample_db = Inr db'" "db_path db' = ''u''"
    using c by (auto simp: remove_user_def sample_db_def)
  obtain w' where w': "flush_users calm_env db' sample_world = (Inr (), w')"
    using db'(2) by (auto simp: flush_users_def sample_world_def)
  show ?thesis
    using remove_persists [OF calm_yaml_ok sample_load sample_db_ok db'(1) w'] db'(1) w' by auto
qed

subsection \<open>Order and hashes\<close>

lemma str_less_irrefl: "\<not> str_less s s"
  by (induction s) auto

lemma str_less_trans: "str_less a b \<Longrightarrow> str_less b c \<Longrightarrow> str_less a c"
proof (induction a b arbitrary: c rule: str_less.induct)
  case (2 y ys)
  then show ?case by (cases c) auto
next
  case (4 x xs y ys)
  then show ?case by (cases c) auto
qed auto

lemma str_less_total: "a \<noteq> b \<Longrightarrow> str_less a b \<or> str_less b a"
proof (induction a b rule: str_less.induct)
  case (4 x xs y ys)
  then show ?case using linorder_neqE_nat [of "of_char x" "of_char y"] by auto
qed auto

lemma sift_sorted:
  "sorted_wrt (\<lambda>a b. \<not> str_less a b) ys \<Longrightarrow> sorted_wrt (\<lambda>a b. \<not> str_less a b) (sift ys x)
     \<and> mset (sift ys x) = add_mset x (mset ys)"
proof (induction ys x rule: sift.induct)
  case (2 y ys x)
  show ?case
  proof (cases "str_less x y")
    case True
    with 2 have m: "mset (sift ys x) = add_mset x (mset ys)" "sorted_wrt (\<lambda>a b. \<not> str_less a b) (sift ys x)"
      by simp_all
    then have "set (sift ys x) = insert x (set ys)" by (metis set_mset_add_mset_insert set_mset_mset)
    moreover have "\<not> str_less y x" using True str_less_trans str_less_irrefl by blast
    ultimately show ?thesis using True m 2 by simp
  next
    case False
    have "\<not> str_less x z" if "z \<in> set ys" for z
    proof
      assume "str_less x z"
      moreover have "\<not> str_less y z" using 2(2) that by simp
      moreover have "z = y \<or> str_less z y" using calculation(2) str_less_total by blast
      ultimately show False using False str_less_trans by blast
    qed
    with 2 False show ?thesis by simp
  qed
qed simp

text \<open>The user list shown on every page is in ascending byte order and is a permutation of
  the accounts.\<close>

theorem sort_strings_sorted:
  "sorted_wrt (\<lambda>a b. \<not> str_less b a) (sort_strings xs) \<and> mset (sort_strings xs) = mset xs"
proof -
  have "sorted_wrt (\<lambda>a b. \<not> str_less a b) (foldl sift acc xs) \<and> mset (foldl sift acc xs) = mset acc + mset xs"
    if "sorted_wrt (\<lambda>a b. \<not> str_less a b) acc" for acc
    using that by (induction xs arbitrary: acc) (auto simp: sift_sorted)
  from this [of "[]"] show ?thesis by (simp add: sort_strings_def sorted_wrt_rev)
qed

lemma b64_raw_no_dollar: "CHR ''$'' \<notin> set (b64_raw s)"
proof
  assume "CHR ''$'' \<in> set (b64_raw s)"
  then obtain n where "n < 64" "CHR ''$'' = b64_std n"
    using set_b64_groups [of "bytes_of s"] bytes_of_less unfolding b64_raw_def by blast
  moreover have "b64_index CHR ''$'' = None" by (simp add: b64_index_def)
  ultimately show False using b64_index_std by fastforce
qed

lemma argon_hash_verifies:
  assumes "argon2id_hash e pw w = (Inr h, w')" and "\<forall>p s t m r n. length (idkey e p s t m r n) = n"
  shows "argon2id_verify e pw h = Inr True \<and>
    (\<exists>salt. length salt = 16 \<and> (\<forall>other. other \<noteq> [] \<longrightarrow>
       argon2id_verify e other h = Inr (idkey e other salt 3 65536 4 32 = idkey e pw salt 3 65536 4 32)))"
proof -
  obtain salt w1 where pw: "pw \<noteq> []" and d: "draw_bytes e 16 w = (Some salt, w1)"
    and h: "h = ''$argon2id$v=19$m=65536,t=3,p=4$'' @ b64_raw salt @ ''$'' @ b64_raw (idkey e pw salt 3 65536 4 32)"
    using assms(1) by (auto simp: argon2id_hash_def split: if_splits prod.splits option.splits)
  have tail: "split_on CHR ''$'' (b64_raw salt @ CHR ''$'' # b64_raw (idkey e pw salt 3 65536 4 32))
      = [b64_raw salt, b64_raw (idkey e pw salt 3 65536 4 32)]"
    by (simp add: split_on_append_sep split_on_single b64_raw_no_dollar)
  have parts: "split_on CHR ''$'' h = [[], ''argon2id'', ''v=19'', ''m=65536,t=3,p=4'',
      b64_raw salt, b64_raw (idkey e pw salt 3 65536 4 32)]"
  proof -
    let ?d = "CHR ''$''"
    have l: "split_on ?d ([] @ ?d # r) = [] # split_on ?d r"
      "split_on ?d (''argon2id'' @ ?d # r) = ''argon2id'' # split_on ?d r"
      "split_on ?d (''v=19'' @ ?d # r) = ''v=19'' # split_on ?d r"
      "split_on ?d (''m=65536,t=3,p=4'' @ ?d # r) = ''m=65536,t=3,p=4'' # split_on ?d r" for r
      by (rule split_on_append_sep, simp)+
    have "h = [] @ ?d # ''argon2id'' @ ?d # ''v=19'' @ ?d # ''m=65536,t=3,p=4'' @ ?d
        # b64_raw salt @ ?d # b64_raw (idkey e pw salt 3 65536 4 32)" unfolding h by simp
    with tail show ?thesis by (simp only: l)
  qed
  have sp: "scan_params ''m=65536,t=3,p=4'' = Some (65536, 3, 4)"
    by (simp add: scan_params_def scan_lit_def scan_uint_def has_prefix_def is_digit_def digits_val_def digit_val_def)
  have vs: "atoi (trim_prefix ''v=19'' ''v='') = Some 19"
    by (simp add: trim_prefix_def has_prefix_def atoi_def is_digit_def digits_val_def digit_val_def)
  have V: "argon2id_verify e other h = Inr (idkey e other salt 3 65536 4 32 = idkey e pw salt 3 65536 4 32)"
    if "other \<noteq> []" for other
  proof -
    have len: "length (idkey e pw salt 3 65536 4 32) mod 2 ^ 32 = 32" using assms(2) by simp
    have pre: "has_prefix ''v=19'' ''v=''" by simp
    show ?thesis
      unfolding argon2id_verify_def parts list.case vs sp option.case prod.case b64_raw_round_trip len
      using that pre by simp
  qed
  have "argon2id_verify e pw h = Inr True" unfolding V [OF pw] by simp
  moreover have "length salt = 16" using draw_bytes_length [OF d] .
  ultimately show ?thesis using V by (intro conjI exI [of _ salt] allI impI)
qed

text \<open>A hash computed for a password verifies exactly those non-empty passwords whose
  argon2id digest under the stored salt and parameters is the stored digest, the password
  itself among them; the stored text always parses.\<close>

theorem argon_verify_hash:
  assumes "argon2id_hash e pw w = (Inr h, w')" and "\<forall>p s t m r n. length (idkey e p s t m r n) = n"
  shows "argon2id_verify e pw h = Inr True \<and>
    (\<exists>salt. length salt = 16 \<and> (\<forall>other. other \<noteq> [] \<longrightarrow>
       argon2id_verify e other h = Inr (idkey e other salt 3 65536 4 32 = idkey e pw salt 3 65536 4 32)))"
  using argon_hash_verifies [OF assms] .

theorem argon_verify_hash_witness:
  "\<exists>h w'. argon2id_hash calm_env ''pw'' blank_world = (Inr h, w') \<and> argon2id_verify calm_env ''pw'' h = Inr True"
proof -
  obtain h w' where "argon2id_hash calm_env ''pw'' blank_world = (Inr h, w')"
    by (simp add: argon2id_hash_def draw_bytes_def)
  moreover have "\<forall>p s t m r n. length (idkey calm_env p s t m r n) = n" by (simp add: min_def)
  ultimately show ?thesis using argon_verify_hash [of calm_env "''pw''" blank_world h w'] by blast
qed

end
