(* ===== verification/EnvFile.thy ===== *)
theory EnvFile
  imports WgConfAppend
begin

text \<open>
  \<open>envfile.go\<close>: the database password of a stack's environment file. The scanner reads
  lines of less than 64 KiB; a longer one ends the scan with an error.
\<close>

definition strip_quotes :: "string \<Rightarrow> string" where
  "strip_quotes v =
     (if length v \<ge> 2 \<and> ((hd v = CHR 39 \<and> last v = CHR 39) \<or> (hd v = CHR 34 \<and> last v = CHR 34))
      then butlast (tl v) else v)"

fun scan_password :: "string list \<Rightarrow> string res" where
  "scan_password [] = Inr []"
| "scan_password (l # ls) =
     (if length l \<ge> 65536 then Inl (Failure ''bufio.Scanner: token too long'')
      else if has_prefix (go_trim_space l) ''POSTGRES_PASSWORD=''
      then Inr (strip_quotes (go_trim_space (trim_prefix (go_trim_space l) ''POSTGRES_PASSWORD='')))
      else scan_password ls)"

definition read_postgres_password :: "env \<Rightarrow> string \<Rightarrow> world \<Rightarrow> string res" where
  "read_postgres_password e path w =
     (case read_file e path w of
        Inl err \<Rightarrow> Inl err
      | Inr c \<Rightarrow> scan_password (split_on CHR 10 (content_text e c)))"

lemma scan_password_first:
  assumes "\<forall>l \<in> set ls. length l < 65536 \<and> \<not> has_prefix (go_trim_space l) ''POSTGRES_PASSWORD=''"
  shows "scan_password (ls @ rest) = scan_password rest"
  using assms by (induction ls) auto

lemma scan_password_none:
  "\<forall>l \<in> set ls. length l < 65536 \<and> \<not> has_prefix (go_trim_space l) ''POSTGRES_PASSWORD='' \<Longrightarrow>
   scan_password ls = Inr []"
  using scan_password_first [of ls "[]"] by simp

lemma strip_quotes_quoted: "q = CHR 34 \<or> q = CHR 39 \<Longrightarrow> strip_quotes (q # v @ [q]) = v"
  by (auto simp: strip_quotes_def)

text \<open>The first \<open>POSTGRES_PASSWORD=\<close> line decides: lines above it that set other keys and
  everything below it are ignored, and one pair of quotes around the value is removed.\<close>

theorem password_first_line:
  assumes "\<forall>l \<in> set ls. length l < 65536 \<and> \<not> has_prefix (go_trim_space l) ''POSTGRES_PASSWORD=''"
    and "solid_text v" and "length v < 60000" and "q = CHR 34 \<or> q = CHR 39"
  shows "scan_password (ls @ (''POSTGRES_PASSWORD='' @ q # v @ [q]) # rest) = Inr v"
proof -
  have "list_all solid ''POSTGRES_PASSWORD=''" "solid q" using assms(4) by (auto simp: solid_def)
  then have s: "solid_text (''POSTGRES_PASSWORD='' @ q # v @ [q])" "solid_text (q # v @ [q])"
    using assms(2) by (auto simp: solid_text_def)
  have "scan_password ((''POSTGRES_PASSWORD='' @ q # v @ [q]) # rest)
      = Inr (strip_quotes (q # v @ [q]))"
    unfolding scan_password.simps trim_solid_text [OF s(1)] trim_prefix_append trim_solid_text [OF s(2)]
    using assms(3) by simp
  then show ?thesis
    unfolding scan_password_first [OF assms(1)] strip_quotes_quoted [OF assms(4)] .
qed

theorem password_first_line_witness:
  "scan_password [''A=b'', ''POSTGRES_PASSWORD='' @ CHR 34 # ''pw'' @ [CHR 34], ''POSTGRES_PASSWORD=no''] = Inr ''pw''"
proof -
  have "go_trim_space ''A=b'' = ''A=b''"
    by (rule trim_solid_text) (simp add: solid_text_def solid_def)
  then show ?thesis
    using password_first_line [of "[''A=b'']" "''pw''" "CHR 34" "[''POSTGRES_PASSWORD=no'']"]
    by (simp add: solid_text_def solid_def del: scan_password.simps)
qed

end
