(* ===== verification/Http.thy ===== *)
theory Http
  imports Config Base64 AuditLog
begin

text \<open>
  Requests and responses of \<open>net/http\<close> as far as the handlers use them, and the gates every
  route passes: \<open>auth.go\<close> (the shared secret of the proxy, the identity headers, the admin
  group) and \<open>csrf.go\<close>. A handler is a function from a request and the world to a response
  and the new world. A page is the data handed to an HTML template; its type \<open>'p\<close> is fixed
  in theory \<open>Pages\<close>.
\<close>

subsection \<open>Requests and responses\<close>

record request =
  rq_method :: string
  rq_path :: string
  rq_headers :: "(string \<times> string) list"
  rq_cookies :: "(string \<times> string) list"
  rq_query :: "(string \<times> string) list"
  rq_form :: "(string \<times> string) list"  \<comment> \<open>body fields, then query fields\<close>
  rq_form_error :: "string option"
  rq_multipart_error :: "string option"
  rq_file :: "string res"  \<comment> \<open>the uploaded file of the field \<open>conf\<close>\<close>

datatype 'p body = Text string | Page 'p

record 'p response =
  rs_status :: nat
  rs_headers :: "(string \<times> string) list"
  rs_cookie :: "string option"
  rs_body :: "'p body"

type_synonym 'p handler = "request \<Rightarrow> world \<Rightarrow> 'p response \<times> world"

definition first_value :: "string \<Rightarrow> (string \<times> string) list \<Rightarrow> string" where
  "first_value k kvs = (case map_of kvs k of Some v \<Rightarrow> v | None \<Rightarrow> [])"

text \<open>Header names are compared without case.\<close>

definition get_header :: "request \<Rightarrow> string \<Rightarrow> string" where
  "get_header r k =
     (case find (\<lambda>h. go_to_lower (fst h) = go_to_lower k) (rq_headers r) of
        Some h \<Rightarrow> snd h | None \<Rightarrow> [])"

definition set_header :: "string \<Rightarrow> string \<Rightarrow> request \<Rightarrow> request" where
  "set_header k v r =
     r\<lparr>rq_headers := (k, v) # filter (\<lambda>h. go_to_lower (fst h) \<noteq> go_to_lower k) (rq_headers r)\<rparr>"

definition form_value :: "request \<Rightarrow> string \<Rightarrow> string" where
  "form_value r k = first_value k (rq_form r)"

definition em_dash :: string where
  "em_dash = [CHR 0xE2, CHR 0x80, CHR 0x94]"

definition respond :: "nat \<Rightarrow> (string \<times> string) list \<Rightarrow> 'p body \<Rightarrow> 'p response" where
  "respond code hs b = \<lparr>rs_status = code, rs_headers = hs, rs_cookie = None, rs_body = b\<rparr>"

definition http_error :: "string \<Rightarrow> nat \<Rightarrow> 'p response" where
  "http_error msg code =
     respond code [(''Content-Type'', ''text/plain; charset=utf-8''),
                   (''X-Content-Type-Options'', ''nosniff'')] (Text (msg @ [CHR 10]))"

definition not_found :: "'p response" where
  "not_found = http_error ''404 page not found'' 404"

definition method_not_allowed :: "'p response" where
  "method_not_allowed = http_error ''method not allowed'' 405"

text \<open>\<open>http.Redirect\<close>; the one-line HTML note it adds to a GET is left out.\<close>

definition redirect :: "string \<Rightarrow> nat \<Rightarrow> 'p response" where
  "redirect url code = respond code [(''Location'', url)] (Text [])"

definition html_page :: "'p \<Rightarrow> 'p response" where
  "html_page p = respond 200 [(''Content-Type'', ''text/html; charset=utf-8'')] (Page p)"

definition no_store :: "'p response \<Rightarrow> 'p response" where
  "no_store rs = rs\<lparr>rs_headers := [(''Cache-Control'', ''no-store, private''),
     (''Pragma'', ''no-cache'')] @ rs_headers rs\<rparr>"

definition with_cookie :: "string option \<Rightarrow> 'p response \<Rightarrow> 'p response" where
  "with_cookie c rs = (case c of None \<Rightarrow> rs | Some _ \<Rightarrow> rs\<lparr>rs_cookie := c\<rparr>)"

subsection \<open>The proxy secret and the identity headers\<close>

definition check_forward_auth_secret :: "config \<Rightarrow> request \<Rightarrow> unit res" where
  "check_forward_auth_secret cfg r =
     (if forward_auth_secret cfg = [] then
        Inl (Failure ''server forward-auth secret unset (fail-closed)'')
      else (let got = get_header r ''X-Forward-Auth-Secret'' in
            if got = [] then Inl (Failure ''missing X-Forward-Auth-Secret'')
            else if got \<noteq> forward_auth_secret cfg then Inl (Failure ''forward-auth secret mismatch'')
            else Inr ()))"

definition require_forward_auth :: "config \<Rightarrow> 'p handler \<Rightarrow> 'p handler" where
  "require_forward_auth cfg h r w =
     (case check_forward_auth_secret cfg r of
        Inl _ \<Rightarrow> (http_error (''401 '' @ em_dash @ '' forward-auth header required'') 401, w)
      | Inr _ \<Rightarrow> h r w)"

record authed_user =
  au_name :: string
  au_groups :: "string list"

definition in_group :: "authed_user \<Rightarrow> string \<Rightarrow> bool" where
  "in_group u g \<longleftrightarrow> g \<in> set (au_groups u)"

definition split_groups :: "string \<Rightarrow> string list" where
  "split_groups raw = filter (\<lambda>g. g \<noteq> []) (map go_trim_space (split_on CHR '','' raw))"

definition auth_from_request :: "config \<Rightarrow> request \<Rightarrow> authed_user res" where
  "auth_from_request cfg r =
     (let user = get_header r (header_user cfg) in
      if user = [] then Inl (Failure (''missing '' @ header_user cfg))
      else Inr \<lparr>au_name = user, au_groups = split_groups (get_header r (header_groups cfg))\<rparr>)"

definition require_auth :: "config \<Rightarrow> bool \<Rightarrow> 'p handler \<Rightarrow> 'p handler" where
  "require_auth cfg need_group h r w =
     (case check_forward_auth_secret cfg r of
        Inl _ \<Rightarrow>
          (http_error (''401 '' @ em_dash @ '' authentication required (forward-auth gate)'') 401, w)
      | Inr _ \<Rightarrow>
          (case auth_from_request cfg r of
             Inl _ \<Rightarrow>
               (http_error (''401 '' @ em_dash @ '' authentication required. ''
                  @ ''This service must be reached through the SSO portal at https://auth.''
                  @ domain cfg @ ''/.'') 401, w)
           | Inr u \<Rightarrow>
               (if need_group \<and> \<not> in_group u (required_group cfg)
                then (http_error (''403 '' @ em_dash @ '' group '' @ go_quote (required_group cfg)
                        @ '' required'') 403, w)
                else h (set_header ''X-Enrol-Groups'' (join '','' (au_groups u))
                          (set_header ''X-Enrol-User'' (au_name u) r)) w)))"

definition require_admin :: "config \<Rightarrow> 'p handler \<Rightarrow> 'p handler" where
  "require_admin cfg h = require_auth cfg True h"

definition viewer :: "request \<Rightarrow> string" where
  "viewer r = get_header r ''X-Enrol-User''"

definition viewer_is_admin :: "config \<Rightarrow> request \<Rightarrow> bool" where
  "viewer_is_admin cfg r \<longleftrightarrow>
     required_group cfg \<noteq> [] \<and> get_header r ''X-Enrol-Groups'' \<noteq> [] \<and>
     list_ex (\<lambda>g. go_trim_space g = required_group cfg)
       (split_on CHR '','' (get_header r ''X-Enrol-Groups''))"

subsection \<open>Cross-site request tokens\<close>

definition valid_csrf_len :: "string \<Rightarrow> bool" where
  "valid_csrf_len s \<longleftrightarrow> length s = 43"

text \<open>A failing random source panics: no token.\<close>

definition new_csrf_token :: "env \<Rightarrow> world \<Rightarrow> string option \<times> world" where
  "new_csrf_token e w =
     (case draw_bytes e 32 w of (b, w1) \<Rightarrow> (map_option b64_raw_url b, w1))"

definition csrf_cookie :: "request \<Rightarrow> string option" where
  "csrf_cookie r = map_of (rq_cookies r) ''enrol_csrf''"

text \<open>The token to embed in the page, the cookie to set, if any, and the world. A missing token
  is the panic of a broken random source.\<close>

definition ensure_csrf :: "env \<Rightarrow> request \<Rightarrow> world \<Rightarrow> (string \<times> string option) option \<times> world" where
  "ensure_csrf e r w =
     (case csrf_cookie r of
        Some c \<Rightarrow> (if valid_csrf_len c then (Some (c, None), w)
                   else (case new_csrf_token e w of (t, w1) \<Rightarrow> (map_option (\<lambda>x. (x, Some x)) t, w1)))
      | None \<Rightarrow> (case new_csrf_token e w of (t, w1) \<Rightarrow> (map_option (\<lambda>x. (x, Some x)) t, w1)))"

definition require_csrf :: "request \<Rightarrow> unit res" where
  "require_csrf r =
     (case csrf_cookie r of
        None \<Rightarrow> Inl (Failure ''missing CSRF cookie or form value'')
      | Some c \<Rightarrow>
          (if \<not> valid_csrf_len c \<or> rq_form_error r \<noteq> None \<or> \<not> valid_csrf_len (form_value r ''csrf'')
           then Inl (Failure ''missing CSRF cookie or form value'')
           else if c \<noteq> form_value r ''csrf'' then Inl (Failure ''CSRF token mismatch'')
           else Inr ()))"

definition with_csrf :: "env \<Rightarrow> config \<Rightarrow> 'p handler \<Rightarrow> 'p handler" where
  "with_csrf e cfg h r w =
     (if rq_method r = ''GET'' \<or> rq_method r = ''HEAD'' then h r w
      else (case require_csrf r of
              Inl err \<Rightarrow>
                (http_error (''403 '' @ em_dash
                   @ '' CSRF token missing or invalid. Reload the form and try again.'') 403,
                 write_audit e (audit_path cfg)
                   (blank_entry\<lparr>a_time := now w, a_action := ''csrf.fail'', a_actor := viewer r,
                      a_note := rq_path r @ '': '' @ err_text err\<rparr>) w)
            | Inr _ \<Rightarrow> h r w))"

text \<open>A handler that renders a page first makes sure the token exists. A panic ends the request:
  the server drops the connection without a reply, which is status 0 here.\<close>

definition panic_response :: "'p response" where
  "panic_response = respond 0 [] (Text [])"

definition with_token :: "env \<Rightarrow> (string \<Rightarrow> 'p handler) \<Rightarrow> 'p handler" where
  "with_token e h r w =
     (case ensure_csrf e r w of
        (None, w1) \<Rightarrow> (panic_response, w1)
      | (Some (t, c), w1) \<Rightarrow> (case h t r w1 of (rs, w2) \<Rightarrow> (with_cookie c rs, w2)))"

end
