(* ===== verification/HttpSpec.thy ===== *)
theory HttpSpec
  imports Http WgConfAppend
begin

text \<open>
  What the gates promise: no request reaches a protected handler without the proxy's secret
  and an identity, the handler sees the identity of the proxy's header and not a forged
  internal one, the two admin tests agree, and a state-changing request needs the token of
  its own cookie.
\<close>

subsection \<open>Trimming twice\<close>

lemma trim_right_no_rune: "e \<in> set space_runes \<Longrightarrow> \<not> has_suffix (trim_right_space s) e"
proof (induction s rule: trim_right_space.induct)
  case (1 s)
  show ?case
  proof (cases "find (\<lambda>e. has_suffix s e) space_runes")
    case None
    then have "trim_right_space s = s" by (subst trim_right_space.simps) simp
    with None 1(2) show ?thesis by (auto simp: find_None_iff)
  next
    case (Some d)
    with 1 show ?thesis by (subst trim_right_space.simps) auto
  qed
qed

lemma trim_left_id: "(\<forall>e \<in> set space_runes. \<not> has_prefix s e) \<Longrightarrow> trim_left_space s = s"
proof -
  assume "\<forall>e \<in> set space_runes. \<not> has_prefix s e"
  then have "find (\<lambda>e. has_prefix s e) space_runes = None" by (simp add: find_None_iff)
  then show ?thesis by (subst trim_left_space.simps) simp
qed

lemma trim_right_id: "(\<forall>e \<in> set space_runes. \<not> has_suffix s e) \<Longrightarrow> trim_right_space s = s"
proof -
  assume "\<forall>e \<in> set space_runes. \<not> has_suffix s e"
  then have "find (\<lambda>e. has_suffix s e) space_runes = None" by (simp add: find_None_iff)
  then show ?thesis by (subst trim_right_space.simps) simp
qed

lemma go_trim_space_idem [simp]: "go_trim_space (go_trim_space s) = go_trim_space s"
proof -
  let ?l = "trim_left_space s"
  obtain r where r: "?l = trim_right_space ?l @ r" using trim_right_space_prefix by blast
  have "\<not> has_prefix (trim_right_space ?l) e" if "e \<in> set space_runes" for e
  proof
    assume "has_prefix (trim_right_space ?l) e"
    then have "has_prefix ?l e" using r by (metis append.assoc has_prefix_iff)
    with trim_left_space_no_rune [OF that] show False by blast
  qed
  then have "trim_left_space (trim_right_space ?l) = trim_right_space ?l" by (simp add: trim_left_id)
  moreover have "trim_right_space (trim_right_space ?l) = trim_right_space ?l"
    using trim_right_no_rune by (simp add: trim_right_id)
  ultimately show ?thesis by (simp add: go_trim_space_def)
qed

subsection \<open>Headers and groups\<close>

lemma get_set_header [simp]: "get_header (set_header k v r) k = v"
  by (simp add: get_header_def set_header_def)

lemma find_filter_other: "(\<And>x. P x \<Longrightarrow> Q x) \<Longrightarrow> find P (filter Q xs) = find P xs"
  by (induction xs) auto

lemma get_set_header_other:
  "go_to_lower k \<noteq> go_to_lower l \<Longrightarrow> get_header (set_header k v r) l = get_header r l"
proof -
  assume "go_to_lower k \<noteq> go_to_lower l"
  then have "find (\<lambda>h. go_to_lower (fst h) = go_to_lower l)
        (filter (\<lambda>h. go_to_lower (fst h) \<noteq> go_to_lower k) (rq_headers r))
      = find (\<lambda>h. go_to_lower (fst h) = go_to_lower l) (rq_headers r)"
    by (intro find_filter_other) auto
  then show ?thesis using \<open>go_to_lower k \<noteq> go_to_lower l\<close> by (simp add: get_header_def set_header_def)
qed

lemma trim_no_comma: "CHR '','' \<notin> set s \<Longrightarrow> CHR '','' \<notin> set (go_trim_space s)"
proof -
  assume "CHR '','' \<notin> set s"
  moreover have "\<exists>a. s = a @ trim_left_space s"
  proof (induction s rule: trim_left_space.induct)
    case (1 s)
    show ?case
    proof (cases "find (\<lambda>e. has_prefix s e) space_runes")
      case None
      then have "trim_left_space s = s" by (subst trim_left_space.simps) simp
      then show ?thesis by simp
    next
      case (Some e)
      with 1 obtain a where "drop (length e) s = a @ trim_left_space (drop (length e) s)" by blast
      then have "s = (take (length e) s @ a) @ trim_left_space (drop (length e) s)"
        by (metis append.assoc append_take_drop_id)
      moreover have "trim_left_space s = trim_left_space (drop (length e) s)"
        using Some by (subst trim_left_space.simps) simp
      ultimately show ?thesis by metis
    qed
  qed
  moreover obtain r where "trim_left_space s = trim_right_space (trim_left_space s) @ r"
    using trim_right_space_prefix by blast
  ultimately show ?thesis unfolding go_trim_space_def by (metis Un_iff set_append)
qed

lemma split_groups_ok:
  "g \<in> set (split_groups raw) \<Longrightarrow> g \<noteq> [] \<and> CHR '','' \<notin> set g \<and> go_trim_space g = g"
  using split_on_no_sep trim_no_comma by (auto simp: split_groups_def)

lemma admin_tests_agree:
  assumes "get_header r ''X-Enrol-Groups'' = join '','' (split_groups raw)"
  shows "viewer_is_admin cfg r \<longleftrightarrow> required_group cfg \<in> set (split_groups raw)"
proof (cases "split_groups raw = []")
  case True
  with assms show ?thesis by (simp add: viewer_is_admin_def)
next
  case False
  let ?gs = "split_groups raw"
  have "split_on CHR '','' (join '','' ?gs) = ?gs"
    using False split_groups_ok by (intro split_on_join) auto
  moreover have "join '','' ?gs \<noteq> []"
    using False split_groups_ok [of "hd ?gs" raw] by (cases ?gs rule: list.exhaust) (auto, (metis append_is_Nil_conv join.simps(2) join_Cons)+)
  moreover have "list_ex (\<lambda>g. go_trim_space g = x) ?gs \<longleftrightarrow> x \<in> set ?gs" for x
    using split_groups_ok by (fastforce simp: list_ex_iff)
  ultimately show ?thesis using assms split_groups_ok by (auto simp: viewer_is_admin_def)
qed

text \<open>C7. Behind \<open>requireAuth\<close> a handler runs only if the server has a secret and the request
  carries it together with a user; it then sees exactly that user and the groups of the proxy's
  header, whatever internal headers the client sent, and its admin test is the group test of
  the gate. Otherwise the reply is 401 or 403 and the world is untouched.\<close>

theorem require_auth_sound:
  "let (rs, w') = require_auth cfg need h r w;
       user = get_header r (header_user cfg);
       groups = split_groups (get_header r (header_groups cfg)) in
   (rs_status rs \<in> {401, 403} \<and> w' = w) \<or>
   (forward_auth_secret cfg \<noteq> [] \<and> get_header r ''X-Forward-Auth-Secret'' = forward_auth_secret cfg
    \<and> user \<noteq> [] \<and> \<not> (need \<and> required_group cfg \<notin> set groups)
    \<and> (\<exists>r'. (rs, w') = h r' w \<and> viewer r' = user
          \<and> (viewer_is_admin cfg r' \<longleftrightarrow> required_group cfg \<in> set groups)
          \<and> rq_method r' = rq_method r \<and> rq_path r' = rq_path r \<and> rq_form r' = rq_form r))"
proof -
  let ?user = "get_header r (header_user cfg)"
  let ?groups = "split_groups (get_header r (header_groups cfg))"
  let ?r = "set_header ''X-Enrol-Groups'' (join '','' ?groups) (set_header ''X-Enrol-User'' ?user r)"
  have "go_to_lower ''X-Enrol-Groups'' \<noteq> go_to_lower ''X-Enrol-User''" by code_simp
  then have v: "viewer ?r = ?user" by (simp add: viewer_def get_set_header_other del: go_to_lower.simps)
  have a: "viewer_is_admin cfg ?r \<longleftrightarrow> required_group cfg \<in> set ?groups"
    by (rule admin_tests_agree) simp
  have k: "rq_method ?r = rq_method r" "rq_path ?r = rq_path r" "rq_form ?r = rq_form r"
    by (simp_all add: set_header_def)
  show ?thesis
  proof (cases "check_forward_auth_secret cfg r = Inr () \<and> ?user \<noteq> []
      \<and> (need \<longrightarrow> required_group cfg \<in> set ?groups)")
    case True
    then have "require_auth cfg need h r w = h ?r w"
      by (auto simp: require_auth_def auth_from_request_def Let_def in_group_def)
    moreover obtain rs w' where hw: "h ?r w = (rs, w')" by fastforce
    moreover have "\<exists>r'. (rs, w') = h r' w \<and> viewer r' = ?user
          \<and> (viewer_is_admin cfg r' \<longleftrightarrow> required_group cfg \<in> set ?groups)
          \<and> rq_method r' = rq_method r \<and> rq_path r' = rq_path r \<and> rq_form r' = rq_form r"
      using v a k hw by (intro exI [of _ ?r]) simp
    moreover have "forward_auth_secret cfg \<noteq> []" "get_header r ''X-Forward-Auth-Secret'' = forward_auth_secret cfg"
      using True by (auto simp: check_forward_auth_secret_def Let_def split: if_splits)
    ultimately show ?thesis using True unfolding Let_def by simp
  next
    case False
    then show ?thesis
      by (auto simp: require_auth_def auth_from_request_def Let_def in_group_def http_error_def
          respond_def split: sum.splits if_splits)
  qed
qed

text \<open>C8. A request that is neither GET nor HEAD reaches a handler behind \<open>withCSRF\<close> only if its
  form repeats the 43-character token of its cookie; otherwise the reply is 403 and at most the
  audit log changes.\<close>

theorem with_csrf_sound:
  "rq_method r = ''GET'' \<or> rq_method r = ''HEAD''
   \<or> (csrf_cookie r = Some (form_value r ''csrf'') \<and> length (form_value r ''csrf'') = 43
      \<and> with_csrf e cfg h r w = h r w)
   \<or> (rs_status (fst (with_csrf e cfg h r w)) = 403
      \<and> files (snd (with_csrf e cfg h r w))
          = (files w)(audit_path cfg := files (snd (with_csrf e cfg h r w)) (audit_path cfg))
      \<and> cmds (snd (with_csrf e cfg h r w)) = cmds w)"
  by (auto simp: with_csrf_def require_csrf_def valid_csrf_len_def http_error_def respond_def
      fun_eq_iff frame_simps split: option.splits sum.splits)

text \<open>Drawing the token of a page writes no file.\<close>

lemma files_with_token:
  assumes "\<And>t r w. files (snd (h t r w)) = files w"
  shows "files (snd (with_token e h r w)) = files w"
proof -
  have "files (snd (ensure_csrf e r w)) = files w"
    by (auto simp: ensure_csrf_def new_csrf_token_def frame_simps split: option.splits prod.splits)
       (metis draw_bytes_frame(1) snd_conv)+
  then show ?thesis using assms
    by (auto simp: with_token_def split: option.splits prod.splits) (metis snd_conv)+
qed

text \<open>The token a page embeds is accepted: a form that sends it back under the cookie in force
  after the page passes \<open>requireCSRF\<close>.\<close>

theorem csrf_round_trip:
  assumes "ensure_csrf e r w = (Some (t, c), w1)"
  shows "require_csrf (r\<lparr>rq_cookies := [(''enrol_csrf'', t)], rq_form := [(''csrf'', t)],
           rq_form_error := None\<rparr>) = Inr ()"
proof -
  have n: "new_csrf_token e w = (Some t, w') \<Longrightarrow> valid_csrf_len t" for w'
    using draw_bytes_length [of e 32 w]
    by (auto simp: new_csrf_token_def valid_csrf_len_def length_b64_raw_url split: prod.splits)
  have "valid_csrf_len t"
    using assms n by (auto simp: ensure_csrf_def split: option.splits if_splits prod.splits)
  then show ?thesis by (simp add: require_csrf_def csrf_cookie_def form_value_def first_value_def)
qed

definition sample_request :: request where
  "sample_request = \<lparr>rq_method = ''GET'', rq_path = ''/'', rq_headers = [], rq_cookies = [],
     rq_query = [], rq_form = [], rq_form_error = None, rq_multipart_error = None, rq_file = Inr []\<rparr>"

theorem csrf_round_trip_witness:
  "\<exists>t c w1. ensure_csrf calm_env sample_request blank_world = (Some (t, c), w1)
     \<and> require_csrf (sample_request\<lparr>rq_cookies := [(''enrol_csrf'', t)], rq_form := [(''csrf'', t)],
           rq_form_error := None\<rparr>) = Inr ()"
proof -
  obtain t c w1 where e: "ensure_csrf calm_env sample_request blank_world = (Some (t, c), w1)"
    by (simp add: ensure_csrf_def csrf_cookie_def sample_request_def new_csrf_token_def draw_bytes_def)
  from csrf_round_trip [OF e] e show ?thesis by blast
qed

end
