(* ===== verification/Integrations.thy ===== *)
theory Integrations
  imports PeerOps EnvFile
begin

text \<open>
  What the server asks of its neighbours: TOTP secrets of Authelia (\<open>totp.go\<close>), the ban table
  of its regulator (\<open>authelia_bans.go\<close>), and the task statistics of Vikunja
  (\<open>task_client.go\<close>). Each is a command with an argument vector and a standard input; the
  deadline of a command is part of how it fails.
\<close>

subsection \<open>TOTP\<close>

text \<open>The first match of \<open>otpauth://totp/[^\s]+\<close>.\<close>

fun find_otpauth :: "string \<Rightarrow> string" where
  "find_otpauth [] = []"
| "find_otpauth (c # cs) =
     (let rest = drop 15 (c # cs) in
      if has_prefix (c # cs) ''otpauth://totp/'' \<and> rest \<noteq> [] \<and> \<not> re_space (hd rest)
      then ''otpauth://totp/'' @ takeWhile (\<lambda>x. \<not> re_space x) rest
      else find_otpauth cs)"

definition qrencode :: "env \<Rightarrow> string \<Rightarrow> world \<Rightarrow> string res \<times> world" where
  "qrencode e s w =
     (let (r, w1) = exec e [''qrencode'', ''-t'', ''PNG'', ''-o'', ''-'', ''-s'', ''6'', ''-l'', ''L''] s w
      in case pr_error r of
           Some m \<Rightarrow> (Inl (Failure (''qrencode: '' @ m @ '' ('' @ go_trim_space (pr_stderr r) @ '')'')), w1)
         | None \<Rightarrow> (Inr (pr_stdout r), w1))"

text \<open>An error together with the URI when only the picture fails.\<close>

definition totp_generate ::
  "env \<Rightarrow> config \<Rightarrow> string \<Rightarrow> world \<Rightarrow> (string \<times> string) res \<times> world" where
  "totp_generate e cfg user w =
     (if \<not> valid_username user then (Inl (Failure (''invalid username '' @ go_quote user)), w)
      else (let (r, w1) = exec e [''docker'', ''exec'', authelia_container cfg, ''authelia'', ''storage'',
                  ''user'', ''totp'', ''generate'', user, ''--force''] [] w
            in case pr_error r of
                 Some m \<Rightarrow> (Inl (Failure (''authelia totp generate '' @ user @ '': '' @ m @ '' (''
                              @ go_trim_space (combined r) @ '')'')), w1)
               | None \<Rightarrow>
                   (let uri = find_otpauth (combined r) in
                    if uri = [] then
                      (Inl (Failure (''authelia totp generate '' @ user @ '': no otpauth URI in output'')), w1)
                    else (case qrencode e uri w1 of
                            (Inl err, w2) \<Rightarrow> (Inl (Failure (''qrencode: '' @ err_text err)), w2)
                          | (Inr png, w2) \<Rightarrow> (Inr (uri, png), w2)))))"

definition totp_delete :: "env \<Rightarrow> config \<Rightarrow> string \<Rightarrow> world \<Rightarrow> unit res \<times> world" where
  "totp_delete e cfg user w =
     (if \<not> valid_username user then (Inl (Failure (''invalid username '' @ go_quote user)), w)
      else (let (r, w1) = exec e [''docker'', ''exec'', authelia_container cfg, ''authelia'', ''storage'',
                  ''user'', ''totp'', ''delete'', user] [] w
            in case pr_error r of
                 None \<Rightarrow> (Inr (), w1)
               | Some m \<Rightarrow>
                   (let s = go_to_lower (combined r) in
                    if contains s ''no rows'' \<or> contains s ''not found'' \<or> contains s ''no totp configuration''
                    then (Inr (), w1)
                    else (Inl (Failure (''authelia totp delete '' @ user @ '': '' @ m @ '' (''
                                 @ go_trim_space (combined r) @ '')'')), w1))))"

subsection \<open>Bans\<close>

record user_ban =
  ub_username :: string
  ub_expires :: gotime
  ub_source :: string
  ub_reason :: string

definition bans_query :: string where
  "bans_query = join [CHR 10]
     [''.mode list'', ''.separator |'',
      ''SELECT username, COALESCE(expires, '' @ [CHR 39, CHR 39] @ ''), source, COALESCE(reason, ''
        @ [CHR 39, CHR 39] @ '')'',
      ''FROM banned_user'', ''WHERE revoked = 0'', ''  AND expired IS NULL'',
      ''  AND (expires IS NULL OR expires > datetime('' @ [CHR 39] @ ''now'' @ [CHR 39] @ ''));'']"

definition parse_authelia_time :: "string \<Rightarrow> gotime" where
  "parse_authelia_time s =
     (let t = go_trim_space s in
      if t = [] then zero_time
      else case parse_datetime_zone t of Some x \<Rightarrow> x
         | None \<Rightarrow> (case parse_datetime t of Some x \<Rightarrow> x
         | None \<Rightarrow> (case parse_rfc3339 t of Some x \<Rightarrow> x | None \<Rightarrow> zero_time)))"

text \<open>\<open>strings.SplitN(line, "|", 4)\<close>.\<close>

definition ban_row :: "string \<Rightarrow> user_ban option" where
  "ban_row line =
     (case split_on CHR ''|'' line of
        a # b # c # d # r \<Rightarrow>
          Some \<lparr>ub_username = a, ub_expires = parse_authelia_time b, ub_source = c,
                ub_reason = join ''|'' (d # r)\<rparr>
      | _ \<Rightarrow> None)"

definition active_user_bans :: "env \<Rightarrow> string \<Rightarrow> world \<Rightarrow> (string \<rightharpoonup> user_ban) res \<times> world" where
  "active_user_bans e db w =
     (if db = [] then (Inr Map.empty, w)
      else (let (r, w1) = exec e [''sqlite3'', ''-readonly'', db] bans_query w
            in case pr_error r of
                 Some m \<Rightarrow> (Inl (Failure (''sqlite3 banned_user: '' @ m)), w1)
               | None \<Rightarrow>
                   (Inr (map_of (rev (map (\<lambda>b. (ub_username b, b))
                      (List.map_filter ban_row (filter (\<lambda>l. l \<noteq> [])
                        (split_on CHR 10 (go_trim_space (pr_stdout r)))))))), w1)))"

definition unban_char :: "char \<Rightarrow> bool" where
  "unban_char c \<longleftrightarrow> is_alpha c \<or> is_digit c \<or> c = CHR ''_'' \<or> c = CHR ''-'' \<or> c = CHR ''.''"

definition unban_statement :: "string \<Rightarrow> string" where
  "unban_statement user = join [CHR 10]
     [''UPDATE banned_user'', ''SET revoked = 1, expired = CURRENT_TIMESTAMP'',
      ''WHERE username = '' @ [CHR 39] @ user @ [CHR 39] @ '' AND revoked = 0 AND expired IS NULL;'']"

definition revoke_user_bans :: "env \<Rightarrow> string \<Rightarrow> string \<Rightarrow> world \<Rightarrow> unit res \<times> world" where
  "revoke_user_bans e db user w =
     (if db = [] then (Inl (Failure ''authelia storage db path not configured''), w)
      else if user = [] then (Inl (Failure ''username required''), w)
      else if \<not> list_all unban_char user
        then (Inl (Failure (''invalid username for unban: '' @ go_quote user)), w)
      else (let (r, w1) = exec e [''sqlite3'', db] (unban_statement user) w
            in case pr_error r of
                 Some m \<Rightarrow> (Inl (Failure (''sqlite3 unban: '' @ m @ '' (''
                              @ go_trim_space (combined r) @ '')'')), w1)
               | None \<Rightarrow> (Inr (), w1)))"

subsection \<open>Task statistics\<close>

record task_client =
  tc_container :: string
  tc_db :: string
  tc_user :: string
  tc_env_file :: string

definition new_task_client :: "string \<Rightarrow> string \<Rightarrow> string \<Rightarrow> string \<Rightarrow> task_client" where
  "new_task_client container db user env_file =
     (let f = go_trim_space env_file in
      \<lparr>tc_container = go_trim_space container, tc_db = go_trim_space db,
       tc_user = go_trim_space user, tc_env_file = (if f = [] then [] else filepath_clean f)\<rparr>)"

definition task_ready :: "task_client \<Rightarrow> bool" where
  "task_ready c \<longleftrightarrow> tc_container c \<noteq> [] \<and> tc_db c \<noteq> [] \<and> tc_user c \<noteq> [] \<and> tc_env_file c \<noteq> []"

text \<open>The password, cached for five minutes; an empty one is not cached in effect.\<close>

definition task_password :: "env \<Rightarrow> task_client \<Rightarrow> world \<Rightarrow> string \<times> world" where
  "task_password e c w =
     (if fst (task_pwd w) \<noteq> [] \<and> now w - snd (task_pwd w) < 300 * second then (fst (task_pwd w), w)
      else (case read_postgres_password e (tc_env_file c) w of
              Inl _ \<Rightarrow> ([], w)
            | Inr v \<Rightarrow> (v, w\<lparr>task_pwd := (v, now w)\<rparr>)))"

record task_stats =
  ts_tasks :: int
  ts_att_bytes :: int
  ts_last_seen :: gotime
  ts_user_exists :: bool

definition no_stats :: task_stats where
  "no_stats = \<lparr>ts_tasks = 0, ts_att_bytes = 0, ts_last_seen = zero_time, ts_user_exists = False\<rparr>"

definition stats_query :: string where
  "stats_query = join [CHR 10]
     [[], ''SELECT COALESCE(t.cnt, 0) AS task_count,'',
      ''       COALESCE(a.bytes, 0) AS att_bytes,'',
      ''       COALESCE(GREATEST(u.updated, t.last_task), u.updated) AS last_seen,'',
      ''       1 AS user_exists'', ''FROM users u'', ''LEFT JOIN ('',
      ''  SELECT created_by_id, COUNT(*) AS cnt, MAX(updated) AS last_task'', ''  FROM tasks'',
      ''  GROUP BY created_by_id'', '') t ON t.created_by_id = u.id'', ''LEFT JOIN ('',
      ''  SELECT ta.created_by_id, COALESCE(SUM(f.size), 0) AS bytes'', ''  FROM task_attachments ta'',
      ''  JOIN files f ON f.id = ta.file_id'', ''  GROUP BY ta.created_by_id'',
      '') a ON a.created_by_id = u.id'',
      ''WHERE LOWER(u.email) = LOWER(:'' @ [CHR 39] @ ''email_arg'' @ [CHR 39] @ '')'', ''LIMIT 1;'', []]"

definition atoi0 :: "string \<Rightarrow> int" where
  "atoi0 s = (case atoi (go_trim_space s) of Some n \<Rightarrow> n | None \<Rightarrow> 0)"

definition stats_row :: "string \<Rightarrow> task_stats" where
  "stats_row line =
     (case split_on CHR ''|'' line of
        a # b # c # d # _ \<Rightarrow>
          \<lparr>ts_tasks = atoi0 a, ts_att_bytes = atoi0 b,
           ts_last_seen = (let t = go_trim_space c in
              if t = [] then zero_time
              else case parse_datetime t of Some x \<Rightarrow> x
                 | None \<Rightarrow> (case parse_rfc3339 t of Some x \<Rightarrow> x | None \<Rightarrow> zero_time)),
           ts_user_exists = True\<rparr>
      | _ \<Rightarrow> no_stats)"

definition user_stats :: "env \<Rightarrow> task_client \<Rightarrow> string \<Rightarrow> world \<Rightarrow> task_stats \<times> world" where
  "user_stats e c email w =
     (if \<not> task_ready c \<or> go_trim_space email = [] then (no_stats, w)
      else (case task_password e c w of (pwd, w1) \<Rightarrow>
        (if pwd = [] then (no_stats, w1)
         else (let (r, w2) = exec e [''docker'', ''exec'', ''-e'', ''PGPASSWORD='' @ pwd,
                     ''-e'', ''PGOPTIONS=-c statement_timeout=5000'', tc_container c, ''psql'',
                     ''-U'', tc_user c, ''-d'', tc_db c, ''-A'', ''-t'', ''-F'', ''|'', ''--no-psqlrc'',
                     ''-v'', ''email_arg='' @ email, ''-c'', stats_query] [] w1
               in if pr_error r \<noteq> None then (no_stats, w2)
                  else (let line = go_trim_space (pr_stdout r)
                        in (if line = [] then no_stats else stats_row line, w2))))))"

record task_info =
  ti_issues :: int
  ti_att_bytes :: int
  ti_last_seen :: gotime

definition no_task_info :: task_info where
  "no_task_info = \<lparr>ti_issues = 0, ti_att_bytes = 0, ti_last_seen = zero_time\<rparr>"

text \<open>\<open>UserByEmail\<close>: the user identifier of the shim is the email itself.\<close>

definition user_by_email :: "env \<Rightarrow> task_client \<Rightarrow> string \<Rightarrow> world \<Rightarrow> string option \<times> world" where
  "user_by_email e c email w =
     (if \<not> task_ready c \<or> go_trim_space email = [] then (None, w)
      else (case user_stats e c email w of
              (st, w1) \<Rightarrow> (if ts_user_exists st then Some email else None, w1)))"

definition list_workspaces :: "task_client \<Rightarrow> string list" where
  "list_workspaces c = (if task_ready c then [''_all''] else [])"

definition issue_count :: "env \<Rightarrow> task_client \<Rightarrow> string \<Rightarrow> world \<Rightarrow> int \<times> world" where
  "issue_count e c user w =
     (if \<not> task_ready c then (0, w) else case user_stats e c user w of (st, w1) \<Rightarrow> (ts_tasks st, w1))"

definition file_asset_bytes :: "env \<Rightarrow> task_client \<Rightarrow> string \<Rightarrow> world \<Rightarrow> int \<times> world" where
  "file_asset_bytes e c user w =
     (if \<not> task_ready c then (0, w) else case user_stats e c user w of (st, w1) \<Rightarrow> (ts_att_bytes st, w1))"

definition last_activity :: "env \<Rightarrow> task_client \<Rightarrow> string \<Rightarrow> world \<Rightarrow> gotime \<times> world" where
  "last_activity e c user w =
     (if \<not> task_ready c then (zero_time, w)
      else case user_stats e c user w of (st, w1) \<Rightarrow> (ts_last_seen st, w1))"

fun task_sums :: "env \<Rightarrow> task_client \<Rightarrow> string \<Rightarrow> string list \<Rightarrow> int \<Rightarrow> int \<Rightarrow> world \<Rightarrow> int \<times> int \<times> world" where
  "task_sums e c user [] n b w = (n, b, w)"
| "task_sums e c user (ws # wss) n b w =
     (case issue_count e c user w of (n1, w1) \<Rightarrow>
      (case file_asset_bytes e c user w1 of (b1, w2) \<Rightarrow>
        task_sums e c user wss (wrap64 (n + n1)) (wrap64 (b + b1)) w2))"

definition task_user_info :: "env \<Rightarrow> task_client \<Rightarrow> string \<Rightarrow> world \<Rightarrow> task_info \<times> world" where
  "task_user_info e c email w =
     (if \<not> task_ready c \<or> email = [] then (no_task_info, w)
      else (case user_by_email e c email w of
              (None, w1) \<Rightarrow> (no_task_info, w1)
            | (Some u, w1) \<Rightarrow>
                (if u = [] then (no_task_info, w1)
                 else (case task_sums e c u (list_workspaces c) 0 0 w1 of (n, b, w2) \<Rightarrow>
                       (case last_activity e c u w2 of (t, w3) \<Rightarrow>
                         (\<lparr>ti_issues = n, ti_att_bytes = b, ti_last_seen = t\<rparr>, w3))))))"

end
