(* ===== verification/Storage.thy ===== *)
theory Storage
  imports Integrations
begin

text \<open>
  \<open>storage.go\<close>: the disk accounting of the \<open>/users\<close> page. The caches are part of the world;
  an entry younger than 60 seconds is used instead of a command. Byte counts are 64-bit.
\<close>

record user_storage =
  us_name :: string
  us_exists :: bool
  us_on_disk :: int
  us_nominal :: int
  us_nc_quota_used :: int
  us_nc_file_count :: int
  us_task_count :: int
  us_task_att_bytes :: int
  us_last_seen :: gotime

record storage_info =
  si_root :: string
  si_total :: int
  si_free :: int
  si_user_on_disk :: int
  si_nominal :: int
  si_backups :: int
  si_apps :: int
  si_users :: "user_storage list"

record storage_user_spec =
  su_name :: string
  su_email :: string

definition cloud_data_root :: string where
  "cloud_data_root = ''/srv/store/cloud-data''"

definition du_cache_ttl :: int where
  "du_cache_ttl = 60 * second"

text \<open>The result of \<open>du -sb\<close>: the first field of the output as an integer.\<close>

definition du_bytes :: "env \<Rightarrow> string \<Rightarrow> world \<Rightarrow> int option \<times> world" where
  "du_bytes e path w =
     (let (r, w1) = exec e [''du'', ''-sb'', path] [] w
      in (if pr_error r \<noteq> None then None
          else (let f = go_first_field (pr_stdout r) in if f = [] then None else atoi f), w1))"

definition is_dir :: "env \<Rightarrow> string \<Rightarrow> world \<Rightarrow> bool" where
  "is_dir e path w = (stat_file e path w = Inr Dir)"

definition user_on_disk_bytes :: "env \<Rightarrow> string \<Rightarrow> world \<Rightarrow> int \<times> bool \<times> world" where
  "user_on_disk_bytes e user w =
     (let remember = (\<lambda>b ex w'. (b, ex, w'\<lparr>du_cache := (du_cache w')(user \<mapsto> (b, ex, now w'))\<rparr>));
          fresh = (let path = filepath_join [cloud_data_root, user, ''files''] in
             if \<not> is_dir e path w then remember 0 False w
             else (case du_bytes e path w of
                     (None, w1) \<Rightarrow> remember 0 True w1
                   | (Some n, w1) \<Rightarrow> remember n True w1))
      in case du_cache w user of
           Some (b, ex, at) \<Rightarrow> (if now w - at < du_cache_ttl then (b, ex, w) else fresh)
         | None \<Rightarrow> fresh)"

definition backup_on_disk_bytes :: "env \<Rightarrow> string \<Rightarrow> world \<Rightarrow> int \<times> world" where
  "backup_on_disk_bytes e path w =
     (let remember = (\<lambda>b w'. (b, w'\<lparr>backup_cache := (b, now w')\<rparr>)) in
      if snd (backup_cache w) \<noteq> zero_time \<and> now w - snd (backup_cache w) < du_cache_ttl
      then (fst (backup_cache w), w)
      else if \<not> is_dir e path w then remember 0 w
      else (case du_bytes e path w of
              (None, w1) \<Rightarrow> remember 0 w1
            | (Some n, w1) \<Rightarrow> remember n w1))"

subsection \<open>Quotas and Nextcloud\<close>

definition decode_int :: "json \<Rightarrow> int \<Rightarrow> int option" where
  "decode_int j old = (case j of JNum s \<Rightarrow> atoi s | JNull \<Rightarrow> Some old | _ \<Rightarrow> None)"

definition decode_quota :: "json \<Rightarrow> int option" where
  "decode_quota j =
     (case j of
        JObj kvs \<Rightarrow>
          fold_opt (\<lambda>fld n. if go_to_lower (fst fld) = ''cloud_user_quota_gb'' then decode_int (snd fld) n
                            else Some n) kvs 0
      | JNull \<Rightarrow> Some 0
      | _ \<Rightarrow> None)"

definition default_cloud_quota_bytes :: "env \<Rightarrow> config \<Rightarrow> world \<Rightarrow> int" where
  "default_cloud_quota_bytes e cfg w =
     (let fallback = 50 * 2 ^ 30 in
      if setup_state_dir cfg = [] then fallback
      else (case read_file e (filepath_join [setup_state_dir cfg, ''state.json'']) w of
              Inl _ \<Rightarrow> fallback
            | Inr c \<Rightarrow>
                (case Option.bind (content_json e c) decode_quota of
                   None \<Rightarrow> fallback
                 | Some n \<Rightarrow> (if n < 0 then fallback else if n = 0 then 0 else wrap64 (n * 2 ^ 30)))))"

text \<open>\<open>json.Number\<close>: a number literal, or a string that is one.\<close>

definition skip_digits :: "string \<Rightarrow> string option" where
  "skip_digits s = (if s \<noteq> [] \<and> is_digit (hd s) then Some (dropWhile is_digit s) else None)"

definition json_number_text :: "string \<Rightarrow> bool" where
  "json_number_text s =
     (let s1 = (case s of c # r \<Rightarrow> if c = CHR ''-'' then r else s | [] \<Rightarrow> s) in
      case (case s1 of c # r \<Rightarrow> if c = CHR ''0'' then Some r else skip_digits s1 | [] \<Rightarrow> None) of
        None \<Rightarrow> False
      | Some s2 \<Rightarrow>
          (let s3 = (case s2 of
                       c # r \<Rightarrow> if c = CHR ''.'' then (case skip_digits r of Some t \<Rightarrow> t | None \<Rightarrow> s2) else s2
                     | [] \<Rightarrow> []);
               s4 = (case s3 of
                       c # r \<Rightarrow>
                         if c = CHR ''e'' \<or> c = CHR ''E'' then
                           (let r1 = (case r of d # t \<Rightarrow> if d = CHR ''+'' \<or> d = CHR ''-'' then t else r | [] \<Rightarrow> [])
                            in case skip_digits r1 of Some t \<Rightarrow> t | None \<Rightarrow> s3)
                         else s3
                     | [] \<Rightarrow> [])
           in s4 = []))"

definition decode_number :: "json \<Rightarrow> string \<Rightarrow> string option" where
  "decode_number j old =
     (case j of JNum s \<Rightarrow> Some s | JNull \<Rightarrow> Some old
      | JStr s \<Rightarrow> (if json_number_text s then Some s else None) | _ \<Rightarrow> None)"

record occ_info =
  oi_used :: string
  oi_quota_files :: string
  oi_files :: string
  oi_last_seen :: string

definition decode_occ_quota :: "json \<Rightarrow> occ_info \<Rightarrow> occ_info option" where
  "decode_occ_quota j i =
     (case j of
        JObj kvs \<Rightarrow>
          fold_opt (\<lambda>fld a. let k = go_to_lower (fst fld) in
             if k = ''used'' then map_option (\<lambda>s. a\<lparr>oi_used := s\<rparr>) (decode_number (snd fld) (oi_used a))
             else if k = ''files'' then map_option (\<lambda>s. a\<lparr>oi_quota_files := s\<rparr>) (decode_number (snd fld) (oi_quota_files a))
             else Some a) kvs i
      | JNull \<Rightarrow> Some i
      | _ \<Rightarrow> None)"

definition decode_occ :: "json \<Rightarrow> occ_info option" where
  "decode_occ j =
     (let zero = \<lparr>oi_used = [], oi_quota_files = [], oi_files = [], oi_last_seen = []\<rparr> in
      case j of
        JObj kvs \<Rightarrow>
          fold_opt (\<lambda>fld a. let k = go_to_lower (fst fld) in
             if k = ''quota'' then decode_occ_quota (snd fld) a
             else if k = ''files'' then map_option (\<lambda>s. a\<lparr>oi_files := s\<rparr>) (decode_number (snd fld) (oi_files a))
             else if k = ''last_seen'' then map_option (\<lambda>s. a\<lparr>oi_last_seen := s\<rparr>) (decode_string (snd fld) (oi_last_seen a))
             else Some a) kvs zero
      | JNull \<Rightarrow> Some zero
      | _ \<Rightarrow> None)"

definition occ_nc_info :: "occ_info \<Rightarrow> nc_info" where
  "occ_nc_info i =
     \<lparr>nc_quota_used = (case atoi (oi_used i) of Some n \<Rightarrow> n | None \<Rightarrow> 0),
      nc_file_count = (case atoi (oi_files i) of Some n \<Rightarrow> n
         | None \<Rightarrow> (case atoi (oi_quota_files i) of Some n \<Rightarrow> n | None \<Rightarrow> 0)),
      nc_last_login = (if oi_last_seen i = [] then zero_time
         else case parse_rfc3339 (oi_last_seen i) of Some t \<Rightarrow> t
            | None \<Rightarrow> (case parse_datetime (oi_last_seen i) of Some t \<Rightarrow> t | None \<Rightarrow> zero_time))\<rparr>"

definition nextcloud_user_info :: "env \<Rightarrow> string \<Rightarrow> world \<Rightarrow> nc_info res \<times> world" where
  "nextcloud_user_info e name w =
     (let fresh = (let (r, w1) = exec e [''docker'', ''exec'', ''-u'', ''www-data'', ''cloud'', ''php'', ''occ'',
                         ''user:info'', name, ''--output=json''] [] w;
                       res = (case pr_error r of
                           Some m \<Rightarrow> Inl (Failure (''occ user:info '' @ name @ '': '' @ m))
                         | None \<Rightarrow>
                             (case Option.bind (json_decode e (pr_stdout r)) decode_occ of
                                None \<Rightarrow> Inl (Failure (''occ user:info '' @ name @ '': parse json''))
                              | Some i \<Rightarrow> Inr (occ_nc_info i)))
                   in (res, w1\<lparr>nc_cache := (nc_cache w1)(name \<mapsto> (res, now w1))\<rparr>))
      in case nc_cache w name of
           Some (res, at) \<Rightarrow> (if now w - at < du_cache_ttl then (res, w) else fresh)
         | None \<Rightarrow> fresh)"

subsection \<open>The snapshot\<close>

text \<open>The later of two times, where the zero time counts as never.\<close>

definition later_seen :: "gotime \<Rightarrow> gotime \<Rightarrow> gotime" where
  "later_seen t old = (if t \<noteq> zero_time \<and> t > old then t else old)"

definition storage_row ::
  "env \<Rightarrow> task_client \<Rightarrow> int \<Rightarrow> storage_user_spec \<Rightarrow> world \<Rightarrow> user_storage \<times> world" where
  "storage_row e tc nominal u w =
     (case user_on_disk_bytes e (su_name u) w of (b, ex, w1) \<Rightarrow>
      (case nextcloud_user_info e (su_name u) w1 of (nc, w2) \<Rightarrow>
      (case task_user_info e tc (su_email u) w2 of (ti, w3) \<Rightarrow>
        (let seen = (case nc of Inr i \<Rightarrow> later_seen (nc_last_login i) zero_time | Inl _ \<Rightarrow> zero_time)
         in (\<lparr>us_name = su_name u, us_exists = ex, us_on_disk = b, us_nominal = nominal,
              us_nc_quota_used = (case nc of Inr i \<Rightarrow> nc_quota_used i | Inl _ \<Rightarrow> - 1),
              us_nc_file_count = (case nc of Inr i \<Rightarrow> nc_file_count i | Inl _ \<Rightarrow> 0),
              us_task_count = ti_issues ti, us_task_att_bytes = ti_att_bytes ti,
              us_last_seen = later_seen (ti_last_seen ti) seen\<rparr>, w3)))))"

fun storage_rows ::
  "env \<Rightarrow> task_client \<Rightarrow> int \<Rightarrow> storage_user_spec list \<Rightarrow> world \<Rightarrow> user_storage list \<times> world" where
  "storage_rows e tc nominal [] w = ([], w)"
| "storage_rows e tc nominal (u # us) w =
     (case storage_row e tc nominal u w of (row, w1) \<Rightarrow>
      (case storage_rows e tc nominal us w1 of (rows, w2) \<Rightarrow> (row # rows, w2)))"

definition sum64 :: "int list \<Rightarrow> int" where
  "sum64 xs = foldl (\<lambda>a x. wrap64 (a + x)) 0 xs"

definition apps_bytes :: "int \<Rightarrow> int \<Rightarrow> int \<Rightarrow> int \<Rightarrow> int" where
  "apps_bytes tot free users backups =
     (let a = wrap64 (tot - free - users - backups) in if a < 0 then 0 else a)"

definition storage_snapshot ::
  "env \<Rightarrow> config \<Rightarrow> storage_user_spec list \<Rightarrow> task_client \<Rightarrow> world \<Rightarrow> storage_info \<times> world" where
  "storage_snapshot e cfg users tc w =
     (let (tot, free) = (case statfs e ''/srv/store'' of
            Some (blocks, avail, bsize) \<Rightarrow> (wrap64 (blocks * bsize), wrap64 (avail * bsize))
          | None \<Rightarrow> (0, 0));
          (rows, w1) = storage_rows e tc (default_cloud_quota_bytes e cfg w) users w;
          (backups, w2) = (if backup_repo_dir cfg \<noteq> []
                           then backup_on_disk_bytes e (filepath_dir (backup_repo_dir cfg)) w1 else (0, w1));
          on_disk = sum64 (map us_on_disk rows)
      in (\<lparr>si_root = ''/srv/store'', si_total = tot, si_free = free, si_user_on_disk = on_disk,
           si_nominal = sum64 (map us_nominal rows), si_backups = backups,
           si_apps = apps_bytes tot free on_disk backups, si_users = rows\<rparr>, w2))"

subsection \<open>Bounds\<close>

lemma sum64_plain:
  assumes "\<forall>x \<in> set xs. 0 \<le> x" "sum_list xs < 2 ^ 63"
  shows "sum64 xs = sum_list xs"
proof -
  have "foldl (\<lambda>a x. wrap64 (a + x)) a xs = a + sum_list xs"
    if "0 \<le> a" "\<forall>x \<in> set xs. 0 \<le> x" "a + sum_list xs < 2 ^ 63" for a
    using that
  proof (induction xs arbitrary: a)
    case (Cons x xs)
    have "0 \<le> sum_list xs" using Cons.prems(2) by (simp add: sum_list_nonneg)
    then have "wrap64 (a + x) = a + x" using Cons.prems by (intro wrap64_id) auto
    with Cons show ?case by (simp add: add.assoc)
  qed simp
  from this [of 0] assms show ?thesis by (simp add: sum64_def)
qed

text \<open>The accounting of the \<open>/users\<close> page adds up: when the parts fit into the disk, the bytes
  left over for applications are exactly what remains, and together the parts are the totalal;
  when the parts overlap (rounding, shared blocks), the remainder is shown as zero and never
  as a negative number.\<close>

theorem storage_adds_up:
  assumes "0 \<le> tot" and "tot < 2 ^ 63" and "0 \<le> free" and "0 \<le> users" and "0 \<le> backups"
    and "free + users + backups < 2 ^ 63"
  shows "0 \<le> apps_bytes tot free users backups
    \<and> (free + users + backups \<le> tot \<longrightarrow>
         free + users + backups + apps_bytes tot free users backups = tot)
    \<and> (tot < free + users + backups \<longrightarrow> apps_bytes tot free users backups = 0)"
proof -
  have "wrap64 (tot - free - users - backups) = tot - free - users - backups"
    by (rule wrap64_id) (use assms in linarith)+
  then show ?thesis by (auto simp: apps_bytes_def Let_def)
qed

theorem storage_adds_up_witness:
  "apps_bytes 1000 200 300 50 = 450 \<and> apps_bytes 100 90 20 0 = 0"
  using storage_adds_up [of 1000 200 300 50] storage_adds_up [of 100 90 20 0] by simp

text \<open>A cached size is used only while it is younger than 60 seconds, and looking it up runs no
  command; once looked up, a size is cached, so a second look-up within the minute gives the
  same answer without a command.\<close>

theorem du_cache_coherent:
  assumes "user_on_disk_bytes e user w = (b, ex, w1)" and "now w1 \<le> t" and "t - now w1 < 60 * second"
    and "\<forall>b ex at. du_cache w user = Some (b, ex, at) \<longrightarrow> t - at < 60 * second"
  shows "user_on_disk_bytes e user (w1\<lparr>now := t\<rparr>) = (b, ex, w1\<lparr>now := t\<rparr>)"
proof -
  have n: "now (snd (exec e a s w)) = now w" for a s by (simp add: frame_simps)
  have "\<exists>at. du_cache w1 user = Some (b, ex, at) \<and> t - at < 60 * second"
    using assms(1,3,4) n
    by (auto simp: user_on_disk_bytes_def Let_def du_bytes_def split: option.splits if_splits prod.splits)
  then show ?thesis by (auto simp: user_on_disk_bytes_def du_cache_ttl_def Let_def)
qed

theorem du_cache_coherent_witness:
  "\<exists>w1. user_on_disk_bytes calm_env ''a'' blank_world = (0, False, w1)
     \<and> user_on_disk_bytes calm_env ''a'' (w1\<lparr>now := second\<rparr>) = (0, False, w1\<lparr>now := second\<rparr>)"
proof -
  obtain w1 where w1: "user_on_disk_bytes calm_env ''a'' blank_world = (0, False, w1)" "now w1 = 0"
    by (simp add: user_on_disk_bytes_def is_dir_def stat_file_def blank_world_def Let_def)
  from du_cache_coherent [OF w1(1), of second] w1 show ?thesis
    by (simp add: blank_world_def second_def)
qed

end
