(* ===== verification/SetupState.thy ===== *)
theory SetupState
  imports Storage
begin

text \<open>
  The state of the setup wizard (\<open>setup.go\<close>): the record, its JSON file, the gate
  \<open>setupModeActive\<close>, the DNS provider catalogue, the secret cache and the quota parser.
\<close>

subsection \<open>Data\<close>

datatype setup_step =
  StepWelcome | StepDomain | StepDNS | StepAdmin | StepStorage | StepFinalize | StepDone
  | StepOther string

fun step_name :: "setup_step \<Rightarrow> string" where
  "step_name StepWelcome = ''welcome''"
| "step_name StepDomain = ''domain''"
| "step_name StepDNS = ''dns''"
| "step_name StepAdmin = ''admin''"
| "step_name StepStorage = ''storage''"
| "step_name StepFinalize = ''finalize''"
| "step_name StepDone = ''done''"
| "step_name (StepOther s) = s"

definition step_of :: "string \<Rightarrow> setup_step" where
  "step_of s =
     (case find (\<lambda>p. step_name p = s) [StepWelcome, StepDomain, StepDNS, StepAdmin, StepStorage,
                                        StepFinalize, StepDone] of
        Some p \<Rightarrow> p | None \<Rightarrow> StepOther s)"

record completed_steps =
  cs_users_db_written :: bool
  cs_oidc_rotated :: bool
  cs_templates_rendered :: bool
  cs_cert_issued :: bool
  cs_npm_routes_wired :: bool
  cs_sentinel_touched :: bool

record setup_state =
  st_step :: setup_step
  st_domain :: string
  st_dns_provider :: string
  st_dns_creds :: "(string \<times> string) list"
  st_admin_username :: string
  st_admin_display_name :: string
  st_admin_email :: string
  st_admin_password_hash :: string
  st_enable_totp :: bool
  st_cloud_quota_gb :: int
  st_started_at :: gotime
  st_updated_at :: gotime
  st_completed :: completed_steps

definition no_steps :: completed_steps where
  "no_steps = \<lparr>cs_users_db_written = False, cs_oidc_rotated = False, cs_templates_rendered = False,
     cs_cert_issued = False, cs_npm_routes_wired = False, cs_sentinel_touched = False\<rparr>"

definition zero_state :: setup_state where
  "zero_state = \<lparr>st_step = StepOther [], st_domain = [], st_dns_provider = [], st_dns_creds = [],
     st_admin_username = [], st_admin_display_name = [], st_admin_email = [],
     st_admin_password_hash = [], st_enable_totp = False, st_cloud_quota_gb = 0,
     st_started_at = zero_time, st_updated_at = zero_time, st_completed = no_steps\<rparr>"

subsection \<open>JSON\<close>

definition opt_str :: "string \<Rightarrow> string \<Rightarrow> (string \<times> json) list" where
  "opt_str k s = (if s = [] then [] else [(k, JStr s)])"

definition opt_flag :: "string \<Rightarrow> bool \<Rightarrow> (string \<times> json) list" where
  "opt_flag k b = (if b then [(k, JBool True)] else [])"

definition completed_json :: "completed_steps \<Rightarrow> json" where
  "completed_json c = JObj
     (opt_flag ''users_db_written'' (cs_users_db_written c) @ opt_flag ''oidc_rotated'' (cs_oidc_rotated c)
      @ opt_flag ''templates_rendered'' (cs_templates_rendered c) @ opt_flag ''cert_issued'' (cs_cert_issued c)
      @ opt_flag ''npm_routes_wired'' (cs_npm_routes_wired c)
      @ opt_flag ''sentinel_touched'' (cs_sentinel_touched c))"

definition state_json :: "setup_state \<Rightarrow> json res" where
  "state_json st =
     (case json_time (st_started_at st) of Inl err \<Rightarrow> Inl err | Inr t1 \<Rightarrow>
      (case json_time (st_updated_at st) of Inl err \<Rightarrow> Inl err | Inr t2 \<Rightarrow>
       Inr (JObj ([(''step'', JStr (step_name (st_step st)))] @ opt_str ''domain'' (st_domain st)
         @ opt_str ''dns_provider'' (st_dns_provider st)
         @ (if st_dns_creds st = [] then []
            else [(''dns_provider_creds'', JObj (map (\<lambda>(k, v). (k, JStr v))
                     (sort_by (\<lambda>x y. str_less (fst x) (fst y)) (st_dns_creds st))))])
         @ opt_str ''admin_username'' (st_admin_username st)
         @ opt_str ''admin_display_name'' (st_admin_display_name st)
         @ opt_str ''admin_email'' (st_admin_email st)
         @ opt_str ''admin_password_hash'' (st_admin_password_hash st)
         @ opt_flag ''enable_totp'' (st_enable_totp st)
         @ (if st_cloud_quota_gb st = 0 then []
            else [(''cloud_user_quota_gb'', JNum (show_int (st_cloud_quota_gb st)))])
         @ [(''started_at'', t1), (''updated_at'', t2),
            (''completed_steps'', completed_json (st_completed st))]))))"

definition decode_bool :: "json \<Rightarrow> bool \<Rightarrow> bool option" where
  "decode_bool j old = (case j of JBool b \<Rightarrow> Some b | JNull \<Rightarrow> Some old | _ \<Rightarrow> None)"

definition decode_creds :: "json \<Rightarrow> (string \<times> string) list \<Rightarrow> (string \<times> string) list option" where
  "decode_creds j old =
     (case j of
        JObj kvs \<Rightarrow> fold_opt (\<lambda>fld m. map_option (\<lambda>s. AList.update (fst fld) s m) (decode_string (snd fld) [])) kvs old
      | JNull \<Rightarrow> Some []
      | _ \<Rightarrow> None)"

definition decode_completed :: "json \<Rightarrow> completed_steps \<Rightarrow> completed_steps option" where
  "decode_completed j old =
     (case j of
        JObj kvs \<Rightarrow>
          fold_opt (\<lambda>fld c. let k = go_to_lower (fst fld); v = snd fld in
             if k = ''users_db_written'' then map_option (\<lambda>b. c\<lparr>cs_users_db_written := b\<rparr>) (decode_bool v (cs_users_db_written c))
             else if k = ''oidc_rotated'' then map_option (\<lambda>b. c\<lparr>cs_oidc_rotated := b\<rparr>) (decode_bool v (cs_oidc_rotated c))
             else if k = ''templates_rendered'' then map_option (\<lambda>b. c\<lparr>cs_templates_rendered := b\<rparr>) (decode_bool v (cs_templates_rendered c))
             else if k = ''cert_issued'' then map_option (\<lambda>b. c\<lparr>cs_cert_issued := b\<rparr>) (decode_bool v (cs_cert_issued c))
             else if k = ''npm_routes_wired'' then map_option (\<lambda>b. c\<lparr>cs_npm_routes_wired := b\<rparr>) (decode_bool v (cs_npm_routes_wired c))
             else if k = ''sentinel_touched'' then map_option (\<lambda>b. c\<lparr>cs_sentinel_touched := b\<rparr>) (decode_bool v (cs_sentinel_touched c))
             else Some c) kvs old
      | JNull \<Rightarrow> Some old
      | _ \<Rightarrow> None)"

definition decode_state_field :: "string \<times> json \<Rightarrow> setup_state \<Rightarrow> setup_state option" where
  "decode_state_field fld st =
     (let k = go_to_lower (fst fld); v = snd fld in
      if k = ''step'' then map_option (\<lambda>s. st\<lparr>st_step := step_of s\<rparr>) (decode_string v (step_name (st_step st)))
      else if k = ''domain'' then map_option (\<lambda>s. st\<lparr>st_domain := s\<rparr>) (decode_string v (st_domain st))
      else if k = ''dns_provider'' then map_option (\<lambda>s. st\<lparr>st_dns_provider := s\<rparr>) (decode_string v (st_dns_provider st))
      else if k = ''dns_provider_creds'' then map_option (\<lambda>m. st\<lparr>st_dns_creds := m\<rparr>) (decode_creds v (st_dns_creds st))
      else if k = ''admin_username'' then map_option (\<lambda>s. st\<lparr>st_admin_username := s\<rparr>) (decode_string v (st_admin_username st))
      else if k = ''admin_display_name'' then map_option (\<lambda>s. st\<lparr>st_admin_display_name := s\<rparr>) (decode_string v (st_admin_display_name st))
      else if k = ''admin_email'' then map_option (\<lambda>s. st\<lparr>st_admin_email := s\<rparr>) (decode_string v (st_admin_email st))
      else if k = ''admin_password_hash'' then map_option (\<lambda>s. st\<lparr>st_admin_password_hash := s\<rparr>) (decode_string v (st_admin_password_hash st))
      else if k = ''enable_totp'' then map_option (\<lambda>b. st\<lparr>st_enable_totp := b\<rparr>) (decode_bool v (st_enable_totp st))
      else if k = ''cloud_user_quota_gb'' then map_option (\<lambda>n. st\<lparr>st_cloud_quota_gb := n\<rparr>) (decode_int v (st_cloud_quota_gb st))
      else if k = ''started_at'' then map_option (\<lambda>t. st\<lparr>st_started_at := t\<rparr>) (decode_time v (st_started_at st))
      else if k = ''updated_at'' then map_option (\<lambda>t. st\<lparr>st_updated_at := t\<rparr>) (decode_time v (st_updated_at st))
      else if k = ''completed_steps'' then map_option (\<lambda>c. st\<lparr>st_completed := c\<rparr>) (decode_completed v (st_completed st))
      else Some st)"

definition decode_state :: "json \<Rightarrow> setup_state option" where
  "decode_state j =
     (case j of JObj kvs \<Rightarrow> fold_opt decode_state_field kvs zero_state
      | JNull \<Rightarrow> Some zero_state | _ \<Rightarrow> None)"

subsection \<open>The file\<close>

definition setup_state_path :: "config \<Rightarrow> string" where
  "setup_state_path cfg = filepath_join [setup_state_dir cfg, ''state.json'']"

definition load_setup_state :: "env \<Rightarrow> config \<Rightarrow> world \<Rightarrow> setup_state res" where
  "load_setup_state e cfg w =
     (let path = setup_state_path cfg in
      case read_file e path w of
        Inl err \<Rightarrow>
          (if is_not_exist err
           then Inr (zero_state\<lparr>st_step := StepWelcome, st_domain := domain cfg,
                       st_started_at := now w, st_updated_at := now w\<rparr>)
           else Inl (Failure (''read '' @ path @ '': '' @ err_text err)))
      | Inr c \<Rightarrow>
          (case Option.bind (content_json e c) decode_state of
             None \<Rightarrow> Inl (Failure (''parse '' @ path @ '': invalid JSON''))
           | Some st \<Rightarrow> Inr (if st_domain st = [] then st\<lparr>st_domain := domain cfg\<rparr> else st)))"

definition save_setup_state :: "env \<Rightarrow> config \<Rightarrow> setup_state \<Rightarrow> world \<Rightarrow> unit res \<times> world" where
  "save_setup_state e cfg st w =
     (case mkdir_all e (setup_state_dir cfg) w of
        (Inl err, w1) \<Rightarrow> (Inl (Failure (''mkdir '' @ setup_state_dir cfg @ '': '' @ err_text err)), w1)
      | (Inr _, w1) \<Rightarrow>
          (case state_json (st\<lparr>st_updated_at := now w1\<rparr>) of
             Inl err \<Rightarrow> (Inl (Failure (''marshal state: '' @ err_text err)), w1)
           | Inr j \<Rightarrow>
               (let path = setup_state_path cfg; tmp = path @ ''.tmp'' in
                case write_file e tmp (Json j) w1 of
                  (Inl err, w2) \<Rightarrow> (Inl (Failure (''write '' @ tmp @ '': '' @ err_text err)), w2)
                | (Inr _, w2) \<Rightarrow>
                    (case rename_file e tmp path w2 of
                       (Inl err, w3) \<Rightarrow> (Inl (Failure (''rename '' @ tmp @ '': '' @ err_text err)), w3)
                     | (Inr _, w3) \<Rightarrow> (Inr (), w3)))))"

definition setup_mode_active :: "env \<Rightarrow> config \<Rightarrow> world \<Rightarrow> bool" where
  "setup_mode_active e cfg w =
     (case stat_file e (setup_complete_sentinel cfg) w of Inl err \<Rightarrow> is_not_exist err | Inr _ \<Rightarrow> False)"

definition totp_enabled :: "env \<Rightarrow> config \<Rightarrow> world \<Rightarrow> bool" where
  "totp_enabled e cfg w =
     (case load_setup_state e cfg w of Inl _ \<Rightarrow> False | Inr st \<Rightarrow> st_enable_totp st)"

subsection \<open>Quota and secrets\<close>

fun quota_digits :: "string \<Rightarrow> nat \<Rightarrow> nat option" where
  "quota_digits [] n = Some n"
| "quota_digits (c # cs) n =
     (if \<not> is_digit c then None
      else (let m = n * 10 + digit_val c in if m > 2 ^ 20 then None else quota_digits cs m))"

definition parse_quota_gb :: "string \<Rightarrow> nat option" where
  "parse_quota_gb s = (let t = go_trim_space s in if t = [] then None else quota_digits t 0)"

text \<open>\<open>strings.ReplaceAll\<close> for a one-byte and for a two-byte needle.\<close>

definition replace_char :: "char \<Rightarrow> char \<Rightarrow> string \<Rightarrow> string" where
  "replace_char a b s = map (\<lambda>c. if c = a then b else c) s"

fun replace_dots :: "string \<Rightarrow> string" where
  "replace_dots (x # y # r) =
     (if x = CHR ''.'' \<and> y = CHR ''.'' then CHR ''_'' # replace_dots r else x # replace_dots (y # r))"
| "replace_dots s = s"

definition secret_cache_dir :: string where
  "secret_cache_dir = ''/run/raph-setup-secrets''"

definition secret_cache_file :: "string \<Rightarrow> string" where
  "secret_cache_file k =
     filepath_join [secret_cache_dir, replace_dots (replace_char CHR ''/'' CHR ''_'' k) @ ''.pass'']"

definition secret_set :: "env \<Rightarrow> string \<Rightarrow> string \<Rightarrow> world \<Rightarrow> world" where
  "secret_set e k v w =
     (let w1 = w\<lparr>secrets := (secrets w)(k \<mapsto> v)\<rparr> in
      case mkdir_all e secret_cache_dir w1 of
        (Inl _, w2) \<Rightarrow> w2
      | (Inr _, w2) \<Rightarrow> snd (write_file e (secret_cache_file k) (Bytes v) w2))"

definition trim_breaks :: "string \<Rightarrow> string" where
  "trim_breaks s = rev (dropWhile (\<lambda>c. c = CHR 10 \<or> c = CHR 13) (rev s))"

definition secret_get :: "env \<Rightarrow> string \<Rightarrow> world \<Rightarrow> string \<times> world" where
  "secret_get e k w =
     (case secrets w k of
        Some v \<Rightarrow>
          (if v \<noteq> [] then (v, w)
           else (case read_file e (secret_cache_file k) w of
                   Inr c \<Rightarrow> (let v' = trim_breaks (content_text e c) in (v', w\<lparr>secrets := (secrets w)(k \<mapsto> v')\<rparr>))
                 | Inl _ \<Rightarrow> ([], w)))
      | None \<Rightarrow>
          (case read_file e (secret_cache_file k) w of
             Inr c \<Rightarrow> (let v' = trim_breaks (content_text e c) in (v', w\<lparr>secrets := (secrets w)(k \<mapsto> v')\<rparr>))
           | Inl _ \<Rightarrow> ([], w)))"

definition secret_delete :: "env \<Rightarrow> string \<Rightarrow> world \<Rightarrow> world" where
  "secret_delete e k w =
     snd (remove_file e (secret_cache_file k) (w\<lparr>secrets := (secrets w)(k := None)\<rparr>))"

end
