(* ===== verification/DnsProviders.thy ===== *)
theory DnsProviders
  imports Http MetaStore
begin

text \<open>
  The DNS providers the wizard offers (\<open>supportedDNSProviders\<close> in \<open>setup.go\<close>) and the credentials
  file of certbot (\<open>dnsCredsINI\<close>).
\<close>

record dns_field =
  df_name :: string
  df_label :: string
  df_help :: string
  df_multiline :: bool

record dns_provider =
  dp_id :: string
  dp_label :: string
  dp_help_url :: string
  dp_help_text :: string
  dp_fields :: "dns_field list"

definition field :: "string \<Rightarrow> string \<Rightarrow> string \<Rightarrow> dns_field" where
  "field name label help = \<lparr>df_name = name, df_label = label, df_help = help, df_multiline = False\<rparr>"

definition ovh_help :: string where
  "ovh_help = ''Pick '' @ [CHR 34] @ ''Unlimited'' @ [CHR 34]
     @ '' validity (cert renewals run forever; shorter validity will break renewal in ~60 days). ''
     @ ''Confirm the rights matrix shows exactly GET/POST/PUT/DELETE on /domain/zone/* plus GET on ''
     @ ''/domain/zone/ '' @ em_dash @ '' no extra scopes. Non-EU regions: swap the host for ''
     @ ''auth.ca.ovhcloud.com or api.us.ovhcloud.com/createToken/ and append the same query string.''"

definition supported_dns_providers :: "dns_provider list" where
  "supported_dns_providers =
     [\<lparr>dp_id = ''cloudflare'', dp_label = ''Cloudflare'',
       dp_help_url = ''https://dash.cloudflare.com/profile/api-tokens'',
       dp_help_text = ''Token with Zone:DNS:Edit on the apex zone.'',
       dp_fields = [field ''dns_cloudflare_api_token'' ''API Token'' ''Zone DNS Edit token.'']\<rparr>,
      \<lparr>dp_id = ''ovh'', dp_label = ''OVH'',
       dp_help_url = ''https://auth.eu.ovhcloud.com/api/createToken?GET=/domain/zone/&GET=/domain/zone/*''
         @ ''&POST=/domain/zone/*&PUT=/domain/zone/*&DELETE=/domain/zone/*&name=certbot-dns-ovh'',
       dp_help_text = ovh_help,
       dp_fields = [field ''dns_ovh_endpoint'' ''Endpoint'' ''ovh-eu / ovh-ca / ovh-us'',
         field ''dns_ovh_application_key'' ''Application Key'' [],
         field ''dns_ovh_application_secret'' ''Application Secret'' [],
         field ''dns_ovh_consumer_key'' ''Consumer Key'' []]\<rparr>,
      \<lparr>dp_id = ''route53'', dp_label = ''Route53 (AWS)'', dp_help_url = [],
       dp_help_text = ''IAM user with route53:ChangeResourceRecordSets on the hosted zone.'',
       dp_fields = [field ''aws_access_key_id'' ''AWS Access Key ID'' [],
         field ''aws_secret_access_key'' ''AWS Secret Access Key'' []]\<rparr>,
      \<lparr>dp_id = ''digitalocean'', dp_label = ''DigitalOcean'',
       dp_help_url = ''https://cloud.digitalocean.com/account/api/tokens'',
       dp_help_text = ''Personal Access Token (write).'',
       dp_fields = [field ''dns_digitalocean_token'' ''API Token'' []]\<rparr>,
      \<lparr>dp_id = ''google'', dp_label = ''Google Cloud DNS'', dp_help_url = [],
       dp_help_text = ''Service account JSON key with roles/dns.admin on the project.'',
       dp_fields = [(field ''dns_google_credentials'' ''Service Account JSON'' [])\<lparr>df_multiline := True\<rparr>]\<rparr>,
      \<lparr>dp_id = ''linode'', dp_label = ''Linode'',
       dp_help_url = ''https://cloud.linode.com/profile/tokens'',
       dp_help_text = ''Personal Access Token with Domains:Read/Write.'',
       dp_fields = [field ''dns_linode_key'' ''API Key'' [],
         field ''dns_linode_version'' ''API Version'' ''Default 4.'']\<rparr>,
      \<lparr>dp_id = ''rfc2136'', dp_label = ''RFC 2136 (BIND / dynamic DNS)'', dp_help_url = [],
       dp_help_text = ''Use when you run your own authoritative nameserver supporting TSIG dynamic updates.'',
       dp_fields = [field ''dns_rfc2136_server'' ''Server'' [], field ''dns_rfc2136_port'' ''Port'' ''Default 53.'',
         field ''dns_rfc2136_name'' ''TSIG Key Name'' [], field ''dns_rfc2136_secret'' ''TSIG Secret'' [],
         field ''dns_rfc2136_algorithm'' ''TSIG Algorithm'' ''e.g. HMAC-SHA512.'']\<rparr>]"

definition no_provider :: dns_provider where
  "no_provider = \<lparr>dp_id = [], dp_label = [], dp_help_url = [], dp_help_text = [], dp_fields = []\<rparr>"

definition dns_provider_by_id :: "string \<Rightarrow> dns_provider option" where
  "dns_provider_by_id i = find (\<lambda>p. dp_id p = i) supported_dns_providers"

subsection \<open>The credentials file\<close>

definition google_creds_path :: string where
  "google_creds_path = ''/srv/store/setup/google-creds.json''"

definition ini_line :: "string \<times> string \<Rightarrow> string" where
  "ini_line fld = fst fld @ '' = '' @ snd fld @ [CHR 10]"

fun ini_lines :: "(string \<times> string) list \<Rightarrow> string res" where
  "ini_lines [] = Inr []"
| "ini_lines (fld # pairs) =
     (if CHR 10 \<in> set (snd fld) \<or> CHR 13 \<in> set (snd fld) then
        Inl (Failure (''dns creds key '' @ go_quote (fst fld) @ '' has newline; refusing to render''))
      else (case ini_lines pairs of Inl err \<Rightarrow> Inl err | Inr r \<Rightarrow> Inr (ini_line fld @ r)))"

text \<open>The INI text, the path and the text of the second file, which only Google has.\<close>

definition dns_creds_ini :: "string \<Rightarrow> (string \<times> string) list \<Rightarrow> (string \<times> string \<times> string) res" where
  "dns_creds_ini provider creds =
     (if provider = ''google'' then
        Inr (''dns_google_credentials = '' @ google_creds_path @ [CHR 10], google_creds_path,
             (case map_of creds ''dns_google_credentials'' of Some v \<Rightarrow> v | None \<Rightarrow> []))
      else (case ini_lines (sort_by (\<lambda>x y. str_less (fst x) (fst y)) creds) of
              Inl err \<Rightarrow> Inl err
            | Inr ini \<Rightarrow> Inr (ini, [], [])))"

text \<open>How certbot reads the file: the lines, cut at the first \<open>" = "\<close>.\<close>

definition ini_read :: "string \<Rightarrow> (string \<times> string) list" where
  "ini_read s =
     map (\<lambda>l. let k = takeWhile (\<lambda>c. c \<noteq> CHR '' '') l in (k, drop (length k + 3) l))
       (filter (\<lambda>l. l \<noteq> []) (split_on CHR 10 s))"

lemma ini_lines_read:
  assumes "ini_lines pairs = Inr s" and "\<forall>k \<in> fst ` set pairs. list_all is_word k \<and> k \<noteq> []"
  shows "ini_read s = pairs"
  using assms
proof (induction pairs arbitrary: s)
  case Nil
  then show ?case by (simp add: ini_read_def)
next
  case (Cons fld pairs)
  obtain k v where fld: "fld = (k, v)" by (cases fld)
  from Cons.prems(1) obtain r where r: "ini_lines pairs = Inr r" and s: "s = ini_line fld @ r"
    and nl: "CHR 10 \<notin> set v" by (auto simp: fld split: if_splits sum.splits)
  have k: "list_all is_word k" "k \<noteq> []" using Cons.prems(2) by (auto simp: fld)
  have kc: "c \<noteq> CHR '' '' \<and> c \<noteq> CHR 10" if "c \<in> set k" for c
    using k(1) that by (auto simp: list_all_iff is_word_def is_alpha_def is_lower_def is_upper_def is_digit_def)
  then have "CHR 10 \<notin> set k" by auto
  with nl have "split_on CHR 10 s = (k @ '' = '' @ v) # split_on CHR 10 r"
    using split_on_append_sep [of "CHR 10" "k @ '' = '' @ v" r] by (simp add: s ini_line_def fld)
  moreover have "takeWhile (\<lambda>c. c \<noteq> CHR '' '') (k @ '' = '' @ v) = k"
    using kc by (subst takeWhile_append2) auto
  ultimately have "ini_read s = (k, v) # ini_read r" using k(2) by (simp add: ini_read_def Let_def)
  moreover have "ini_read r = pairs" using Cons.IH [OF r] Cons.prems(2) by simp
  ultimately show ?case by (simp add: fld)
qed



end
