(* ===== verification/Pages.thy ===== *)
theory Pages
  imports SetupState UsersDb DnsProviders
begin

text \<open>
  The data the handlers hand to the HTML templates, one record per template, and the type of
  pages. What a template makes of its data is not modelled.
\<close>

record user_row =
  ur_name :: string
  ur_display_name :: string
  ur_email :: string
  ur_groups :: "string list"
  ur_is_admin :: bool
  ur_banned :: "user_ban option"

record users_list_data =
  ul_user :: string
  ul_csrf :: string
  ul_viewer_is_admin :: bool
  ul_users :: "user_row list"
  ul_storage :: storage_info
  ul_flash :: string
  ul_totp_enabled :: bool

record user_created_data =
  uc_user :: string
  uc_csrf :: string
  uc_viewer_is_admin :: bool
  uc_created :: string
  uc_otpauth_uri :: string
  uc_qr_data_uri :: string
  uc_flash :: string
  uc_totp_enabled :: bool

record user_detail_data =
  ud_user :: string
  ud_csrf :: string
  ud_viewer_is_admin :: bool
  ud_target :: user
  ud_name :: string
  ud_is_admin :: bool
  ud_devices :: "peer list"
  ud_totp_enabled :: bool

record account_data =
  ac_user :: string
  ac_csrf :: string
  ac_display_name :: string
  ac_email :: string
  ac_groups :: "string list"
  ac_is_admin :: bool
  ac_viewer_is_admin :: bool
  ac_flash :: string
  ac_error :: string

record peer_group =
  pg_user :: string
  pg_peers :: "peer list"

record peers_list_data =
  pl_user :: string
  pl_csrf :: string
  pl_viewer_is_admin :: bool
  pl_groups :: "peer_group list"
  pl_users :: "string list"
  pl_default_tag :: string
  pl_flash :: string

record peers_disabled_data =
  pd_user :: string
  pd_csrf :: string
  pd_viewer_is_admin :: bool

record setup_help_data =
  sh_peer_name :: string
  sh_client_conf :: string
  sh_qr_data_uri :: string
  sh_endpoint :: string
  sh_apex_domain :: string
  sh_default_platform :: string

record peer_created_data =
  pn_user :: string
  pn_csrf :: string
  pn_viewer_is_admin :: bool
  pn_peer :: peer
  pn_client_conf :: string
  pn_reload_note :: string
  pn_setup_help :: setup_help_data

record peer_detail_data =
  pt_user :: string
  pt_csrf :: string
  pt_viewer_is_admin :: bool
  pt_peer :: peer
  pt_client_conf :: string
  pt_archive_exists :: bool
  pt_setup_help :: setup_help_data

record launcher_tile =
  lt_id :: string
  lt_name :: string
  lt_url :: string
  lt_icon_url :: string
  lt_initials :: string

record launcher_data =
  ld_user :: string
  ld_csrf :: string
  ld_apps :: "launcher_tile list"
  ld_viewer_is_admin :: bool
  ld_flash :: string

record setup_page_data =
  sp_step :: setup_step
  sp_state :: setup_state
  sp_domain :: string
  sp_providers :: "dns_provider list"
  sp_selected :: dns_provider
  sp_err :: string
  sp_disk_free :: int
  sp_disk_total :: int
  sp_quota :: string

record backup_snapshot_view =
  bs_id :: string
  bs_created_at :: string
  bs_size :: string
  bs_tags :: "string list"

record backup_recipe_view =
  br_id :: string
  br_display :: string
  br_last_at :: string
  br_last_size :: string
  br_restorable :: bool
  br_snapshots :: "backup_snapshot_view list"

record off_host_view =
  oh_rsync :: string
  oh_copy :: string
  oh_restore :: string
  oh_restore_all :: string
  oh_restore_all_local :: string

record backup_page_view =
  bv_repo_size :: string
  bv_repo_count :: int
  bv_next :: string
  bv_recipes :: "backup_recipe_view list"
  bv_off_host :: off_host_view
  bv_in_progress :: string
  bv_csrf :: string

record backup_template_data =
  bt_user :: string
  bt_csrf :: string
  bt_viewer_is_admin :: bool
  bt_backup :: backup_page_view

datatype page =
    LauncherPage launcher_data
  | SetupPage string setup_page_data
  | UsersPage users_list_data
  | UserCreatedPage user_created_data
  | UserDetailPage user_detail_data
  | AccountPage account_data
  | PeersPage peers_list_data
  | PeersDisabledPage peers_disabled_data
  | PeerCreatedPage peer_created_data
  | PeerDetailPage peer_detail_data
  | BackupPage backup_template_data
  | AuditEntries "audit_entry list"

type_synonym reply = "page response"

definition png_data_uri :: "string \<Rightarrow> string" where
  "png_data_uri png = (if png = [] then [] else ''data:image/png;base64,'' @ b64_padded png)"

definition is_admin_user :: "user \<Rightarrow> bool" where
  "is_admin_user u \<longleftrightarrow> ''admin'' \<in> set (u_groups u)"

definition task_of :: "config \<Rightarrow> task_client" where
  "task_of cfg = new_task_client (task_db_container cfg) (task_db_name cfg) (task_db_user cfg) (task_env_file cfg)"

definition audit :: "env \<Rightarrow> config \<Rightarrow> audit_entry \<Rightarrow> world \<Rightarrow> world" where
  "audit e cfg x w = write_audit e (audit_path cfg) x w"

end
