(* ===== verification/UserHandlers.thy ===== *)
theory UserHandlers
  imports Pages
begin

text \<open>
  The account handlers of \<open>server.go\<close>: \<open>/users\<close>, \<open>/users/<name>/...\<close> and \<open>/account\<close>. Every
  handler is a function of the request and the world; the lock \<open>s.mu\<close> makes the mutating ones
  atomic, so one call is one step.
\<close>

subsection \<open>Rendering\<close>

fun user_rows :: "users_db \<Rightarrow> (string \<rightharpoonup> user_ban) \<Rightarrow> string list \<Rightarrow> user_row list" where
  "user_rows db bans [] = []"
| "user_rows db bans (n # ns) =
     (case db_get db n of
        None \<Rightarrow> user_rows db bans ns
      | Some u \<Rightarrow>
          \<lparr>ur_name = n, ur_display_name = u_displayname u, ur_email = u_email u,
           ur_groups = u_groups u, ur_is_admin = is_admin_user u, ur_banned = bans n\<rparr>
          # user_rows db bans ns)"

definition render_users_list :: "env \<Rightarrow> config \<Rightarrow> string \<Rightarrow> page handler" where
  "render_users_list e cfg flash = with_token e (\<lambda>csrf r w.
     case load_users_db e (users_db_path cfg) w of
       Inl err \<Rightarrow> (http_error (''load users: '' @ err_text err) 500, w)
     | Inr db \<Rightarrow>
         (let (bans, w1) = active_user_bans e (authelia_storage_db cfg) w;
              rows = user_rows db (case bans of Inr b \<Rightarrow> b | Inl _ \<Rightarrow> Map.empty) (list_sorted db);
              specs = map (\<lambda>row. \<lparr>su_name = ur_name row, su_email = ur_email row\<rparr>) rows;
              (st, w2) = storage_snapshot e cfg specs (task_of cfg) w1
          in (html_page (UsersPage \<lparr>ul_user = viewer r, ul_csrf = csrf, ul_viewer_is_admin = True,
                ul_users = rows, ul_storage = st, ul_flash = flash,
                ul_totp_enabled = totp_enabled e cfg w2\<rparr>), w2)))"

definition render_user_created ::
  "env \<Rightarrow> config \<Rightarrow> string \<Rightarrow> string \<Rightarrow> string \<Rightarrow> string \<Rightarrow> page handler" where
  "render_user_created e cfg name uri png flash = with_token e (\<lambda>csrf r w.
     (html_page (UserCreatedPage \<lparr>uc_user = viewer r, uc_csrf = csrf, uc_viewer_is_admin = True,
        uc_created = name, uc_otpauth_uri = uri, uc_qr_data_uri = png_data_uri png,
        uc_flash = flash, uc_totp_enabled = totp_enabled e cfg w\<rparr>), w))"

subsection \<open>Creating an account\<close>

definition new_groups :: "request \<Rightarrow> string list" where
  "new_groups r = (if form_value r ''is_admin'' \<noteq> [] then [''admin''] else [''users''])"

text \<open>After the account is on disk: the TOTP secret, when the installation uses them.\<close>

definition after_create :: "env \<Rightarrow> config \<Rightarrow> string \<Rightarrow> page handler" where
  "after_create e cfg name r w =
     (if \<not> totp_enabled e cfg w then render_user_created e cfg name [] [] [] r w
      else (case totp_generate e cfg name w of
              (Inl err, w1) \<Rightarrow>
                render_user_created e cfg name [] []
                  (''TOTP generation FAILED: '' @ err_text err @ '' '' @ em_dash @ '' retry from the user page.'') r
                  (audit e cfg (entry ''totp.generate'' (viewer r) name ''fail'' (err_text err)) w1)
            | (Inr (uri, png), w1) \<Rightarrow>
                render_user_created e cfg name uri png [] r
                  (audit e cfg (entry ''totp.generate'' (viewer r) name ''ok'' []) w1)))"

definition handle_create_user :: "env \<Rightarrow> config \<Rightarrow> page handler" where
  "handle_create_user e cfg r w =
     (let actor = viewer r;
          name = go_trim_space (form_value r ''name'');
          displayname = go_trim_space (form_value r ''displayname'');
          email = go_trim_space (form_value r ''email'');
          password = form_value r ''password'' in
      case rq_form_error r of Some m \<Rightarrow> (http_error (''parse form: '' @ m) 400, w)
    | None \<Rightarrow>
      if \<not> valid_username name then
        (http_error ''invalid username (allowed: lowercase a-z, then a-z0-9_-, 1..32)'' 400, w)
      else if \<not> valid_display_name (unicode_class e) displayname then
        (http_error (''invalid display name (1..64 chars, letters/digits/space/.-_'' @ [CHR 39] @ '')'') 400, w)
      else if \<not> valid_email email then (http_error ''invalid email'' 400, w)
      else if length password < 12 then (http_error ''password must be at least 12 characters'' 400, w)
      else case load_users_db e (users_db_path cfg) w of
        Inl err \<Rightarrow> (http_error (''load users: '' @ err_text err) 500, w)
      | Inr db \<Rightarrow>
          if db_get db name \<noteq> None then (http_error ''user already exists'' 409, w)
          else case argon2id_hash e password w of
            (Inl err, w1) \<Rightarrow> (http_error (''argon2 hash: '' @ err_text err) 500, w1)
          | (Inr hash, w1) \<Rightarrow>
              case upsert e name \<lparr>u_disabled = False, u_displayname = displayname, u_password = hash,
                                   u_email = email, u_groups = new_groups r\<rparr> db of
                Inl err \<Rightarrow> (http_error (''upsert: '' @ err_text err) 500, w1)
              | Inr db1 \<Rightarrow>
                  case flush_users e db1 w1 of
                    (Inl err, w2) \<Rightarrow>
                      (http_error (''write users db: '' @ err_text err) 500,
                       audit e cfg (entry ''user.create'' actor name ''fail'' (''write yaml: '' @ err_text err)) w2)
                  | (Inr _, w2) \<Rightarrow>
                      after_create e cfg name r
                        (audit e cfg (entry ''user.create'' actor name ''ok'' (''displayname='' @ displayname)) w2))"

definition handle_users :: "env \<Rightarrow> config \<Rightarrow> page handler" where
  "handle_users e cfg r w =
     (if rq_method r = ''GET'' then render_users_list e cfg [] r w
      else if rq_method r = ''POST'' then handle_create_user e cfg r w
      else (method_not_allowed, w))"

subsection \<open>One account\<close>

definition handle_user_unban :: "env \<Rightarrow> config \<Rightarrow> string \<Rightarrow> page handler" where
  "handle_user_unban e cfg name r w =
     (if rq_method r \<noteq> ''POST'' then (method_not_allowed, w)
      else (case revoke_user_bans e (authelia_storage_db cfg) name w of
              (Inl err, w1) \<Rightarrow>
                (http_error (''unban: '' @ err_text err) 500,
                 audit e cfg (entry ''user.unban'' (viewer r) name ''fail'' (err_text err)) w1)
            | (Inr _, w1) \<Rightarrow>
                (redirect ''/users'' 303, audit e cfg (entry ''user.unban'' (viewer r) name ''ok'' []) w1)))"

text \<open>The peers of an account are those whose name starts with the account's name and a hyphen.\<close>

definition owned_by :: "string \<Rightarrow> peer \<Rightarrow> bool" where
  "owned_by user p \<longleftrightarrow> has_prefix (p_name p) (user @ ''-'')"

definition devices_for_user :: "env \<Rightarrow> config \<Rightarrow> string \<Rightarrow> world \<Rightarrow> peer list" where
  "devices_for_user e cfg user w =
     (case load_conf e (conf_path cfg) w of
        Inl _ \<Rightarrow> []
      | Inr pc \<Rightarrow>
          (case new_meta_store e (meta_path cfg) w of
             Inl _ \<Rightarrow> []
           | Inr m \<Rightarrow> filter (owned_by user) (list_peers_with_meta pc m)))"

definition handle_user_detail :: "env \<Rightarrow> config \<Rightarrow> string \<Rightarrow> page handler" where
  "handle_user_detail e cfg name r w =
     (if rq_method r \<noteq> ''GET'' then (method_not_allowed, w)
      else with_token e (\<lambda>csrf r w.
        case load_users_db e (users_db_path cfg) w of
          Inl err \<Rightarrow> (http_error (''load users: '' @ err_text err) 500, w)
        | Inr db \<Rightarrow>
            (case db_get db name of
               None \<Rightarrow> (not_found, w)
             | Some u \<Rightarrow>
                 (html_page (UserDetailPage \<lparr>ud_user = viewer r, ud_csrf = csrf,
                    ud_viewer_is_admin = True, ud_target = u, ud_name = name,
                    ud_is_admin = is_admin_user u, ud_devices = devices_for_user e cfg name w,
                    ud_totp_enabled = totp_enabled e cfg w\<rparr>), w))) r w)"

definition handle_user_edit :: "env \<Rightarrow> config \<Rightarrow> string \<Rightarrow> page handler" where
  "handle_user_edit e cfg name r w =
     (let displayname = go_trim_space (form_value r ''displayname'');
          email = go_trim_space (form_value r ''email'') in
      if rq_method r \<noteq> ''POST'' then (method_not_allowed, w)
      else case rq_form_error r of Some m \<Rightarrow> (http_error (''parse form: '' @ m) 400, w)
    | None \<Rightarrow>
      if \<not> valid_display_name (unicode_class e) displayname then (http_error ''invalid display name'' 400, w)
      else if \<not> valid_email email then (http_error ''invalid email'' 400, w)
      else case load_users_db e (users_db_path cfg) w of
        Inl err \<Rightarrow> (http_error (''load users: '' @ err_text err) 500, w)
      | Inr db \<Rightarrow>
          case db_get db name of None \<Rightarrow> (not_found, w)
        | Some u \<Rightarrow>
            case upsert e name (u\<lparr>u_displayname := displayname, u_email := email, u_groups := new_groups r\<rparr>) db of
              Inl err \<Rightarrow> (http_error (''upsert: '' @ err_text err) 500, w)
            | Inr db1 \<Rightarrow>
                case flush_users e db1 w of
                  (Inl err, w1) \<Rightarrow>
                    (http_error (''write users db: '' @ err_text err) 500,
                     audit e cfg (entry ''user.update'' (viewer r) name ''fail'' (err_text err)) w1)
                | (Inr _, w1) \<Rightarrow>
                    (redirect (''/users/'' @ name) 303,
                     audit e cfg (entry ''user.update'' (viewer r) name ''ok'' []) w1))"

definition handle_user_password :: "env \<Rightarrow> config \<Rightarrow> string \<Rightarrow> page handler" where
  "handle_user_password e cfg name r w =
     (let pw = form_value r ''password'' in
      if rq_method r \<noteq> ''POST'' then (method_not_allowed, w)
      else case rq_form_error r of Some m \<Rightarrow> (http_error (''parse form: '' @ m) 400, w)
    | None \<Rightarrow>
      if pw = [] then (http_error ''password required'' 400, w)
      else if length pw < 12 then (http_error ''password must be at least 12 characters'' 400, w)
      else case argon2id_hash e pw w of
        (Inl err, w1) \<Rightarrow> (http_error (''argon2 hash: '' @ err_text err) 500, w1)
      | (Inr hash, w1) \<Rightarrow>
          case load_users_db e (users_db_path cfg) w1 of
            Inl err \<Rightarrow> (http_error (''load users: '' @ err_text err) 500, w1)
          | Inr db \<Rightarrow>
              case db_get db name of None \<Rightarrow> (not_found, w1)
            | Some u \<Rightarrow>
                case upsert e name (u\<lparr>u_password := hash\<rparr>) db of
                  Inl err \<Rightarrow> (http_error (''upsert: '' @ err_text err) 500, w1)
                | Inr db1 \<Rightarrow>
                    case flush_users e db1 w1 of
                      (Inl err, w2) \<Rightarrow>
                        (http_error (''write users db: '' @ err_text err) 500,
                         audit e cfg (entry ''user.password'' (viewer r) name ''fail'' (err_text err)) w2)
                    | (Inr _, w2) \<Rightarrow>
                        (redirect (''/users/'' @ name) 303,
                         audit e cfg (entry ''user.password'' (viewer r) name ''ok'' []) w2))"

definition handle_user_totp :: "env \<Rightarrow> config \<Rightarrow> string \<Rightarrow> page handler" where
  "handle_user_totp e cfg name r w =
     (if rq_method r \<noteq> ''POST'' then (method_not_allowed, w)
      else if \<not> totp_enabled e cfg w then
        (http_error (''TOTP is disabled for this installation '' @ em_dash
           @ '' enable it in setup state before regenerating'') 400, w)
      else (case totp_generate e cfg name w of
              (Inl err, w1) \<Rightarrow>
                (http_error (''totp generate: '' @ err_text err) 500,
                 audit e cfg (entry ''totp.generate'' (viewer r) name ''fail'' (err_text err)) w1)
            | (Inr (uri, png), w1) \<Rightarrow>
                render_user_created e cfg name uri png ''TOTP secret regenerated.'' r
                  (audit e cfg (entry ''totp.generate'' (viewer r) name ''ok'' []) w1)))"

subsection \<open>Deleting an account\<close>

definition peer_removed_entry :: "string \<Rightarrow> peer \<Rightarrow> audit_entry" where
  "peer_removed_entry actor p =
     (entry ''peer.remove'' actor (p_name p) ''ok'' [])\<lparr>a_pubkey := p_public_key p, a_ip := p_ip p\<rparr>"

fun forget_peers :: "env \<Rightarrow> config \<Rightarrow> string \<Rightarrow> peer list \<Rightarrow> meta_store \<Rightarrow> world \<Rightarrow> world" where
  "forget_peers e cfg actor [] m w = w"
| "forget_peers e cfg actor (p # ps) m w =
     (case ms_delete e m (p_public_key p) w of
        (_, m1, w1) \<Rightarrow> forget_peers e cfg actor ps m1 (audit e cfg (peer_removed_entry actor p) w1))"

definition remove_user_peers :: "env \<Rightarrow> config \<Rightarrow> string \<Rightarrow> string \<Rightarrow> world \<Rightarrow> unit res \<times> world" where
  "remove_user_peers e cfg name actor w =
     (case load_conf e (conf_path cfg) w of
        Inl err \<Rightarrow> (Inl err, w)
      | Inr pc \<Rightarrow>
          (case new_meta_store e (meta_path cfg) w of
             Inl err \<Rightarrow> (Inl err, w)
           | Inr m \<Rightarrow>
               (let gone = filter (owned_by name) (list_peers_with_meta pc m) in
                if gone = [] then (Inr (), w)
                else (case remove_peers_by_pubkeys e pc (conf_path cfg) (map p_public_key gone) w of
                        (Inl err, w1) \<Rightarrow>
                          (Inl err, fold (\<lambda>p. audit e cfg
                             (entry ''peer.remove'' actor (p_name p) ''fail'' (err_text err))) gone w1)
                      | (Inr _, w1) \<Rightarrow>
                          (Inr (), snd (reload_interface e (awg_dir cfg) (awg_iface cfg)
                                     (forget_peers e cfg actor gone m w1)))))))"

text \<open>The steps before the account itself: the Nextcloud account, its files, the peers and the
  TOTP secret. A failure is written to the audit log and does not stop the deletion.\<close>

definition delete_cloud_account :: "env \<Rightarrow> config \<Rightarrow> string \<Rightarrow> string \<Rightarrow> world \<Rightarrow> world" where
  "delete_cloud_account e cfg name actor w =
     (let (r, w1) = exec e [''docker'', ''exec'', ''-u'', ''www-data'', ''cloud'', ''php'', ''occ'',
             ''user:delete'', name] [] w;
          w2 = (case pr_error r of
                  Some _ \<Rightarrow> audit e cfg (entry ''cloud.user.delete'' actor name ''fail''
                              (''occ user:delete: '' @ go_trim_space (combined r))) w1
                | None \<Rightarrow> audit e cfg (entry ''cloud.user.delete'' actor name ''ok'' []) w1)
      in case remove_all e (filepath_join [cloud_data_root, name]) w2 of
           (Inl err, w3) \<Rightarrow> (if is_not_exist err then w3
              else audit e cfg (entry ''cloud.user.delete'' actor name ''fail''
                     (''rm cloud-data: '' @ err_text err)) w3)
         | (Inr _, w3) \<Rightarrow> w3)"

definition delete_user_totp :: "env \<Rightarrow> config \<Rightarrow> string \<Rightarrow> string \<Rightarrow> world \<Rightarrow> world" where
  "delete_user_totp e cfg name actor w =
     (case totp_delete e cfg name w of
        (Inl err, w1) \<Rightarrow> audit e cfg (entry ''totp.delete'' actor name ''fail'' (err_text err)) w1
      | (Inr _, w1) \<Rightarrow> audit e cfg (entry ''totp.delete'' actor name ''ok'' []) w1)"

definition handle_user_delete :: "env \<Rightarrow> config \<Rightarrow> string \<Rightarrow> page handler" where
  "handle_user_delete e cfg name r w =
     (let actor = viewer r in
      if rq_method r \<noteq> ''POST'' then (method_not_allowed, w)
      else case rq_form_error r of Some m \<Rightarrow> (http_error (''parse form: '' @ m) 400, w)
    | None \<Rightarrow>
      if go_trim_space (form_value r ''confirm_name'') \<noteq> name then
        (http_error ''type the username exactly to confirm deletion'' 400, w)
      else
        (let w1 = delete_cloud_account e cfg name actor w;
             w2 = snd (remove_user_peers e cfg name actor w1);
             w3 = delete_user_totp e cfg name actor w2
         in case load_users_db e (users_db_path cfg) w3 of
              Inl err \<Rightarrow> (http_error (''load users: '' @ err_text err) 500, w3)
            | Inr db \<Rightarrow>
                case remove_user name db of
                  Inl err \<Rightarrow>
                    (http_error (err_text err) 500,
                     audit e cfg (entry ''user.delete'' actor name ''fail'' (err_text err)) w3)
                | Inr db1 \<Rightarrow>
                    case flush_users e db1 w3 of
                      (Inl err, w4) \<Rightarrow>
                        (http_error (''write users db: '' @ err_text err) 500,
                         audit e cfg (entry ''user.delete'' actor name ''fail'' (''write yaml: '' @ err_text err)) w4)
                    | (Inr _, w4) \<Rightarrow>
                        (redirect ''/users'' 303, audit e cfg (entry ''user.delete'' actor name ''ok'' []) w4)))"

definition handle_user_sub :: "env \<Rightarrow> config \<Rightarrow> page handler" where
  "handle_user_sub e cfg r w =
     (let rest = trim_prefix (rq_path r) ''/users/'' in
      if rest = [] then (redirect ''/users'' 302, w)
      else (let parts = split2 CHR ''/'' rest; name = hd parts;
                action = (if length parts = 2 then parts ! 1 else []) in
        if \<not> valid_username name then (http_error ''invalid username'' 400, w)
        else if action = [] then handle_user_detail e cfg name r w
        else if action = ''edit'' then handle_user_edit e cfg name r w
        else if action = ''password'' then handle_user_password e cfg name r w
        else if action = ''totp'' then handle_user_totp e cfg name r w
        else if action = ''delete'' then handle_user_delete e cfg name r w
        else if action = ''unban'' then handle_user_unban e cfg name r w
        else (not_found, w)))"

subsection \<open>The viewer's own account\<close>

definition render_account :: "env \<Rightarrow> config \<Rightarrow> string \<Rightarrow> string \<Rightarrow> page handler" where
  "render_account e cfg flash form_err = with_token e (\<lambda>csrf r w.
     let name = viewer r in
     if name = [] then (http_error ''missing X-Enrol-User'' 401, w)
     else case load_users_db e (users_db_path cfg) w of
       Inl err \<Rightarrow> (http_error (''load users: '' @ err_text err) 500, w)
     | Inr db \<Rightarrow>
         (case db_get db name of
            None \<Rightarrow> (http_error (''your Authelia account is not in the file backend; ''
                       @ ''self-service password change is unavailable'') 404, w)
          | Some u \<Rightarrow>
              (let adm = viewer_is_admin cfg r in
               (html_page (AccountPage \<lparr>ac_user = name, ac_csrf = csrf, ac_display_name = u_displayname u,
                  ac_email = u_email u, ac_groups = u_groups u, ac_is_admin = adm,
                  ac_viewer_is_admin = adm, ac_flash = flash, ac_error = form_err\<rparr>), w))))"

definition handle_account :: "env \<Rightarrow> config \<Rightarrow> page handler" where
  "handle_account e cfg r w =
     (if rq_method r \<noteq> ''GET'' then (method_not_allowed, w)
      else render_account e cfg
             (if first_value ''changed'' (rq_query r) = ''1'' then ''Password changed.'' else []) [] r w)"

definition self_fail :: "env \<Rightarrow> config \<Rightarrow> string \<Rightarrow> string \<Rightarrow> world \<Rightarrow> world" where
  "self_fail e cfg actor note w = audit e cfg (entry ''user.password.self'' actor actor ''fail'' note) w"

definition handle_account_password :: "env \<Rightarrow> config \<Rightarrow> page handler" where
  "handle_account_password e cfg r w =
     (let actor = viewer r; current = form_value r ''current''; nxt = form_value r ''new'' in
      if rq_method r \<noteq> ''POST'' then (method_not_allowed, w)
      else if actor = [] then (http_error ''missing X-Enrol-User'' 401, w)
      else case rq_form_error r of Some m \<Rightarrow> (http_error (''parse form: '' @ m) 400, w)
    | None \<Rightarrow>
      if current = [] then render_account e cfg [] ''Enter your current password.'' r w
      else if length nxt < 12 then
        render_account e cfg [] ''New password must be at least 12 characters.'' r w
      else case load_users_db e (users_db_path cfg) w of
        Inl err \<Rightarrow> (http_error (''load users: '' @ err_text err) 500, w)
      | Inr db \<Rightarrow>
          case db_get db actor of
            None \<Rightarrow> (http_error ''your Authelia account is not in the file backend'' 404, w)
          | Some u \<Rightarrow>
              case argon2id_verify e current (u_password u) of
                Inl err \<Rightarrow>
                  (http_error (''verify current password: '' @ err_text err) 500,
                   self_fail e cfg actor (''verify: '' @ err_text err) w)
              | Inr ok \<Rightarrow>
                  if \<not> ok then
                    render_account e cfg [] ''Current password is incorrect.'' r
                      (self_fail e cfg actor ''wrong current password'' w)
                  else case argon2id_hash e nxt w of
                    (Inl err, w1) \<Rightarrow>
                      (http_error (''argon2 hash: '' @ err_text err) 500,
                       self_fail e cfg actor (''hash: '' @ err_text err) w1)
                  | (Inr hash, w1) \<Rightarrow>
                      case upsert e actor (u\<lparr>u_password := hash\<rparr>) db of
                        Inl err \<Rightarrow>
                          (http_error (''upsert: '' @ err_text err) 500,
                           self_fail e cfg actor (''upsert: '' @ err_text err) w1)
                      | Inr db1 \<Rightarrow>
                          case flush_users e db1 w1 of
                            (Inl err, w2) \<Rightarrow>
                              (http_error (''write users db: '' @ err_text err) 500,
                               self_fail e cfg actor (''flush: '' @ err_text err) w2)
                          | (Inr _, w2) \<Rightarrow>
                              (redirect ''/account?changed=1'' 303,
                               audit e cfg (entry ''user.password.self'' actor actor ''ok'' []) w2))"

end
