(* ===== verification/PeerHandlers.thy ===== *)
theory PeerHandlers
  imports UserHandlers
begin

text \<open>
  The device handlers of \<open>server.go\<close>: \<open>/peers\<close> and \<open>/peers/<name>/...\<close>, the audit page and
  the health checks.
\<close>

subsection \<open>Helpers\<close>

definition detect_platform :: "string \<Rightarrow> string" where
  "detect_platform ua =
     (if contains ua ''iPhone'' \<or> contains ua ''iPad'' \<or> contains ua ''iPod'' then ''ios''
      else if contains ua ''Android'' then ''android''
      else if contains ua ''Windows'' then ''win''
      else if contains ua ''Mac OS X'' \<or> contains ua ''Macintosh'' then ''mac''
      else if contains ua ''Linux'' then ''linux''
      else ''unknown'')"

text \<open>The help data; without a picture when \<open>qrencode\<close> fails.\<close>

definition build_setup_help :: "env \<Rightarrow> config \<Rightarrow> request \<Rightarrow> peer \<Rightarrow> string \<Rightarrow> world \<Rightarrow> setup_help_data \<times> world" where
  "build_setup_help e cfg r p conf w =
     (let d = \<lparr>sh_peer_name = p_name p, sh_client_conf = conf, sh_qr_data_uri = [],
               sh_endpoint = awg_endpoint cfg, sh_apex_domain = domain cfg,
               sh_default_platform = detect_platform (get_header r ''User-Agent'')\<rparr>
      in case qrencode e conf w of
           (Inl _, w1) \<Rightarrow> (d, w1)
         | (Inr png, w1) \<Rightarrow>
             (d\<lparr>sh_qr_data_uri := ''data:image/png;base64,'' @ b64_padded png\<rparr>, w1))"

definition unassigned :: string where
  "unassigned = ''(unassigned)''"

definition group_of :: "string list \<Rightarrow> peer \<Rightarrow> string" where
  "group_of known p =
     (let u = peer_user (p_name p) in if u = [] \<or> u \<notin> set known then unassigned else u)"

definition by_ip :: "peer list \<Rightarrow> peer list" where
  "by_ip = sort_by (\<lambda>p q. str_less (p_ip p) (p_ip q))"

definition group_peers_by_user :: "peer list \<Rightarrow> string list \<Rightarrow> peer_group list" where
  "group_peers_by_user ps known =
     (let grp = (\<lambda>u. \<lparr>pg_user = u, pg_peers = by_ip (filter (\<lambda>p. group_of known p = u) ps)\<rparr>)
      in map grp known @ (if filter (\<lambda>p. group_of known p = unassigned) ps \<noteq> [] then [grp unassigned] else []))"

definition not_installed :: reply where
  "not_installed = http_error (''AmneziaWG (gw0) is not installed; ''
     @ ''run scripts/install-gw0.sh on the host to enable devices'') 503"

definition auth_required :: reply where
  "auth_required = http_error (''401 '' @ em_dash @ '' authentication required'') 401"

definition render_peers_disabled :: "env \<Rightarrow> config \<Rightarrow> page handler" where
  "render_peers_disabled e cfg = with_token e (\<lambda>csrf r w.
     (html_page (PeersDisabledPage \<lparr>pd_user = viewer r, pd_csrf = csrf,
        pd_viewer_is_admin = viewer_is_admin cfg r\<rparr>), w))"

subsection \<open>The list\<close>

definition visible_peers :: "config \<Rightarrow> request \<Rightarrow> peer list \<Rightarrow> peer list" where
  "visible_peers cfg r ps = (if viewer_is_admin cfg r then ps else filter (owned_by (viewer r)) ps)"

definition render_peer_list :: "env \<Rightarrow> config \<Rightarrow> string \<Rightarrow> page handler" where
  "render_peer_list e cfg flash r w =
     (if viewer r = [] then (auth_required, w)
      else with_token e (\<lambda>csrf r w.
        case load_conf e (conf_path cfg) w of
          Inl err \<Rightarrow> (http_error (''load conf: '' @ err_text err) 500, w)
        | Inr pc \<Rightarrow>
            (case new_meta_store e (meta_path cfg) w of
               Inl err \<Rightarrow> (http_error (''load meta: '' @ err_text err) 500, w)
             | Inr m \<Rightarrow>
                 (case load_users_db e (users_db_path cfg) w of
                    Inl err \<Rightarrow> (http_error (''load users: '' @ err_text err) 500, w)
                  | Inr db \<Rightarrow>
                      (let adm = viewer_is_admin cfg r;
                           known = (if adm then list_sorted db else [viewer r]);
                           shown = visible_peers cfg r (list_peers_with_meta pc m);
                           (tag, w1) = random_animal e w
                       in (html_page (PeersPage \<lparr>pl_user = viewer r, pl_csrf = csrf,
                             pl_viewer_is_admin = adm, pl_groups = group_peers_by_user shown known,
                             pl_users = known, pl_default_tag = tag, pl_flash = flash\<rparr>), w1))))) r w)"

subsection \<open>Adding a device\<close>

text \<open>What the handler does once the peer is in \<open>gw0.conf\<close>: sidecar, audit, reload, archive, page.
  \<open>pc\<close> is the configuration as it was read before the peer was appended.\<close>

definition store_meta :: "env \<Rightarrow> meta_store res \<Rightarrow> peer \<Rightarrow> world \<Rightarrow> world" where
  "store_meta e meta p w =
     (case meta of Inl _ \<Rightarrow> w | Inr m \<Rightarrow> (case ms_put e m p w of (_, _, w1) \<Rightarrow> w1))"

definition archive_new :: "env \<Rightarrow> config \<Rightarrow> string \<Rightarrow> peer \<Rightarrow> string \<Rightarrow> world \<Rightarrow> world" where
  "archive_new e cfg actor p conf w =
     (case archive_write e cfg (p_name p) conf w of
        (Inl err, w1) \<Rightarrow> audit e cfg (entry ''peer.archive'' actor (p_name p) ''fail'' (err_text err)) w1
      | (Inr _, w1) \<Rightarrow> audit e cfg (entry ''peer.archive'' actor (p_name p) ''ok'' ''auto on create'') w1)"

definition finish_add_peer ::
  "env \<Rightarrow> config \<Rightarrow> parsed_conf \<Rightarrow> meta_store res \<Rightarrow> peer \<Rightarrow> page handler" where
  "finish_add_peer e cfg pc meta p r w =
     (let actor = viewer r;
          w1 = store_meta e meta p w;
          w2 = audit e cfg ((entry ''peer.add'' actor (p_name p) [] [])
                 \<lparr>a_pubkey := p_public_key p, a_ip := p_ip p\<rparr>) w1;
          (rl, w3) = reload_interface e (awg_dir cfg) (awg_iface cfg) w2;
          note = (case rl of Inr _ \<Rightarrow> []
                  | Inl _ \<Rightarrow> ''config saved; reload needed: sudo systemctl restart awg-quick@''
                             @ awg_iface cfg @ '' on host'');
          conf = render_client_conf e cfg p pc w3;
          w4 = archive_new e cfg actor p conf w3
      in with_token e (\<lambda>csrf r w.
           (let (help, w') = build_setup_help e cfg r p conf w
            in (no_store (html_page (PeerCreatedPage \<lparr>pn_user = actor, pn_csrf = csrf,
                  pn_viewer_is_admin = viewer_is_admin cfg r, pn_peer = p, pn_client_conf = conf,
                  pn_reload_note = note, pn_setup_help = help\<rparr>)), w'))) r w4)"

text \<open>A failed sidecar leaves a nil store; listing with it panics as soon as there is a block.\<close>

definition handle_add_peer :: "env \<Rightarrow> config \<Rightarrow> page handler" where
  "handle_add_peer e cfg r w =
     (let actor = viewer r;
          user = (if viewer_is_admin cfg r then go_trim_space (form_value r ''user'') else actor);
          tag = normalize_device_tag (form_value r ''device_tag'') in
      if actor = [] then (auth_required, w)
      else case rq_form_error r of Some m \<Rightarrow> (http_error (''parse form: '' @ m) 400, w)
    | None \<Rightarrow>
      case peer_name_for user tag of Inl err \<Rightarrow> (http_error (err_text err) 400, w)
    | Inr name \<Rightarrow>
      case load_users_db e (users_db_path cfg) w of
        Inl err \<Rightarrow> (http_error (''load users: '' @ err_text err) 500, w)
      | Inr db \<Rightarrow>
      if db_get db user = None then (http_error (''no such user: '' @ user) 400, w)
      else case load_conf e (conf_path cfg) w of
        Inl err \<Rightarrow> (http_error (''load conf: '' @ err_text err) 500, w)
      | Inr pc \<Rightarrow>
      (let meta = new_meta_store e (meta_path cfg) w;
           known = (case meta of Inr m \<Rightarrow> list_peers_with_meta pc m | Inl _ \<Rightarrow> []) in
       if \<not> is_ok meta \<and> pc_peers pc \<noteq> [] then (panic_response, w)
       else if list_ex (\<lambda>p. p_name p = name) known then
         (http_error (''device '' @ name @ '' already exists'') 409, w)
       else case subnet_prefix (peer_subnet cfg) of
         Inl err \<Rightarrow> (http_error (''bad subnet: '' @ err_text err) 500, w)
       | Inr prefix \<Rightarrow>
       case pick_free_octet pc prefix (peer_start cfg) of
         Inl err \<Rightarrow> (http_error (err_text err) 503, w)
       | Inr octet \<Rightarrow>
       case gen_keypair e w of
         (Inl err, w1) \<Rightarrow> (http_error (''keygen: '' @ err_text err) 500, w1)
       | (Inr (priv, pub), w1) \<Rightarrow>
           (let p = \<lparr>p_name = name, p_device_tag = tag, p_public_key = pub, p_private_key = priv,
                     p_ip = prefix @ show_int octet, p_added_by = actor, p_added_at = now w1\<rparr>
            in case append_peer e pc (conf_path cfg) p w1 of
                 (Inl err, w2) \<Rightarrow> (http_error (''write conf: '' @ err_text err) 500, w2)
               | (Inr _, w2) \<Rightarrow> finish_add_peer e cfg pc meta p r w2)))"

definition handle_peers :: "env \<Rightarrow> config \<Rightarrow> page handler" where
  "handle_peers e cfg r w =
     (if \<not> awg_enabled e cfg w then
        (if rq_method r \<noteq> ''GET'' then (not_installed, w) else render_peers_disabled e cfg r w)
      else if rq_method r = ''GET'' then render_peer_list e cfg [] r w
      else if rq_method r = ''POST'' then handle_add_peer e cfg r w
      else (method_not_allowed, w))"

subsection \<open>One device\<close>

definition find_peer_by_name :: "env \<Rightarrow> config \<Rightarrow> string \<Rightarrow> world \<Rightarrow> (peer \<times> parsed_conf) res" where
  "find_peer_by_name e cfg name w =
     (case load_conf e (conf_path cfg) w of
        Inl err \<Rightarrow> Inl err
      | Inr pc \<Rightarrow>
          (case new_meta_store e (meta_path cfg) w of
             Inl err \<Rightarrow> Inl err
           | Inr m \<Rightarrow>
               (case find (\<lambda>p. p_name p = name) (list_peers_with_meta pc m) of
                  Some p \<Rightarrow> Inr (p, pc)
                | None \<Rightarrow> Inl (Failure ''not found''))))"

definition effective_client_conf :: "env \<Rightarrow> config \<Rightarrow> string \<Rightarrow> world \<Rightarrow> string res" where
  "effective_client_conf e cfg name w =
     (let rendered = (case find_peer_by_name e cfg name w of
                        Inl err \<Rightarrow> Inl err
                      | Inr (p, pc) \<Rightarrow> Inr (render_client_conf e cfg p pc w))
      in if archive_exists e cfg name w
         then (case archive_read e cfg name w of Inr s \<Rightarrow> Inr s | Inl _ \<Rightarrow> rendered)
         else rendered)"

definition handle_peer_detail :: "env \<Rightarrow> config \<Rightarrow> string \<Rightarrow> page handler" where
  "handle_peer_detail e cfg name = with_token e (\<lambda>csrf r w.
     case find_peer_by_name e cfg name w of
       Inl _ \<Rightarrow> (not_found, w)
     | Inr (p, _) \<Rightarrow>
         (case effective_client_conf e cfg name w of
            Inl _ \<Rightarrow> (not_found, w)
          | Inr conf \<Rightarrow>
              (let (help, w1) = build_setup_help e cfg r p conf w
               in (no_store (html_page (PeerDetailPage \<lparr>pt_user = viewer r, pt_csrf = csrf,
                     pt_viewer_is_admin = viewer_is_admin cfg r, pt_peer = p, pt_client_conf = conf,
                     pt_archive_exists = archive_exists e cfg (p_name p) w1,
                     pt_setup_help = help\<rparr>)), w1))))"

text \<open>The first listed peer of the name; an empty public key counts as not found.\<close>

definition handle_delete_peer :: "env \<Rightarrow> config \<Rightarrow> string \<Rightarrow> page handler" where
  "handle_delete_peer e cfg name r w =
     (if rq_method r \<noteq> ''POST'' then (method_not_allowed, w)
      else case load_conf e (conf_path cfg) w of
        Inl err \<Rightarrow> (http_error (''load conf: '' @ err_text err) 500, w)
      | Inr pc \<Rightarrow>
      case new_meta_store e (meta_path cfg) w of
        Inl err \<Rightarrow> (http_error (''load meta: '' @ err_text err) 500, w)
      | Inr m \<Rightarrow>
      (let target = (case find (\<lambda>p. p_name p = name) (list_peers_with_meta pc m) of
                       Some p \<Rightarrow> p | None \<Rightarrow> zero_peer) in
       if p_public_key target = [] then (http_error ''peer not found'' 404, w)
       else case remove_peer_by_pubkey e pc (conf_path cfg) (p_public_key target) w of
         (_, Inl err, w1) \<Rightarrow>
           (http_error (''rewrite conf: '' @ err_text err) 500,
            audit e cfg (entry ''peer.remove'' (viewer r) (p_name target) ''fail'' (err_text err)) w1)
       | (False, Inr _, w1) \<Rightarrow> (http_error ''peer not found in gw0.conf'' 404, w1)
       | (True, Inr _, w1) \<Rightarrow>
           (case ms_delete e m (p_public_key target) w1 of (_, _, w2) \<Rightarrow>
             (redirect ''/peers'' 303,
              snd (reload_interface e (awg_dir cfg) (awg_iface cfg)
                (audit e cfg (peer_removed_entry (viewer r) target) w2))))))"

definition handle_download_conf :: "env \<Rightarrow> config \<Rightarrow> string \<Rightarrow> page handler" where
  "handle_download_conf e cfg name r w =
     (case effective_client_conf e cfg name w of
        Inl _ \<Rightarrow> (not_found, w)
      | Inr conf \<Rightarrow>
          (respond 200 [(''Content-Type'', ''text/plain; charset=utf-8''),
             (''Content-Disposition'', ''attachment; filename='' @ [CHR 34] @ name @ ''.conf'' @ [CHR 34])]
             (Text conf), w))"

definition looks_like_peer_conf :: "string \<Rightarrow> bool" where
  "looks_like_peer_conf s \<longleftrightarrow>
     contains s ''[Interface]'' \<and> contains s ''[Peer]'' \<and> contains s ''PrivateKey''"

definition handle_upload_peer_conf :: "env \<Rightarrow> config \<Rightarrow> string \<Rightarrow> page handler" where
  "handle_upload_peer_conf e cfg name r w =
     (let actor = viewer r in
      if rq_method r \<noteq> ''POST'' then (method_not_allowed, w)
      else case find_peer_by_name e cfg name w of
        Inl _ \<Rightarrow> (http_error ''peer not found'' 404, w)
      | Inr _ \<Rightarrow>
      case rq_multipart_error r of Some m \<Rightarrow> (http_error (''parse multipart: '' @ m) 400, w)
    | None \<Rightarrow>
      case rq_file r of
        Inl err \<Rightarrow> (http_error (''missing form file '' @ [CHR 39] @ ''conf'' @ [CHR 39] @ '': '' @ err_text err) 400, w)
      | Inr upload \<Rightarrow>
      (let conf = take 16384 upload in
       if \<not> looks_like_peer_conf conf then
         (http_error (''uploaded file does not look like a peer .conf ''
            @ ''(expected [Interface], PrivateKey =, and a [Peer] block)'') 400,
          audit e cfg (entry ''peer.archive'' actor name ''fail'' ''via upload: failed sanity check'') w)
       else case archive_write e cfg name conf w of
         (Inl err, w1) \<Rightarrow>
           (http_error (''write archive: '' @ err_text err) 500,
            audit e cfg (entry ''peer.archive'' actor name ''fail'' (''via upload: '' @ err_text err)) w1)
       | (Inr _, w1) \<Rightarrow>
           (redirect (''/peers/'' @ name) 303,
            audit e cfg (entry ''peer.archive'' actor name ''ok'' ''via upload'') w1)))"

definition handle_forget_peer_conf :: "env \<Rightarrow> config \<Rightarrow> string \<Rightarrow> page handler" where
  "handle_forget_peer_conf e cfg name r w =
     (if rq_method r \<noteq> ''POST'' then (method_not_allowed, w)
      else case archive_delete e cfg name w of
        (Inl err, w1) \<Rightarrow>
          (http_error (''delete archive: '' @ err_text err) 500,
           audit e cfg (entry ''peer.archive.forget'' (viewer r) name ''fail'' (err_text err)) w1)
      | (Inr _, w1) \<Rightarrow>
          (redirect (''/peers/'' @ name) 303,
           audit e cfg (entry ''peer.archive.forget'' (viewer r) name ''ok'' []) w1))"

definition handle_qr :: "env \<Rightarrow> config \<Rightarrow> string \<Rightarrow> page handler" where
  "handle_qr e cfg name r w =
     (case effective_client_conf e cfg name w of
        Inl _ \<Rightarrow> (not_found, w)
      | Inr conf \<Rightarrow>
          (case qrencode e conf w of
             (Inl err, w1) \<Rightarrow> (http_error (err_text err) 500, w1)
           | (Inr png, w1) \<Rightarrow> (respond 200 [(''Content-Type'', ''image/png'')] (Text png), w1)))"

definition handle_peer_sub :: "env \<Rightarrow> config \<Rightarrow> page handler" where
  "handle_peer_sub e cfg r w =
     (let rest = trim_prefix (rq_path r) ''/peers/'' in
      if viewer r = [] then (auth_required, w)
      else if \<not> awg_enabled e cfg w then
        (if rq_method r \<noteq> ''GET'' then (not_installed, w) else render_peers_disabled e cfg r w)
      else if rest = [] then (redirect ''/peers'' 302, w)
      else (let parts = split2 CHR ''/'' rest; name = hd parts;
                action = (if length parts = 2 then parts ! 1 else []) in
        if \<not> valid_name name then (http_error ''invalid peer name'' 400, w)
        else if \<not> viewer_is_admin cfg r \<and> \<not> has_prefix name (viewer r @ ''-'') then (not_found, w)
        else if action = [] then handle_peer_detail e cfg name r w
        else if action = ''delete'' then handle_delete_peer e cfg name r w
        else if action = ''conf'' \<or> action = ''config'' then handle_download_conf e cfg name r w
        else if action = ''qr.png'' then handle_qr e cfg name r w
        else if action = ''upload-conf'' then handle_upload_peer_conf e cfg name r w
        else if action = ''forget-conf'' then handle_forget_peer_conf e cfg name r w
        else (not_found, w)))"

subsection \<open>Audit page and health checks\<close>

definition handle_audit :: "env \<Rightarrow> config \<Rightarrow> page handler" where
  "handle_audit e cfg r w =
     (respond 200 [(''Content-Type'', ''application/json'')]
        (Page (AuditEntries (read_audit e (audit_path cfg) 200 w))), w)"

definition handle_healthz :: "env \<Rightarrow> config \<Rightarrow> page handler" where
  "handle_healthz e cfg r w =
     (respond 200 [] (Text ((if setup_mode_active e cfg w then ''ok (setup mode)'' else ''ok'') @ [CHR 10])), w)"

definition handle_healthz_awg :: "env \<Rightarrow> config \<Rightarrow> page handler" where
  "handle_healthz_awg e cfg r w =
     (respond 200 [] (Text ((if awg_enabled e cfg w then ''present'' else ''absent'') @ [CHR 10])), w)"

end
