(* ===== verification/GoUrl.thy ===== *)
theory GoUrl
  imports GoPath
begin

text \<open>
  \<open>net/url.Parse\<close> of Go 1.23 as far as the program depends on it: whether an address parses,
  its scheme and its host, and \<open>Hostname\<close> and \<open>Port\<close>.
\<close>

subsection \<open>Percent encoding\<close>

datatype url_part = UrlPath | UrlUser | UrlHost | UrlZone | UrlFragment

definition is_hex :: "char \<Rightarrow> bool" where
  "is_hex c \<longleftrightarrow> is_digit c \<or> c \<in> set ''abcdefABCDEF''"

definition hex_val :: "char \<Rightarrow> nat" where
  "hex_val c = (let n = (of_char c :: nat) in
     if is_digit c then n - 48 else if is_lower c then n - 87 else n - 55)"

text \<open>The characters a host may carry as they are (\<open>shouldEscape\<close>).\<close>

definition host_char :: "char \<Rightarrow> bool" where
  "host_char c \<longleftrightarrow> is_alpha c \<or> is_digit c \<or> c \<in> set ''!$&()*+,;=:[]<>-_.~''
     \<or> c = CHR 0x27 \<or> c = CHR 0x22"

fun unescape :: "url_part \<Rightarrow> string \<Rightarrow> string option" where
  "unescape m [] = Some []"
| "unescape m (c # cs) =
     (if c = CHR ''%'' then
        (case cs of
           a # b # rest \<Rightarrow>
             (let v = char_of (16 * hex_val a + hex_val b) in
              if \<not> is_hex a \<or> \<not> is_hex b then None
              else if m = UrlHost \<and> hex_val a < 8 \<and> \<not> (a = CHR ''2'' \<and> b = CHR ''5'') then None
              else if m = UrlZone \<and> \<not> (a = CHR ''2'' \<and> b = CHR ''5'') \<and> v \<noteq> CHR '' '' \<and> \<not> host_char v then None
              else map_option (\<lambda>r. v # r) (unescape m rest))
         | _ \<Rightarrow> None)
      else if (m = UrlHost \<or> m = UrlZone) \<and> (of_char c :: nat) < 128 \<and> \<not> host_char c then None
      else map_option (\<lambda>r. c # r) (unescape m cs))"

subsection \<open>Authority\<close>

text \<open>The parts before and after the last occurrence of a byte.\<close>

definition split_last :: "char \<Rightarrow> string \<Rightarrow> (string \<times> string) option" where
  "split_last c s =
     (if c \<in> set s then
        (let b = rev (takeWhile (\<lambda>x. x \<noteq> c) (rev s)) in Some (take (length s - length b - 1) s, b))
      else None)"

definition valid_optional_port :: "string \<Rightarrow> bool" where
  "valid_optional_port p = (case p of [] \<Rightarrow> True | c # ds \<Rightarrow> c = CHR '':'' \<and> list_all is_digit ds)"

text \<open>The part of a string before the first occurrence of another, and the rest from there on.\<close>

fun cut_before :: "string \<Rightarrow> string \<Rightarrow> (string \<times> string) option" where
  "cut_before sub s =
     (if has_prefix s sub then Some ([], s)
      else (case s of [] \<Rightarrow> None
            | c # t \<Rightarrow> map_option (\<lambda>(a, b). (c # a, b)) (cut_before sub t)))"

declare cut_before.simps [simp del]

definition parse_host :: "string \<Rightarrow> string option" where
  "parse_host h =
     (if has_prefix h ''['' then
        (case split_last CHR '']'' h of
           None \<Rightarrow> None
         | Some (inner, port) \<Rightarrow>
             (if \<not> valid_optional_port port then None
              else (case cut_before ''%25'' inner of
                      Some (h1, h2) \<Rightarrow>
                        (case (unescape UrlHost h1, unescape UrlZone h2, unescape UrlHost ('']'' @ port)) of
                           (Some a, Some b, Some c) \<Rightarrow> Some (a @ b @ c)
                         | _ \<Rightarrow> None)
                    | None \<Rightarrow> unescape UrlHost h)))
      else (case split_last CHR '':'' h of
              Some (_, port) \<Rightarrow> (if list_all is_digit port then unescape UrlHost h else None)
            | None \<Rightarrow> unescape UrlHost h))"

definition userinfo_char :: "char \<Rightarrow> bool" where
  "userinfo_char c \<longleftrightarrow> is_alpha c \<or> is_digit c \<or> c \<in> set ''-._:~!$&()*+,;=%@'' \<or> c = CHR 0x27"

definition parse_authority :: "string \<Rightarrow> string option" where
  "parse_authority a =
     (case split_last CHR ''@'' a of
        None \<Rightarrow> parse_host a
      | Some (user, h) \<Rightarrow>
          (case parse_host h of
             None \<Rightarrow> None
           | Some host \<Rightarrow>
               (if \<not> list_all userinfo_char user then None
                else if list_all (\<lambda>x. unescape UrlUser x \<noteq> None) (split2 CHR '':'' user) then Some host
                else None)))"

subsection \<open>Parse\<close>

record url =
  u_scheme :: string
  u_opaque :: bool
  u_host :: string

text \<open>The scheme and the rest; \<open>None\<close> is the error "missing protocol scheme".\<close>

fun scheme_from :: "string \<Rightarrow> string \<Rightarrow> (string \<times> string) option" where
  "scheme_from acc [] = Some ([], rev acc)"
| "scheme_from acc (c # cs) =
     (if is_alpha c then scheme_from (c # acc) cs
      else if is_digit c \<or> c = CHR ''+'' \<or> c = CHR ''-'' \<or> c = CHR ''.'' then
        (if acc = [] then Some ([], c # cs) else scheme_from (c # acc) cs)
      else if c = CHR '':'' then (if acc = [] then None else Some (rev acc, cs))
      else Some ([], rev acc @ c # cs))"

definition cut_query :: "string \<Rightarrow> string" where
  "cut_query s = hd (split2 CHR ''?'' s)"

definition parse_rest :: "string \<Rightarrow> string \<Rightarrow> url option" where
  "parse_rest scheme rest =
     (if \<not> has_prefix rest ''/'' then
        (if scheme \<noteq> [] then Some \<lparr>u_scheme = scheme, u_opaque = True, u_host = []\<rparr>
         else if CHR '':'' \<in> set (hd (split2 CHR ''/'' rest)) then None
         else if unescape UrlPath rest = None then None
         else Some \<lparr>u_scheme = [], u_opaque = False, u_host = []\<rparr>)
      else if (scheme \<noteq> [] \<or> \<not> has_prefix rest ''///'') \<and> has_prefix rest ''//'' then
        (let auth = takeWhile (\<lambda>c. c \<noteq> CHR ''/'') (drop 2 rest);
             path = dropWhile (\<lambda>c. c \<noteq> CHR ''/'') (drop 2 rest) in
         case parse_authority auth of
           None \<Rightarrow> None
         | Some h \<Rightarrow>
             (if unescape UrlPath path = None then None
              else Some \<lparr>u_scheme = scheme, u_opaque = False, u_host = h\<rparr>))
      else if unescape UrlPath rest = None then None
      else Some \<lparr>u_scheme = scheme, u_opaque = False, u_host = []\<rparr>)"

definition is_ctl :: "char \<Rightarrow> bool" where
  "is_ctl c \<longleftrightarrow> (of_char c :: nat) < 32 \<or> c = CHR 0x7F"

definition url_parse :: "string \<Rightarrow> url option" where
  "url_parse raw =
     (case split2 CHR ''#'' raw of
        [] \<Rightarrow> None
      | u # frag \<Rightarrow>
          (if list_ex is_ctl u then None
           else (let parsed =
                   (if u = ''*'' then Some \<lparr>u_scheme = [], u_opaque = False, u_host = []\<rparr>
                    else (case scheme_from [] u of
                            None \<Rightarrow> None
                          | Some (sch, rest) \<Rightarrow> parse_rest (go_to_lower sch) (cut_query rest))) in
                 if list_all (\<lambda>f. unescape UrlFragment f \<noteq> None) frag then parsed else None)))"

text \<open>\<open>Hostname\<close> and \<open>Port\<close>.\<close>

definition split_host_port :: "string \<Rightarrow> string \<times> string" where
  "split_host_port hp =
     (let (h, p) = (case split_last CHR '':'' hp of
                      Some (a, b) \<Rightarrow> if list_all is_digit b then (a, b) else (hp, [])
                    | None \<Rightarrow> (hp, []))
      in (if has_prefix h ''['' \<and> has_suffix h '']'' then take (length h - 2) (tl h) else h, p))"

definition url_hostname :: "url \<Rightarrow> string" where
  "url_hostname u = fst (split_host_port (u_host u))"

definition url_port :: "url \<Rightarrow> string" where
  "url_port u = snd (split_host_port (u_host u))"

lemma url_parse_samples:
  "map_option u_host (url_parse ''https://cloud.example.org/'') = Some ''cloud.example.org''"
  "map_option u_host (url_parse ''http://u:p@[::1]:80/x?y#z'') = Some ''[::1]:80''"
  "url_parse ''http://a b/'' = None" "url_parse '':x'' = None"
  by code_simp+

end
