(* ===== verification/HttpClient.thy ===== *)
theory HttpClient
  imports GoUrl World
begin

text \<open>
  The HTTP transport the clients of the program share: a name is resolved, its addresses are
  tried in turn unless the client's \<open>Control\<close> hook refuses them, and the request is sent. The
  two clients differ in what their hooks accept; \<open>dial_policy\<close> states what a hook that only
  accepts certain addresses guarantees about every connection made through it.
\<close>

text \<open>The dialer; the error of the first attempt is reported.\<close>

fun dial_with :: "(ip \<Rightarrow> unit res) \<Rightarrow> env \<Rightarrow> string \<Rightarrow> ip list \<Rightarrow> world \<Rightarrow> unit res \<times> world" where
  "dial_with control e port [] w = (Inl (Failure ''missing address''), w)"
| "dial_with control e port (a # rest) w =
     (case control a of
        Inl err \<Rightarrow>
          (case dial_with control e port rest w of
             (Inr _, w1) \<Rightarrow> (Inr (), w1) | (Inl _, w1) \<Rightarrow> (Inl err, w1))
      | Inr _ \<Rightarrow>
          (case dial_ip e a port w of
             (Inr _, w1) \<Rightarrow> (Inr (), w1)
           | (Inl err, w1) \<Rightarrow>
               (case dial_with control e port rest w1 of
                  (Inr _, w2) \<Rightarrow> (Inr (), w2) | (Inl _, w2) \<Rightarrow> (Inl err, w2))))"

text \<open>One request: the transport supports two schemes, resolves the host and connects.\<close>

definition send_once :: "(ip \<Rightarrow> unit res) \<Rightarrow> env \<Rightarrow> http_call \<Rightarrow> world \<Rightarrow> http_reply res \<times> world" where
  "send_once control e c w =
     (case url_parse (hc_url c) of
        None \<Rightarrow> (Inl (Failure ''parse url''), w)
      | Some p \<Rightarrow>
          (if u_scheme p \<noteq> ''http'' \<and> u_scheme p \<noteq> ''https'' then
             (Inl (Failure ''unsupported protocol scheme''), w)
           else if u_host p = [] then (Inl (Failure ''http: no Host in request URL''), w)
           else (let port = (if url_port p \<noteq> [] then url_port p
                             else if u_scheme p = ''http'' then ''80'' else ''443'') in
                 case lookup_ip e (url_hostname p) w of
                   (Inl err, w1) \<Rightarrow> (Inl err, w1)
                 | (Inr ips, w1) \<Rightarrow>
                     (case dial_with control e port ips w1 of
                        (Inl err, w2) \<Rightarrow> (Inl err, w2)
                      | (Inr _, w2) \<Rightarrow> send_http e c w2))))"

definition location_of :: "http_reply \<Rightarrow> string" where
  "location_of r =
     (case find (\<lambda>h. go_to_lower (fst h) = ''location'') (hr_headers r) of Some h \<Rightarrow> snd h | None \<Rightarrow> [])"

definition is_redirect :: "http_reply \<Rightarrow> bool" where
  "is_redirect r \<longleftrightarrow> hr_status r \<in> {301, 302, 303, 307, 308} \<and> location_of r \<noteq> []"

subsection \<open>What a client did\<close>

fun is_call :: "net_event \<Rightarrow> bool" where
  "is_call (Call c) = True"
| "is_call _ = False"

text \<open>Between two worlds nothing but the network was used, only addresses with the property were
  connected to, and at most \<open>n\<close> requests sent.\<close>

definition net_within :: "(ip \<Rightarrow> bool) \<Rightarrow> nat \<Rightarrow> world \<Rightarrow> world \<Rightarrow> bool" where
  "net_within P n w w' \<longleftrightarrow> (\<exists>evs. w' = w\<lparr>net := net w @ evs\<rparr>
     \<and> (\<forall>a p. Dial a p \<in> set evs \<longrightarrow> P a) \<and> length (filter is_call evs) \<le> n)"

lemma within_refl [simp]: "net_within P n w w"
  unfolding net_within_def by (rule exI [of _ "[]"]) simp

lemma within_frame:
  assumes "net_within P n w w'"
  shows "files w' = files w" "cmds w' = cmds w" "now w' = now w" "draws w' = draws w" "secrets w' = secrets w"
  using assms by (auto simp: net_within_def)

lemma within_trans:
  assumes "net_within P m w1 w2" and "net_within P n w2 w3" and "m + n \<le> k"
  shows "net_within P k w1 w3"
proof -
  obtain e1 e2 where "w2 = w1\<lparr>net := net w1 @ e1\<rparr>" "\<forall>a p. Dial a p \<in> set e1 \<longrightarrow> P a"
    "length (filter is_call e1) \<le> m" "w3 = w2\<lparr>net := net w2 @ e2\<rparr>"
    "\<forall>a p. Dial a p \<in> set e2 \<longrightarrow> P a" "length (filter is_call e2) \<le> n"
    using assms(1,2) unfolding net_within_def by blast
  then show ?thesis using assms(3) unfolding net_within_def by (intro exI [of _ "e1 @ e2"]) auto
qed

lemma within_mono: "net_within P m w w' \<Longrightarrow> m \<le> n \<Longrightarrow> net_within P n w w'"
  by (rule within_trans [OF _ within_refl [of P 0]]) simp_all

lemma within_lookup: "net_within P 0 w (snd (lookup_ip e h w))"
  by (auto simp: net_within_def lookup_ip_def)

lemma within_call: "net_within P 1 w (snd (send_http e c w))"
  by (auto simp: net_within_def send_http_def)

lemma within_dial: "P a \<Longrightarrow> net_within P 0 w (snd (dial_ip e a p w))"
  by (auto simp: net_within_def dial_ip_def)

subsection \<open>Hooks that keep to a policy\<close>

locale dial_policy =
  fixes control :: "ip \<Rightarrow> unit res" and allowed :: "ip \<Rightarrow> bool"
  assumes accepts: "control a = Inr () \<Longrightarrow> allowed a"
begin

lemma dial_within: "net_within allowed 0 w (snd (dial_with control e port ips w))"
proof (induction ips arbitrary: w)
  case (Cons a ips)
  show ?case
  proof (cases "control a")
    case (Inl err)
    with Cons.IH [of w] show ?thesis by (auto split: sum.splits prod.splits)
  next
    case (Inr u)
    then have "allowed a" using accepts by simp
    obtain r w1 where d: "dial_ip e a port w = (r, w1)" by fastforce
    from within_dial [of allowed, OF \<open>allowed a\<close>, of w e port] d have "net_within allowed 0 w w1" by simp
    with within_trans [OF this Cons.IH [of w1], of 0] Inr d show ?thesis
      by (auto split: sum.splits prod.splits)
  qed
qed simp

lemma send_within: "net_within allowed 1 w (snd (send_once control e c w))"
proof (cases "url_parse (hc_url c)")
  case (Some p)
  obtain l w1 where l: "lookup_ip e (url_hostname p) w = (l, w1)" by fastforce
  from within_lookup [of allowed w e "url_hostname p"] l have 1: "net_within allowed 0 w w1" by simp
  show ?thesis
  proof (cases l)
    case (Inl err)
    with Some l within_mono [OF 1, of 1] show ?thesis by (auto simp: send_once_def Let_def)
  next
    case (Inr ips)
    let ?port = "if url_port p \<noteq> [] then url_port p else if u_scheme p = ''http'' then ''80'' else ''443''"
    obtain d w2 where d: "dial_with control e ?port ips w1 = (d, w2)" by fastforce
    from dial_within [of w1 e ?port ips] d have 2: "net_within allowed 0 w1 w2" by simp
    have 3: "net_within allowed 0 w w2" by (rule within_trans [OF 1 2]) simp
    have "net_within allowed 1 w (snd (send_http e c w2))" by (rule within_trans [OF 3 within_call]) simp
    moreover have "net_within allowed 1 w w2" by (rule within_mono [OF 3]) simp
    ultimately show ?thesis using Some l Inr d
      by (auto simp: send_once_def Let_def split: sum.splits)
  qed
qed (simp add: send_once_def)

end

subsection \<open>The transport leaves the files alone\<close>

interpretation any: dial_policy control "\<lambda>_. True" for control
  by unfold_locales simp

lemma files_send_once [frame_simps]: "files (snd (send_once control e c w)) = files w"
  by (rule within_frame [OF any.send_within])

end
