(* ===== verification/Launcher.thy ===== *)
theory Launcher
  imports HttpClient Config MetaStore
begin

text \<open>
  \<open>launcher.go\<close>: the list of applications of the landing page, its icons, and the client that
  fetches an icon from an address the operator typed. The client refuses to connect to private
  addresses: before each connection (\<open>Control\<close>) and at each redirect (\<open>CheckRedirect\<close>).
\<close>

unbundle bit_operations_syntax

record launcher_app =
  la_id :: string
  la_name :: string
  la_url :: string
  la_icon :: string

subsection \<open>Names and addresses\<close>

definition id_char :: "char \<Rightarrow> bool" where
  "id_char c \<longleftrightarrow> is_lower c \<or> is_digit c \<or> c = CHR ''-''"

definition valid_app_id :: "string \<Rightarrow> bool" where
  "valid_app_id s \<longleftrightarrow>
     (case s of [] \<Rightarrow> False | c # cs \<Rightarrow> is_lower c \<and> list_all id_char cs \<and> length cs \<le> 31)"

definition icon_exts :: "string list" where
  "icon_exts = [''png'', ''jpg'', ''webp'', ''gif'']"

text \<open>\<open>^[a-z0-9-]+\.(png|jpg|webp|gif)$\<close>.\<close>

definition re_icon_path :: "string \<Rightarrow> bool" where
  "re_icon_path s \<longleftrightarrow>
     list_ex (\<lambda>x. has_suffix s (''.'' @ x) \<and> length s > length x + 1
                \<and> list_all id_char (take (length s - length x - 1) s)) icon_exts"

definition valid_app_url :: "string \<Rightarrow> bool" where
  "valid_app_url s =
     (case url_parse s of None \<Rightarrow> False
      | Some u \<Rightarrow> (u_scheme u = ''http'' \<or> u_scheme u = ''https'') \<and> u_host u \<noteq> [])"

subsection \<open>The file of applications\<close>

definition app_json :: "launcher_app \<Rightarrow> json" where
  "app_json a = JObj [(''id'', JStr (la_id a)), (''name'', JStr (la_name a)),
                      (''url'', JStr (la_url a)), (''icon'', JStr (la_icon a))]"

definition zero_app :: launcher_app where
  "zero_app = \<lparr>la_id = [], la_name = [], la_url = [], la_icon = []\<rparr>"

definition decode_app_field :: "string \<times> json \<Rightarrow> launcher_app \<Rightarrow> launcher_app option" where
  "decode_app_field fld a =
     (let k = go_to_lower (fst fld); j = snd fld in
      if k = ''id'' then map_option (\<lambda>s. a\<lparr>la_id := s\<rparr>) (decode_string j (la_id a))
      else if k = ''name'' then map_option (\<lambda>s. a\<lparr>la_name := s\<rparr>) (decode_string j (la_name a))
      else if k = ''url'' then map_option (\<lambda>s. a\<lparr>la_url := s\<rparr>) (decode_string j (la_url a))
      else if k = ''icon'' then map_option (\<lambda>s. a\<lparr>la_icon := s\<rparr>) (decode_string j (la_icon a))
      else Some a)"

definition decode_app :: "json \<Rightarrow> launcher_app option" where
  "decode_app j =
     (case j of JObj kvs \<Rightarrow> fold_opt decode_app_field kvs zero_app | JNull \<Rightarrow> Some zero_app | _ \<Rightarrow> None)"

definition decode_apps :: "json \<Rightarrow> launcher_app list option" where
  "decode_apps j =
     (case j of
        JArr js \<Rightarrow> fold_opt (\<lambda>x acc. map_option (\<lambda>a. acc @ [a]) (decode_app x)) js []
      | JNull \<Rightarrow> Some []
      | _ \<Rightarrow> None)"

definition apps_path :: "string \<Rightarrow> string" where
  "apps_path dir = filepath_join [dir, ''apps.json'']"

definition load_launcher :: "env \<Rightarrow> string \<Rightarrow> world \<Rightarrow> launcher_app list res" where
  "load_launcher e dir w =
     (case read_file e (apps_path dir) w of
        Inl err \<Rightarrow> Inl err
      | Inr c \<Rightarrow>
          (case Option.bind (content_json e c) decode_apps of
             None \<Rightarrow> Inl (Failure ''parse apps.json: invalid JSON'')
           | Some apps \<Rightarrow> Inr apps))"

definition save_launcher :: "env \<Rightarrow> string \<Rightarrow> launcher_app list \<Rightarrow> world \<Rightarrow> unit res \<times> world" where
  "save_launcher e dir apps w =
     (let tmp = filepath_join [dir, ''apps.json.tmp''] in
      case write_file e tmp (Json (JArr (map app_json apps))) w of
        (Inl err, w1) \<Rightarrow> (Inl err, w1)
      | (Inr _, w1) \<Rightarrow> rename_file e tmp (apps_path dir) w1)"

subsection \<open>The first start\<close>

definition icon_file :: "string \<Rightarrow> string \<Rightarrow> string \<Rightarrow> string" where
  "icon_file dir i ext = filepath_join [dir, ''icons'', i @ ''.'' @ ext]"

definition copy_file_mode :: "env \<Rightarrow> string \<Rightarrow> string \<Rightarrow> world \<Rightarrow> unit res \<times> world" where
  "copy_file_mode e src dst w =
     (case read_file e src w of
        Inl err \<Rightarrow> (Inl err, w)
      | Inr c \<Rightarrow>
          (let tmp = dst @ ''.seed.tmp'' in
           case write_file e tmp c w of
             (Inl err, w1) \<Rightarrow> (Inl err, w1)
           | (Inr _, w1) \<Rightarrow> rename_file e tmp dst w1))"

fun seed_icons :: "env \<Rightarrow> string \<Rightarrow> string \<Rightarrow> string list \<Rightarrow> world \<Rightarrow> (string \<times> string) list \<times> world" where
  "seed_icons e dir src [] w = ([], w)"
| "seed_icons e dir src (i # ids) w =
     (case copy_file_mode e (filepath_join [src, i @ ''.png'']) (icon_file dir i ''png'') w of
        (Inl _, w1) \<Rightarrow> seed_icons e dir src ids w1
      | (Inr _, w1) \<Rightarrow>
          (case seed_icons e dir src ids w1 of (m, w2) \<Rightarrow> ((i, ''icons/'' @ i @ ''.png'') # m, w2)))"

definition seed_default_icons :: "env \<Rightarrow> string \<Rightarrow> string \<Rightarrow> world \<Rightarrow> (string \<times> string) list \<times> world" where
  "seed_default_icons e dir src w = seed_icons e dir src [''cloud'', ''enrol-users'', ''console'', ''task''] w"

definition default_apps :: "string \<Rightarrow> bool \<Rightarrow> bool \<Rightarrow> (string \<Rightarrow> string) \<Rightarrow> launcher_app list" where
  "default_apps apex skip_cld skip_tsk icon =
     (if skip_cld then []
      else [\<lparr>la_id = ''cloud'', la_name = ''Cloud'', la_url = ''https://cloud.'' @ apex @ ''/'', la_icon = icon ''cloud''\<rparr>])
     @ [\<lparr>la_id = ''enrol-users'', la_name = ''Enrol'', la_url = ''https://enrol.'' @ apex @ ''/users'',
         la_icon = icon ''enrol-users''\<rparr>,
        \<lparr>la_id = ''console'', la_name = ''Console'', la_url = ''https://console.'' @ apex @ ''/'',
         la_icon = icon ''console''\<rparr>]
     @ (if skip_tsk then []
        else [\<lparr>la_id = ''task'', la_name = ''Tasks'', la_url = ''https://task.'' @ apex @ ''/'', la_icon = icon ''task''\<rparr>])"

definition bootstrap_launcher :: "env \<Rightarrow> string \<Rightarrow> string \<Rightarrow> bool \<Rightarrow> bool \<Rightarrow> world \<Rightarrow> unit res \<times> world" where
  "bootstrap_launcher e dir apex skip_cld skip_tsk w =
     (case mkdir_all e (filepath_join [dir, ''icons'']) w of
        (Inl err, w1) \<Rightarrow> (Inl (Failure (''mkdir launcher dir: '' @ err_text err)), w1)
      | (Inr _, w1) \<Rightarrow>
          (case stat_file e (apps_path dir) w1 of
             Inr _ \<Rightarrow> (Inr (), w1)
           | Inl err \<Rightarrow>
               (if \<not> is_not_exist err then (Inl err, w1)
                else (case seed_default_icons e dir ''/app/web/static/launcher-defaults'' w1 of
                        (m, w2) \<Rightarrow>
                          save_launcher e dir (default_apps apex skip_cld skip_tsk
                            (\<lambda>i. case map_of m i of Some p \<Rightarrow> p | None \<Rightarrow> [])) w2))))"

fun remove_icons :: "env \<Rightarrow> string \<Rightarrow> string \<Rightarrow> string list \<Rightarrow> world \<Rightarrow> unit res \<times> world" where
  "remove_icons e dir i [] w = (Inr (), w)"
| "remove_icons e dir i (x # exts) w =
     (case remove_file e (icon_file dir i x) w of
        (Inl err, w1) \<Rightarrow> (if is_not_exist err then remove_icons e dir i exts w1 else (Inl err, w1))
      | (Inr _, w1) \<Rightarrow> remove_icons e dir i exts w1)"

definition remove_old_icons :: "env \<Rightarrow> string \<Rightarrow> string \<Rightarrow> world \<Rightarrow> unit res \<times> world" where
  "remove_old_icons e dir i w = remove_icons e dir i icon_exts w"

subsection \<open>Private addresses\<close>

text \<open>The blocks of \<open>init\<close>: the address bytes and the length of the prefix.\<close>

definition private_blocks :: "(ip \<times> nat) list" where
  "private_blocks =
     [([0, 0, 0, 0], 8), ([10, 0, 0, 0], 8), ([172, 16, 0, 0], 12), ([192, 168, 0, 0], 16),
      ([127, 0, 0, 0], 8), ([169, 254, 0, 0], 16), ([100, 64, 0, 0], 10),
      (replicate 15 0 @ [1], 128), (0xFC # replicate 15 0, 7), (0xFE # 0x80 # replicate 14 0, 10)]"

text \<open>\<open>To4\<close>: the four bytes of an IPv4 address, also in its IPv6-mapped form.\<close>

definition to4 :: "ip \<Rightarrow> ip option" where
  "to4 a =
     (if length a = 4 then Some a
      else if length a = 16 \<and> take 12 a = replicate 10 0 @ [0xFF, 0xFF] then Some (drop 12 a)
      else None)"

text \<open>\<open>Equal\<close> identifies an IPv4 address with its mapped form.\<close>

definition ip_equal :: "ip \<Rightarrow> ip \<Rightarrow> bool" where
  "ip_equal a b \<longleftrightarrow>
     (if length a = length b then a = b
      else if length a = 4 \<and> length b = 16 then to4 b = Some a
      else if length a = 16 \<and> length b = 4 then to4 a = Some b
      else False)"

definition is_unspecified :: "ip \<Rightarrow> bool" where
  "is_unspecified a \<longleftrightarrow> ip_equal a [0, 0, 0, 0] \<or> ip_equal a (replicate 16 0)"

definition is_loopback :: "ip \<Rightarrow> bool" where
  "is_loopback a =
     (case to4 a of Some v \<Rightarrow> hd v = 127 | None \<Rightarrow> ip_equal a (replicate 15 0 @ [1]))"

text \<open>\<open>CIDRMask\<close>: the byte at a position of the mask of a prefix length.\<close>

definition mask_byte :: "nat \<Rightarrow> nat \<Rightarrow> 8 word" where
  "mask_byte n i =
     (if 8 * i + 8 \<le> n then 0xFF else if n \<le> 8 * i then 0 else NOT (drop_bit (n - 8 * i) 0xFF))"

fun masked_eq :: "nat \<Rightarrow> nat \<Rightarrow> ip \<Rightarrow> ip \<Rightarrow> bool" where
  "masked_eq n i (x # xs) (y # ys) \<longleftrightarrow> x AND mask_byte n i = y AND mask_byte n i \<and> masked_eq n (Suc i) xs ys"
| "masked_eq n i [] [] \<longleftrightarrow> True"
| "masked_eq n i _ _ \<longleftrightarrow> False"

text \<open>\<open>IPNet.Contains\<close>.\<close>

definition block_contains :: "ip \<times> nat \<Rightarrow> ip \<Rightarrow> bool" where
  "block_contains b a =
     (let a' = (case to4 a of Some v \<Rightarrow> v | None \<Rightarrow> a) in
      length a' = length (fst b) \<and> masked_eq (snd b) 0 (fst b) a')"

definition is_private_ip :: "ip \<Rightarrow> bool" where
  "is_private_ip a \<longleftrightarrow>
     is_unspecified a \<or> is_loopback a \<or>
     (let probe = (case to4 a of Some v \<Rightarrow> v | None \<Rightarrow> a)
      in list_ex (\<lambda>b. block_contains b probe) private_blocks)"

subsection \<open>Fetching an icon\<close>

text \<open>\<open>bytes.ToLower\<close> and the magic numbers of the four accepted formats.\<close>

definition detect_image_type :: "string \<Rightarrow> string res" where
  "detect_image_type p =
     (if has_prefix p [CHR 0x89, CHR ''P'', CHR ''N'', CHR ''G'', CHR 0x0D, CHR 0x0A, CHR 0x1A, CHR 0x0A]
      then Inr ''png''
      else if has_prefix p [CHR 0xFF, CHR 0xD8, CHR 0xFF] then Inr ''jpg''
      else if length p \<ge> 12 \<and> take 4 p = ''RIFF'' \<and> take 4 (drop 8 p) = ''WEBP'' then Inr ''webp''
      else if has_prefix p ''GIF87a'' \<or> has_prefix p ''GIF89a'' then Inr ''gif''
      else if contains (go_to_lower p) ''<?xml'' \<or> contains (go_to_lower p) ''<svg''
      then Inl (Failure ''svg not allowed'')
      else Inl (Failure ''unrecognised image format''))"

text \<open>The dialer tries the addresses of a host in turn; \<open>Control\<close> refuses the private ones. The
  error of the first attempt is reported.\<close>

definition dial_control :: "ip \<Rightarrow> unit res" where
  "dial_control a =
     (if is_private_ip a then Inl (Failure ''dialer: blocked private/loopback address'') else Inr ())"

definition dial_first :: "env \<Rightarrow> string \<Rightarrow> ip list \<Rightarrow> world \<Rightarrow> unit res \<times> world" where
  "dial_first = dial_with dial_control"

definition get_once :: "env \<Rightarrow> string \<Rightarrow> world \<Rightarrow> http_reply res \<times> world" where
  "get_once e u w = send_once dial_control e
     \<lparr>hc_method = ''GET'', hc_url = u, hc_headers = [(''User-Agent'', ''enrol-launcher/1.0'')], hc_body = []\<rparr> w"

definition check_redirect :: "env \<Rightarrow> nat \<Rightarrow> string \<Rightarrow> world \<Rightarrow> unit res \<times> world" where
  "check_redirect e via u w =
     (if via \<ge> 3 then (Inl (Failure ''too many redirects''), w)
      else case url_parse u of
        None \<Rightarrow> (Inl (Failure ''parse url''), w)
      | Some p \<Rightarrow>
          (if url_hostname p = [] then (Inl (Failure ''redirect: empty host''), w)
           else (case lookup_ip e (url_hostname p) w of
                   (Inl err, w1) \<Rightarrow>
                     (Inl (Failure (''redirect resolve '' @ url_hostname p @ '': '' @ err_text err)), w1)
                 | (Inr ips, w1) \<Rightarrow>
                     (if list_ex is_private_ip ips
                      then (Inl (Failure ''redirect: blocked private address''), w1)
                      else (Inr (), w1)))))"

text \<open>\<open>Client.Do\<close>: \<open>via\<close> requests were sent before. \<open>check_redirect\<close> ends the loop at the third.\<close>

function http_follow :: "env \<Rightarrow> nat \<Rightarrow> string \<Rightarrow> world \<Rightarrow> http_reply res \<times> world" where
  "http_follow e via u w =
     (case get_once e u w of
        (Inl err, w1) \<Rightarrow> (Inl err, w1)
      | (Inr r, w1) \<Rightarrow>
          (if \<not> is_redirect r then (Inr r, w1)
           else (case url_ref e u (location_of r) of
                   Inl err \<Rightarrow> (Inl (Failure (''failed to parse Location header: '' @ err_text err)), w1)
                 | Inr u2 \<Rightarrow>
                     (case check_redirect e (Suc via) u2 w1 of
                        (Inl err, w2) \<Rightarrow> (Inl err, w2)
                      | (Inr _, w2) \<Rightarrow> http_follow e (Suc via) u2 w2))))"
  by pat_completeness auto
termination
  by (relation "measure (\<lambda>(e, via, u, w). 3 - via)") (auto simp: check_redirect_def split: if_splits)

declare http_follow.simps [simp del]

definition max_icon_bytes :: nat where
  "max_icon_bytes = 256 * 1024"

text \<open>Storing the body: at most one byte more than the limit is read, and the temporary file is
  removed on every failure.\<close>

definition store_icon :: "env \<Rightarrow> string \<Rightarrow> string \<Rightarrow> string \<Rightarrow> http_reply \<Rightarrow> world \<Rightarrow> string res \<times> world" where
  "store_icon e dir i ext r w =
     (let tmp = filepath_join [dir, ''icons'', i @ ''.fetch.tmp''];
          bd = take (max_icon_bytes + 1) (hr_body r) in
      case write_file e tmp (Bytes bd) w of
        (Inl err, w1) \<Rightarrow> (Inl err, w1)
      | (Inr _, w1) \<Rightarrow>
          (if length bd > max_icon_bytes then
             (Inl (Failure (''icon too large (>'' @ show_nat max_icon_bytes @ '' bytes)'')), snd (remove_file e tmp w1))
           else case hr_read_error r of
             Some m \<Rightarrow> (Inl (Failure m), snd (remove_file e tmp w1))
           | None \<Rightarrow>
               (case remove_old_icons e dir i w1 of
                  (Inl err, w2) \<Rightarrow> (Inl err, snd (remove_file e tmp w2))
                | (Inr _, w2) \<Rightarrow>
                    (case rename_file e tmp (icon_file dir i ext) w2 of
                       (Inl err, w3) \<Rightarrow> (Inl err, snd (remove_file e tmp w3))
                     | (Inr _, w3) \<Rightarrow> (Inr (''icons/'' @ i @ ''.'' @ ext), w3)))))"

definition fetch_icon :: "env \<Rightarrow> string \<Rightarrow> string \<Rightarrow> string \<Rightarrow> world \<Rightarrow> string res \<times> world" where
  "fetch_icon e dir i raw w =
     (if \<not> valid_app_url raw then (Inl (Failure ''invalid icon url''), w)
      else (case http_follow e 0 raw w of
              (Inl err, w1) \<Rightarrow> (Inl err, w1)
            | (Inr r, w1) \<Rightarrow>
                (if hr_status r \<noteq> 200 then (Inl (Failure (''icon fetch: status '' @ show_int (hr_status r))), w1)
                 else if length (hr_body r) < 512 \<and> hr_read_error r \<noteq> None then
                   (Inl (Failure (''read head: '' @ the (hr_read_error r))), w1)
                 else (case detect_image_type (take 512 (hr_body r)) of
                         Inl err \<Rightarrow> (Inl err, w1)
                       | Inr ext \<Rightarrow> store_icon e dir i ext r w1))))"

text \<open>\<open>initialOf\<close>; an invalid byte counts as the replacement rune.\<close>

definition initial_of :: "env \<Rightarrow> string \<Rightarrow> string" where
  "initial_of e name =
     (case runes name of
        [] \<Rightarrow> ''?''
      | r # _ \<Rightarrow>
          (if length r = 1 \<and> (of_char (hd r) :: nat) \<ge> 128 then [CHR 0xEF, CHR 0xBF, CHR 0xBD]
           else unicode_upper e r))"

end
