(* ===== verification/LauncherHandlers.thy ===== *)
theory LauncherHandlers
  imports Launcher Pages
begin

text \<open>
  The handlers of \<open>server.go\<close> for the landing page and its applications: \<open>/\<close>,
  \<open>/launcher/apps\<close>, \<open>/launcher/apps/<id>/delete\<close> and \<open>/launcher/icons/<file>\<close>.
\<close>

definition admin_tile_ids :: "string list" where
  "admin_tile_ids = [''enrol-users'', ''console'']"

definition launcher_admin :: "config \<Rightarrow> request \<Rightarrow> bool" where
  "launcher_admin cfg r \<longleftrightarrow>
     list_ex (\<lambda>g. go_trim_space g = required_group cfg) (split_on CHR '','' (get_header r ''X-Enrol-Groups''))"

definition launcher_tile_of :: "env \<Rightarrow> launcher_app \<Rightarrow> launcher_tile" where
  "launcher_tile_of e a =
     \<lparr>lt_id = la_id a, lt_name = la_name a, lt_url = la_url a,
      lt_icon_url = (if has_prefix (la_icon a) ''icons/'' then ''/launcher/'' @ la_icon a else []),
      lt_initials = initial_of e (la_name a)\<rparr>"

definition visible_apps :: "bool \<Rightarrow> launcher_app list \<Rightarrow> launcher_app list" where
  "visible_apps adm apps = filter (\<lambda>a. adm \<or> la_id a \<notin> set admin_tile_ids) apps"

definition render_launcher :: "env \<Rightarrow> config \<Rightarrow> string \<Rightarrow> page handler" where
  "render_launcher e cfg flash = with_token e (\<lambda>csrf r w.
     case load_launcher e (launcher_dir cfg) w of
       Inl err \<Rightarrow> (http_error (''load launcher: '' @ err_text err) 500, w)
     | Inr apps \<Rightarrow>
         (let adm = launcher_admin cfg r in
          (html_page (LauncherPage \<lparr>ld_user = viewer r, ld_csrf = csrf,
             ld_apps = map (launcher_tile_of e) (visible_apps adm apps),
             ld_viewer_is_admin = adm, ld_flash = flash\<rparr>), w)))"

definition handle_launcher :: "env \<Rightarrow> config \<Rightarrow> page handler" where
  "handle_launcher e cfg r w =
     (if rq_path r \<noteq> ''/'' then (not_found, w)
      else if rq_method r \<noteq> ''GET'' then (method_not_allowed, w)
      else render_launcher e cfg [] r w)"

subsection \<open>Adding and deleting\<close>

definition add_fail :: "env \<Rightarrow> config \<Rightarrow> string \<Rightarrow> string \<Rightarrow> string \<Rightarrow> world \<Rightarrow> world" where
  "add_fail e cfg actor i note = audit e cfg (entry ''launcher.app.add'' actor i ''fail'' note)"

definition add_app :: "env \<Rightarrow> config \<Rightarrow> string \<Rightarrow> launcher_app list \<Rightarrow> launcher_app \<Rightarrow> world \<Rightarrow> reply \<times> world" where
  "add_app e cfg actor apps a w =
     (case save_launcher e (launcher_dir cfg) (apps @ [a]) w of
        (Inl err, w1) \<Rightarrow>
          (http_error (''save launcher: '' @ err_text err) 500,
           add_fail e cfg actor (la_id a) (''save: '' @ err_text err) w1)
      | (Inr _, w1) \<Rightarrow>
          (redirect ''/'' 303,
           audit e cfg (entry ''launcher.app.add'' actor (la_id a) ''ok'' (''url='' @ la_url a)) w1))"

definition handle_launcher_add_app :: "env \<Rightarrow> config \<Rightarrow> page handler" where
  "handle_launcher_add_app e cfg r w =
     (let actor = viewer r;
          i = go_trim_space (form_value r ''id'');
          name = go_trim_space (form_value r ''name'');
          u = go_trim_space (form_value r ''url'');
          icon_url = go_trim_space (form_value r ''icon_url'') in
      if rq_method r \<noteq> ''POST'' then (method_not_allowed, w)
      else case rq_form_error r of Some m \<Rightarrow> (http_error (''parse form: '' @ m) 400, w)
    | None \<Rightarrow>
      if \<not> valid_app_id i then
        (http_error ''invalid app id (allowed: lowercase letter, then a-z0-9-, 1..32 chars)'' 400,
         add_fail e cfg actor i ''invalid id'' w)
      else if name = [] \<or> length name > 64 then (http_error ''name required (1..64 chars)'' 400, w)
      else if \<not> valid_app_url u then (http_error ''invalid url (must be http/https)'' 400, w)
      else case load_launcher e (launcher_dir cfg) w of
        Inl err \<Rightarrow> (http_error (''load launcher: '' @ err_text err) 500, w)
      | Inr apps \<Rightarrow>
      if i \<in> la_id ` set apps then
        (http_error (''app already exists: '' @ i) 409, add_fail e cfg actor i ''duplicate'' w)
      else if icon_url = [] then
        add_app e cfg actor apps \<lparr>la_id = i, la_name = name, la_url = u, la_icon = []\<rparr> w
      else (case fetch_icon e (launcher_dir cfg) i icon_url w of
              (Inl err, w1) \<Rightarrow>
                (http_error (''fetch icon: '' @ err_text err) 400,
                 add_fail e cfg actor i (''icon: '' @ err_text err) w1)
            | (Inr icon, w1) \<Rightarrow>
                add_app e cfg actor apps \<lparr>la_id = i, la_name = name, la_url = u, la_icon = icon\<rparr> w1))"

definition handle_launcher_app_delete :: "env \<Rightarrow> config \<Rightarrow> string \<Rightarrow> page handler" where
  "handle_launcher_app_delete e cfg i r w =
     (let actor = viewer r in
      if rq_method r \<noteq> ''POST'' then (method_not_allowed, w)
      else case load_launcher e (launcher_dir cfg) w of
        Inl err \<Rightarrow> (http_error (''load launcher: '' @ err_text err) 500, w)
      | Inr apps \<Rightarrow>
      if i \<notin> la_id ` set apps then (http_error ''app not found'' 404, w)
      else (case save_launcher e (launcher_dir cfg) (filter (\<lambda>a. la_id a \<noteq> i) apps) w of
              (Inl err, w1) \<Rightarrow>
                (http_error (''save launcher: '' @ err_text err) 500,
                 audit e cfg (entry ''launcher.app.delete'' actor i ''fail'' (err_text err)) w1)
            | (Inr _, w1) \<Rightarrow>
                (redirect ''/'' 303,
                 audit e cfg (entry ''launcher.app.delete'' actor i ''ok'' [])
                   (snd (remove_old_icons e (launcher_dir cfg) i w1)))))"

definition handle_launcher_app_sub :: "env \<Rightarrow> config \<Rightarrow> page handler" where
  "handle_launcher_app_sub e cfg r w =
     (let rest = trim_prefix (rq_path r) ''/launcher/apps/'' in
      if rest = [] then (redirect ''/'' 302, w)
      else (let parts = split2 CHR ''/'' rest; i = hd parts;
                action = (if length parts = 2 then parts ! 1 else []) in
        if \<not> valid_app_id i then (http_error ''invalid app id'' 400, w)
        else if action = ''delete'' then handle_launcher_app_delete e cfg i r w
        else (not_found, w)))"

text \<open>\<open>http.ServeFile\<close> of a plain file: its bytes, or 404 when it is missing.\<close>

definition handle_launcher_icon :: "env \<Rightarrow> config \<Rightarrow> page handler" where
  "handle_launcher_icon e cfg r w =
     (let base = trim_prefix (rq_path r) ''/launcher/icons/'' in
      if \<not> re_icon_path base then (not_found, w)
      else (case read_file e (filepath_join [launcher_dir cfg, ''icons'', base]) w of
              Inl err \<Rightarrow>
                (if is_not_exist err then (not_found, w)
                 else (http_error ''500 Internal Server Error'' 500, w))
            | Inr c \<Rightarrow> (respond 200 [] (Text (content_text e c)), w)))"

end
