(* ===== verification/LauncherSpec.thy ===== *)
theory LauncherSpec
  imports LauncherHandlers HttpSpec
begin

text \<open>
  What the launcher promises: which addresses are private (\<open>private_ranges\<close>), that the icon
  client never connects to one (\<open>fetch_icon_no_ssrf\<close>), and what a fetched icon leaves on disk
  (\<open>fetch_icon_stores\<close>). \<open>polite n w w'\<close> says that between two worlds only public addresses
  were connected to and at most \<open>n\<close> requests sent; every step of the client is polite and the
  relation composes.
\<close>

subsection \<open>Private addresses as ranges\<close>

lemma byte_all: "(\<forall>x :: 8 word. P x) \<longleftrightarrow> list_all (\<lambda>n. P (word_of_nat n)) [0..<256]"
proof
  assume l: "list_all (\<lambda>n. P (word_of_nat n)) [0..<256]"
  have "P x" for x :: "8 word"
  proof -
    have "unat x < 256" using unsigned_less [of x, where 'a = nat] by simp
    then have "P (word_of_nat (unat x))" using l unfolding list_all_iff by (metis atLeastLessThan_iff le0 set_upt)
    then show ?thesis by simp
  qed
  then show "\<forall>x. P x" by blast
qed (simp add: list_all_iff)

lemma masked_bytes:
  "x AND 255 = (x :: 8 word)"
  "x AND - 16 = 16 \<longleftrightarrow> 16 \<le> x \<and> x \<le> (31 :: 8 word)"
  "x AND - 64 = 64 \<longleftrightarrow> 64 \<le> x \<and> x \<le> (127 :: 8 word)"
  "x AND - 64 = 128 \<longleftrightarrow> 128 \<le> x \<and> x \<le> (191 :: 8 word)"
  "x AND - 2 = 252 \<longleftrightarrow> 0xFC \<le> x \<and> x \<le> (0xFD :: 8 word)"
proof -
  have "\<forall>x :: 8 word. x AND 255 = x \<and> (x AND - 16 = 16 \<longleftrightarrow> 16 \<le> x \<and> x \<le> 31)
      \<and> (x AND - 64 = 64 \<longleftrightarrow> 64 \<le> x \<and> x \<le> 127) \<and> (x AND - 64 = 128 \<longleftrightarrow> 128 \<le> x \<and> x \<le> 191)
      \<and> (x AND - 2 = 252 \<longleftrightarrow> 0xFC \<le> x \<and> x \<le> 0xFD)"
    unfolding byte_all by code_simp
  then show "x AND 255 = x" "x AND - 16 = 16 \<longleftrightarrow> 16 \<le> x \<and> x \<le> 31"
    "x AND - 64 = 64 \<longleftrightarrow> 64 \<le> x \<and> x \<le> 127" "x AND - 64 = 128 \<longleftrightarrow> 128 \<le> x \<and> x \<le> 191"
    "x AND - 2 = 252 \<longleftrightarrow> 0xFC \<le> x \<and> x \<le> 0xFD"
    by blast+
qed

lemma zeros:
  "replicate 16 (0 :: 8 word) = [0, 0, 0, 0, 0, 0, 0, 0, 0, 0, 0, 0, 0, 0, 0, 0]"
  "replicate 15 (0 :: 8 word) = [0, 0, 0, 0, 0, 0, 0, 0, 0, 0, 0, 0, 0, 0, 0]"
  "replicate 14 (0 :: 8 word) = [0, 0, 0, 0, 0, 0, 0, 0, 0, 0, 0, 0, 0, 0]"
  "replicate 10 (0 :: 8 word) = [0, 0, 0, 0, 0, 0, 0, 0, 0, 0]"
  by (simp_all add: numeral_eq_Suc)

lemma list4: "length v = 4 \<Longrightarrow> \<exists>a b c d. v = [a, b, c, d]"
  by (cases v; cases "tl v"; cases "tl (tl v)"; cases "tl (tl (tl v))") auto

lemma list16: "length v = 16 \<Longrightarrow> \<exists>x0 x1 x2 x3 x4 x5 x6 x7 x8 x9 xa xb xc xd xe xf.
   v = [x0, x1, x2, x3, x4, x5, x6, x7, x8, x9, xa, xb, xc, xd, xe, xf]"
  by (auto simp: numeral_eq_Suc length_Suc_conv)

lemmas private_defs = is_private_ip_def private_blocks_def block_contains_def to4_def is_loopback_def
  is_unspecified_def ip_equal_def mask_byte_def zeros masked_bytes

lemma private_v4:
  "is_private_ip [a, b, c, d] \<longleftrightarrow>
     a \<in> {0, 10, 127} \<or> (a = 172 \<and> 16 \<le> b \<and> b \<le> 31) \<or> (a = 192 \<and> b = 168)
     \<or> (a = 169 \<and> b = 254) \<or> (a = 100 \<and> 64 \<le> b \<and> b \<le> 127)"
  by (simp add: private_defs) blast

lemma private_mapped:
  "is_private_ip (replicate 10 0 @ [255, 255] @ [a, b, c, d]) = is_private_ip [a, b, c, d]"
  by (simp add: private_defs)

lemma private_v6:
  assumes "length a = 16" and "to4 a = None"
  shows "is_private_ip a \<longleftrightarrow>
     (take 15 a = replicate 15 0 \<and> a ! 15 \<le> 1)
     \<or> (0xFC \<le> a ! 0 \<and> a ! 0 \<le> 0xFD) \<or> (a ! 0 = 0xFE \<and> 0x80 \<le> a ! 1 \<and> a ! 1 \<le> 0xBF)"
proof -
  obtain x0 x1 x2 x3 x4 x5 x6 x7 x8 x9 xa xb xc xd xe xf where
    a: "a = [x0, x1, x2, x3, x4, x5, x6, x7, x8, x9, xa, xb, xc, xd, xe, xf]"
    using list16 [OF assms(1)] by blast
  have "\<forall>x :: 8 word. x \<le> 1 \<longleftrightarrow> x = 0 \<or> x = 1" unfolding byte_all by code_simp
  then have le1: "x \<le> 1 \<longleftrightarrow> x = 0 \<or> x = 1" for x :: "8 word" by blast
  show ?thesis using assms(2) unfolding a
    by (simp add: private_defs le1) blast
qed

text \<open>C20. The addresses refused are exactly the documented ranges: for IPv4 the networks 0/8,
  10/8, 127/8, 172.16/12, 192.168/16, 169.254/16 and 100.64/10, the same for their IPv6-mapped
  forms, and for every other IPv6 address the unspecified one, the loopback, fc00::/7 and
  fe80::/10.\<close>

theorem private_ranges:
  assumes "length v6 = 16" and "to4 v6 = None"
  shows "(is_private_ip [a, b, c, d] \<longleftrightarrow>
       a \<in> {0, 10, 127} \<or> (a = 172 \<and> 16 \<le> b \<and> b \<le> 31) \<or> (a = 192 \<and> b = 168)
       \<or> (a = 169 \<and> b = 254) \<or> (a = 100 \<and> 64 \<le> b \<and> b \<le> 127))
    \<and> is_private_ip (replicate 10 0 @ [255, 255] @ [a, b, c, d]) = is_private_ip [a, b, c, d]
    \<and> (is_private_ip v6 \<longleftrightarrow>
       (take 15 v6 = replicate 15 0 \<and> v6 ! 15 \<le> 1)
       \<or> (0xFC \<le> v6 ! 0 \<and> v6 ! 0 \<le> 0xFD) \<or> (v6 ! 0 = 0xFE \<and> 0x80 \<le> v6 ! 1 \<and> v6 ! 1 \<le> 0xBF))"
  by (intro conjI private_v4 private_mapped private_v6 [OF assms])

theorem private_ranges_witness:
  "is_private_ip [172, 20, 1, 2] \<and> \<not> is_private_ip [172, 32, 1, 2]
     \<and> is_private_ip (replicate 10 0 @ [255, 255] @ [127, 0, 0, 1])
     \<and> is_private_ip (0xFE # 0x90 # replicate 14 1)"
proof -
  have v: "length (0xFE # 0x90 # replicate 14 1 :: ip) = 16" "to4 (0xFE # 0x90 # replicate 14 1 :: ip) = None"
    by (simp_all add: to4_def zeros)
  show ?thesis
    using private_ranges [OF v, of 172 20 1 2] private_ranges [OF v, of 172 32 1 2]
      private_ranges [OF v, of 127 0 0 1] by simp
qed

subsection \<open>What the client did\<close>

text \<open>Only public addresses were connected to, and at most \<open>n\<close> requests sent.\<close>

abbreviation polite :: "nat \<Rightarrow> world \<Rightarrow> world \<Rightarrow> bool" where
  "polite \<equiv> net_within (\<lambda>a. \<not> is_private_ip a)"

interpretation icon: dial_policy dial_control "\<lambda>a. \<not> is_private_ip a"
  by unfold_locales (simp add: dial_control_def split: if_splits)

lemma polite_get_once: "polite 1 w (snd (get_once e u w))"
  unfolding get_once_def by (rule icon.send_within)

lemma polite_check_redirect: "polite 0 w (snd (check_redirect e via u w))"
  using within_lookup [of _ w e]
  by (auto simp: check_redirect_def split: option.splits sum.splits prod.splits) (metis snd_conv)+

lemma polite_http_follow: "via < 3 \<Longrightarrow> polite (3 - via) w (snd (http_follow e via u w))"
proof (induction e via u w rule: http_follow.induct)
  case (1 e via u w)
  obtain r w1 where g: "get_once e u w = (r, w1)" by fastforce
  from polite_get_once [of w e u] g have p1: "polite 1 w w1" by simp
  have up: "polite (3 - via) w v" if "polite 0 w1 v" for v
    by (rule within_trans [OF p1 that]) (use 1(2) in simp)
  show ?case
  proof (cases "\<exists>rep u2. r = Inr rep \<and> is_redirect rep \<and> url_ref e u (location_of rep) = Inr u2")
    case False
    then show ?thesis using g up [OF within_refl]
      by (subst http_follow.simps) (auto split: sum.splits)
  next
    case True
    then obtain rep u2 where r: "r = Inr rep" "is_redirect rep" "url_ref e u (location_of rep) = Inr u2" by blast
    obtain c w2 where c: "check_redirect e (Suc via) u2 w1 = (c, w2)" by fastforce
    from polite_check_redirect [of w1 e "Suc via" u2] c have p2: "polite 0 w1 w2" by simp
    show ?thesis
    proof (cases c)
      case (Inl err)
      then show ?thesis using g r c up [OF p2] by (subst http_follow.simps) simp
    next
      case (Inr x)
      have "Suc via < 3" using c Inr by (auto simp: check_redirect_def split: if_splits)
      with 1(1) g r c Inr have 3: "polite (3 - Suc via) w2 (snd (http_follow e (Suc via) u2 w2))" by simp
      have "polite (3 - via) w (snd (http_follow e (Suc via) u2 w2))"
        by (rule within_trans [OF within_trans [OF p1 p2 order_refl] 3]) (use \<open>Suc via < 3\<close> in simp)
      then show ?thesis using g r c Inr by (subst http_follow.simps) simp
    qed
  qed
qed

lemma net_remove_icons [frame_simps]: "net (snd (remove_icons e dir i xs w)) = net w"
  by (induction xs arbitrary: w)
     (auto simp: frame_simps split: prod.splits sum.splits, (metis net_frame(3) snd_conv)+)

lemma net_store_icon [frame_simps]: "net (snd (store_icon e dir i ext r w)) = net w"
  by (auto simp: store_icon_def remove_old_icons_def Let_def frame_simps split: prod.splits sum.splits option.splits)
     (metis net_frame net_remove_icons snd_conv)+

text \<open>C18. Whatever the name servers answer and wherever the redirects lead, fetching an icon never
  opens a connection to a private, loopback or link-local address, and it sends at most three
  requests.\<close>

theorem fetch_icon_no_ssrf:
  "\<exists>evs. net (snd (fetch_icon e dir i raw w)) = net w @ evs
     \<and> {a. \<exists>p. Dial a p \<in> set evs} \<inter> Collect is_private_ip = {}
     \<and> length (filter is_call evs) \<le> 3"
proof -
  obtain r w1 where f: "http_follow e 0 raw w = (r, w1)" by fastforce
  from polite_http_follow [of 0 w e raw] f have p: "polite 3 w w1" by simp
  then obtain evs where e: "net w1 = net w @ evs" "\<forall>a p. Dial a p \<in> set evs \<longrightarrow> \<not> is_private_ip a"
    "length (filter is_call evs) \<le> 3"
    by (auto simp: net_within_def)
  have "net (snd (store_icon e dir i ext rep w1)) = net w1" for ext rep by (simp add: frame_simps)
  with f have "net (snd (fetch_icon e dir i raw w)) \<in> {net w, net w1}"
    by (auto simp: fetch_icon_def split: sum.splits)
  then show ?thesis
  proof
    assume "net (snd (fetch_icon e dir i raw w)) = net w"
    then show ?thesis by (intro exI [of _ "[]"]) simp
  qed (use e in \<open>auto intro!: exI [of _ evs]\<close>)
qed


subsection \<open>The stored icon\<close>

lemma files_get_once [frame_simps]: "files (snd (get_once e u w)) = files w"
  by (simp add: get_once_def frame_simps)

lemma files_check_redirect [frame_simps]: "files (snd (check_redirect e via u w)) = files w"
  by (auto simp: check_redirect_def split: option.splits prod.splits sum.splits) (metis net_frame snd_conv)+

lemma files_http_follow [frame_simps]: "files (snd (http_follow e via u w)) = files w"
proof (induction e via u w rule: http_follow.induct)
  case (1 e via u w)
  obtain r w1 where g: "get_once e u w = (r, w1)" by fastforce
  have f1: "files w1 = files w" using files_get_once [of e u w] g by simp
  have "files (snd (check_redirect e v u2 w1)) = files w" for v u2 by (simp add: files_check_redirect f1)
  with 1 g f1 show ?case by (subst http_follow.simps) (auto split: sum.splits prod.splits, (metis snd_conv)+)
qed

definition icon_tmp :: "string \<Rightarrow> string \<Rightarrow> string" where
  "icon_tmp dir i = filepath_join [dir, ''icons'', i @ ''.fetch.tmp'']"

lemma remove_icons_frame:
  "q \<notin> icon_file dir i ` set xs \<Longrightarrow> files (snd (remove_icons e dir i xs w)) q = files w q"
proof (induction xs arbitrary: w)
  case (Cons x xs)
  then have ne: "q \<noteq> icon_file dir i x" and ih: "files (snd (remove_icons e dir i xs v)) q = files v q" for v by auto
  obtain r v where r: "remove_file e (icon_file dir i x) w = (r, v)" by fastforce
  have "files v q = files w q" using remove_file_frame(1) [OF ne, of e w] r by simp
  with r ih show ?case by (auto split: sum.splits)
qed simp

lemma remove_icons_only_removes:
  "files (snd (remove_icons e dir i xs w)) q = None \<or> files (snd (remove_icons e dir i xs w)) q = files w q"
proof (induction xs arbitrary: w)
  case (Cons x xs)
  obtain r v where r: "remove_file e (icon_file dir i x) w = (r, v)" by fastforce
  have "files v q = None \<or> files v q = files w q"
    using r by (auto simp: remove_file_def split: option.splits if_splits)
  with r Cons.IH [of v] show ?case by (auto split: sum.splits)
qed simp

lemma store_icon_frame:
  assumes "q \<notin> icon_file dir i ` insert ext (set icon_exts)" and "q \<noteq> icon_tmp dir i"
  shows "files (snd (store_icon e dir i ext r w)) q = files w q"
proof -
  have ri: "files (snd (remove_old_icons e dir i v)) q = files v q" for v
    unfolding remove_old_icons_def by (rule remove_icons_frame) (use assms in auto)
  have rm: "files (snd (remove_file e (icon_tmp dir i) v)) q = files v q" for v
    by (rule remove_file_frame(1) [OF assms(2)])
  have rn: "files (snd (rename_file e (icon_tmp dir i) (icon_file dir i ext) v)) q = files v q" for v
    by (rule rename_file_frame(1)) (use assms in auto)
  have wr: "files (snd (write_file e (icon_tmp dir i) c v)) q = files v q" for c v
    by (rule write_file_frame(1) [OF assms(2)])
  show ?thesis
    unfolding store_icon_def Let_def icon_tmp_def [symmetric]
    using ri rm rn wr
    by (auto split: sum.splits prod.splits option.splits) (metis snd_conv)+
qed

lemma fetch_icon_files:
  assumes "fetch_icon e dir i raw w = (r, w')"
  shows "(\<forall>q. q \<notin> insert (icon_tmp dir i) (icon_file dir i ` set icon_exts) \<longrightarrow> files w' q = files w q)
    \<and> (case r of Inl _ \<Rightarrow> True
       | Inr path \<Rightarrow> \<exists>ext b. ext \<in> set icon_exts \<and> path = ''icons/'' @ i @ ''.'' @ ext
           \<and> files w' (icon_file dir i ext) = Some (File (Bytes b)) \<and> length b \<le> 256 * 1024
           \<and> detect_image_type (take 512 b) = Inr ext)"
proof -
  obtain rep w1 where f: "http_follow e 0 raw w = (rep, w1)" by fastforce
  have f1: "files w1 = files w" using files_http_follow [of e 0 raw w] f by simp
  have ext: "detect_image_type p = Inr x \<Longrightarrow> x \<in> set icon_exts" for p x
    by (auto simp: detect_image_type_def icon_exts_def split: if_splits)
  show ?thesis
  proof (cases "\<exists>hr x. rep = Inr hr \<and> detect_image_type (take 512 (hr_body hr)) = Inr x
                  \<and> fetch_icon e dir i raw w = store_icon e dir i x hr w1")
    case False
    have "\<exists>err. fetch_icon e dir i raw w = (Inl err, w) \<or> fetch_icon e dir i raw w = (Inl err, w1)"
      using f False by (auto simp: fetch_icon_def split: sum.splits if_splits)
    with assms f1 show ?thesis by auto
  next
    case True
    then obtain hr x where h: "rep = Inr hr" "detect_image_type (take 512 (hr_body hr)) = Inr x"
      and s: "store_icon e dir i x hr w1 = (r, w')" using assms by auto
    have x: "x \<in> set icon_exts" by (rule ext [OF h(2)])
    have fr: "files w' q = files w q"
      if "q \<notin> insert (icon_tmp dir i) (icon_file dir i ` set icon_exts)" for q
      using store_icon_frame [of q dir i x e hr w1] that x s f1 by auto
    show ?thesis
    proof (cases r)
      case (Inr path)
      let ?b = "take (max_icon_bytes + 1) (hr_body hr)"
      obtain w2 u where wr: "write_file e (icon_tmp dir i) (Bytes ?b) w1 = (Inr u, w2)" and le: "length ?b \<le> max_icon_bytes"
        using s Inr unfolding store_icon_def Let_def icon_tmp_def [symmetric]
        by (auto split: sum.splits prod.splits if_splits)
      obtain w3 u2 where ro: "remove_old_icons e dir i w2 = (Inr u2, w3)"
        using s Inr wr le unfolding store_icon_def Let_def icon_tmp_def [symmetric]
        by (auto split: sum.splits prod.splits option.splits if_splits)
      have rn: "rename_file e (icon_tmp dir i) (icon_file dir i x) w3 = (Inr (), w')"
        and p: "path = ''icons/'' @ i @ ''.'' @ x"
        using s Inr wr le ro unfolding store_icon_def Let_def icon_tmp_def [symmetric]
        by (auto split: sum.splits prod.splits option.splits if_splits)
      have t2: "files w2 (icon_tmp dir i) = Some (File (Bytes ?b))"
        using wr by (auto simp: write_file_def split: option.splits if_splits)
      have "files w3 (icon_tmp dir i) = None \<or> files w3 (icon_tmp dir i) = files w2 (icon_tmp dir i)"
        using remove_icons_only_removes [of e dir i icon_exts w2] ro by (auto simp: remove_old_icons_def)
      then have "files w' (icon_file dir i x) = Some (File (Bytes ?b))"
        using rn t2 by (auto simp: rename_file_def split: option.splits)
      moreover have "?b = hr_body hr" using le by (simp add: max_icon_bytes_def)
      ultimately show ?thesis using fr Inr x p h(2) le by (auto simp: max_icon_bytes_def)
    qed (use fr in auto)
  qed
qed


text \<open>When an icon is accepted, the file it names exists under the launcher's icon directory,
  holds at most 256 KiB, starts with the magic number of the format in its extension, and no
  file was touched but the icons of this application and the download's temporary file. When it
  is refused, every other file is as before as well.\<close>

theorem fetch_icon_stores:
  assumes "fetch_icon e dir i raw w = (r, w')"
  shows "(\<forall>q. q \<notin> insert (icon_tmp dir i) (icon_file dir i ` set icon_exts) \<longrightarrow> files w' q = files w q)
    \<and> (case r of Inl _ \<Rightarrow> True
       | Inr path \<Rightarrow> \<exists>ext b. ext \<in> set icon_exts \<and> path = ''icons/'' @ i @ ''.'' @ ext
           \<and> files w' (icon_file dir i ext) = Some (File (Bytes b)) \<and> length b \<le> 256 * 1024
           \<and> detect_image_type (take 512 b) = Inr ext)"
  using fetch_icon_files [OF assms] .

definition sample_png :: string where
  "sample_png = [CHR 0x89, CHR ''P'', CHR ''N'', CHR ''G'', CHR 0x0D, CHR 0x0A, CHR 0x1A, CHR 0x0A, CHR ''x'']"

definition png_env :: env where
  "png_env = calm_env\<lparr>net_lookup := (\<lambda>_ _. Inr [[10, 0, 0, 1], [93, 184, 216, 34]]),
     net_call := (\<lambda>_ _. Inr \<lparr>hr_status = 200, hr_headers = [], hr_body = sample_png, hr_read_error = None\<rparr>)\<rparr>"

theorem fetch_icon_stores_witness:
  "\<exists>w'. fetch_icon png_env ''/l'' ''app'' ''http://x.org/i.png'' blank_world = (Inr ''icons/app.png'', w')
     \<and> (\<exists>ext b. files w' (icon_file ''/l'' ''app'' ext) = Some (File (Bytes b)) \<and> length b \<le> 256 * 1024
           \<and> detect_image_type (take 512 b) = Inr ext)"
proof -
  have u: "url_parse ''http://x.org/i.png'' = Some \<lparr>u_scheme = ''http'', u_opaque = False, u_host = ''x.org''\<rparr>"
    by code_simp
  have h: "split_host_port ''x.org'' = (''x.org'', [])" by code_simp
  have g: "get_once png_env ''http://x.org/i.png'' blank_world
      = (Inr \<lparr>hr_status = 200, hr_headers = [], hr_body = sample_png, hr_read_error = None\<rparr>,
         blank_world\<lparr>net := net (snd (get_once png_env ''http://x.org/i.png'' blank_world))\<rparr>)"
    by (simp add: get_once_def send_once_def u h url_hostname_def url_port_def lookup_ip_def png_env_def dial_ip_def
        send_http_def dial_control_def private_v4 calm_env_def blank_world_def)
  then obtain evs where g: "get_once png_env ''http://x.org/i.png'' blank_world
      = (Inr \<lparr>hr_status = 200, hr_headers = [], hr_body = sample_png, hr_read_error = None\<rparr>, blank_world\<lparr>net := evs\<rparr>)"
    by blast
  have f: "http_follow png_env 0 ''http://x.org/i.png'' blank_world
      = (Inr \<lparr>hr_status = 200, hr_headers = [], hr_body = sample_png, hr_read_error = None\<rparr>, blank_world\<lparr>net := evs\<rparr>)"
    by (subst http_follow.simps) (simp add: is_redirect_def g)
  have v: "valid_app_url ''http://x.org/i.png''" by (simp add: valid_app_url_def u)
  have d: "detect_image_type sample_png = Inr ''png''" by code_simp
  have p: "filepath_join [''/l'', ''icons'', ''app.fetch.tmp''] = ''/l/icons/app.fetch.tmp''" "icon_file ''/l'' ''app'' ''png'' = ''/l/icons/app.png''"
    "icon_file ''/l'' ''app'' ''jpg'' = ''/l/icons/app.jpg''" "icon_file ''/l'' ''app'' ''webp'' = ''/l/icons/app.webp''"
    "icon_file ''/l'' ''app'' ''gif'' = ''/l/icons/app.gif''"
    by code_simp+
  have nf: "io_fault png_env q = None" for q by (simp add: png_env_def)
  have l: "length sample_png = 9" by (simp add: sample_png_def)
  have c: "fst (fetch_icon png_env ''/l'' ''app'' ''http://x.org/i.png'' blank_world) = Inr ''icons/app.png''"
    using d l by (simp add: fetch_icon_def v f store_icon_def Let_def p max_icon_bytes_def nf
        write_file_def remove_old_icons_def icon_exts_def remove_file_def rename_file_def)
  obtain w' where f: "fetch_icon png_env ''/l'' ''app'' ''http://x.org/i.png'' blank_world = (Inr ''icons/app.png'', w')"
    using c by (metis prod.collapse)
  from fetch_icon_stores [OF f] f show ?thesis by auto
qed
end
