(* ===== verification/DocStore.thy ===== *)
theory DocStore
  imports World
begin

text \<open>
  The contract of a document kept in one file: \<open>load\<close> reads it, \<open>save\<close> replaces it. After a
  successful save the next load gives the saved document (as \<open>view\<close> shows it: a store may stamp
  what it writes); a failed save changes nothing a load can see. The launcher's list and the
  wizard's state are such documents. A client keeps an invariant of the document by keeping it
  in what it saves.
\<close>

locale doc_store =
  fixes load :: "'w \<Rightarrow> 'd res"
    and save :: "'d \<Rightarrow> 'w \<Rightarrow> unit res \<times> 'w"
    and view :: "'w \<Rightarrow> 'd \<Rightarrow> 'd"
    and ok :: "'d \<Rightarrow> bool"
    and ready :: bool
  assumes load_saved: "ready \<Longrightarrow> ok d \<Longrightarrow> save d w = (Inr (), w') \<Longrightarrow> load w' = Inr (view w d)"
    and load_failed: "ready \<Longrightarrow> save d w = (Inl err, w') \<Longrightarrow> load w' = load w"
begin

text \<open>The outcomes of a save, as a client sees them.\<close>

lemma after_save:
  "ready \<Longrightarrow> ok d \<Longrightarrow> load (snd (save d w)) = load w \<or> load (snd (save d w)) = Inr (view w d)"
  by (cases "save d w"; cases "fst (save d w)") (auto dest: load_failed load_saved)

text \<open>A client that loads, changes and saves keeps every property its change keeps.\<close>

lemma modify_keeps:
  assumes "ready" and "load w = Inr d" and "P d" and "ok (f d)" and "P (view w (f d))"
  shows "\<exists>d'. load (snd (save (f d) w)) = Inr d' \<and> P d'"
  using after_save [OF assms(1,4), of w] assms(2,3,5) by auto

text \<open>The last of two saves counts.\<close>

lemma save_twice:
  assumes "ready" and "ok d" and "ok d2" and "save d w = (Inr (), w1)" and "save d2 w1 = (r, w2)"
  shows "load w2 = Inr (view w d) \<or> load w2 = Inr (view w1 d2)"
  using after_save [OF assms(1,3), of w1] load_saved [OF assms(1,2,4)] assms(5) by auto

end

end
