(* ===== verification/LauncherStore.thy ===== *)
theory LauncherStore
  imports LauncherSpec DocStore PeerSpec
begin

text \<open>
  The launcher's file as a document store, and the invariant of the list of applications under
  every sequence of requests.
\<close>

lemma fold_opt_collect:
  "(\<And>x. x \<in> set xs \<Longrightarrow> f (g x) = Some x) \<Longrightarrow>
   fold_opt (\<lambda>y acc. map_option (\<lambda>a. acc @ [a]) (f y)) (map g xs) acc = Some (acc @ xs)"
  by (induction xs arbitrary: acc) auto

lemma app_keys:
  "go_to_lower ''id'' = ''id''" "go_to_lower ''name'' = ''name''" "go_to_lower ''url'' = ''url''"
  "go_to_lower ''icon'' = ''icon''"
  by code_simp+

lemma decode_app_json: "decode_app (app_json a) = Some a"
  by (simp add: decode_app_def app_json_def decode_app_field_def decode_string_def zero_app_def
      app_keys Let_def del: go_to_lower.simps)

lemma decode_apps_json: "decode_apps (JArr (map app_json apps)) = Some apps"
  using fold_opt_collect [of apps decode_app app_json "[]"] by (simp add: decode_apps_def decode_app_json)

lemma base_apps_path: "base_name (apps_path dir) = ''apps.json''"
  using base_name_filepath_join [of "''apps.json''" "[dir]"] by (simp add: apps_path_def plain_comp_def)

lemma base_apps_tmp: "base_name (filepath_join [dir, ''apps.json.tmp'']) = ''apps.json.tmp''"
  using base_name_filepath_join [of "''apps.json.tmp''" "[dir]"] by (simp add: plain_comp_def)

lemma apps_tmp_neq: "filepath_join [dir, ''apps.json.tmp''] \<noteq> apps_path dir"
  using base_apps_path [of dir] base_apps_tmp [of dir] by force

lemma load_launcher_cong:
  "files w' (apps_path dir) = files w (apps_path dir) \<Longrightarrow> load_launcher e dir w' = load_launcher e dir w"
  using read_file_cong [of w' "apps_path dir" w e] by (simp add: load_launcher_def)

lemma save_launcher_saved:
  assumes "io_fault e (OpRead (apps_path dir)) = None" and "save_launcher e dir apps w = (Inr (), w')"
  shows "load_launcher e dir w' = Inr apps"
proof -
  have "files w' (apps_path dir) = Some (File (Json (JArr (map app_json apps))))"
    using assms(2) by (auto simp: save_launcher_def Let_def write_file_def rename_file_def
        split: option.splits if_splits)
  with assms(1) show ?thesis
    by (simp add: load_launcher_def read_file_def content_json_def decode_apps_json)
qed

lemma save_launcher_failed:
  assumes "save_launcher e dir apps w = (Inl err, w')"
  shows "load_launcher e dir w' = load_launcher e dir w"
proof (rule load_launcher_cong)
  show "files w' (apps_path dir) = files w (apps_path dir)"
    using assms apps_tmp_neq [of dir]
    by (auto simp: save_launcher_def Let_def write_file_def rename_file_def split: option.splits if_splits)
qed

interpretation la: doc_store "load_launcher e dir" "save_launcher e dir" "\<lambda>_ apps. apps" "\<lambda>_. True"
    "io_fault e (OpRead (apps_path dir)) = None" for e dir
  by unfold_locales (rule save_launcher_saved, assumption+, rule save_launcher_failed)

subsection \<open>The invariant\<close>

definition app_ok :: "launcher_app \<Rightarrow> bool" where
  "app_ok a \<longleftrightarrow> valid_app_id (la_id a) \<and> la_name a \<noteq> [] \<and> length (la_name a) \<le> 64 \<and> valid_app_url (la_url a)
     \<and> (la_icon a = [] \<or> (\<exists>ext \<in> set icon_exts. la_icon a = ''icons/'' @ la_id a @ ''.'' @ ext))"

definition apps_ok :: "launcher_app list \<Rightarrow> bool" where
  "apps_ok apps \<longleftrightarrow> distinct (map la_id apps) \<and> list_all app_ok apps"

lemma valid_app_id_no_sep: "valid_app_id i \<Longrightarrow> CHR ''/'' \<notin> set i \<and> i \<noteq> []"
  by (cases i) (auto simp: valid_app_id_def list_all_iff id_char_def is_lower_def is_digit_def)

lemma valid_app_id_plain: "valid_app_id i \<Longrightarrow> CHR ''/'' \<notin> set x \<Longrightarrow> plain_comp (i @ x)"
  using valid_app_id_no_sep [of i]
  by (cases i) (auto simp: valid_app_id_def plain_comp_def is_lower_def)

lemma icon_paths_not_apps:
  assumes "valid_app_id i"
  shows "apps_path dir \<notin> insert (icon_tmp dir i) (icon_file dir i ` set icon_exts)"
proof
  assume "apps_path dir \<in> insert (icon_tmp dir i) (icon_file dir i ` set icon_exts)"
  then obtain x where x: "apps_path dir = filepath_join [dir, ''icons'', i @ x]"
    "x \<in> {''.fetch.tmp'', ''.png'', ''.jpg'', ''.webp'', ''.gif''}"
    by (auto simp: icon_tmp_def icon_file_def icon_exts_def)
  then have "CHR ''/'' \<notin> set x" by auto
  then have "base_name (filepath_join ([dir, ''icons''] @ [i @ x])) = i @ x"
    by (intro base_name_filepath_join valid_app_id_plain assms)
  with x(1) base_apps_path [of dir] have "i @ x = ''apps.json''" by simp
  then have "last (i @ x) = CHR ''n''" by simp
  with x(2) show False by auto
qed

lemma audit_not_apps: "audit_path cfg \<noteq> apps_path dir"
  using base_name_filepath_join [of "''peers-audit.log''" "[awg_dir cfg]"] base_apps_path [of dir]
  by (auto simp: audit_path_def plain_comp_def)

lemma load_launcher_audit [simp]: "load_launcher e dir (audit e' cfg x w) = load_launcher e dir w"
  using audit_not_apps [of cfg dir] by (intro load_launcher_cong) (simp add: audit_def frame_simps)

lemma load_launcher_fetch:
  assumes "valid_app_id i" and "fetch_icon e dir i u w = (r, w')"
  shows "load_launcher e' dir w' = load_launcher e' dir w"
    and "r = Inr icon \<Longrightarrow> \<exists>ext \<in> set icon_exts. icon = ''icons/'' @ i @ ''.'' @ ext"
  using fetch_icon_files [OF assms(2)] icon_paths_not_apps [OF assms(1), of dir]
  by (auto intro: load_launcher_cong)

lemma load_launcher_remove_icons:
  assumes "valid_app_id i"
  shows "load_launcher e' dir (snd (remove_old_icons e dir i w)) = load_launcher e' dir w"
  using icon_paths_not_apps [OF assms, of dir]
  by (intro load_launcher_cong) (simp add: remove_old_icons_def remove_icons_frame)

lemma load_launcher_view: "load_launcher e' dir (snd (handle_launcher e cfg r w)) = load_launcher e' dir w"
proof (rule load_launcher_cong)
  have "files (snd (render_launcher e cfg [] r w)) = files w"
    unfolding render_launcher_def by (rule files_with_token) (auto simp: Let_def split: sum.splits)
  then show "files (snd (handle_launcher e cfg r w)) (apps_path dir) = files w (apps_path dir)"
    by (simp add: handle_launcher_def)
qed

lemma load_launcher_add_app:
  assumes "io_fault e (OpRead (apps_path (launcher_dir cfg))) = None"
    and "load_launcher e (launcher_dir cfg) w = Inr apps" and "apps_ok apps"
    and "app_ok a" and "la_id a \<notin> la_id ` set apps"
  shows "\<exists>d. load_launcher e (launcher_dir cfg) (snd (add_app e cfg actor apps a w)) = Inr d \<and> apps_ok d"
proof -
  have "apps_ok (apps @ [a])" using assms(3-5) by (auto simp: apps_ok_def)
  with la.modify_keeps [OF assms(1,2), where P = apps_ok and f = "\<lambda>x. x @ [a]"] assms(3) show ?thesis
    by (auto simp: add_app_def add_fail_def split: prod.splits sum.splits)
qed

lemma add_keeps_apps_ok:
  assumes "io_fault e (OpRead (apps_path (launcher_dir cfg))) = None"
    and l: "load_launcher e (launcher_dir cfg) w = Inr apps" and ok: "apps_ok apps"
  shows "\<exists>d. load_launcher e (launcher_dir cfg) (snd (handle_launcher_add_app e cfg r w)) = Inr d \<and> apps_ok d"
proof -
  let ?i = "go_trim_space (form_value r ''id'')" and ?n = "go_trim_space (form_value r ''name'')"
  let ?u = "go_trim_space (form_value r ''url'')" and ?c = "go_trim_space (form_value r ''icon_url'')"
  let ?a = "\<lambda>icon. \<lparr>la_id = ?i, la_name = ?n, la_url = ?u, la_icon = icon\<rparr>"
  show ?thesis
  proof (cases "rq_method r = ''POST'' \<and> rq_form_error r = None \<and> valid_app_id ?i \<and> ?n \<noteq> [] \<and> length ?n \<le> 64
      \<and> valid_app_url ?u \<and> ?i \<notin> la_id ` set apps")
    case False
    then show ?thesis using l ok
      by (auto simp: handle_launcher_add_app_def Let_def add_fail_def split: option.splits)
  next
    case True
    then have v: "valid_app_id ?i" by blast
    have a: "app_ok (?a icon)" if "icon = [] \<or> (\<exists>ext \<in> set icon_exts. icon = ''icons/'' @ ?i @ ''.'' @ ext)" for icon
      using True that by (simp add: app_ok_def)
    show ?thesis
    proof (cases "?c = []")
      case empty: True
      have "handle_launcher_add_app e cfg r w = add_app e cfg (viewer r) apps (?a []) w"
        using True empty l by (simp add: handle_launcher_add_app_def)
      moreover have "\<exists>d. load_launcher e (launcher_dir cfg) (snd (add_app e cfg (viewer r) apps (?a []) w)) = Inr d \<and> apps_ok d"
        by (rule load_launcher_add_app [OF assms(1) l ok a]) (use True in auto)
      ultimately show ?thesis by simp
    next
      case False
      obtain f w1 where f: "fetch_icon e (launcher_dir cfg) ?i ?c w = (f, w1)" by fastforce
      from load_launcher_fetch(1) [OF v f] l have l1: "load_launcher e (launcher_dir cfg) w1 = Inr apps" by simp
      show ?thesis
      proof (cases f)
        case (Inl err)
        with True False l f l1 ok show ?thesis by (simp add: handle_launcher_add_app_def add_fail_def)
      next
        case (Inr icon)
        have "handle_launcher_add_app e cfg r w = add_app e cfg (viewer r) apps (?a icon) w1"
          using True False l f Inr by (simp add: handle_launcher_add_app_def)
        moreover have "\<exists>d. load_launcher e (launcher_dir cfg) (snd (add_app e cfg (viewer r) apps (?a icon) w1)) = Inr d \<and> apps_ok d"
          by (rule load_launcher_add_app [OF assms(1) l1 ok a]) (use True load_launcher_fetch(2) [OF v f Inr] in auto)
        ultimately show ?thesis by simp
      qed
    qed
  qed
qed

lemma delete_keeps_apps_ok:
  assumes "io_fault e (OpRead (apps_path (launcher_dir cfg))) = None"
    and l: "load_launcher e (launcher_dir cfg) w = Inr apps" and ok: "apps_ok apps" and "valid_app_id i"
  shows "\<exists>d. load_launcher e (launcher_dir cfg) (snd (handle_launcher_app_delete e cfg i r w)) = Inr d \<and> apps_ok d"
proof -
  have "distinct (map la_id (filter P xs))" if "distinct (map la_id xs)" for P and xs :: "launcher_app list"
    using that by (induction xs) auto
  then have "apps_ok (filter (\<lambda>a. la_id a \<noteq> i) apps)" using ok by (auto simp: apps_ok_def list_all_iff)
  with la.modify_keeps [OF assms(1) l, where P = apps_ok and f = "filter (\<lambda>a. la_id a \<noteq> i)"] ok l
    load_launcher_remove_icons [OF assms(4)]
  show ?thesis by (auto simp: handle_launcher_app_delete_def Let_def split: prod.splits sum.splits)
qed

lemma sub_keeps_apps_ok:
  assumes "io_fault e (OpRead (apps_path (launcher_dir cfg))) = None"
    and "load_launcher e (launcher_dir cfg) w = Inr apps" and "apps_ok apps"
  shows "\<exists>d. load_launcher e (launcher_dir cfg) (snd (handle_launcher_app_sub e cfg r w)) = Inr d \<and> apps_ok d"
  using delete_keeps_apps_ok [OF assms, of _ r] assms(2,3)
  by (auto simp: handle_launcher_app_sub_def Let_def)

text \<open>The steps of the running server, as the launcher sees them: its own handlers, and any other
  handler, which leaves the launcher's file alone.\<close>

inductive launcher_step :: "env \<Rightarrow> config \<Rightarrow> world \<Rightarrow> world \<Rightarrow> bool" for e cfg where
  add: "launcher_step e cfg w (snd (handle_launcher_add_app e cfg r w))"
| sub: "launcher_step e cfg w (snd (handle_launcher_app_sub e cfg r w))"
| view: "launcher_step e cfg w (snd (handle_launcher e cfg r w))"
| other: "files w' (apps_path (launcher_dir cfg)) = files w (apps_path (launcher_dir cfg)) \<Longrightarrow> launcher_step e cfg w w'"

inductive_cases launcher_stepE [consumes 1, case_names add sub view other]: "launcher_step e cfg w w'"


subsection \<open>The first start\<close>

definition domain_char :: "char \<Rightarrow> bool" where
  "domain_char c \<longleftrightarrow> is_alpha c \<or> is_digit c \<or> c = CHR ''.'' \<or> c = CHR ''-''"

lemma domain_char_plain:
  "domain_char c \<Longrightarrow> c \<notin> set ''#?/%@:[]'' \<and> \<not> is_ctl c \<and> host_char c"
  by (auto simp: domain_char_def is_alpha_def is_digit_def is_lower_def is_upper_def is_ctl_def host_char_def)

lemma unescape_plain:
  assumes "\<forall>c \<in> set s. c \<noteq> CHR ''%'' \<and> (host_char c \<or> m \<notin> {UrlHost, UrlZone})"
  shows "unescape m s = Some s"
  using assms by (induction s) auto

lemma split_last_none: "c \<notin> set s \<Longrightarrow> split_last c s = None"
  by (simp add: split_last_def)

lemma url_parse_https:
  assumes "list_all domain_char h" and "h \<noteq> []" and "list_all (\<lambda>c. domain_char c \<or> c = CHR ''/'') p"
  shows "url_parse (''https://'' @ h @ CHR ''/'' # p) = Some \<lparr>u_scheme = ''https'', u_opaque = False, u_host = h\<rparr>"
proof -
  have h: "\<forall>c \<in> set h. c \<notin> set ''#?/%@:[]'' \<and> \<not> is_ctl c \<and> host_char c"
    using assms(1) domain_char_plain unfolding list_all_iff by blast
  have p': "c \<notin> set ''#?%@:[]'' \<and> \<not> is_ctl c" if "c \<in> set p" for c
  proof (cases "c = CHR ''/''")
    case False
    with that assms(3) have "domain_char c" unfolding list_all_iff by blast
    from domain_char_plain [OF this] show ?thesis by simp
  qed (simp add: is_ctl_def)
  then have p: "\<forall>c \<in> set p. c \<notin> set ''#?%@:[]'' \<and> \<not> is_ctl c" by blast
  have frag: "split2 CHR ''#'' (''https://'' @ h @ CHR ''/'' # p) = [''https://'' @ h @ CHR ''/'' # p]"
    using h p by (auto simp: split2_def takeWhile_append dropWhile_append dropWhile_eq_Nil_conv takeWhile_eq_all_conv)
  have q: "cut_query (''//'' @ h @ CHR ''/'' # p) = ''//'' @ h @ CHR ''/'' # p"
    using h p by (auto simp: cut_query_def split2_def takeWhile_append dropWhile_append dropWhile_eq_Nil_conv takeWhile_eq_all_conv)
  have s: "scheme_from [] (''https://'' @ h @ CHR ''/'' # p) = Some (''https'', ''//'' @ h @ CHR ''/'' # p)"
    by (simp add: is_alpha_def is_lower_def is_digit_def is_upper_def)
  have ph: "parse_authority h = Some h"
  proof -
    have "\<not> has_prefix h ''[''" using h assms(2) by (cases h) (auto simp: has_prefix_def)
    moreover have "split_last CHR ''@'' h = None" "split_last CHR '':'' h = None"
      using h by (auto intro!: split_last_none)
    moreover have "unescape UrlHost h = Some h" using h by (intro unescape_plain) auto
    ultimately show ?thesis by (simp add: parse_authority_def parse_host_def)
  qed
  have "parse_rest ''https'' (''//'' @ h @ CHR ''/'' # p) = Some \<lparr>u_scheme = ''https'', u_opaque = False, u_host = h\<rparr>"
    using h p ph by (auto simp: parse_rest_def has_prefix_def takeWhile_append dropWhile_append unescape_plain Let_def)
  moreover have "go_to_lower ''https'' = ''https''" by code_simp
  moreover have "\<not> list_ex is_ctl (''https://'' @ h @ CHR ''/'' # p)"
    using h p by (auto simp: list_ex_iff is_ctl_def)
  ultimately show ?thesis
    unfolding url_parse_def frag using s q by simp
qed

lemma default_apps_ok:
  assumes "list_all domain_char d"
    and "\<And>i. icon i = [] \<or> icon i = ''icons/'' @ i @ ''.png''"
  shows "apps_ok (default_apps d b1 b2 icon)"
proof -
  have u: "valid_app_url (''https://'' @ (n @ d) @ CHR ''/'' # p)"
    if "list_all domain_char n" "n \<noteq> []" "list_all (\<lambda>c. domain_char c \<or> c = CHR ''/'') p" for n p
    using url_parse_https [of "n @ d" p] that assms(1) by (simp add: valid_app_url_def)
  have c: "list_all domain_char ''cloud.''" "list_all domain_char ''enrol.''" "list_all domain_char ''console.''"
    "list_all domain_char ''task.''" "list_all (\<lambda>c. domain_char c \<or> c = CHR ''/'') ''users''"
    by code_simp+
  have urls: "valid_app_url (''https://cloud.'' @ d @ ''/'')" "valid_app_url (''https://enrol.'' @ d @ ''/users'')"
    "valid_app_url (''https://console.'' @ d @ ''/'')" "valid_app_url (''https://task.'' @ d @ ''/'')"
    using u [OF c(1), of "[]"] u [OF c(2) _ c(5)] u [OF c(3), of "[]"] u [OF c(4), of "[]"] by simp_all
  have ids: "valid_app_id ''cloud''" "valid_app_id ''enrol-users''" "valid_app_id ''console''" "valid_app_id ''task''"
    by code_simp+
  have ic: "icon i = [] \<or> (\<exists>ext \<in> set icon_exts. icon i = ''icons/'' @ i @ ''.'' @ ext)" for i
    using assms(2) [of i] by (auto simp: icon_exts_def)
  show ?thesis
    using ic [of "''cloud''"] ic [of "''enrol-users''"] ic [of "''console''"] ic [of "''task''"] urls ids
    by (auto simp: apps_ok_def default_apps_def app_ok_def)
qed

lemma seed_icons_map:
  "map_of (fst (seed_icons e dir src ids w)) i = Some p \<Longrightarrow> p = ''icons/'' @ i @ ''.png''"
  by (induction e dir src ids w rule: seed_icons.induct) (auto split: sum.splits prod.splits if_splits)

text \<open>The first start leaves a well-formed list: when no list exists yet and the bootstrap
  succeeds, the next load gives the default applications, whichever icons could be copied.\<close>

theorem bootstrap_launcher_ok:
  assumes "bootstrap_launcher e dir d skip_cld skip_tsk w = (Inr (), w')"
    and "stat_file e (apps_path dir) (snd (mkdir_all e (filepath_join [dir, ''icons'']) w)) = Inl (NotExist q)"
    and "list_all domain_char d" and "io_fault e (OpRead (apps_path dir)) = None"
  shows "\<exists>apps. load_launcher e dir w' = Inr apps \<and> apps_ok apps
     \<and> map la_id apps = (if skip_cld then [] else [''cloud'']) @ [''enrol-users'', ''console'']
         @ (if skip_tsk then [] else [''task''])"
proof -
  obtain w1 where m: "mkdir_all e (filepath_join [dir, ''icons'']) w = (Inr (), w1)"
    using assms(1) by (auto simp: bootstrap_launcher_def split: sum.splits prod.splits)
  obtain ic w2 where s: "seed_default_icons e dir ''/app/web/static/launcher-defaults'' w1 = (ic, w2)" by fastforce
  let ?icon = "\<lambda>i. case map_of ic i of Some p \<Rightarrow> p | None \<Rightarrow> []"
  have "?icon i = [] \<or> ?icon i = ''icons/'' @ i @ ''.png''" for i
  proof (cases "map_of ic i")
    case (Some p)
    have "map_of (fst (seed_default_icons e dir ''/app/web/static/launcher-defaults'' w1)) i = Some p"
      using Some s by simp
    from seed_icons_map [OF this [unfolded seed_default_icons_def]] Some show ?thesis by simp
  qed simp
  then have ok: "apps_ok (default_apps d skip_cld skip_tsk ?icon)" by (intro default_apps_ok [OF assms(3)])
  have "save_launcher e dir (default_apps d skip_cld skip_tsk ?icon) w2 = (Inr (), w')"
    using assms(1,2) m s by (simp add: bootstrap_launcher_def)
  with la.load_saved [OF assms(4) TrueI this] ok show ?thesis by (auto simp: default_apps_def)
qed

theorem bootstrap_launcher_ok_witness:
  "\<exists>w' apps. bootstrap_launcher calm_env ''/l'' ''example.org'' True False blank_world = (Inr (), w')
     \<and> load_launcher calm_env ''/l'' w' = Inr apps \<and> apps_ok apps
     \<and> map la_id apps = [''enrol-users'', ''console'', ''task'']"
proof -
  have p: "filepath_join [''/l'', ''icons''] = ''/l/icons''" "apps_path ''/l'' = ''/l/apps.json''" by code_simp+
  have "fst (bootstrap_launcher calm_env ''/l'' ''example.org'' True False blank_world) = Inr ()"
    by code_simp
  then obtain w' where b: "bootstrap_launcher calm_env ''/l'' ''example.org'' True False blank_world = (Inr (), w')"
    by (metis prod.collapse)
  have st: "stat_file calm_env (apps_path ''/l'') (snd (mkdir_all calm_env (filepath_join [''/l'', ''icons'']) blank_world))
      = Inl (NotExist (apps_path ''/l''))"
    by (simp add: p stat_file_def mkdir_all_def)
  have "list_all domain_char ''example.org''" by code_simp
  from bootstrap_launcher_ok [OF b st this] b show ?thesis by simp
qed


end
