(* ===== verification/SetupWizard.thy ===== *)
theory SetupWizard
  imports Pages
begin

text \<open>
  The pages of the setup wizard (\<open>setup.go\<close>): \<open>/\<close> while the sentinel is missing, and
  \<open>/setup/<step>\<close>. Each step loads the state, shows its page on GET, and on POST checks the form,
  stores the next step and redirects to it.
\<close>

definition require_setup_token :: "config \<Rightarrow> page handler \<Rightarrow> page handler" where
  "require_setup_token cfg h r w =
     (case check_forward_auth_secret cfg r of
        Inl _ \<Rightarrow>
          (http_error (''401 '' @ em_dash
             @ '' setup wizard requires forward-auth header (NPM proxy not wired)'') 401, w)
      | Inr _ \<Rightarrow> h r w)"

definition with_setup_state :: "env \<Rightarrow> config \<Rightarrow> (setup_state \<Rightarrow> page handler) \<Rightarrow> page handler" where
  "with_setup_state e cfg h r w =
     (case load_setup_state e cfg w of
        Inl err \<Rightarrow> (http_error (''load state: '' @ err_text err) 500, w)
      | Inr st \<Rightarrow> h st r w)"

definition setup_page :: "setup_step \<Rightarrow> setup_state \<Rightarrow> setup_page_data" where
  "setup_page p st = \<lparr>sp_step = p, sp_state = st, sp_domain = st_domain st, sp_providers = [],
     sp_selected = no_provider, sp_err = [], sp_disk_free = 0, sp_disk_total = 0, sp_quota = []\<rparr>"

definition advance :: "env \<Rightarrow> config \<Rightarrow> setup_state \<Rightarrow> string \<Rightarrow> world \<Rightarrow> reply \<times> world" where
  "advance e cfg st next w =
     (case save_setup_state e cfg st w of
        (Inl err, w1) \<Rightarrow> (http_error (''save state: '' @ err_text err) 500, w1)
      | (Inr _, w1) \<Rightarrow> (redirect next 303, w1))"

definition handle_setup_welcome :: "env \<Rightarrow> config \<Rightarrow> page handler" where
  "handle_setup_welcome e cfg = with_setup_state e cfg (\<lambda>st r w.
     if rq_method r = ''GET'' then (html_page (SetupPage ''setup-welcome.html'' (setup_page StepWelcome st)), w)
     else if rq_method r = ''POST'' then advance e cfg (st\<lparr>st_step := StepDomain\<rparr>) ''/setup/domain'' w
     else (method_not_allowed, w))"

definition handle_setup_domain :: "env \<Rightarrow> config \<Rightarrow> page handler" where
  "handle_setup_domain e cfg = with_setup_state e cfg (\<lambda>st r w.
     if rq_method r = ''GET'' then (html_page (SetupPage ''setup-domain.html'' (setup_page StepDomain st)), w)
     else if rq_method r = ''POST'' then advance e cfg (st\<lparr>st_step := StepDNS\<rparr>) ''/setup/dns'' w
     else (method_not_allowed, w))"

definition dns_page :: "setup_state \<Rightarrow> dns_provider \<Rightarrow> string \<Rightarrow> page" where
  "dns_page st sel msg = SetupPage ''setup-dns.html''
     ((setup_page StepDNS st)\<lparr>sp_providers := supported_dns_providers, sp_selected := sel, sp_err := msg\<rparr>)"

definition field_value :: "request \<Rightarrow> dns_field \<Rightarrow> string" where
  "field_value r f = go_trim_space (form_value r (df_name f))"

definition missing_labels :: "request \<Rightarrow> dns_provider \<Rightarrow> string list" where
  "missing_labels r p = map df_label (filter (\<lambda>f. field_value r f = []) (dp_fields p))"

definition creds_of :: "request \<Rightarrow> dns_provider \<Rightarrow> (string \<times> string) list" where
  "creds_of r p = fold (\<lambda>f m. AList.update (df_name f) (field_value r f) m)
     (filter (\<lambda>f. field_value r f \<noteq> []) (dp_fields p)) []"

definition handle_setup_dns :: "env \<Rightarrow> config \<Rightarrow> page handler" where
  "handle_setup_dns e cfg = with_setup_state e cfg (\<lambda>st r w.
     if rq_method r = ''GET'' then
       (html_page (dns_page st (case dns_provider_by_id (st_dns_provider st) of Some p \<Rightarrow> p | None \<Rightarrow> no_provider) []), w)
     else if rq_method r = ''POST'' then
       (case rq_form_error r of
          Some m \<Rightarrow> (http_error (''parse form: '' @ m) 400, w)
        | None \<Rightarrow>
            (let i = go_trim_space (form_value r ''provider'') in
             case dns_provider_by_id i of
               None \<Rightarrow> (html_page (dns_page st no_provider ''pick a provider''), w)
             | Some p \<Rightarrow>
                 (if missing_labels r p \<noteq> [] then
                    (html_page (dns_page st p (''missing required field(s): '' @ join '', '' (missing_labels r p))), w)
                  else advance e cfg (st\<lparr>st_dns_provider := i, st_dns_creds := creds_of r p, st_step := StepAdmin\<rparr>)
                         ''/setup/admin'' w)))
     else (method_not_allowed, w))"

definition admin_form_error :: "env \<Rightarrow> string \<Rightarrow> string \<Rightarrow> string \<Rightarrow> string \<Rightarrow> string \<Rightarrow> string" where
  "admin_form_error e name display email pw pwc =
     (if \<not> valid_username name then ''username: lowercase a-z then a-z0-9_-, 1..32 chars''
      else if \<not> valid_display_name (unicode_class e) display
        then ''display name: 1..64 letters/digits/space/.-_'' @ [CHR 39]
      else if \<not> valid_email email then ''email: not a valid address''
      else if length pw < 12 then ''password: at least 12 characters''
      else if pw \<noteq> pwc then ''password: confirmation does not match''
      else [])"

definition handle_setup_admin :: "env \<Rightarrow> config \<Rightarrow> page handler" where
  "handle_setup_admin e cfg = with_setup_state e cfg (\<lambda>st r w.
     if rq_method r = ''GET'' then (html_page (SetupPage ''setup-admin.html'' (setup_page StepAdmin st)), w)
     else if rq_method r = ''POST'' then
       (case rq_form_error r of
          Some m \<Rightarrow> (http_error (''parse form: '' @ m) 400, w)
        | None \<Rightarrow>
            (let name = go_to_lower (go_trim_space (form_value r ''name''));
                 display = go_trim_space (form_value r ''displayname'');
                 email = go_trim_space (form_value r ''email'');
                 pw = form_value r ''password'';
                 err = admin_form_error e name display email pw (form_value r ''password_confirm'');
                 st1 = st\<lparr>st_admin_username := name, st_admin_display_name := display,
                          st_admin_email := email, st_enable_totp := (form_value r ''enable_totp'' = ''on'')\<rparr> in
             if err \<noteq> [] then
               (html_page (SetupPage ''setup-admin.html'' ((setup_page StepAdmin st1)\<lparr>sp_err := err\<rparr>)), w)
             else (case argon2id_hash e pw w of
                     (Inl er, w1) \<Rightarrow> (http_error (''argon2 hash: '' @ err_text er) 500, w1)
                   | (Inr hash, w1) \<Rightarrow>
                       (case save_setup_state e cfg (st1\<lparr>st_admin_password_hash := hash, st_step := StepStorage\<rparr>) w1 of
                          (Inl er, w2) \<Rightarrow> (http_error (''save state: '' @ err_text er) 500, w2)
                        | (Inr _, w2) \<Rightarrow> (redirect ''/setup/storage'' 303, secret_set e name pw w2)))))
     else (method_not_allowed, w))"

text \<open>\<open>diskFreeBytes\<close>; an error counts as zero.\<close>

definition disk_free_bytes :: "env \<Rightarrow> string \<Rightarrow> int \<times> int" where
  "disk_free_bytes e path =
     (case statfs e path of
        None \<Rightarrow> (0, 0)
      | Some (blocks, avail, bsize) \<Rightarrow> (wrap64 (avail * bsize), wrap64 (blocks * bsize)))"

definition quota_display :: "setup_state \<Rightarrow> string" where
  "quota_display st =
     (if st_cloud_quota_gb st > 0 then show_int (st_cloud_quota_gb st)
      else if st_cloud_quota_gb st = 0 \<and> cs_users_db_written (st_completed st) then ''0''
      else ''50'')"

definition storage_page :: "env \<Rightarrow> setup_state \<Rightarrow> string \<Rightarrow> string \<Rightarrow> page" where
  "storage_page e st quota msg = SetupPage ''setup-storage.html''
     ((setup_page StepStorage st)\<lparr>sp_disk_free := fst (disk_free_bytes e ''/srv/store''),
        sp_disk_total := snd (disk_free_bytes e ''/srv/store''), sp_quota := quota, sp_err := msg\<rparr>)"

definition handle_setup_storage :: "env \<Rightarrow> config \<Rightarrow> page handler" where
  "handle_setup_storage e cfg = with_setup_state e cfg (\<lambda>st r w.
     if rq_method r = ''GET'' then (html_page (storage_page e st (quota_display st) []), w)
     else if rq_method r = ''POST'' then
       (case rq_form_error r of
          Some m \<Rightarrow> (http_error (''parse form: '' @ m) 400, w)
        | None \<Rightarrow>
            (let raw = form_value r ''cloud_user_quota_gb'' in
             case parse_quota_gb raw of
               None \<Rightarrow>
                 (html_page (storage_page e st raw
                    ''per-user quota: must be a non-negative integer (GB; 0 = unlimited)''), w)
             | Some gb \<Rightarrow>
                 advance e cfg (st\<lparr>st_cloud_quota_gb := int gb, st_step := StepFinalize\<rparr>) ''/setup/finalize'' w))
     else (method_not_allowed, w))"

definition handle_setup_finalize :: "env \<Rightarrow> config \<Rightarrow> page handler" where
  "handle_setup_finalize e cfg = with_setup_state e cfg (\<lambda>st r w.
     if rq_method r = ''GET'' then (html_page (SetupPage ''setup-finalize.html'' (setup_page StepFinalize st)), w)
     else if rq_method r = ''POST'' then (respond 204 [] (Text []), w)
     else (method_not_allowed, w))"

definition handle_setup_done :: "env \<Rightarrow> config \<Rightarrow> page handler" where
  "handle_setup_done e cfg = with_setup_state e cfg (\<lambda>st r w.
     if rq_method r \<noteq> ''GET'' then (method_not_allowed, w)
     else (html_page (SetupPage ''setup-done.html'' (setup_page StepDone st)), w))"

subsection \<open>Dispatch\<close>

definition step_handler :: "env \<Rightarrow> config \<Rightarrow> setup_step \<Rightarrow> page handler" where
  "step_handler e cfg p =
     (case p of
        StepDomain \<Rightarrow> handle_setup_domain e cfg
      | StepDNS \<Rightarrow> handle_setup_dns e cfg
      | StepAdmin \<Rightarrow> handle_setup_admin e cfg
      | StepStorage \<Rightarrow> handle_setup_storage e cfg
      | StepFinalize \<Rightarrow> handle_setup_finalize e cfg
      | StepDone \<Rightarrow> handle_setup_done e cfg
      | _ \<Rightarrow> handle_setup_welcome e cfg)"

definition handle_setup_root :: "env \<Rightarrow> config \<Rightarrow> page handler" where
  "handle_setup_root e cfg = require_setup_token cfg
     (with_setup_state e cfg (\<lambda>st. step_handler e cfg (st_step st)))"

definition handle_setup_sub :: "env \<Rightarrow> config \<Rightarrow> page handler" where
  "handle_setup_sub e cfg = require_setup_token cfg (\<lambda>r w.
     (let rest = trim_prefix (rq_path r) ''/setup/'' in
      if rest = [] then handle_setup_root e cfg r w
      else if rest = ''welcome'' then handle_setup_welcome e cfg r w
      else if rest = ''domain'' then handle_setup_domain e cfg r w
      else if rest = ''dns'' then handle_setup_dns e cfg r w
      else if rest = ''admin'' then handle_setup_admin e cfg r w
      else if rest = ''storage'' then handle_setup_storage e cfg r w
      else if rest = ''finalize'' then handle_setup_finalize e cfg r w
      else if rest = ''done'' then handle_setup_done e cfg r w
      else (not_found, w)))"

end
