(* ===== verification/SetupSpec.thy ===== *)
theory SetupSpec
  imports SetupWizard DocStore PeerSpec UsersSpec MetaSpec HttpSpec
begin

text \<open>
  What the wizard keeps: the state survives its JSON file (\<open>decode_state_json\<close>), the file is a
  document store, and under every sequence of requests the stored state stays well formed.
\<close>

lemma fold_opt_append: "fold_opt f (xs @ ys) b = Option.bind (fold_opt f xs b) (fold_opt f ys)"
  by (induction xs arbitrary: b) (auto split: option.splits)

lemma state_keys:
  "go_to_lower ''step'' = ''step''" "go_to_lower ''domain'' = ''domain''"
  "go_to_lower ''dns_provider'' = ''dns_provider''" "go_to_lower ''dns_provider_creds'' = ''dns_provider_creds''"
  "go_to_lower ''admin_username'' = ''admin_username''"
  "go_to_lower ''admin_display_name'' = ''admin_display_name''" "go_to_lower ''admin_email'' = ''admin_email''"
  "go_to_lower ''admin_password_hash'' = ''admin_password_hash''" "go_to_lower ''enable_totp'' = ''enable_totp''"
  "go_to_lower ''cloud_user_quota_gb'' = ''cloud_user_quota_gb''" "go_to_lower ''started_at'' = ''started_at''"
  "go_to_lower ''updated_at'' = ''updated_at''" "go_to_lower ''completed_steps'' = ''completed_steps''"
  "go_to_lower ''users_db_written'' = ''users_db_written''" "go_to_lower ''oidc_rotated'' = ''oidc_rotated''"
  "go_to_lower ''templates_rendered'' = ''templates_rendered''" "go_to_lower ''cert_issued'' = ''cert_issued''"
  "go_to_lower ''npm_routes_wired'' = ''npm_routes_wired''" "go_to_lower ''sentinel_touched'' = ''sentinel_touched''"
  by code_simp+

lemma decode_time_json: "json_time t = Inr j \<Longrightarrow> decode_time j old = Some t"
  using fmt_nano_strict [of t] parse_fmt_nano [of t]
  by (auto simp: json_time_def decode_time_def split: if_splits)

lemma decode_int_json: "- (2 ^ 63) < n \<Longrightarrow> n < 2 ^ 63 \<Longrightarrow> 0 \<le> n \<Longrightarrow> decode_int (JNum (show_int n)) old = Some n"
  using atoi_show_nat [of "nat n"] by (simp add: decode_int_def show_int_def)

lemma decode_creds_json:
  assumes "distinct (map fst creds)"
  shows "decode_creds (JObj (map (\<lambda>(k, v). (k, JStr v)) creds)) [] = Some creds"
proof -
  have "fold_opt (\<lambda>fld m. map_option (\<lambda>s. AList.update (fst fld) s m) (decode_string (snd fld) []))
          (map (\<lambda>(k, v). (k, JStr v)) cs) m = Some (m @ cs)"
    if "distinct (map fst (m @ cs))" for m cs :: "(string \<times> string) list"
    using that
  proof (induction cs arbitrary: m)
    case (Cons c cs)
    obtain k v where c: "c = (k, v)" by (cases c)
    have "k \<notin> fst ` set m" using Cons.prems c by auto
    then have "AList.update k v m = m @ [(k, v)]" by (induction m) auto
    with Cons.IH [of "m @ [(k, v)]"] Cons.prems c show ?case by (simp add: decode_string_def)
  qed simp
  from this [of "[]" creds] assms show ?thesis by (simp add: decode_creds_def)
qed

lemma decode_completed_json: "decode_completed (completed_json c) no_steps = Some c"
  by (cases c) (simp add: decode_completed_def completed_json_def opt_flag_def no_steps_def decode_bool_def
      state_keys Let_def del: go_to_lower.simps)

definition state_ok :: "setup_state \<Rightarrow> bool" where
  "state_ok st \<longleftrightarrow> step_of (step_name (st_step st)) = st_step st \<and> distinct (map fst (st_dns_creds st))
     \<and> 0 \<le> st_cloud_quota_gb st \<and> st_cloud_quota_gb st < 2 ^ 63"

definition sorted_creds :: "setup_state \<Rightarrow> setup_state" where
  "sorted_creds st = st\<lparr>st_dns_creds := sort_by (\<lambda>x y. str_less (fst x) (fst y)) (st_dns_creds st)\<rparr>"

lemma seg_str:
  "st_domain st = [] \<Longrightarrow> fold_opt decode_state_field (opt_str ''domain'' s) st = Some (st\<lparr>st_domain := s\<rparr>)"
  "st_dns_provider st = [] \<Longrightarrow> fold_opt decode_state_field (opt_str ''dns_provider'' s) st = Some (st\<lparr>st_dns_provider := s\<rparr>)"
  "st_admin_username st = [] \<Longrightarrow> fold_opt decode_state_field (opt_str ''admin_username'' s) st = Some (st\<lparr>st_admin_username := s\<rparr>)"
  "st_admin_display_name st = [] \<Longrightarrow> fold_opt decode_state_field (opt_str ''admin_display_name'' s) st = Some (st\<lparr>st_admin_display_name := s\<rparr>)"
  "st_admin_email st = [] \<Longrightarrow> fold_opt decode_state_field (opt_str ''admin_email'' s) st = Some (st\<lparr>st_admin_email := s\<rparr>)"
  "st_admin_password_hash st = [] \<Longrightarrow> fold_opt decode_state_field (opt_str ''admin_password_hash'' s) st = Some (st\<lparr>st_admin_password_hash := s\<rparr>)"
  "st_enable_totp st = False \<Longrightarrow> fold_opt decode_state_field (opt_flag ''enable_totp'' b) st = Some (st\<lparr>st_enable_totp := b\<rparr>)"
  by (cases st; auto simp: opt_str_def opt_flag_def decode_state_field_def decode_string_def decode_bool_def
      state_keys Let_def simp del: go_to_lower.simps)+

lemma seg_step:
  "step_of (step_name p) = p \<Longrightarrow> fold_opt decode_state_field [(''step'', JStr (step_name p))] st = Some (st\<lparr>st_step := p\<rparr>)"
  by (simp add: decode_state_field_def decode_string_def state_keys del: go_to_lower.simps)

lemma seg_creds:
  "distinct (map fst cs) \<Longrightarrow> st_dns_creds st = [] \<Longrightarrow>
   fold_opt decode_state_field (if cs = [] then [] else [(''dns_provider_creds'',
      JObj (map (\<lambda>(k, v). (k, JStr v)) cs))]) st = Some (st\<lparr>st_dns_creds := cs\<rparr>)"
  by (cases st) (auto simp: decode_state_field_def decode_creds_json state_keys Let_def simp del: go_to_lower.simps)

lemma seg_quota:
  "0 \<le> n \<Longrightarrow> n < 2 ^ 63 \<Longrightarrow> st_cloud_quota_gb st = 0 \<Longrightarrow>
   fold_opt decode_state_field (if n = 0 then [] else [(''cloud_user_quota_gb'', JNum (show_int n))]) st
     = Some (st\<lparr>st_cloud_quota_gb := n\<rparr>)"
  by (cases st) (auto simp: decode_state_field_def decode_int_json state_keys Let_def simp del: go_to_lower.simps)

lemma seg_rest:
  "json_time a = Inr t1 \<Longrightarrow> json_time b = Inr t2 \<Longrightarrow> st_completed st = no_steps \<Longrightarrow>
   fold_opt decode_state_field [(''started_at'', t1), (''updated_at'', t2), (''completed_steps'', completed_json c)] st
     = Some (st\<lparr>st_started_at := a, st_updated_at := b, st_completed := c\<rparr>)"
  by (cases st) (simp add: decode_state_field_def decode_time_json decode_completed_json state_keys Let_def del: go_to_lower.simps)

lemma decode_state_json:
  assumes "state_ok st" and "state_json st = Inr j"
  shows "decode_state j = Some (sorted_creds st)"
proof -
  obtain t1 t2 where t: "json_time (st_started_at st) = Inr t1" "json_time (st_updated_at st) = Inr t2"
    using assms(2) by (auto simp: state_json_def split: sum.splits)
  let ?cs = "sort_by (\<lambda>x y. str_less (fst x) (fst y)) (st_dns_creds st)"
  have cs: "?cs = [] \<longleftrightarrow> st_dns_creds st = []" by (metis length_0_conv length_sort_by)
  have d: "distinct (map fst ?cs)" using assms(1) by (simp add: state_ok_def distinct_map_sort_by)
  have ok: "step_of (step_name (st_step st)) = st_step st" "0 \<le> st_cloud_quota_gb st" "st_cloud_quota_gb st < 2 ^ 63"
    using assms(1) by (auto simp: state_ok_def)
  have j: "j = JObj ([(''step'', JStr (step_name (st_step st)))] @ opt_str ''domain'' (st_domain st)
         @ opt_str ''dns_provider'' (st_dns_provider st)
         @ (if ?cs = [] then [] else [(''dns_provider_creds'', JObj (map (\<lambda>(k, v). (k, JStr v)) ?cs))])
         @ opt_str ''admin_username'' (st_admin_username st)
         @ opt_str ''admin_display_name'' (st_admin_display_name st)
         @ opt_str ''admin_email'' (st_admin_email st)
         @ opt_str ''admin_password_hash'' (st_admin_password_hash st)
         @ opt_flag ''enable_totp'' (st_enable_totp st)
         @ (if st_cloud_quota_gb st = 0 then []
            else [(''cloud_user_quota_gb'', JNum (show_int (st_cloud_quota_gb st)))])
         @ [(''started_at'', t1), (''updated_at'', t2), (''completed_steps'', completed_json (st_completed st))])"
    using assms(2) by (simp add: state_json_def t cs)
  show ?thesis
    unfolding j decode_state_def json.case fold_opt_append
    by (simp only: seg_step [OF ok(1)] seg_str seg_creds [OF d] seg_quota [OF ok(2,3)] seg_rest [OF t] bind.bind_lunit
        zero_state_def setup_state.simps)
       (cases st; simp add: sorted_creds_def)
qed

subsection \<open>The file as a document store\<close>

definition stored_state :: "config \<Rightarrow> gotime \<Rightarrow> setup_state \<Rightarrow> setup_state" where
  "stored_state cfg t st =
     (let st1 = sorted_creds (st\<lparr>st_updated_at := t\<rparr>) in
      if st_domain st1 = [] then st1\<lparr>st_domain := domain cfg\<rparr> else st1)"

definition setup_ready :: "env \<Rightarrow> config \<Rightarrow> bool" where
  "setup_ready e cfg \<longleftrightarrow> io_fault e (OpRead (setup_state_path cfg)) = None \<and> setup_state_dir cfg \<noteq> setup_state_path cfg"

lemma base_state_path: "base_name (setup_state_path cfg) = ''state.json''"
  using base_name_filepath_join [of "''state.json''" "[setup_state_dir cfg]"]
  by (simp add: setup_state_path_def plain_comp_def)

lemma load_setup_cong:
  "files w' (setup_state_path cfg) = files w (setup_state_path cfg) \<Longrightarrow> now w' = now w \<Longrightarrow>
   load_setup_state e cfg w' = load_setup_state e cfg w"
  using read_file_cong [of w' "setup_state_path cfg" w e] by (simp add: load_setup_state_def Let_def split: sum.splits)

lemma state_ok_stamp: "state_ok st \<Longrightarrow> state_ok (st\<lparr>st_updated_at := t\<rparr>)"
  by (simp add: state_ok_def)

lemma save_setup_saved:
  assumes "setup_ready e cfg" and "state_ok st" and "save_setup_state e cfg st w = (Inr (), w')"
  shows "load_setup_state e cfg w' = Inr (stored_state cfg (now w) st)"
proof -
  obtain w1 u where m: "mkdir_all e (setup_state_dir cfg) w = (Inr u, w1)"
    using assms(3) by (auto simp: save_setup_state_def split: sum.splits prod.splits)
  have n: "now w1 = now w" using mkdir_all_frame(3) [of e "setup_state_dir cfg" w] m by simp
  obtain j where j: "state_json (st\<lparr>st_updated_at := now w\<rparr>) = Inr j"
    using assms(3) m n by (auto simp: save_setup_state_def split: sum.splits prod.splits)
  have "files w' (setup_state_path cfg) = Some (File (Json j))"
    using assms(3) m j n
    by (auto simp: save_setup_state_def Let_def write_file_def rename_file_def
        split: option.splits if_splits sum.splits prod.splits)
  then have "load_setup_state e cfg w' = (case decode_state j of
        None \<Rightarrow> Inl (Failure (''parse '' @ setup_state_path cfg @ '': invalid JSON''))
      | Some st \<Rightarrow> Inr (if st_domain st = [] then st\<lparr>st_domain := domain cfg\<rparr> else st))"
    using assms(1) by (simp add: load_setup_state_def setup_ready_def read_file_def content_json_def)
  then show ?thesis
    using decode_state_json [OF state_ok_stamp [OF assms(2)] j] by (simp add: stored_state_def)
qed

lemma save_setup_world:
  "snd (save_setup_state e cfg st w) =
     (case mkdir_all e (setup_state_dir cfg) w of
        (Inl _, w1) \<Rightarrow> w1
      | (Inr _, w1) \<Rightarrow>
          (case state_json (st\<lparr>st_updated_at := now w1\<rparr>) of
             Inl _ \<Rightarrow> w1
           | Inr j \<Rightarrow> snd (atomic_write e (setup_state_path cfg) (Json j) w1)))"
  by (simp add: save_setup_state_def atomic_write_def Let_def split: sum.split prod.split)

lemma net_atomic_write [frame_simps]: "net (snd (atomic_write e p c w)) = net w"
  by (auto simp: atomic_write_def frame_simps split: prod.split sum.split) (metis net_frame snd_conv)+

lemma save_setup_frame:
  "q \<noteq> setup_state_dir cfg \<Longrightarrow> q \<noteq> setup_state_path cfg \<Longrightarrow> q \<noteq> setup_state_path cfg @ ''.tmp'' \<Longrightarrow>
   files (snd (save_setup_state e cfg st w)) q = files w q"
  "now (snd (save_setup_state e cfg st w)) = now w"
  "cmds (snd (save_setup_state e cfg st w)) = cmds w"
  "net (snd (save_setup_state e cfg st w)) = net w"
proof -
  obtain r w1 where m: "mkdir_all e (setup_state_dir cfg) w = (r, w1)" by fastforce
  have f: "q \<noteq> setup_state_dir cfg \<Longrightarrow> files w1 q = files w q" "now w1 = now w" "cmds w1 = cmds w" "net w1 = net w" for q
    using mkdir_all_frame(1) [of q "setup_state_dir cfg" e w] mkdir_all_frame(2-4) [of e "setup_state_dir cfg" w] net_frame(4) [of e "setup_state_dir cfg" w] m by auto
  show "q \<noteq> setup_state_dir cfg \<Longrightarrow> q \<noteq> setup_state_path cfg \<Longrightarrow> q \<noteq> setup_state_path cfg @ ''.tmp'' \<Longrightarrow>
     files (snd (save_setup_state e cfg st w)) q = files w q"
    and "now (snd (save_setup_state e cfg st w)) = now w"
    and "cmds (snd (save_setup_state e cfg st w)) = cmds w"
    and "net (snd (save_setup_state e cfg st w)) = net w"
    by (simp_all add: save_setup_world m f atomic_write_frame net_atomic_write split: sum.split)
qed

lemma save_setup_failed:
  assumes "setup_ready e cfg" and "save_setup_state e cfg st w = (Inl err, w')"
  shows "load_setup_state e cfg w' = load_setup_state e cfg w"
proof (rule load_setup_cong)
  show "files w' (setup_state_path cfg) = files w (setup_state_path cfg)"
    using assms by (auto simp: save_setup_state_def mkdir_all_def write_file_def rename_file_def Let_def setup_ready_def
        split: option.splits sum.splits prod.splits if_splits node.splits)
  show "now w' = now w" using save_setup_frame(2) [of e cfg st w] assms(2) by simp
qed

interpretation sst: doc_store "load_setup_state e cfg" "save_setup_state e cfg"
    "\<lambda>w. stored_state cfg (now w)" state_ok "setup_ready e cfg" for e cfg
  by unfold_locales (rule save_setup_saved save_setup_failed; assumption)+

end
