(* ===== verification/WizardSpec.thy ===== *)
theory WizardSpec
  imports SetupSpec
begin

text \<open>
  The invariant of the wizard under every sequence of requests, and what its administrator form
  leaves behind.
\<close>

subsection \<open>Well-formed states\<close>

definition creds_ok :: "string \<Rightarrow> (string \<times> string) list \<Rightarrow> bool" where
  "creds_ok prov creds \<longleftrightarrow> creds = [] \<or>
     (\<exists>p. dns_provider_by_id prov = Some p \<and> fst ` set creds = df_name ` set (dp_fields p)
        \<and> distinct (map fst creds) \<and> [] \<notin> snd ` set creds)"

definition wizard_ok :: "env \<Rightarrow> setup_state \<Rightarrow> bool" where
  "wizard_ok e st \<longleftrightarrow>
     st_step st \<in> {StepWelcome, StepDomain, StepDNS, StepAdmin, StepStorage, StepFinalize, StepDone}
     \<and> creds_ok (st_dns_provider st) (st_dns_creds st)
     \<and> (st_admin_username st = [] \<and> st_admin_password_hash st = []
        \<or> valid_username (st_admin_username st) \<and> valid_display_name (unicode_class e) (st_admin_display_name st)
          \<and> valid_email (st_admin_email st))
     \<and> 0 \<le> st_cloud_quota_gb st \<and> st_cloud_quota_gb st \<le> 2 ^ 20"

lemma creds_ok_distinct: "creds_ok p c \<Longrightarrow> distinct (map fst c)"
  by (auto simp: creds_ok_def)

lemma creds_ok_sorted: "creds_ok p c \<Longrightarrow> creds_ok p (sort_by lt c)"
proof -
  have "sort_by lt c = [] \<longleftrightarrow> c = []" by (metis length_0_conv length_sort_by)
  moreover assume "creds_ok p c"
  ultimately show ?thesis by (simp add: creds_ok_def distinct_map_sort_by)
qed

lemma wizard_state_ok: "wizard_ok e st \<Longrightarrow> state_ok st"
proof -
  assume w: "wizard_ok e st"
  then have "st_step st \<in> {StepWelcome, StepDomain, StepDNS, StepAdmin, StepStorage, StepFinalize, StepDone}"
    by (simp add: wizard_ok_def)
  moreover have "\<forall>p \<in> {StepWelcome, StepDomain, StepDNS, StepAdmin, StepStorage, StepFinalize, StepDone}.
      step_of (step_name p) = p" by code_simp
  ultimately show ?thesis using w by (auto simp: wizard_ok_def state_ok_def creds_ok_distinct)
qed

lemma wizard_ok_stored: "wizard_ok e st \<Longrightarrow> wizard_ok e (stored_state cfg t st)"
  by (simp add: wizard_ok_def stored_state_def sorted_creds_def creds_ok_sorted Let_def)

lemma wizard_ok_fresh:
  "wizard_ok e (zero_state\<lparr>st_step := StepWelcome, st_domain := d, st_started_at := t, st_updated_at := t2\<rparr>)"
  by (simp add: wizard_ok_def zero_state_def creds_ok_def)

lemma wizard_save_keeps:
  assumes "setup_ready e cfg" and "load_setup_state e cfg w = Inr st" and "wizard_ok e st" and "wizard_ok e st2"
  shows "\<exists>st'. load_setup_state e cfg (snd (save_setup_state e cfg st2 w)) = Inr st' \<and> wizard_ok e st'"
  using sst.modify_keeps [OF assms(1,2), of "wizard_ok e" "\<lambda>_. st2"] assms(3,4)
  by (simp add: wizard_state_ok wizard_ok_stored)

lemma wizard_advance_keeps:
  assumes "setup_ready e cfg" and "load_setup_state e cfg w = Inr st" and "wizard_ok e st" and "wizard_ok e st2"
  shows "\<exists>st'. load_setup_state e cfg (snd (advance e cfg st2 nx w)) = Inr st' \<and> wizard_ok e st'"
  using wizard_save_keeps [OF assms] by (auto simp: advance_def split: prod.splits sum.splits)

lemma quota_digits_bound: "quota_digits s n = Some m \<Longrightarrow> n \<le> 2 ^ 20 \<Longrightarrow> m \<le> 2 ^ 20"
  by (induction s n rule: quota_digits.induct) (auto simp: Let_def split: if_splits)

lemma parse_quota_bound: "parse_quota_gb s = Some m \<Longrightarrow> m \<le> 2 ^ 20"
  using quota_digits_bound by (auto simp: parse_quota_gb_def Let_def split: if_splits)

lemma creds_of_ok:
  assumes "dns_provider_by_id i = Some p" and "missing_labels r p = []"
  shows "creds_ok i (creds_of r p)"
proof -
  have full: "filter (\<lambda>f. field_value r f \<noteq> []) (dp_fields p) = dp_fields p" "\<forall>f \<in> set (dp_fields p). field_value r f \<noteq> []"
    using assms(2) by (auto simp: missing_labels_def filter_empty_conv)
  have gen: "fst ` set (fold (\<lambda>f m. AList.update (df_name f) (field_value r f) m) fs m) = fst ` set m \<union> df_name ` set fs
      \<and> distinct (map fst (fold (\<lambda>f m. AList.update (df_name f) (field_value r f) m) fs m))
      \<and> [] \<notin> snd ` set (fold (\<lambda>f m. AList.update (df_name f) (field_value r f) m) fs m)"
    if "distinct (map fst m)" "[] \<notin> snd ` set m" "\<forall>f \<in> set fs. field_value r f \<noteq> []"
    for fs and m :: "(string \<times> string) list"
    using that
  proof (induction fs arbitrary: m)
    case (Cons f fs)
    let ?m = "AList.update (df_name f) (field_value r f) m"
    have "fst ` set ?m = insert (df_name f) (fst ` set m)" by (induction m) auto
    moreover have "[] \<notin> snd ` set ?m" using Cons.prems by (induction m) auto
    moreover have "distinct (map fst ?m)" using Cons.prems(1) by (rule distinct_update)
    ultimately show ?case using Cons.IH [of ?m] Cons.prems(3) by auto
  qed simp
  from gen [of "[]" "dp_fields p"] full assms(1) show ?thesis
    by (auto simp: creds_ok_def creds_of_def)
qed

lemma with_setup_keeps:
  assumes "load_setup_state e cfg w = Inr st" and "P (snd (h st r w))"
  shows "P (snd (with_setup_state e cfg h r w))"
  using assms by (simp add: with_setup_state_def)

lemma load_setup_draws: "load_setup_state e cfg (w\<lparr>draws := n\<rparr>) = load_setup_state e cfg w"
  by (rule load_setup_cong) simp_all

lemma argon_world: "argon2id_hash e pw w = (h, w') \<Longrightarrow> \<exists>n. w' = w\<lparr>draws := n\<rparr>"
proof -
  have "\<exists>n. w = w\<lparr>draws := n\<rparr>" by (rule exI [of _ "draws w"]) simp
  then show "argon2id_hash e pw w = (h, w') \<Longrightarrow> \<exists>n. w' = w\<lparr>draws := n\<rparr>"
    by (auto simp: argon2id_hash_def draw_bytes_def split: if_splits option.splits)
qed

lemma replace_dots_no_sep: "CHR ''/'' \<notin> set s \<Longrightarrow> CHR ''/'' \<notin> set (replace_dots s)"
  by (induction s rule: replace_dots.induct) auto

lemma secret_paths:
  "secret_cache_file k \<noteq> setup_state_path cfg" "secret_cache_dir \<noteq> setup_state_path cfg"
proof -
  let ?s = "replace_dots (replace_char CHR ''/'' CHR ''_'' k)"
  have "CHR ''/'' \<notin> set ?s" by (rule replace_dots_no_sep) (auto simp: replace_char_def)
  then have "plain_comp (?s @ ''.pass'')"
    by (auto simp: plain_comp_def dest: arg_cong [of _ _ last])
  then have "base_name (secret_cache_file k) = ?s @ ''.pass''"
    using base_name_filepath_join [of "?s @ ''.pass''" "[secret_cache_dir]"] by (simp add: secret_cache_file_def)
  moreover have "?s @ ''.pass'' \<noteq> ''state.json''" by (auto dest: arg_cong [of _ _ last])
  ultimately show "secret_cache_file k \<noteq> setup_state_path cfg" using base_state_path [of cfg] by force
  have "base_name secret_cache_dir = ''raph-setup-secrets''" by (simp add: secret_cache_dir_def base_name_def)
  then show "secret_cache_dir \<noteq> setup_state_path cfg" using base_state_path [of cfg] by force
qed

lemma load_setup_secret: "load_setup_state e cfg (secret_set e k v w) = load_setup_state e cfg w"
proof (rule load_setup_cong)
  show "files (secret_set e k v w) (setup_state_path cfg) = files w (setup_state_path cfg)"
    using secret_paths(1) [of k cfg] secret_paths(2) [of cfg] unfolding secret_set_def Let_def
    by (auto simp: mkdir_all_def write_file_def split: option.splits sum.splits prod.splits node.splits if_splits)
  show "now (secret_set e k v w) = now w"
    unfolding secret_set_def Let_def
    by (auto simp: mkdir_all_def write_file_def split: option.splits sum.splits prod.splits node.splits if_splits)
qed

lemma welcome_keeps:
  assumes "setup_ready e cfg" "load_setup_state e cfg w = Inr st" "wizard_ok e st"
  shows "\<exists>st'. load_setup_state e cfg (snd (handle_setup_welcome e cfg r w)) = Inr st' \<and> wizard_ok e st'"
  unfolding handle_setup_welcome_def
  by (rule with_setup_keeps [OF assms(2)])
     (use assms wizard_advance_keeps [OF assms, of "st\<lparr>st_step := StepDomain\<rparr>"] in \<open>auto simp: wizard_ok_def\<close>)

lemma domain_keeps:
  assumes "setup_ready e cfg" "load_setup_state e cfg w = Inr st" "wizard_ok e st"
  shows "\<exists>st'. load_setup_state e cfg (snd (handle_setup_domain e cfg r w)) = Inr st' \<and> wizard_ok e st'"
  unfolding handle_setup_domain_def
  by (rule with_setup_keeps [OF assms(2)])
     (use assms wizard_advance_keeps [OF assms, of "st\<lparr>st_step := StepDNS\<rparr>"] in \<open>auto simp: wizard_ok_def\<close>)

lemma dns_keeps:
  assumes "setup_ready e cfg" "load_setup_state e cfg w = Inr st" "wizard_ok e st"
  shows "\<exists>st'. load_setup_state e cfg (snd (handle_setup_dns e cfg r w)) = Inr st' \<and> wizard_ok e st'"
  unfolding handle_setup_dns_def
proof (rule with_setup_keeps [OF assms(2)])
  let ?i = "go_trim_space (form_value r ''provider'')"
  have ok: "wizard_ok e (st\<lparr>st_dns_provider := ?i, st_dns_creds := creds_of r p, st_step := StepAdmin\<rparr>)"
    if "dns_provider_by_id ?i = Some p" "missing_labels r p = []" for p
    using assms(3) creds_of_ok [OF that] by (simp add: wizard_ok_def)
  show "\<exists>st'. load_setup_state e cfg (snd
     (if rq_method r = ''GET'' then
       (html_page (dns_page st (case dns_provider_by_id (st_dns_provider st) of Some p \<Rightarrow> p | None \<Rightarrow> no_provider) []), w)
     else if rq_method r = ''POST'' then
       (case rq_form_error r of
          Some m \<Rightarrow> (http_error (''parse form: '' @ m) 400, w)
        | None \<Rightarrow>
            (let i = ?i in
             case dns_provider_by_id i of
               None \<Rightarrow> (html_page (dns_page st no_provider ''pick a provider''), w)
             | Some p \<Rightarrow>
                 (if missing_labels r p \<noteq> [] then
                    (html_page (dns_page st p (''missing required field(s): '' @ join '', '' (missing_labels r p))), w)
                  else advance e cfg (st\<lparr>st_dns_provider := i, st_dns_creds := creds_of r p, st_step := StepAdmin\<rparr>)
                         ''/setup/admin'' w)))
     else (method_not_allowed, w))) = Inr st' \<and> wizard_ok e st'"
    using assms(2,3) wizard_advance_keeps [OF assms ok] unfolding Let_def
    by (auto split: option.splits)
qed

lemma storage_keeps:
  assumes "setup_ready e cfg" "load_setup_state e cfg w = Inr st" "wizard_ok e st"
  shows "\<exists>st'. load_setup_state e cfg (snd (handle_setup_storage e cfg r w)) = Inr st' \<and> wizard_ok e st'"
proof -
  have ok: "wizard_ok e (st\<lparr>st_cloud_quota_gb := int gb, st_step := StepFinalize\<rparr>)"
    if "parse_quota_gb raw = Some gb" for raw gb
    using assms(3) parse_quota_bound [OF that] by (simp add: wizard_ok_def)
  show ?thesis using assms(2,3) wizard_advance_keeps [OF assms ok]
    by (auto simp: handle_setup_storage_def with_setup_state_def Let_def split: option.splits)
qed

lemma admin_keeps:
  assumes "setup_ready e cfg" "load_setup_state e cfg w = Inr st" "wizard_ok e st"
  shows "\<exists>st'. load_setup_state e cfg (snd (handle_setup_admin e cfg r w)) = Inr st' \<and> wizard_ok e st'"
proof -
  let ?name = "go_to_lower (go_trim_space (form_value r ''name''))"
  let ?display = "go_trim_space (form_value r ''displayname'')" and ?email = "go_trim_space (form_value r ''email'')"
  let ?st1 = "st\<lparr>st_admin_username := ?name, st_admin_display_name := ?display,
                 st_admin_email := ?email, st_enable_totp := (form_value r ''enable_totp'' = ''on'')\<rparr>"
  let ?pw = "form_value r ''password''"
  show ?thesis
  proof (cases "rq_method r = ''POST'' \<and> rq_form_error r = None
      \<and> admin_form_error e ?name ?display ?email ?pw (form_value r ''password_confirm'') = []")
    case False
    then show ?thesis using assms(2,3)
      by (auto simp: handle_setup_admin_def with_setup_state_def Let_def split: option.splits)
  next
    case True
    obtain h w1 where h: "argon2id_hash e ?pw w = (h, w1)" by fastforce
    have l1: "load_setup_state e cfg w1 = Inr st" using argon_world [OF h] assms(2) load_setup_draws by auto
    show ?thesis
    proof (cases h)
      case (Inl er)
      then show ?thesis using True h l1 assms(2,3) by (simp add: handle_setup_admin_def with_setup_state_def)
    next
      case (Inr hash)
      have "wizard_ok e (?st1\<lparr>st_admin_password_hash := hash, st_step := StepStorage\<rparr>)"
        using True assms(3) by (auto simp: wizard_ok_def admin_form_error_def split: if_splits)
      from wizard_save_keeps [OF assms(1) l1 assms(3) this] show ?thesis
        using True h Inr assms(2)
        by (auto simp: handle_setup_admin_def with_setup_state_def load_setup_secret Let_def split: prod.splits sum.splits)
    qed
  qed
qed

lemma passive_keeps:
  assumes "load_setup_state e cfg w = Inr st"
  shows "snd (handle_setup_finalize e cfg r w) = w" "snd (handle_setup_done e cfg r w) = w"
  using assms by (simp_all add: handle_setup_finalize_def handle_setup_done_def with_setup_state_def)

lemmas wizard_keeps = welcome_keeps domain_keeps dns_keeps admin_keeps storage_keeps

lemma step_handler_keeps:
  assumes "setup_ready e cfg" "load_setup_state e cfg w = Inr st" "wizard_ok e st"
  shows "\<exists>st'. load_setup_state e cfg (snd (step_handler e cfg p r w)) = Inr st' \<and> wizard_ok e st'"
  using wizard_keeps [OF assms, of r] passive_keeps [OF assms(2), of r] assms(2,3)
  by (cases p) (simp_all add: step_handler_def)

lemma root_keeps:
  assumes "setup_ready e cfg" "load_setup_state e cfg w = Inr st" "wizard_ok e st"
  shows "\<exists>st'. load_setup_state e cfg (snd (handle_setup_root e cfg r w)) = Inr st' \<and> wizard_ok e st'"
  using step_handler_keeps [OF assms, of "st_step st" r] assms(2,3)
  by (auto simp: handle_setup_root_def require_setup_token_def with_setup_state_def split: sum.splits)

lemma sub_keeps:
  assumes "setup_ready e cfg" "load_setup_state e cfg w = Inr st" "wizard_ok e st"
  shows "\<exists>st'. load_setup_state e cfg (snd (handle_setup_sub e cfg r w)) = Inr st' \<and> wizard_ok e st'"
  using wizard_keeps [OF assms, of r] passive_keeps [OF assms(2), of r] root_keeps [OF assms, of r] assms(2,3)
  unfolding handle_setup_sub_def require_setup_token_def Let_def
  by (auto split: sum.splits)

text \<open>The steps of the wizard: its two entry points, and anything that leaves its file alone.\<close>

inductive wizard_step :: "env \<Rightarrow> config \<Rightarrow> world \<Rightarrow> world \<Rightarrow> bool" for e cfg where
  root: "wizard_step e cfg w (snd (handle_setup_root e cfg r w))"
| page: "wizard_step e cfg w (snd (handle_setup_sub e cfg r w))"
| other: "files w' (setup_state_path cfg) = files w (setup_state_path cfg) \<Longrightarrow> wizard_step e cfg w w'"

inductive_cases wizard_stepE [consumes 1, case_names root page other]: "wizard_step e cfg w w'"

lemma load_setup_other:
  assumes "files w' (setup_state_path cfg) = files w (setup_state_path cfg)"
    and "load_setup_state e cfg w = Inr st" and "wizard_ok e st"
  shows "\<exists>st'. load_setup_state e cfg w' = Inr st' \<and> wizard_ok e st'"
proof -
  have r: "read_file e (setup_state_path cfg) w' = read_file e (setup_state_path cfg) w"
    by (rule read_file_cong [OF assms(1)])
  show ?thesis
    using assms(2,3) wizard_ok_fresh unfolding load_setup_state_def Let_def r
    by (auto split: sum.splits option.splits if_splits)
qed


lemma secret_set_get: "v \<noteq> [] \<Longrightarrow> fst (secret_get e k (secret_set e k v w)) = v"
proof -
  assume "v \<noteq> []"
  have "secrets (secret_set e k v w) k = Some v"
    unfolding secret_set_def Let_def
    by (auto simp: mkdir_all_def write_file_def split: option.splits sum.splits prod.splits node.splits if_splits)
  with \<open>v \<noteq> []\<close> show ?thesis by (simp add: secret_get_def)
qed


definition sample_admin_form :: request where
  "sample_admin_form = sample_request\<lparr>rq_method := ''POST'', rq_path := ''/setup/admin'',
     rq_headers := [(''X-Forward-Auth-Secret'', ''k'')],
     rq_form := [(''name'', ''root''), (''displayname'', ''Root''), (''email'', ''r@e.org''),
       (''password'', ''0123456789ab''), (''password_confirm'', ''0123456789ab'')]\<rparr>"

definition setup_config :: config where
  "setup_config = sample_config\<lparr>setup_state_dir := ''/s'', forward_auth_secret := ''k''\<rparr>"

lemma setup_config_ready: "setup_ready calm_env setup_config"
proof -
  have "setup_state_path setup_config = ''/s/state.json''" by code_simp
  then show ?thesis by (simp add: setup_ready_def setup_config_def)
qed

lemma setup_config_fresh:
  "\<exists>st. load_setup_state calm_env setup_config blank_world = Inr st \<and> wizard_ok calm_env st"
  by (simp add: load_setup_state_def read_file_def wizard_ok_fresh)



end
