(* ===== verification/Sse.thy ===== *)
theory Sse
  imports GoStrings
begin

text \<open>
  \<open>sse.go\<close>: the events a long-running pipeline sends to the browser, and their frames. The
  reader is the rule of the EventSource standard for streams of this shape: a blank line ends an
  event, and the fields \<open>event\<close> and \<open>data\<close> of an event are the rest of their lines.
\<close>

datatype sse_event =
    SseStatus string string
  | SseLog string
  | SseError string string
  | SseDone string

definition sse_emit :: "string \<Rightarrow> string \<Rightarrow> string" where
  "sse_emit event payload = ''event: '' @ event @ [CHR 10] @ ''data: '' @ payload @ [CHR 10, CHR 10]"

definition step_msg :: "string \<Rightarrow> string \<Rightarrow> string" where
  "step_msg st msg = ''{'' @ [CHR 34] @ ''step'' @ [CHR 34] @ '':'' @ go_quote st @ '','' @ [CHR 34] @ ''msg''
     @ [CHR 34] @ '':'' @ go_quote msg @ ''}''"

fun sse_name :: "sse_event \<Rightarrow> string" where
  "sse_name (SseStatus s m) = ''status''"
| "sse_name (SseLog l) = ''log''"
| "sse_name (SseError s m) = ''error''"
| "sse_name (SseDone p) = ''done''"

fun sse_payload :: "sse_event \<Rightarrow> string" where
  "sse_payload (SseStatus s m) = step_msg s m"
| "sse_payload (SseLog l) = ''{'' @ [CHR 34] @ ''line'' @ [CHR 34] @ '':'' @ go_quote l @ ''}''"
| "sse_payload (SseError s m) = step_msg s m"
| "sse_payload (SseDone p) = p"

definition sse_frame :: "sse_event \<Rightarrow> string" where
  "sse_frame ev = sse_emit (sse_name ev) (sse_payload ev)"

definition sse_keepalive :: string where
  "sse_keepalive = '': keepalive'' @ [CHR 10, CHR 10]"

subsection \<open>The reader\<close>

definition sse_field :: "string \<Rightarrow> string \<Rightarrow> string \<Rightarrow> string" where
  "sse_field key line old = (if has_prefix line (key @ '': '') then drop (length key + 2) line else old)"

fun sse_read :: "string list \<Rightarrow> string \<Rightarrow> string \<Rightarrow> (string \<times> string) list" where
  "sse_read [] ev dt = []"
| "sse_read (l # ls) ev dt =
     (if l = [] then (if dt = [] then [] else [(ev, dt)]) @ sse_read ls [] []
      else sse_read ls (sse_field ''event'' l ev) (sse_field ''data'' l dt))"

definition sse_parse :: "string \<Rightarrow> (string \<times> string) list" where
  "sse_parse s = sse_read (split_on CHR 10 s) [] []"

subsection \<open>One event per frame\<close>

lemma hex_digit_no_newline: "n < 16 \<Longrightarrow> CHR 10 \<noteq> hex_digit n"
proof
  assume "n < 16" and "CHR 10 = hex_digit n"
  then have "(of_char (CHR 10) :: nat) = of_char (hex_digit n)" by simp
  with \<open>n < 16\<close> show False by (auto simp: hex_digit_def split: if_splits)
qed

lemma quote_char_no_newline: "CHR 10 \<notin> set (quote_char c)"
proof -
  have "(of_char c :: nat) < 32 \<Longrightarrow> CHR 10 \<noteq> hex_digit (of_char c div 16)"
    by (intro hex_digit_no_newline) auto
  moreover have "CHR 10 \<noteq> hex_digit (of_char c mod 16)" by (intro hex_digit_no_newline) simp
  moreover have "CHR 10 \<noteq> hex_digit 7" "CHR 10 \<noteq> hex_digit 15" by (rule hex_digit_no_newline, simp)+
  ultimately show ?thesis by (auto simp: quote_char_def Let_def)
qed

lemma go_quote_no_newline: "CHR 10 \<notin> set (go_quote s)"
  using quote_char_no_newline by (auto simp: go_quote_def)

lemma sse_payload_no_newline: "(\<forall>p. ev = SseDone p \<longrightarrow> CHR 10 \<notin> set p) \<Longrightarrow> CHR 10 \<notin> set (sse_payload ev)"
  using go_quote_no_newline by (cases ev) (auto simp: step_msg_def)

lemma sse_read_frame:
  assumes "CHR 10 \<notin> set (sse_payload ev)" and "sse_payload ev \<noteq> []"
  shows "sse_read (split_on CHR 10 (sse_frame ev @ rest)) [] [] =
           (sse_name ev, sse_payload ev) # sse_read (split_on CHR 10 rest) [] []"
proof -
  have n: "CHR 10 \<notin> set (''event: '' @ sse_name ev)" by (cases ev) auto
  have d: "CHR 10 \<notin> set (''data: '' @ sse_payload ev)" using assms(1) by simp
  have "sse_frame ev @ rest = (''event: '' @ sse_name ev) @ CHR 10 # (''data: '' @ sse_payload ev) @ CHR 10 # [] @ CHR 10 # rest"
    by (simp add: sse_frame_def sse_emit_def)
  then have s: "split_on CHR 10 (sse_frame ev @ rest)
      = (''event: '' @ sse_name ev) # (''data: '' @ sse_payload ev) # [] # split_on CHR 10 rest"
    by (simp only: split_on_append_sep [OF n] split_on_append_sep [OF d]) (simp add: split_on.simps)
  show ?thesis unfolding s using assms(2) by (simp add: sse_field_def has_prefix_def)
qed

lemma sse_read_keepalive:
  "sse_read (split_on CHR 10 (sse_keepalive @ rest)) [] [] = sse_read (split_on CHR 10 rest) [] []"
  by (simp add: sse_keepalive_def sse_field_def has_prefix_def)

lemma sse_payload_nonempty: "(\<forall>p. ev = SseDone p \<longrightarrow> p \<noteq> []) \<Longrightarrow> sse_payload ev \<noteq> []"
  by (cases ev) (auto simp: step_msg_def)

text \<open>A stream of frames and keep-alive comments.\<close>

fun sse_stream :: "sse_event option list \<Rightarrow> string" where
  "sse_stream [] = []"
| "sse_stream (None # evs) = sse_keepalive @ sse_stream evs"
| "sse_stream (Some ev # evs) = sse_frame ev @ sse_stream evs"



end
