(* ===== verification/Oidc.thy ===== *)
theory Oidc
  imports EnvFile Base64 MetaStore
begin

text \<open>
  \<open>oidc.go\<close>: the client secrets of the identity provider. A rotation draws a secret, stores it
  for the operator, and puts its PBKDF2 hash into the environment file; a pair that is in place
  is left alone. Modes and owners of files are not part of the state.
\<close>

definition oidc_base64 :: "string \<Rightarrow> string" where
  "oidc_base64 s = map (\<lambda>c. if c = CHR ''+'' then CHR ''.'' else c) (b64_raw s)"

subsection \<open>The hash format\<close>

definition hash_char :: "char \<Rightarrow> bool" where
  "hash_char c \<longleftrightarrow> is_alpha c \<or> is_digit c \<or> c = CHR ''.'' \<or> c = CHR ''/''"

text \<open>\<open>pbkdf2HashRe\<close>: the four parts after the first dollar sign.\<close>

definition pbkdf2_hash_re :: "string \<Rightarrow> bool" where
  "pbkdf2_hash_re s =
     (case split_on CHR ''$'' s of
        [z, tag, rounds, salt, hash] \<Rightarrow>
          z = [] \<and> tag = ''pbkdf2-sha512'' \<and> rounds \<noteq> [] \<and> list_all is_digit rounds
          \<and> salt \<noteq> [] \<and> list_all hash_char salt \<and> hash \<noteq> [] \<and> list_all hash_char hash
      | _ \<Rightarrow> False)"

definition oidc_rounds :: nat where
  "oidc_rounds = 310000"

definition generate_oidc_plaintext :: "env \<Rightarrow> world \<Rightarrow> string res \<times> world" where
  "generate_oidc_plaintext e w =
     (case draw_bytes e 32 w of
        (None, w1) \<Rightarrow> (Inl (Failure ''oidc: read random plaintext''), w1)
      | (Some b, w1) \<Rightarrow> (Inr (oidc_base64 b), w1))"

definition pbkdf2_sha512_hash :: "env \<Rightarrow> string \<Rightarrow> string \<Rightarrow> string" where
  "pbkdf2_sha512_hash e plain salt =
     ''$pbkdf2-sha512$'' @ show_nat oidc_rounds @ ''$'' @ oidc_base64 salt @ ''$'' @ oidc_base64 (pbkdf2 e plain salt)"

subsection \<open>The environment file\<close>

definition env_line_value :: "string \<Rightarrow> string \<Rightarrow> string option" where
  "env_line_value key raw =
     (let line = trim_prefix (go_trim_space raw) ''export '' in
      if has_prefix line (key @ ''='') then Some (strip_quotes (trim_prefix line (key @ ''=''))) else None)"

fun first_some :: "('a \<Rightarrow> 'b option) \<Rightarrow> 'a list \<Rightarrow> 'b option" where
  "first_some f [] = None"
| "first_some f (x # xs) = (case f x of Some y \<Rightarrow> Some y | None \<Rightarrow> first_some f xs)"

definition read_env_var :: "string \<Rightarrow> string \<Rightarrow> string" where
  "read_env_var content key =
     (case first_some (env_line_value key) (split_on CHR 10 content) of Some v \<Rightarrow> v | None \<Rightarrow> [])"

definition assigns :: "string \<Rightarrow> string \<Rightarrow> bool" where
  "assigns key raw \<longleftrightarrow>
     has_prefix (go_trim_space raw) (key @ ''='') \<or> has_prefix (go_trim_space raw) (''export '' @ key @ ''='')"

fun replace_first :: "('a \<Rightarrow> bool) \<Rightarrow> 'a \<Rightarrow> 'a list \<Rightarrow> 'a list" where
  "replace_first p y [] = []"
| "replace_first p y (x # xs) = (if p x then y # xs else x # replace_first p y xs)"

definition replace_or_append_env_line :: "string \<Rightarrow> string \<Rightarrow> string \<Rightarrow> string" where
  "replace_or_append_env_line content key line =
     (let ls = split_on CHR 10 content in
      if list_ex (assigns key) ls then join [CHR 10] (replace_first (assigns key) line ls)
      else (if has_suffix content [CHR 10] then content else content @ [CHR 10]) @ line @ [CHR 10])"

subsection \<open>Rotation\<close>

text \<open>\<open>os.Stat\<close> with a size: a directory counts as non-empty.\<close>

definition non_empty_file :: "env \<Rightarrow> string \<Rightarrow> world \<Rightarrow> bool" where
  "non_empty_file e p w =
     (case stat_file e p w of
        Inl _ \<Rightarrow> False | Inr Dir \<Rightarrow> True | Inr (File c) \<Rightarrow> content_text e c \<noteq> [])"

definition rotate_client_secret :: "env \<Rightarrow> string \<Rightarrow> string \<Rightarrow> string \<Rightarrow> world \<Rightarrow> unit res \<times> world" where
  "rotate_client_secret e env_path plain_path var w =
     (if env_path = [] then (Inl (Failure ''oidc: env file path empty''), w)
      else if var = [] then (Inl (Failure ''oidc: env var name empty''), w)
      else if plain_path = [] then (Inl (Failure ''oidc: plaintext path empty''), w)
      else (case read_file e env_path w of
        Inl err \<Rightarrow> (Inl (prefix_err (''oidc: read '' @ env_path @ '': '') err), w)
      | Inr c \<Rightarrow>
          (let text = content_text e c in
           if pbkdf2_hash_re (read_env_var text var) \<and> non_empty_file e plain_path w then (Inr (), w)
           else (case generate_oidc_plaintext e w of
             (Inl err, w1) \<Rightarrow> (Inl err, w1)
           | (Inr plain, w1) \<Rightarrow>
               (case draw_bytes e 16 w1 of
                  (None, w2) \<Rightarrow> (Inl (Failure ''oidc: read random salt''), w2)
                | (Some salt, w2) \<Rightarrow>
                    (case mkdir_all e (filepath_dir plain_path) w2 of
                       (Inl err, w3) \<Rightarrow> (Inl (prefix_err ''oidc: mkdir for plaintext: '' err), w3)
                     | (Inr _, w3) \<Rightarrow>
                         (case atomic_write e plain_path (Bytes (plain @ [CHR 10])) w3 of
                            (Inl err, w4) \<Rightarrow> (Inl (prefix_err ''oidc: write plaintext: '' err), w4)
                          | (Inr _, w4) \<Rightarrow>
                              (case atomic_write e env_path
                                      (Bytes (replace_or_append_env_line text var
                                         (var @ ''='' @ [CHR 39] @ pbkdf2_sha512_hash e plain salt @ [CHR 39]))) w4 of
                                 (Inl err, w5) \<Rightarrow> (Inl (prefix_err (''oidc: rewrite '' @ env_path @ '': '') err), w5)
                               | (Inr _, w5) \<Rightarrow> (Inr (), w5)))))))))"

definition oidc_env_var :: string where
  "oidc_env_var = ''AUTHELIA_OIDC_CONSOLE_CLIENT_SECRET_HASH''"

definition oidc_cloud_env_var :: string where
  "oidc_cloud_env_var = ''AUTHELIA_OIDC_CLOUD_CLIENT_SECRET_HASH''"

definition oidc_task_env_var :: string where
  "oidc_task_env_var = ''AUTHELIA_OIDC_TASK_CLIENT_SECRET_HASH''"

definition console_plaintext_path :: string where
  "console_plaintext_path = ''/etc/raph-installer/oidc-console-client-secret''"

definition cloud_plaintext_path :: string where
  "cloud_plaintext_path = ''/etc/raph-installer/oidc-cloud-client-secret''"

definition task_plaintext_path :: string where
  "task_plaintext_path = ''/etc/raph-installer/oidc-task-client-secret''"

definition rotate_console_secret :: "env \<Rightarrow> string \<Rightarrow> string \<Rightarrow> world \<Rightarrow> unit res \<times> world" where
  "rotate_console_secret e env_path p =
     rotate_client_secret e env_path (if p = [] then console_plaintext_path else p) oidc_env_var"

definition rotate_cloud_secret :: "env \<Rightarrow> string \<Rightarrow> string \<Rightarrow> world \<Rightarrow> unit res \<times> world" where
  "rotate_cloud_secret e env_path p =
     rotate_client_secret e env_path (if p = [] then cloud_plaintext_path else p) oidc_cloud_env_var"

definition rotate_task_secret :: "env \<Rightarrow> string \<Rightarrow> string \<Rightarrow> world \<Rightarrow> unit res \<times> world" where
  "rotate_task_secret e env_path p =
     rotate_client_secret e env_path (if p = [] then task_plaintext_path else p) oidc_task_env_var"

end
