(* ===== verification/OidcSpec.thy ===== *)
theory OidcSpec
  imports Oidc PeerSpec
begin

text \<open>
  What a rotation leaves behind. An environment file is a map from keys to values
  (\<open>read_env_var\<close>): rewriting one line is one map update (\<open>env_line_update\<close>), a rotation
  installs a well-formed hash of the stored secret, and the next one changes nothing
  (\<open>rotate_settles\<close>).
\<close>

subsection \<open>Lines and keys\<close>

definition plain_key :: "string \<Rightarrow> bool" where
  "plain_key k \<longleftrightarrow> solid_text k \<and> CHR ''='' \<notin> set k"

lemma same_key:
  assumes "plain_key k" and "plain_key k2" and "k @ CHR ''='' # r = k2 @ CHR ''='' # r2"
  shows "k = k2"
proof -
  have t: "CHR ''='' \<notin> set x \<Longrightarrow> takeWhile (\<lambda>c. c \<noteq> CHR ''='') (x @ CHR ''='' # y) = x" for x y
    by (induction x) auto
  show ?thesis using t [of k] t [of k2] assms unfolding plain_key_def by metis
qed

lemma has_prefix_compare: "has_prefix s p \<Longrightarrow> has_prefix s q \<Longrightarrow> length p \<le> length q \<Longrightarrow> has_prefix q p"
  by (auto simp: has_prefix_iff) (metis append_eq_append_conv_if append_take_drop_id)

lemma key_not_export:
  assumes "plain_key k" and "has_prefix l (k @ ''='')"
  shows "\<not> has_prefix l ''export ''"
proof
  assume e: "has_prefix l ''export ''"
  show False
  proof (cases "length (k @ ''='') \<le> length ''export ''")
    case True
    from has_prefix_compare [OF assms(2) e True] have "CHR ''='' \<in> set ''export ''"
      by (metis Un_iff has_prefix_iff list.set_intros(1) set_append)
    then show False by simp
  next
    case False
    then have "length ''export '' \<le> length (k @ ''='')" by simp
    from has_prefix_compare [OF e assms(2) this] obtain r where r: "k @ ''='' = ''export '' @ r"
      by (auto simp: has_prefix_iff)
    then have "r \<noteq> []" by (metis False append.right_neutral le_refl)
    then have "k = ''export '' @ butlast r" using r by (metis butlast_append butlast_snoc)
    then have "CHR '' '' \<in> set k" by simp
    with assms(1) show False by (auto simp: plain_key_def solid_text_def list_all_iff solid_def)
  qed
qed

lemma assigns_iff:
  assumes "plain_key k"
  shows "assigns k l \<longleftrightarrow> env_line_value k l \<noteq> None"
proof (cases "has_prefix (go_trim_space l) ''export ''")
  case True
  then obtain r where r: "go_trim_space l = ''export '' @ r" by (auto simp: has_prefix_iff)
  have "\<not> has_prefix (go_trim_space l) (k @ ''='')" using key_not_export [OF assms] True by blast
  then have "assigns k l \<longleftrightarrow> has_prefix r (k @ ''='')"
    unfolding assigns_def r by (simp add: has_prefix_def)
  then show ?thesis unfolding env_line_value_def r Let_def trim_prefix_append by simp
next
  case False
  then have "trim_prefix (go_trim_space l) ''export '' = go_trim_space l" by (simp add: trim_prefix_def)
  moreover have "\<not> has_prefix (go_trim_space l) (''export '' @ k @ ''='')"
    using False by (auto simp: has_prefix_iff)
  ultimately show ?thesis by (simp add: assigns_def env_line_value_def Let_def)
qed

lemma env_line_value_own:
  assumes "plain_key k" and "plain_key k2"
  shows "env_line_value k2 (k @ ''='' @ CHR 39 # v @ [CHR 39]) = (if k2 = k then Some v else None)"
proof -
  let ?l = "k @ ''='' @ CHR 39 # v @ [CHR 39]"
  have k: "k \<noteq> []" "solid (hd k)" using assms(1) by (auto simp: plain_key_def solid_text_def list_all_iff)
  have "go_trim_space ?l = ?l" by (rule trim_solid_ends) (use k in \<open>auto simp: solid_def\<close>)
  moreover have "\<not> has_prefix ?l ''export ''" by (rule key_not_export [OF assms(1)]) (simp add: has_prefix_iff)
  ultimately have t: "trim_prefix (go_trim_space ?l) ''export '' = ?l" by (simp add: trim_prefix_def)
  show ?thesis
  proof (cases "k2 = k")
    case True
    have "trim_prefix ?l (k @ ''='') = CHR 39 # v @ [CHR 39]"
      using trim_prefix_append [of "k @ ''=''"] by simp
    moreover have "has_prefix ?l (k @ ''='')" by (simp add: has_prefix_iff)
    ultimately show ?thesis
      unfolding env_line_value_def t Let_def True using strip_quotes_quoted [of "CHR 39" v] by simp
  next
    case False
    have "\<not> has_prefix ?l (k2 @ ''='')"
    proof
      assume "has_prefix ?l (k2 @ ''='')"
      then obtain r where "k @ CHR ''='' # CHR 39 # v @ [CHR 39] = k2 @ CHR ''='' # r" by (auto simp: has_prefix_iff)
      from same_key [OF assms this] False show False by simp
    qed
    with False show ?thesis unfolding env_line_value_def t Let_def by simp
  qed
qed

subsection \<open>One update\<close>

lemma first_some_replace:
  assumes "\<And>x. p x \<longleftrightarrow> f x \<noteq> None" and "list_ex p xs"
  shows "first_some f (replace_first p y xs) = (case f y of Some v \<Rightarrow> Some v | None \<Rightarrow> first_some f (replace_first p y xs))"
  using assms by (induction xs) (auto split: option.splits)

lemma first_some_replace_other:
  assumes "\<And>x. p x \<Longrightarrow> g x = None" and "g y = None"
  shows "first_some g (replace_first p y xs) = first_some g xs"
  using assms by (induction xs) (auto split: option.splits)

lemma first_some_none: "\<not> list_ex (\<lambda>x. f x \<noteq> None) xs \<Longrightarrow> first_some f xs = None"
  by (induction xs) auto

lemma first_some_append: "first_some f (xs @ ys) = (case first_some f xs of None \<Rightarrow> first_some f ys | s \<Rightarrow> s)"
  by (induction xs) (auto split: option.splits)

lemma replace_first_nonempty [simp]: "replace_first p y xs = [] \<longleftrightarrow> xs = []"
  by (cases xs) auto

lemma set_replace_first: "set (replace_first p y xs) \<subseteq> insert y (set xs)"
  by (induction xs) auto

lemma env_line_value_blank: "plain_key k \<Longrightarrow> env_line_value k [] = None"
proof -
  have t: "go_trim_space [] = []" by code_simp
  show "plain_key k \<Longrightarrow> env_line_value k [] = None"
    unfolding env_line_value_def t by (simp add: trim_prefix_def has_prefix_def)
qed

lemma one_assignment:
  assumes "plain_key k" "plain_key k2" "k \<noteq> k2" "env_line_value k l \<noteq> None"
  shows "env_line_value k2 l = None"
proof (rule ccontr)
  assume "env_line_value k2 l \<noteq> None"
  define s where "s = trim_prefix (go_trim_space l) ''export ''"
  have h: "has_prefix s (k @ ''='')" "has_prefix s (k2 @ ''='')"
    using assms(4) \<open>env_line_value k2 l \<noteq> None\<close> by (auto simp: env_line_value_def s_def Let_def split: if_splits)
  from h obtain r where "s = k @ CHR ''='' # r" by (auto simp: has_prefix_iff)
  moreover from h(2) obtain r2 where "s = k2 @ CHR ''='' # r2" by (auto simp: has_prefix_iff)
  ultimately show False using same_key [OF assms(1,2), of r r2] assms(3) by simp
qed

lemma first_some_replace_own:
  assumes "\<And>x. p x \<longleftrightarrow> f x \<noteq> None" and "list_ex p xs" and "f y = Some v"
  shows "first_some f (replace_first p y xs) = Some v"
  using assms by (induction xs) auto

lemma env_line_update_one:
  assumes "plain_key k" and "CHR 10 \<notin> set v" and "plain_key k2"
  shows "read_env_var (replace_or_append_env_line cont k (k @ ''='' @ CHR 39 # v @ [CHR 39])) k2
           = (if k2 = k then v else read_env_var cont k2)"
proof -
  let ?l = "k @ ''='' @ CHR 39 # v @ [CHR 39]"
  let ?ls = "split_on CHR 10 cont"
  have own: "env_line_value k2 ?l = (if k2 = k then Some v else None)"
    by (rule env_line_value_own [OF assms(1,3)])
  have nl: "CHR 10 \<notin> set ?l"
    using assms(1,2) solid_no_newline [of k] by (auto simp: plain_key_def solid_text_def)
  have a: "assigns k x \<longleftrightarrow> env_line_value k x \<noteq> None" for x by (rule assigns_iff [OF assms(1)])
  have blank: "env_line_value k2 [] = None" by (rule env_line_value_blank [OF assms(3)])
  show ?thesis
  proof (cases "list_ex (assigns k) ?ls")
    case True
    have "\<forall>x \<in> set (replace_first (assigns k) ?l ?ls). CHR 10 \<notin> set x"
      using set_replace_first [of "assigns k" ?l ?ls] nl split_on_no_sep by fastforce
    then have s: "split_on CHR 10 (replace_or_append_env_line cont k ?l) = replace_first (assigns k) ?l ?ls"
      using True by (simp only: replace_or_append_env_line_def Let_def if_True) (intro split_on_join, simp_all)
    show ?thesis
    proof (cases "k2 = k")
      case True
      have "first_some (env_line_value k) (replace_first (assigns k) ?l ?ls) = Some v"
        by (rule first_some_replace_own [OF a \<open>list_ex (assigns k) ?ls\<close>]) (use own True in simp)
      then show ?thesis unfolding read_env_var_def s using True by simp
    next
      case False
      have "first_some (env_line_value k2) (replace_first (assigns k) ?l ?ls) = first_some (env_line_value k2) ?ls"
        by (rule first_some_replace_other) (use a one_assignment [OF assms(1,3)] own False in auto)
      then show ?thesis unfolding read_env_var_def s using False by simp
    qed
  next
    case False
    have none: "k2 = k \<Longrightarrow> first_some (env_line_value k2) ?ls = None"
      using False by (intro first_some_none) (simp add: a [abs_def] list_ex_iff)
    obtain t where t: "replace_or_append_env_line cont k ?l = t @ CHR 10 # ?l @ CHR 10 # []"
      "first_some (env_line_value k2) (split_on CHR 10 t) = first_some (env_line_value k2) ?ls"
    proof (cases "has_suffix cont [CHR 10]")
      case True
      then obtain t where t: "cont = t @ CHR 10 # []" by (auto simp: has_suffix_iff)
      have "first_some (env_line_value k2) ?ls = first_some (env_line_value k2) (split_on CHR 10 t)"
        unfolding t split_on_append_newline first_some_append using blank by (simp split: option.splits)
      with t True False show ?thesis by (intro that [of t]) (simp_all add: replace_or_append_env_line_def)
    next
      case notail: False
      with False show ?thesis by (intro that [of cont]) (simp_all add: replace_or_append_env_line_def)
    qed
    have sp: "split_on CHR 10 (t @ CHR 10 # ?l @ CHR 10 # []) = split_on CHR 10 t @ ?l # [[]]"
      using split_on_append_newline [of "CHR 10" t "?l @ CHR 10 # []"] split_on_append_sep [OF nl, of "[]"] by simp
    have "first_some (env_line_value k2) (split_on CHR 10 (t @ CHR 10 # ?l @ CHR 10 # []))
        = (case first_some (env_line_value k2) ?ls of Some x \<Rightarrow> Some x | None \<Rightarrow> if k2 = k then Some v else None)"
      unfolding sp first_some_append t(2) first_some.simps own using blank by (auto split: option.splits)
    then show ?thesis unfolding read_env_var_def t(1) using none
      by (cases "k2 = k") (auto split: option.splits)
  qed
qed


text \<open>The environment file behaves as a map from keys to values: replacing or appending the
  line of a key sets the value a reader finds for that key, quotes removed, and changes the
  value of no other key, wherever the line stands, exported or not, with a final newline or
  without.\<close>

theorem env_line_update:
  assumes "plain_key k" and "CHR 10 \<notin> set v" and "plain_key k2"
  shows "read_env_var (replace_or_append_env_line cont k (k @ ''='' @ CHR 39 # v @ [CHR 39])) k2
           = ((read_env_var cont)(k := v)) k2"
  using env_line_update_one [OF assms] by simp

theorem env_line_update_witness:
  "read_env_var (replace_or_append_env_line ''A=1'' ''KEY'' (''KEY='' @ CHR 39 # ''$x$'' @ [CHR 39])) ''A'' = ''1''"
proof -
  have "read_env_var ''A=1'' ''A'' = ''1''" by code_simp
  then show ?thesis
    using env_line_update [of "''KEY''" "''$x$''" "''A''" "''A=1''"]
    by (simp add: plain_key_def solid_text_def solid_def)
qed

subsection \<open>The hash\<close>

lemma b64_std_hash_char: "n < 64 \<Longrightarrow> b64_std n = CHR ''+'' \<or> hash_char (b64_std n)"
proof -
  have "\<forall>n \<in> set [0..<64]. b64_std n = CHR ''+'' \<or> hash_char (b64_std n)" by code_simp
  then show "n < 64 \<Longrightarrow> ?thesis" by simp
qed

lemma oidc_base64_chars: "list_all hash_char (oidc_base64 s)"
proof -
  have "b = CHR ''+'' \<or> hash_char b" if "b \<in> set (b64_raw s)" for b
    using set_b64_groups [OF _ that [unfolded b64_raw_def]] bytes_of_less b64_std_hash_char by blast
  then show ?thesis by (auto simp: oidc_base64_def list_all_iff hash_char_def)
qed

lemma oidc_base64_nonempty: "s \<noteq> [] \<Longrightarrow> oidc_base64 s \<noteq> []"
proof -
  assume "s \<noteq> []"
  then have "length (b64_raw s) > 0" by (cases s) (simp_all add: b64_raw_def length_b64_groups bytes_of_def)
  then show ?thesis by (auto simp: oidc_base64_def)
qed

lemma hash_char_plain: "list_all hash_char s \<Longrightarrow> CHR ''$'' \<notin> set s \<and> CHR 10 \<notin> set s"
  by (auto simp: list_all_iff hash_char_def is_alpha_def is_lower_def is_upper_def is_digit_def)

lemma hash_parts:
  assumes "list_all is_digit r" and "list_all hash_char s" and "list_all hash_char h"
  shows "split_on CHR ''$'' (''$pbkdf2-sha512$'' @ r @ ''$'' @ s @ ''$'' @ h) = [[], ''pbkdf2-sha512'', r, s, h]"
    and "CHR 10 \<notin> set (''$pbkdf2-sha512$'' @ r @ ''$'' @ s @ ''$'' @ h)"
proof -
  have "CHR ''$'' \<notin> set r" "CHR 10 \<notin> set r" using assms(1) by (auto simp: list_all_iff is_digit_def)
  moreover note hash_char_plain [OF assms(2)] hash_char_plain [OF assms(3)]
  ultimately show "split_on CHR ''$'' (''$pbkdf2-sha512$'' @ r @ ''$'' @ s @ ''$'' @ h) = [[], ''pbkdf2-sha512'', r, s, h]"
    "CHR 10 \<notin> set (''$pbkdf2-sha512$'' @ r @ ''$'' @ s @ ''$'' @ h)"
    by (simp_all add: split_on_append_sep split_on_single)
qed

lemma pbkdf2_hash_valid:
  assumes "salt \<noteq> []" and "pbkdf2 e plain salt \<noteq> []"
  shows "pbkdf2_hash_re (pbkdf2_sha512_hash e plain salt)" and "CHR 10 \<notin> set (pbkdf2_sha512_hash e plain salt)"
  using hash_parts [OF show_nat_digits oidc_base64_chars oidc_base64_chars, of oidc_rounds salt "pbkdf2 e plain salt"]
    oidc_base64_nonempty [OF assms(1)] oidc_base64_nonempty [OF assms(2)]
  by (simp_all add: pbkdf2_hash_re_def pbkdf2_sha512_hash_def show_nat_digits oidc_base64_chars del: append_Cons)


subsection \<open>A rotation\<close>

lemma atomic_write_files:
  assumes "atomic_write e p c w = (Inr (), w')"
  shows "files w' = (files w)(p @ ''.tmp'' := None, p \<mapsto> File c)"
  using assms by (auto simp: atomic_write_def write_file_def rename_file_def fun_eq_iff
      split: option.splits if_splits sum.splits)

text \<open>The two ways a rotation succeeds: the pair was in place, or everything was written.\<close>

lemma rotate_cases:
  assumes "rotate_client_secret e env_path plain var w = (Inr (), w')"
  obtains (kept) c where "read_file e env_path w = Inr c" "w' = w"
      "pbkdf2_hash_re (read_env_var (content_text e c) var)" "non_empty_file e plain w"
  | (rotated) c b salt v where "read_file e env_path w = Inr c" "length b = 32" "length salt = 16"
      "files w' = ((files w)(filepath_dir plain \<mapsto> Dir, plain @ ''.tmp'' := None,
         plain \<mapsto> File (Bytes (oidc_base64 b @ [CHR 10])), env_path @ ''.tmp'' := None,
         env_path \<mapsto> File (Bytes (replace_or_append_env_line (content_text e c) var
           (var @ ''='' @ CHR 39 # v @ [CHR 39])))))"
      "v = pbkdf2_sha512_hash e (oidc_base64 b) salt"
proof -
  obtain c where c: "read_file e env_path w = Inr c"
    using assms by (auto simp: rotate_client_secret_def split: if_splits sum.splits)
  let ?ok = "pbkdf2_hash_re (read_env_var (content_text e c) var) \<and> non_empty_file e plain w"
  show thesis
  proof (cases ?ok)
    case True
    with assms c show thesis by (intro kept [of c]) (auto simp: rotate_client_secret_def split: if_splits)
  next
    case False
    obtain b w1 where g: "draw_bytes e 32 w = (Some b, w1)"
      using assms c False
      by (auto simp: rotate_client_secret_def generate_oidc_plaintext_def Let_def split: if_splits option.splits prod.splits)
    obtain salt w2 where s: "draw_bytes e 16 w1 = (Some salt, w2)"
      using assms c False g
      by (auto simp: rotate_client_secret_def generate_oidc_plaintext_def Let_def split: if_splits option.splits prod.splits)
    let ?v = "pbkdf2_sha512_hash e (oidc_base64 b) salt"
    obtain w3 where m: "mkdir_all e (filepath_dir plain) w2 = (Inr (), w3)"
      using assms c False g s
      by (auto simp: rotate_client_secret_def generate_oidc_plaintext_def Let_def split: if_splits sum.splits prod.splits)
    obtain w4 where a: "atomic_write e plain (Bytes (oidc_base64 b @ [CHR 10])) w3 = (Inr (), w4)"
      using assms c False g s m
      by (auto simp: rotate_client_secret_def generate_oidc_plaintext_def Let_def split: if_splits sum.splits prod.splits)
    have z: "atomic_write e env_path (Bytes (replace_or_append_env_line (content_text e c) var
        (var @ ''='' @ CHR 39 # ?v @ [CHR 39]))) w4 = (Inr (), w')"
      using assms c False g s m a
      by (auto simp: rotate_client_secret_def generate_oidc_plaintext_def Let_def split: if_splits sum.splits prod.splits)
    have "files w2 = files w" using draw_bytes_frame(1) [of e 32 w] draw_bytes_frame(1) [of e 16 w1] g s by simp
    moreover have "files w3 = (files w2)(filepath_dir plain \<mapsto> Dir)"
      using m by (auto simp: mkdir_all_def split: option.splits node.splits)
    ultimately have "files w' = ((files w)(filepath_dir plain \<mapsto> Dir, plain @ ''.tmp'' := None,
         plain \<mapsto> File (Bytes (oidc_base64 b @ [CHR 10])), env_path @ ''.tmp'' := None,
         env_path \<mapsto> File (Bytes (replace_or_append_env_line (content_text e c) var
           (var @ ''='' @ CHR 39 # ?v @ [CHR 39])))))"
      using atomic_write_files [OF a] atomic_write_files [OF z] by simp
    with c draw_bytes_length [OF g] draw_bytes_length [OF s] show thesis by (intro rotated) auto
  qed
qed

text \<open>C21. After a successful rotation the environment file holds a well-formed hash and the secret
  is on disk; when something was written, the hash is the one of that secret. No other key
  changes its value, no other file is touched, and rotating again changes nothing, so a retried
  installation keeps the secrets it handed out.\<close>

theorem rotate_settles:
  assumes "rotate_client_secret e env_path plain var w = (Inr (), w')"
    and "plain_key var" and "\<forall>pw salt. pbkdf2 e pw salt \<noteq> []"
    and "distinct [env_path, plain, env_path @ ''.tmp'', plain @ ''.tmp'']"
    and "io_fault e (OpStat plain) = None"
  shows "\<exists>c c'. read_file e env_path w = Inr c \<and> read_file e env_path w' = Inr c'
     \<and> pbkdf2_hash_re (read_env_var (content_text e c') var) \<and> non_empty_file e plain w'
     \<and> (w' = w \<or> (\<exists>secret salt. files w' plain = Some (File (Bytes (secret @ [CHR 10])))
          \<and> read_env_var (content_text e c') var = pbkdf2_sha512_hash e secret salt))
     \<and> (\<forall>k. plain_key k \<longrightarrow> k \<noteq> var \<longrightarrow> read_env_var (content_text e c') k = read_env_var (content_text e c) k)
     \<and> {q. files w' q \<noteq> files w q} \<subseteq> {env_path, plain, env_path @ ''.tmp'', plain @ ''.tmp'', filepath_dir plain}
     \<and> rotate_client_secret e env_path plain var w' = (Inr (), w')"
  using assms(1)
proof (cases rule: rotate_cases)
  case (kept c)
  with assms(1) show ?thesis by (intro exI [of _ c]) auto
next
  case (rotated c b salt v)
  let ?t = "replace_or_append_env_line (content_text e c) var (var @ ''='' @ CHR 39 # v @ [CHR 39])"
  have b: "salt \<noteq> []" using rotated(3) by auto
  have v: "pbkdf2_hash_re v" "CHR 10 \<notin> set v" unfolding rotated(5) using assms(3) by (auto intro!: pbkdf2_hash_valid [OF b])
  have f: "files w' env_path = Some (File (Bytes ?t))" "files w' plain = Some (File (Bytes (oidc_base64 b @ [CHR 10])))"
    using assms(4) by (auto simp: rotated(4))
  have r: "read_file e env_path w' = Inr (Bytes ?t)"
    using rotated(1) f(1) by (auto simp: read_file_def split: option.splits)
  have own: "read_env_var ?t var = v" using env_line_update_one [OF assms(2) v(2) assms(2)] by simp
  have other: "plain_key k \<Longrightarrow> k \<noteq> var \<Longrightarrow> read_env_var ?t k = read_env_var (content_text e c) k" for k
    using env_line_update_one [OF assms(2) v(2)] by simp
  have ok: "non_empty_file e plain w'" using f(2) assms(5) by (simp add: non_empty_file_def stat_file_def content_text_def)
  have "env_path \<noteq> []" "var \<noteq> []" "plain \<noteq> []"
    using assms(1) by (auto simp: rotate_client_secret_def split: if_splits)
  then have again: "rotate_client_secret e env_path plain var w' = (Inr (), w')"
    using r own v ok by (simp add: rotate_client_secret_def content_text_def)
  have "{q. files w' q \<noteq> files w q} \<subseteq> {env_path, plain, env_path @ ''.tmp'', plain @ ''.tmp'', filepath_dir plain}"
    by (auto simp: rotated(4))
  with rotated(1,5) r own v ok other again f(2) show ?thesis
    by (intro exI [of _ c] exI [of _ "Bytes ?t"]) (auto simp: content_text_def)
qed

theorem rotate_settles_witness:
  "\<exists>w' c'. rotate_client_secret calm_env ''/e'' ''/s/p'' ''KEY'' (blank_world\<lparr>files := [''/e'' \<mapsto> File (Bytes ''A=1'')]\<rparr>) = (Inr (), w')
     \<and> rotate_client_secret calm_env ''/e'' ''/s/p'' ''KEY'' w' = (Inr (), w')
     \<and> read_file calm_env ''/e'' w' = Inr c' \<and> read_env_var (content_text calm_env c') ''A'' = ''1''"
proof -
  let ?w = "blank_world\<lparr>files := [''/e'' \<mapsto> File (Bytes ''A=1'')]\<rparr>"
  have "fst (rotate_client_secret calm_env ''/e'' ''/s/p'' ''KEY'' ?w) = Inr ()"
  proof -
    have "read_env_var ''A=1'' ''KEY'' = []" "\<not> pbkdf2_hash_re []" "filepath_dir ''/s/p'' = ''/s''" by code_simp+
    then show ?thesis
      by (simp add: rotate_client_secret_def read_file_def content_text_def generate_oidc_plaintext_def
          draw_bytes_def mkdir_all_def atomic_write_def write_file_def rename_file_def)
  qed
  then obtain w' where r: "rotate_client_secret calm_env ''/e'' ''/s/p'' ''KEY'' ?w = (Inr (), w')"
    by (metis prod.collapse)
  have a: "read_env_var ''A=1'' ''A'' = ''1''" by code_simp
  have k: "plain_key ''KEY''" "plain_key ''A''" by (simp_all add: plain_key_def solid_text_def solid_def)
  show ?thesis
    using rotate_settles [OF r k(1)] a k(2) r by (auto simp: read_file_def content_text_def)
qed

end
