(* ===== verification/Pipeline.thy ===== *)
theory Pipeline
  imports World Sse
begin

text \<open>
  Long-running work that reports its progress: a program returns an error or a value, the events
  it emitted, and the new world. The installation and the backups are written in it. With it come
  the two judgements their proofs use: what a program leaves alone (\<open>same\<close>), and a Hoare triple
  whose second postcondition is that of the failing end.
\<close>

type_synonym ('e, 'a) prog = "world \<Rightarrow> ('e + 'a) \<times> sse_event list \<times> world"

definition give :: "'a \<Rightarrow> ('e, 'a) prog" where
  "give x w = (Inr x, [], w)"

definition give_up :: "'e \<Rightarrow> ('e, 'a) prog" where
  "give_up err w = (Inl err, [], w)"

definition emit :: "sse_event \<Rightarrow> ('e, unit) prog" where
  "emit ev w = (Inr (), [ev], w)"

definition and_then :: "('e, 'a) prog \<Rightarrow> ('a \<Rightarrow> ('e, 'b) prog) \<Rightarrow> ('e, 'b) prog" where
  "and_then m f w =
     (case m w of
        (Inl err, evs, w1) \<Rightarrow> (Inl err, evs, w1)
      | (Inr x, evs, w1) \<Rightarrow> (case f x w1 of (r, evs2, w2) \<Rightarrow> (r, evs @ evs2, w2)))"

text \<open>A step without events, a failure as a value, a renamed error, and work that is done on every
  way out (\<open>defer\<close>).\<close>

definition quietly :: "(world \<Rightarrow> ('e + 'a) \<times> world) \<Rightarrow> ('e, 'a) prog" where
  "quietly m w = (case m w of (r, w1) \<Rightarrow> (r, [], w1))"

definition attempt :: "('e, 'a) prog \<Rightarrow> ('f, 'e + 'a) prog" where
  "attempt m w = (case m w of (r, evs, w1) \<Rightarrow> (Inr r, evs, w1))"

definition map_error :: "('e \<Rightarrow> 'f) \<Rightarrow> ('e, 'a) prog \<Rightarrow> ('f, 'a) prog" where
  "map_error g m w = (case m w of (r, evs, w1) \<Rightarrow> (map_sum g id r, evs, w1))"

definition finally_do :: "('e, 'a) prog \<Rightarrow> (world \<Rightarrow> sse_event list \<times> world) \<Rightarrow> ('e, 'a) prog" where
  "finally_do m k w =
     (case m w of (r, evs, w1) \<Rightarrow> (case k w1 of (evs2, w2) \<Rightarrow> (r, evs @ evs2, w2)))"

lemma and_then_give: "and_then (give x) f = f x"
  by (rule ext) (simp add: and_then_def give_def)

lemma and_then_assoc: "and_then (and_then m f) g = and_then m (\<lambda>x. and_then (f x) g)"
  by (rule ext) (auto simp: and_then_def split: prod.split sum.split)

subsection \<open>What a program may do\<close>

definition moves :: "(world \<Rightarrow> sse_event list \<Rightarrow> world \<Rightarrow> bool) \<Rightarrow> ('e, 'a) prog \<Rightarrow> bool" where
  "moves R m \<longleftrightarrow> (\<forall>w. case m w of (r, evs, w') \<Rightarrow> R w evs w')"

lemma movesD: "moves R m \<Longrightarrow> m w = (r, evs, w') \<Longrightarrow> R w evs w'"
  by (auto simp: moves_def split: prod.splits)

text \<open>A relation that holds when nothing happens and composes carries over to programs.\<close>

locale effect_order =
  fixes R :: "world \<Rightarrow> sse_event list \<Rightarrow> world \<Rightarrow> bool"
  assumes still: "R w [] w"
    and compose: "R u as v \<Longrightarrow> R v bs w \<Longrightarrow> R u (as @ bs) w"
begin

lemma moves_give: "moves R (give x)"
  by (simp add: moves_def give_def still)

lemma moves_give_up: "moves R (give_up x)"
  by (simp add: moves_def give_up_def still)

lemma moves_emit: "(\<And>w. R w [ev] w) \<Longrightarrow> moves R (emit ev)"
  by (simp add: moves_def emit_def)

lemma moves_and_then:
  assumes "moves R m" and "\<And>x. moves R (g x)"
  shows "moves R (and_then m g)"
  unfolding moves_def and_then_def
  by (auto split: prod.split sum.split intro: compose dest: movesD [OF assms(1)] movesD [OF assms(2)])

lemma moves_quietly: "(\<And>w. R w [] (snd (m w))) \<Longrightarrow> moves R (quietly m)"
  by (simp add: moves_def quietly_def case_prod_beta)

lemma moves_attempt: "moves R m \<Longrightarrow> moves R (attempt m)"
  by (simp add: moves_def attempt_def case_prod_beta)

lemma moves_map_error: "moves R m \<Longrightarrow> moves R (map_error g m)"
  by (simp add: moves_def map_error_def case_prod_beta)

lemma moves_finally_do:
  assumes "moves R m" and "\<And>w. R w (fst (k w)) (snd (k w))"
  shows "moves R (finally_do m k)"
  unfolding moves_def finally_do_def
  using assms(2) by (auto split: prod.split intro!: compose dest: movesD [OF assms(1)]) (metis fst_conv snd_conv)

lemmas moves_intros = moves_give moves_give_up moves_emit moves_and_then moves_quietly moves_attempt
  moves_map_error moves_finally_do

end

subsection \<open>What a program leaves alone\<close>

named_theorems same_intros \<open>programs that leave one part of the world alone\<close>

definition same :: "(world \<Rightarrow> 'b) \<Rightarrow> ('e, 'a) prog \<Rightarrow> bool" where
  "same f m \<longleftrightarrow> (\<forall>w. f (snd (snd (m w))) = f w)"

abbreviation keeps :: "string \<Rightarrow> ('e, 'a) prog \<Rightarrow> bool" where
  "keeps q \<equiv> same (\<lambda>w. files w q)"

lemma sameD: "same f m \<Longrightarrow> m w = (r, evs, w') \<Longrightarrow> f w' = f w"
  unfolding same_def by (metis snd_conv)

lemma same_moves: "same f m = moves (\<lambda>w evs w'. f w' = f w) m"
  by (simp add: same_def moves_def case_prod_beta)

interpretation unchanged: effect_order "\<lambda>w evs w'. f w' = f w" for f
  by unfold_locales simp_all

lemma same_give [same_intros]: "same f (give x)"
  unfolding same_moves by (rule unchanged.moves_give)

lemma same_give_up [same_intros]: "same f (give_up x)"
  unfolding same_moves by (rule unchanged.moves_give_up)

lemma same_emit [same_intros]: "same f (emit ev)"
  unfolding same_moves by (rule unchanged.moves_emit) simp

lemma same_and_then [same_intros]: "same f m \<Longrightarrow> (\<And>x. same f (g x)) \<Longrightarrow> same f (and_then m g)"
  unfolding same_moves by (rule unchanged.moves_and_then)

lemma same_quietly [same_intros]: "(\<And>w. f (snd (m w)) = f w) \<Longrightarrow> same f (quietly m)"
  unfolding same_moves by (rule unchanged.moves_quietly)

lemma same_attempt [same_intros]: "same f m \<Longrightarrow> same f (attempt m)"
  unfolding same_moves by (rule unchanged.moves_attempt)

lemma same_map_error [same_intros]: "same f m \<Longrightarrow> same f (map_error g m)"
  unfolding same_moves by (rule unchanged.moves_map_error)

lemma same_finally_do [same_intros]: "same f m \<Longrightarrow> (\<And>w. f (snd (k w)) = f w) \<Longrightarrow> same f (finally_do m k)"
  unfolding same_moves by (rule unchanged.moves_finally_do)

subsection \<open>Hoare triples\<close>

definition triple :: "(world \<Rightarrow> bool) \<Rightarrow> ('e, 'a) prog \<Rightarrow> ('a \<Rightarrow> world \<Rightarrow> bool) \<Rightarrow> (world \<Rightarrow> bool) \<Rightarrow> bool" where
  "triple P m Q E \<longleftrightarrow> (\<forall>w. P w \<longrightarrow>
     (case m w of (Inl err, evs, w') \<Rightarrow> E w' | (Inr x, evs, w') \<Rightarrow> Q x w'))"

lemma triple_give: "(\<And>w. P w \<Longrightarrow> Q x w) \<Longrightarrow> triple P (give x) Q E"
  by (simp add: triple_def give_def)

lemma triple_emit: "(\<And>w. P w \<Longrightarrow> Q () w) \<Longrightarrow> triple P (emit ev) Q E"
  by (simp add: triple_def emit_def)

lemma triple_and_then:
  assumes "triple P m R E" and "\<And>x. triple (R x) (f x) Q E"
  shows "triple P (and_then m f) Q E"
  using assms unfolding triple_def and_then_def
  by (fastforce split: prod.splits sum.splits)

lemma map_sum_iff: "map_sum g id r = Inl y \<longleftrightarrow> (\<exists>x. r = Inl x \<and> y = g x)" "map_sum g id r = Inr z \<longleftrightarrow> r = Inr z"
  by (cases r; auto)+

lemma triple_map_error: "triple P m Q E \<Longrightarrow> triple P (map_error g m) Q E"
  unfolding triple_def map_error_def by (fastforce simp: map_sum_iff split: prod.splits sum.splits)

lemma triple_weaken:
  "triple P m Q E \<Longrightarrow> (\<And>w. P' w \<Longrightarrow> P w) \<Longrightarrow> (\<And>x w. Q x w \<Longrightarrow> Q' x w) \<Longrightarrow> (\<And>w. E w \<Longrightarrow> E' w) \<Longrightarrow> triple P' m Q' E'"
  unfolding triple_def by (fastforce split: prod.splits sum.splits)

lemma triple_fact: "(A \<Longrightarrow> triple P m Q E) \<Longrightarrow> triple (\<lambda>w. P w \<and> A) m Q E"
  by (auto simp: triple_def)

lemma triple_end: "triple P m (\<lambda>_. P) P \<Longrightarrow> P w \<Longrightarrow> P (snd (snd (m w)))"
  unfolding triple_def by (cases "m w") (fastforce split: sum.splits)

lemma triple_conj:
  "triple P m Q E \<Longrightarrow> triple P' m Q' E' \<Longrightarrow>
   triple (\<lambda>w. P w \<and> P' w) m (\<lambda>x w. Q x w \<and> Q' x w) (\<lambda>w. E w \<and> E' w)"
  unfolding triple_def by (fastforce split: prod.splits sum.splits)

lemma triple_any: "triple (\<lambda>_. True) m (\<lambda>_ _. True) (\<lambda>_. True)"
  by (auto simp: triple_def split: prod.split sum.split)

text \<open>A property of one part of the world survives a program that leaves the part alone.\<close>

definition about :: "(world \<Rightarrow> 'b) \<Rightarrow> (world \<Rightarrow> bool) \<Rightarrow> bool" where
  "about f P \<longleftrightarrow> (\<forall>w w'. f w' = f w \<longrightarrow> P w \<longrightarrow> P w')"

abbreviation on_file :: "string \<Rightarrow> (world \<Rightarrow> bool) \<Rightarrow> bool" where
  "on_file q \<equiv> about (\<lambda>w. files w q)"

lemma triple_same: "about f P \<Longrightarrow> same f m \<Longrightarrow> triple P m (\<lambda>_. P) P"
  unfolding triple_def same_def about_def
  by (metis (mono_tags, lifting) case_prod_beta old.sum.exhaust old.sum.simps(5,6))

end
