(* ===== verification/NpmClient.thy ===== *)
theory NpmClient
  imports Launcher Storage Oidc
begin

text \<open>
  \<open>npm_client.go\<close>: the client of the proxy manager's API. It only connects to private
  addresses, follows redirects as Go's default client does (the \<open>Referer\<close> header is left out),
  and keeps the bearer token of the last login. The passwords it zeroes after use are values
  here and have no memory to clear.
\<close>

subsection \<open>Data\<close>

record proxy_host =
  ph_domain_names :: "string list"
  ph_forward_scheme :: string
  ph_forward_host :: string
  ph_forward_port :: int
  ph_block_exploits :: bool
  ph_caching_enabled :: bool
  ph_allow_websocket :: bool
  ph_access_list_id :: int
  ph_certificate_id :: int
  ph_ssl_forced :: bool
  ph_http2 :: bool
  ph_hsts :: bool
  ph_hsts_subdomains :: bool
  ph_advanced_config :: string
  ph_meta :: "(string \<times> json) list option"
  ph_locations :: "json list option"

record certificate =
  ce_provider :: string
  ce_nice_name :: string

record npm_client =
  npm_base :: string
  npm_token :: string

definition jnum :: "int \<Rightarrow> json" where
  "jnum n = JNum (show_int n)"

definition proxy_host_json :: "proxy_host \<Rightarrow> json" where
  "proxy_host_json h = JObj
     [(''domain_names'', JArr (map JStr (ph_domain_names h))), (''forward_scheme'', JStr (ph_forward_scheme h)),
      (''forward_host'', JStr (ph_forward_host h)), (''forward_port'', jnum (ph_forward_port h)),
      (''block_exploits'', JBool (ph_block_exploits h)), (''caching_enabled'', JBool (ph_caching_enabled h)),
      (''allow_websocket_upgrade'', JBool (ph_allow_websocket h)), (''access_list_id'', jnum (ph_access_list_id h)),
      (''certificate_id'', jnum (ph_certificate_id h)), (''ssl_forced'', JBool (ph_ssl_forced h)),
      (''http2_support'', JBool (ph_http2 h)), (''hsts_enabled'', JBool (ph_hsts h)),
      (''hsts_subdomains'', JBool (ph_hsts_subdomains h)), (''advanced_config'', JStr (ph_advanced_config h)),
      (''meta'', case ph_meta h of None \<Rightarrow> JNull | Some m \<Rightarrow> JObj m),
      (''locations'', case ph_locations h of None \<Rightarrow> JNull | Some ls \<Rightarrow> JArr ls)]"

definition certificate_json :: "certificate \<Rightarrow> json" where
  "certificate_json c = JObj [(''provider'', JStr (ce_provider c)), (''nice_name'', JStr (ce_nice_name c))]"

subsection \<open>Decoding replies\<close>

definition decode_obj :: "(string \<times> json \<Rightarrow> 'a \<Rightarrow> 'a option) \<Rightarrow> 'a \<Rightarrow> json \<Rightarrow> 'a option" where
  "decode_obj f z j = (case j of JObj kvs \<Rightarrow> fold_opt f kvs z | JNull \<Rightarrow> Some z | _ \<Rightarrow> None)"

fun all_some :: "'a option list \<Rightarrow> 'a list option" where
  "all_some [] = Some []"
| "all_some (x # xs) = (case (x, all_some xs) of (Some y, Some ys) \<Rightarrow> Some (y # ys) | _ \<Rightarrow> None)"

definition decode_list :: "(json \<Rightarrow> 'a option) \<Rightarrow> json \<Rightarrow> 'a list option" where
  "decode_list f j = (case j of JArr js \<Rightarrow> all_some (map f js) | JNull \<Rightarrow> Some [] | _ \<Rightarrow> None)"

definition decode_strings :: "json \<Rightarrow> string list option" where
  "decode_strings = decode_list (\<lambda>j. decode_string j [])"

definition decode_token :: "json \<Rightarrow> string option" where
  "decode_token = decode_obj (\<lambda>fld t. if go_to_lower (fst fld) = ''token'' then decode_string (snd fld) t else Some t) []"

definition decode_id :: "json \<Rightarrow> int option" where
  "decode_id = decode_obj (\<lambda>fld n. if go_to_lower (fst fld) = ''id'' then decode_int (snd fld) n else Some n) 0"

definition decode_user_entry :: "json \<Rightarrow> (int \<times> string) option" where
  "decode_user_entry = decode_obj (\<lambda>fld (n, m).
     if go_to_lower (fst fld) = ''id'' then map_option (\<lambda>x. (x, m)) (decode_int (snd fld) n)
     else if go_to_lower (fst fld) = ''email'' then map_option (\<lambda>x. (n, x)) (decode_string (snd fld) m)
     else Some (n, m)) (0, [])"

definition decode_host_entry :: "json \<Rightarrow> (int \<times> string list) option" where
  "decode_host_entry = decode_obj (\<lambda>fld (n, ds).
     if go_to_lower (fst fld) = ''id'' then map_option (\<lambda>x. (x, ds)) (decode_int (snd fld) n)
     else if go_to_lower (fst fld) = ''domain_names'' then map_option (\<lambda>x. (n, x)) (decode_strings (snd fld))
     else Some (n, ds)) (0, [])"

definition decode_cert_entry :: "json \<Rightarrow> (int \<times> string) option" where
  "decode_cert_entry = decode_obj (\<lambda>fld (n, m).
     if go_to_lower (fst fld) = ''id'' then map_option (\<lambda>x. (x, m)) (decode_int (snd fld) n)
     else if go_to_lower (fst fld) = ''nice_name'' then map_option (\<lambda>x. (n, x)) (decode_string (snd fld) m)
     else if go_to_lower (fst fld) = ''provider'' then map_option (\<lambda>_. (n, m)) (decode_string (snd fld) [])
     else if go_to_lower (fst fld) = ''domain_names'' then map_option (\<lambda>_. (n, m)) (decode_strings (snd fld))
     else Some (n, m)) (0, [])"

subsection \<open>Transport\<close>

definition test_mode :: "env \<Rightarrow> bool" where
  "test_mode e \<longleftrightarrow> getenv e ''TEST_MODE'' = ''1''"

definition npm_control :: "ip \<Rightarrow> unit res" where
  "npm_control a =
     (if \<not> is_private_ip a then Inl (Failure ''npm dialer: refusing to dial public IP (NPM admin API must be internal-only)'')
      else Inr ())"

text \<open>What the default client sends after a redirect: a method other than GET or HEAD turns into
  GET without a body unless the status keeps it, and the token goes to the first host and its
  subdomains only.\<close>

definition may_keep_auth :: "string \<Rightarrow> string \<Rightarrow> bool" where
  "may_keep_auth u0 u =
     (case (url_parse u0, url_parse u) of
        (Some a, Some b) \<Rightarrow>
          (let parent = url_hostname a; sub = url_hostname b in
           sub = parent \<or> (CHR '':'' \<notin> set sub \<and> CHR ''%'' \<notin> set sub \<and> has_suffix sub (''.'' @ parent)))
      | _ \<Rightarrow> False)"

definition redirected :: "int \<Rightarrow> string \<Rightarrow> string \<Rightarrow> http_call \<Rightarrow> http_call" where
  "redirected code u0 u c =
     (let c1 = (if code \<in> {307, 308} \<or> hc_method c = ''GET'' \<or> hc_method c = ''HEAD'' then c
                else c\<lparr>hc_method := ''GET'', hc_body := []\<rparr>) in
      c1\<lparr>hc_url := u, hc_headers := (if may_keep_auth u0 u then hc_headers c1
           else filter (\<lambda>h. fst h \<noteq> ''Authorization'') (hc_headers c1))\<rparr>)"

function npm_http :: "env \<Rightarrow> nat \<Rightarrow> string \<Rightarrow> http_call \<Rightarrow> world \<Rightarrow> http_reply res \<times> world" where
  "npm_http e via u0 c w =
     (case send_once npm_control e c w of
        (Inl err, w1) \<Rightarrow> (Inl err, w1)
      | (Inr r, w1) \<Rightarrow>
          (if \<not> is_redirect r then (Inr r, w1)
           else (case url_ref e (hc_url c) (location_of r) of
                   Inl err \<Rightarrow> (Inl (Failure (''failed to parse Location header: '' @ err_text err)), w1)
                 | Inr u2 \<Rightarrow>
                     (if Suc via \<ge> 10 then (Inl (Failure ''stopped after 10 redirects''), w1)
                      else npm_http e (Suc via) u0 (redirected (hr_status r) u0 u2 c) w1))))"
  by pat_completeness auto
termination by (relation "measure (\<lambda>(e, via, u0, c, w). 10 - via)") auto

declare npm_http.simps [simp del]

definition trim_right_char :: "char \<Rightarrow> string \<Rightarrow> string" where
  "trim_right_char c s = rev (dropWhile (\<lambda>x. x = c) (rev s))"

definition new_npm_client :: "string \<Rightarrow> npm_client" where
  "new_npm_client base = \<lparr>npm_base = trim_right_char CHR ''/'' base, npm_token = []\<rparr>"

definition validate_base_url :: "env \<Rightarrow> npm_client \<Rightarrow> world \<Rightarrow> unit res \<times> world" where
  "validate_base_url e cl w =
     (case url_parse (npm_base cl) of
        None \<Rightarrow> (Inl (Failure (''npm: parse base URL '' @ go_quote (npm_base cl))), w)
      | Some u \<Rightarrow>
          (if u_scheme u \<noteq> ''http'' \<and> u_scheme u \<noteq> ''https'' then
             (Inl (Failure (''npm: base URL must be http(s), got '' @ go_quote (u_scheme u))), w)
           else if url_hostname u = [] then (Inl (Failure ''npm: base URL has empty host''), w)
           else (case parse_ip e (url_hostname u) of
                   Some a \<Rightarrow>
                     (if \<not> is_private_ip a
                      then (Inl (Failure (''npm: base URL '' @ npm_base cl @ '' resolves to public IP (refusing)'')), w)
                      else (Inr (), w))
                 | None \<Rightarrow>
                     (case lookup_ip e (url_hostname u) w of
                        (Inl err, w1) \<Rightarrow>
                          (Inl (Failure (''npm: resolve '' @ url_hostname u @ '': '' @ err_text err)), w1)
                      | (Inr ips, w1) \<Rightarrow>
                          (if list_ex (\<lambda>a. \<not> is_private_ip a) ips
                           then (Inl (Failure (''npm: '' @ url_hostname u @ '' resolves to public IP (refusing)'')), w1)
                           else (Inr (), w1))))))"

definition read_bounded :: "nat \<Rightarrow> string \<Rightarrow> string" where
  "read_bounded n s = (let t = go_trim_space (take n s) in if t = [] then ''(empty body)'' else t)"

text \<open>\<open>do\<close>: \<open>dec\<close> decodes the reply where the caller passes a target; \<open>z\<close> is its zero value.\<close>

definition npm_do :: "env \<Rightarrow> npm_client \<Rightarrow> string \<Rightarrow> string \<Rightarrow> json option \<Rightarrow> (json \<Rightarrow> 'a option) option \<Rightarrow> 'a
    \<Rightarrow> world \<Rightarrow> 'a res \<times> world" where
  "npm_do e cl meth path bd dec z w =
     (if test_mode e then (Inr z, w)
      else if url_parse (npm_base cl @ path) = None then
        (Inl (Failure (''npm: build request '' @ path)), w)
      else (let c = \<lparr>hc_method = meth, hc_url = npm_base cl @ path,
              hc_headers = (if bd = None then [] else [(''Content-Type'', ''application/json'')])
                @ (if npm_token cl = [] then [] else [(''Authorization'', ''Bearer '' @ npm_token cl)]),
              hc_body = (case bd of None \<Rightarrow> [] | Some j \<Rightarrow> render e (Json j))\<rparr> in
        case npm_http e 0 (hc_url c) c w of
          (Inl err, w1) \<Rightarrow> (Inl (Failure (''npm: '' @ meth @ '' '' @ path @ '': '' @ err_text err)), w1)
        | (Inr r, w1) \<Rightarrow>
            (if hr_status r \<ge> 400 then
               (Inl (Failure (''npm: '' @ meth @ '' '' @ path @ '': status '' @ show_int (hr_status r) @ '': ''
                  @ read_bounded (4 * 1024) (hr_body r))), w1)
             else (case dec of
                     None \<Rightarrow> (Inr z, w1)
                   | Some f \<Rightarrow>
                       (case Option.bind (json_first e (hr_body r)) f of
                          None \<Rightarrow> (Inl (Failure (''npm: decode '' @ path @ '' response'')), w1)
                        | Some x \<Rightarrow> (Inr x, w1))))))"

subsection \<open>Login and bootstrap\<close>

definition npm_login :: "env \<Rightarrow> npm_client \<Rightarrow> string \<Rightarrow> string \<Rightarrow> world \<Rightarrow> unit res \<times> npm_client \<times> world" where
  "npm_login e cl email pw w =
     (if test_mode e then (Inr (), cl\<lparr>npm_token := ''test-mode-token''\<rparr>, w)
      else (case validate_base_url e cl w of
        (Inl err, w1) \<Rightarrow> (Inl err, cl, w1)
      | (Inr _, w1) \<Rightarrow>
          (case npm_do e cl ''POST'' ''/api/tokens''
                  (Some (JObj [(''identity'', JStr email), (''secret'', JStr pw)])) (Some decode_token) [] w1 of
             (Inl err, w2) \<Rightarrow> (Inl err, cl, w2)
           | (Inr tok, w2) \<Rightarrow>
               (if tok = [] then (Inl (Failure ''npm: login returned empty token''), cl, w2)
                else (Inr (), cl\<lparr>npm_token := tok\<rparr>, w2)))))"

text \<open>Replacing the initial administrator, logged in as such.\<close>

definition npm_rotate_admin ::
    "env \<Rightarrow> npm_client \<Rightarrow> string \<Rightarrow> string \<Rightarrow> string \<Rightarrow> string \<Rightarrow> world \<Rightarrow> unit res \<times> npm_client \<times> world" where
  "npm_rotate_admin e cl cur_email cur_pw new_email new_pw w =
     (case npm_do e cl ''GET'' ''/api/users'' None (Some (decode_list decode_user_entry)) [] w of
        (Inl err, w1) \<Rightarrow> (Inl (prefix_err ''npm bootstrap: list users: '' err), cl, w1)
      | (Inr users, w1) \<Rightarrow>
          (let uid = (case find (\<lambda>u. go_to_lower (snd u) = go_to_lower cur_email) users of
                        Some u \<Rightarrow> fst u | None \<Rightarrow> 0) in
           if uid = 0 then
             (Inl (Failure (''npm bootstrap: default admin '' @ go_quote cur_email @ '' not found in user list'')), cl, w1)
           else (case npm_do e cl ''PUT'' (''/api/users/'' @ show_int uid)
                   (Some (JObj [(''email'', JStr new_email), (''is_disabled'', JBool False), (''name'', JStr ''Administrator''),
                      (''nickname'', JStr ''Admin''), (''roles'', JArr [JStr ''admin''])])) None () w1 of
             (Inl err, w2) \<Rightarrow> (Inl (prefix_err ''npm bootstrap: update user: '' err), cl, w2)
           | (Inr _, w2) \<Rightarrow>
               (case npm_do e cl ''PUT'' (''/api/users/'' @ show_int uid @ ''/auth'')
                   (Some (JObj [(''current'', JStr cur_pw), (''secret'', JStr new_pw), (''type'', JStr ''password'')])) None () w2 of
                  (Inl err, w3) \<Rightarrow> (Inl (prefix_err ''npm bootstrap: rotate password: '' err), cl, w3)
                | (Inr _, w3) \<Rightarrow>
                    (case npm_login e (cl\<lparr>npm_token := []\<rparr>) new_email new_pw w3 of
                       (Inl err, cl1, w4) \<Rightarrow> (Inl (prefix_err ''npm bootstrap: re-login post-rotation: '' err), cl1, w4)
                     | (Inr _, cl1, w4) \<Rightarrow> (Inr (), cl1, w4))))))"

definition npm_bootstrap ::
    "env \<Rightarrow> npm_client \<Rightarrow> string \<Rightarrow> string \<Rightarrow> string \<Rightarrow> string \<Rightarrow> world \<Rightarrow> unit res \<times> npm_client \<times> world" where
  "npm_bootstrap e cl cur_email cur_pw new_email new_pw w =
     (if test_mode e then (Inr (), cl\<lparr>npm_token := ''test-mode-token''\<rparr>, w)
      else (case npm_login e cl new_email new_pw w of
        (Inr _, cl1, w1) \<Rightarrow> (Inr (), cl1, w1)
      | (Inl _, cl1, w1) \<Rightarrow>
          (case npm_login e cl1 cur_email cur_pw w1 of
             (Inl err, cl2, w2) \<Rightarrow>
               (Inl (prefix_err ''npm bootstrap: cannot log in with defaults or new creds (NPM may not be ready yet): '' err), cl2, w2)
           | (Inr _, cl2, w2) \<Rightarrow> npm_rotate_admin e cl2 cur_email cur_pw new_email new_pw w2)))"

subsection \<open>Proxy hosts and certificates\<close>

definition list_proxy_hosts :: "env \<Rightarrow> npm_client \<Rightarrow> world \<Rightarrow> (int \<times> string list) list res \<times> world" where
  "list_proxy_hosts e cl w =
     (if test_mode e then (Inr [], w)
      else if npm_token cl = [] then (Inl (Failure ''npm: not logged in''), w)
      else npm_do e cl ''GET'' ''/api/nginx/proxy-hosts'' None (Some (decode_list decode_host_entry)) [] w)"

definition with_defaults :: "proxy_host \<Rightarrow> proxy_host" where
  "with_defaults h = h\<lparr>
     ph_meta := (case ph_meta h of None \<Rightarrow> Some [(''dns_challenge'', JBool False), (''letsencrypt_agree'', JBool False)] | m \<Rightarrow> m),
     ph_locations := (case ph_locations h of None \<Rightarrow> Some [] | l \<Rightarrow> l)\<rparr>"

definition upsert_proxy_host :: "env \<Rightarrow> npm_client \<Rightarrow> proxy_host \<Rightarrow> world \<Rightarrow> int res \<times> world" where
  "upsert_proxy_host e cl h w =
     (if test_mode e then (Inr 0, w)
      else if npm_token cl = [] then (Inl (Failure ''npm: not logged in (call Login or Bootstrap first)''), w)
      else (case ph_domain_names h of
        [] \<Rightarrow> (Inl (Failure ''npm: proxy host has no domain_names''), w)
      | primary # _ \<Rightarrow>
          (case npm_do e cl ''GET'' ''/api/nginx/proxy-hosts'' None (Some (decode_list decode_host_entry)) [] w of
             (Inl err, w1) \<Rightarrow> (Inl err, w1)
           | (Inr existing, w1) \<Rightarrow>
               (let eid = (case find (\<lambda>x. primary \<in> set (snd x) \<and> fst x \<noteq> 0) existing of Some x \<Rightarrow> fst x | None \<Rightarrow> 0);
                    body = Some (proxy_host_json (with_defaults h)) in
                if eid > 0 then
                  (case npm_do e cl ''PUT'' (''/api/nginx/proxy-hosts/'' @ show_int eid) body (Some decode_id) 0 w1 of
                     (Inl err, w2) \<Rightarrow> (Inl err, w2) | (Inr _, w2) \<Rightarrow> (Inr eid, w2))
                else npm_do e cl ''POST'' ''/api/nginx/proxy-hosts'' body (Some decode_id) 0 w1))))"

definition upload_certificate :: "env \<Rightarrow> npm_client \<Rightarrow> int \<Rightarrow> string \<Rightarrow> string \<Rightarrow> world \<Rightarrow> unit res \<times> world" where
  "upload_certificate e cl cid chain_path key_path w =
     (if test_mode e then (Inr (), w)
      else if npm_token cl = [] then (Inl (Failure ''npm: not logged in''), w)
      else if cid = 0 then (Inl (Failure ''npm: cert id required''), w)
      else (case read_file e chain_path w of
        Inl err \<Rightarrow> (Inl (prefix_err (''read fullchain '' @ chain_path @ '': '') err), w)
      | Inr chain \<Rightarrow>
          (case read_file e key_path w of
             Inl err \<Rightarrow> (Inl (prefix_err (''read privkey '' @ key_path @ '': '') err), w)
           | Inr key \<Rightarrow>
               (let (ctype, body) = multipart e [(''certificate'', ''fullchain.pem'', content_text e chain),
                      (''certificate_key'', ''privkey.pem'', content_text e key)];
                    u = npm_base cl @ ''/api/nginx/certificates/'' @ show_int cid @ ''/upload'' in
                if url_parse u = None then (Inl (Failure ''npm: build upload request''), w)
                else (case npm_http e 0 u \<lparr>hc_method = ''POST'', hc_url = u, hc_headers = [(''Content-Type'', ctype),
                             (''Authorization'', ''Bearer '' @ npm_token cl)], hc_body = body\<rparr> w of
                        (Inl err, w1) \<Rightarrow> (Inl (prefix_err ''npm: POST upload: '' err), w1)
                      | (Inr r, w1) \<Rightarrow>
                          (if hr_status r \<ge> 400 then
                             (Inl (Failure (''npm: upload status '' @ show_int (hr_status r) @ '': ''
                                @ read_bounded (4 * 1024) (hr_body r))), w1)
                           else (Inr (), w1)))))))"

text \<open>The code also returns the identifier of a failed upload, which its caller drops.\<close>

definition upsert_certificate :: "env \<Rightarrow> npm_client \<Rightarrow> certificate \<Rightarrow> string \<Rightarrow> string \<Rightarrow> world \<Rightarrow> int res \<times> world" where
  "upsert_certificate e cl cert chain_path key_path w =
     (if test_mode e then (Inr 0, w)
      else if npm_token cl = [] then (Inl (Failure ''npm: not logged in''), w)
      else if ce_nice_name cert = [] then (Inl (Failure ''npm: certificate nice_name required''), w)
      else (let cert1 = (if ce_provider cert = [] then cert\<lparr>ce_provider := ''other''\<rparr> else cert) in
        case npm_do e cl ''GET'' ''/api/nginx/certificates'' None (Some (decode_list decode_cert_entry)) [] w of
          (Inl err, w1) \<Rightarrow> (Inl err, w1)
        | (Inr existing, w1) \<Rightarrow>
            (let cid = (case find (\<lambda>x. snd x = ce_nice_name cert1) existing of Some x \<Rightarrow> fst x | None \<Rightarrow> 0) in
             case (if cid = 0 then npm_do e cl ''POST'' ''/api/nginx/certificates'' (Some (certificate_json cert1)) (Some decode_id) 0 w1
                   else (Inr cid, w1)) of
               (Inl err, w2) \<Rightarrow> (Inl err, w2)
             | (Inr nid, w2) \<Rightarrow>
                 (if chain_path = [] \<or> key_path = [] then (Inr nid, w2)
                  else (case upload_certificate e cl nid chain_path key_path w2 of
                          (Inl err, w3) \<Rightarrow> (Inl (prefix_err ''upload pem: '' err), w3)
                        | (Inr _, w3) \<Rightarrow> (Inr nid, w3))))))"

end
