(* ===== verification/FinalizeVerify.thy ===== *)
theory FinalizeVerify
  imports SetupState NpmClient
begin

text \<open>
  \<open>finalize_verify.go\<close>: the checks that read back what each step of the installation left on
  disk and in the proxy manager. The YAML decoder and the certificate parser are parameters.
\<close>

definition verify_users_db :: "env \<Rightarrow> config \<Rightarrow> string \<Rightarrow> world \<Rightarrow> unit res" where
  "verify_users_db e cfg admin w =
     (if admin = [] then Inl (Failure ''verify users_db: admin username unset in state.json'')
      else (case read_file e (users_db_path cfg) w of
        Inl err \<Rightarrow> Inl (prefix_err (''verify users_db: read '' @ users_db_path cfg @ '': '') err)
      | Inr c \<Rightarrow>
          (case yaml_user_names e c of
             Inl err \<Rightarrow> Inl (prefix_err (''verify users_db: parse '' @ users_db_path cfg @ '': '') err)
           | Inr names \<Rightarrow>
               (if admin \<in> set names then Inr ()
                else Inl (Failure (''verify users_db: admin '' @ go_quote admin @ '' not present in '' @ users_db_path cfg
                  @ '' (file parses but the upsert silently produced an empty mapping)''))))))"

subsection \<open>Rendered templates\<close>

definition strip_yaml_comments :: "string \<Rightarrow> string" where
  "strip_yaml_comments s = concat (map (\<lambda>l. takeWhile (\<lambda>c. c \<noteq> CHR ''#'') l @ [CHR 10]) (split_on CHR 10 s))"

text \<open>The expression \<open>unrendered\<close>, at the start of a text and at its first match.\<close>

definition var_start :: "char \<Rightarrow> bool" where
  "var_start c \<longleftrightarrow> is_upper c \<or> c = CHR ''_''"

definition var_char :: "char \<Rightarrow> bool" where
  "var_char c \<longleftrightarrow> var_start c \<or> is_digit c"

definition placeholder_at :: "string \<Rightarrow> string option" where
  "placeholder_at s =
     (if has_prefix s ''${'' then
        (let name = takeWhile var_char (drop 2 s) in
         if name \<noteq> [] \<and> var_start (hd name) \<and> has_prefix (drop (2 + length name) s) ''}''
         then Some (''${'' @ name @ ''}'') else None)
      else None)"

fun find_placeholder :: "string \<Rightarrow> string option" where
  "find_placeholder [] = None"
| "find_placeholder (c # cs) =
     (case placeholder_at (c # cs) of Some m \<Rightarrow> Some m | None \<Rightarrow> find_placeholder cs)"

definition client_secret_line :: "string \<Rightarrow> string option" where
  "client_secret_line raw =
     (let line = go_trim_space raw in
      if has_prefix line ''client_secret:'' then Some (strip_quotes (go_trim_space (trim_prefix line ''client_secret:'')))
      else None)"

definition extract_oidc_client_secret :: "string \<Rightarrow> string" where
  "extract_oidc_client_secret s =
     (case first_some client_secret_line (split_on CHR 10 s) of Some v \<Rightarrow> v | None \<Rightarrow> [])"

definition authelia_conf_path :: "config \<Rightarrow> string" where
  "authelia_conf_path cfg = filepath_join [stacks_dir cfg, ''authelia/configuration.yml'']"

definition verify_templates_rendered :: "env \<Rightarrow> config \<Rightarrow> world \<Rightarrow> unit res" where
  "verify_templates_rendered e cfg w =
     (let path = authelia_conf_path cfg in
      case read_file e path w of
        Inl err \<Rightarrow> Inl (prefix_err (''verify templates: read '' @ path @ '': '') err)
      | Inr c \<Rightarrow>
          (let s = content_text e c; scrubbed = strip_yaml_comments s; hash = extract_oidc_client_secret s in
           if contains scrubbed ''bootstrap-placeholder'' then
             Inl (Failure (''verify templates: '' @ path @ '' still contains bootstrap-placeholder''))
           else if contains scrubbed ''REPLACE_ME'' then
             Inl (Failure (''verify templates: '' @ path @ '' still contains REPLACE_ME tokens''))
           else (case find_placeholder scrubbed of
             Some m \<Rightarrow> Inl (Failure (''verify templates: '' @ path @ '' has unsubstituted '' @ m @ '' token''))
           | None \<Rightarrow>
               (if hash = [] then
                  Inl (Failure (''verify templates: cannot locate identity_providers.oidc.clients[].client_secret in '' @ path))
                else if \<not> pbkdf2_hash_re hash then
                  Inl (Failure (''verify templates: OIDC client_secret in '' @ path
                    @ '' is not a valid pbkdf2-sha512 hash: '' @ go_quote hash))
                else Inr ()))))"

subsection \<open>Certificate\<close>

definition cert_chain_path :: "config \<Rightarrow> string \<Rightarrow> string" where
  "cert_chain_path cfg d = filepath_join [stacks_dir cfg, ''ingress/letsencrypt/live'', d, ''fullchain.pem'']"

definition verify_cert_issued :: "env \<Rightarrow> config \<Rightarrow> string \<Rightarrow> world \<Rightarrow> unit res" where
  "verify_cert_issued e cfg d w =
     (if d = [] then Inl (Failure ''verify cert: domain unset in state.json'')
      else (let path = cert_chain_path cfg d in
        case read_file e path w of
          Inl err \<Rightarrow> Inl (prefix_err (''verify cert: read '' @ path @ '': '') err)
        | Inr c \<Rightarrow>
            (case pem_block e (content_text e c) of
               None \<Rightarrow> Inl (Failure (''verify cert: '' @ path @ '' is not PEM-encoded''))
             | Some der \<Rightarrow>
                 (case x509_names e der of
                    Inl err \<Rightarrow> Inl (prefix_err (''verify cert: parse '' @ path @ '': '') err)
                  | Inr names \<Rightarrow>
                      (if d \<in> set names \<and> ''*.'' @ d \<in> set names then Inr ()
                       else Inl (Failure (''verify cert: '' @ path @ '' SANs ['' @ join '' '' names @ ''] missing ''
                         @ go_quote d @ '' or '' @ go_quote (''*.'' @ d))))))))"

subsection \<open>Proxy hosts\<close>

definition finalize_npm_base_url :: "env \<Rightarrow> string" where
  "finalize_npm_base_url e = (if getenv e ''NPM_URL'' \<noteq> [] then getenv e ''NPM_URL'' else ''http://127.0.0.1:81'')"

definition wanted_hosts :: "config \<Rightarrow> string \<Rightarrow> string list" where
  "wanted_hosts cfg d =
     [''auth.'' @ d, ''enrol.'' @ d, ''console.'' @ d]
     @ (if skip_cloud cfg then [] else [''cloud.'' @ d]) @ (if skip_task cfg then [] else [''task.'' @ d])"

definition verify_npm_routes :: "env \<Rightarrow> config \<Rightarrow> setup_state \<Rightarrow> world \<Rightarrow> unit res \<times> world" where
  "verify_npm_routes e cfg st w =
     (if st_admin_username st = [] \<or> st_admin_email st = [] \<or> st_domain st = [] then
        (Inl (Failure ''verify npm_routes: admin/email/domain unset in state.json''), w)
      else (case secret_get e (st_admin_username st) w of
        (pw, w1) \<Rightarrow>
          (if pw = [] then
             (Inl (Failure (''verify npm_routes: admin password missing from in-memory cache ''
                @ ''(restart wizard at /setup/admin to re-enter, then re-run finalize)'')), w1)
           else (case npm_login e (new_npm_client (finalize_npm_base_url e)) (st_admin_email st) pw w1 of
             (Inl err, cl, w2) \<Rightarrow>
               (Inl (prefix_err (''verify npm_routes: login as '' @ st_admin_email st @ '': '') err), w2)
           | (Inr _, cl, w2) \<Rightarrow>
               (case list_proxy_hosts e cl w2 of
                  (Inl err, w3) \<Rightarrow> (Inl (prefix_err ''verify npm_routes: list: '' err), w3)
                | (Inr hosts, w3) \<Rightarrow>
                    (let missing = filter (\<lambda>d. d \<notin> set (concat (map snd hosts))) (wanted_hosts cfg (st_domain st)) in
                     if missing \<noteq> [] then
                       (Inl (Failure (''verify npm_routes: NPM is missing proxy host(s): '' @ join '', '' missing)), w3)
                     else (Inr (), w3)))))))"

subsection \<open>The sentinel, and all checks in a row\<close>

definition verify_sentinel :: "env \<Rightarrow> config \<Rightarrow> world \<Rightarrow> unit res" where
  "verify_sentinel e cfg w =
     (case stat_file e (setup_complete_sentinel cfg) w of
        Inl err \<Rightarrow> Inl (prefix_err (''verify sentinel: '' @ setup_complete_sentinel cfg @ '': '') err)
      | Inr n \<Rightarrow>
          (if n \<noteq> Dir \<and> \<not> non_empty_file e (setup_complete_sentinel cfg) w then
             Inl (Failure (''verify sentinel: '' @ setup_complete_sentinel cfg @ '' is empty (expected RFC3339 timestamp)''))
           else Inr ()))"

record finalize_err =
  fe_step :: string
  fe_message :: string

definition wrap_err :: "string \<Rightarrow> goerr \<Rightarrow> finalize_err" where
  "wrap_err s err = \<lparr>fe_step = s, fe_message = err_text err\<rparr>"

definition finalize_verify_all :: "env \<Rightarrow> config \<Rightarrow> setup_state \<Rightarrow> world \<Rightarrow> (finalize_err + unit) \<times> world" where
  "finalize_verify_all e cfg st w =
     (case verify_users_db e cfg (st_admin_username st) w of
        Inl err \<Rightarrow> (Inl (wrap_err ''users_db'' err), w)
      | Inr _ \<Rightarrow>
          (case verify_templates_rendered e cfg w of
             Inl err \<Rightarrow> (Inl (wrap_err ''templates'' err), w)
           | Inr _ \<Rightarrow>
               (case verify_cert_issued e cfg (st_domain st) w of
                  Inl err \<Rightarrow> (Inl (wrap_err ''cert'' err), w)
                | Inr _ \<Rightarrow>
                    (case verify_npm_routes e cfg st w of
                       (Inl err, w1) \<Rightarrow> (Inl (wrap_err ''npm'' err), w1)
                     | (Inr _, w1) \<Rightarrow> (Inr (), w1)))))"

definition reload_authelia :: "env \<Rightarrow> world \<Rightarrow> string list \<times> world" where
  "reload_authelia e w =
     (if test_mode e \<or> \<not> look_path e ''docker'' then ([], w)
      else (case exec e [''docker'', ''restart'', ''authelia''] [] w of
              (r, w1) \<Rightarrow>
                (case pr_error r of
                   Some m \<Rightarrow> ([''authelia restart skipped/failed (will retry on next finalize): '' @ m @ '': ''
                                @ go_trim_space (combined r)], w1)
                 | None \<Rightarrow> ([''authelia container restarted to pick up new configuration.yml''], w1))))"

subsection \<open>What the checks see\<close>

text \<open>A check that passes has seen what it names.\<close>

lemma verify_templates_ok:
  assumes "verify_templates_rendered e cfg w = Inr ()"
  shows "\<exists>c. read_file e (authelia_conf_path cfg) w = Inr c
     \<and> pbkdf2_hash_re (extract_oidc_client_secret (content_text e c))
     \<and> find_placeholder (strip_yaml_comments (content_text e c)) = None
     \<and> \<not> contains (strip_yaml_comments (content_text e c)) ''bootstrap-placeholder''"
  using assms by (auto simp: verify_templates_rendered_def Let_def split: sum.splits if_splits option.splits)

lemma verify_npm_in_test_mode: "test_mode e \<Longrightarrow> fst (verify_npm_routes e cfg st w) \<noteq> Inr ()"
  by (auto simp: verify_npm_routes_def list_proxy_hosts_def wanted_hosts_def Let_def
      split: prod.splits sum.splits)

text \<open>The search for placeholders is the search for a match at some position.\<close>

lemma find_placeholder_iff:
  "find_placeholder s = None \<longleftrightarrow> (\<forall>i < length s. placeholder_at (drop i s) = None)"
proof (induction s)
  case (Cons c cs)
  show ?case
  proof
    assume f: "find_placeholder (c # cs) = None"
    show "\<forall>i < length (c # cs). placeholder_at (drop i (c # cs)) = None"
    proof (intro allI impI)
      fix i
      assume "i < length (c # cs)"
      with f Cons show "placeholder_at (drop i (c # cs)) = None" by (cases i) (auto split: option.splits)
    qed
  next
    assume a: "\<forall>i < length (c # cs). placeholder_at (drop i (c # cs)) = None"
    have "placeholder_at (c # cs) = None" using a by (metis drop0 length_greater_0_conv list.distinct(1))
    moreover have "\<forall>i < length cs. placeholder_at (drop i cs) = None" using a by fastforce
    ultimately show "find_placeholder (c # cs) = None" using Cons by simp
  qed
qed simp

end
