(* ===== verification/Finalize.thy ===== *)
theory Finalize
  imports Pipeline Streaming FinalizeVerify UsersDb SetupWizard
begin

text \<open>
  The installation pipeline of \<open>setup.go\<close> (\<open>runFinalize\<close>): the account of the administrator,
  the client secrets, the templates, the certificate, the proxy hosts, and the sentinel that
  ends the setup mode. Every step is skipped when the stored state marks it as done, checked
  after it ran, and then marked. A step returns its error and the lines it logged; the pipeline
  turns both into events. Cancelling the request and the keep-alive comments are left out.
\<close>

subsection \<open>The steps\<close>

definition finalize_write_admin :: "env \<Rightarrow> config \<Rightarrow> setup_state \<Rightarrow> world \<Rightarrow> unit res \<times> world" where
  "finalize_write_admin e cfg st w =
     (let p = users_db_path cfg in
      if st_admin_username st = [] \<or> st_admin_password_hash st = [] then
        (Inl (Failure (''admin username/hash missing '' @ em_dash @ '' restart wizard at /setup/admin'')), w)
      else (case mkdir_all e (filepath_dir p) w of
        (Inl err, w1) \<Rightarrow> (Inl (prefix_err (''mkdir '' @ filepath_dir p @ '': '') err), w1)
      | (Inr _, w1) \<Rightarrow>
          (case (case stat_file e p w1 of
                   Inl err \<Rightarrow> (if is_not_exist err then write_file e p (Yaml empty_root) w1 else (Inr (), w1))
                 | Inr _ \<Rightarrow> (Inr (), w1)) of
             (Inl err, w2) \<Rightarrow> (Inl (prefix_err (''seed '' @ p @ '': '') err), w2)
           | (Inr _, w2) \<Rightarrow>
               (case load_users_db e p w2 of
                  Inl err \<Rightarrow> (Inl (prefix_err ''load users db: '' err), w2)
                | Inr db \<Rightarrow>
                    (case upsert e (st_admin_username st)
                            \<lparr>u_disabled = False, u_displayname = st_admin_display_name st,
                             u_password = st_admin_password_hash st, u_email = st_admin_email st,
                             u_groups = [''admin'']\<rparr> db of
                       Inl err \<Rightarrow> (Inl (prefix_err ''upsert admin: '' err), w2)
                     | Inr db2 \<Rightarrow>
                         (case flush_users e db2 w2 of
                            (Inl err, w3) \<Rightarrow> (Inl (prefix_err ''flush users db: '' err), w3)
                          | (Inr _, w3) \<Rightarrow> (Inr (), w3)))))))"

definition env_file_path :: "config \<Rightarrow> string" where
  "env_file_path cfg = filepath_join [stacks_dir cfg, ''.env'']"

definition finalize_render_templates :: "env \<Rightarrow> config \<Rightarrow> world \<Rightarrow> unit res \<times> string list \<times> world" where
  "finalize_render_templates e cfg w =
     run_streaming e [''bash'', filepath_join [repo_dir cfg, ''scripts/render-templates.sh''], ''--env-file'', env_file_path cfg] [] w"

subsection \<open>The certificate\<close>

definition certbot_creds_dir :: string where
  "certbot_creds_dir = ''/run/raph-certbot''"

text \<open>The deferred scrub: zeros over the start of the file, then its removal.\<close>

definition scrub_file :: "env \<Rightarrow> string \<Rightarrow> nat \<Rightarrow> world \<Rightarrow> world" where
  "scrub_file e p n w =
     (let w1 = (case files w p of
                  Some (File c) \<Rightarrow>
                    (if io_fault e (OpWrite p) = None
                     then w\<lparr>files := (files w)(p \<mapsto> File (Bytes (replicate n (byte 0) @ drop n (content_text e c))))\<rparr>
                     else w)
                | _ \<Rightarrow> w)
      in snd (remove_file e p w1))"

definition certbot_command :: "env \<Rightarrow> config \<Rightarrow> setup_state \<Rightarrow> string list" where
  "certbot_command e cfg st =
     (let email = (if st_admin_email st = [] then getenv e ''ADMIN_EMAIL'' else st_admin_email st) in
      [''docker'', ''compose'', ''--profile'', ''finalize'', ''-f'',
       filepath_join [stacks_dir cfg, ''ingress/docker-compose.yml''], ''run'', ''--rm'', ''certbot'', ''certonly'',
       ''--non-interactive'', ''--agree-tos'', ''--email'', email, ''--dns-'' @ st_dns_provider st,
       ''--dns-'' @ st_dns_provider st @ ''-credentials'', ''/tmp/certbot-creds/'' @ st_dns_provider st @ ''.ini'',
       ''-d'', st_domain st, ''-d'', ''*.'' @ st_domain st])"

definition creds_file :: "string \<Rightarrow> string" where
  "creds_file provider = filepath_join [certbot_creds_dir, provider @ ''.ini'']"

definition sidecar_file :: "string \<Rightarrow> string" where
  "sidecar_file p = filepath_join [certbot_creds_dir, base_name p]"

text \<open>The run with the credentials file in place; \<open>side\<close> is the path of the second file.\<close>

definition certbot_with_sidecar ::
    "env \<Rightarrow> config \<Rightarrow> setup_state \<Rightarrow> string \<Rightarrow> string \<Rightarrow> world \<Rightarrow> nat \<times> unit res \<times> string list \<times> world" where
  "certbot_with_sidecar e cfg st side body w =
     (let p = sidecar_file side; creds = creds_file (st_dns_provider st);
          ini = ''dns_google_credentials = /tmp/certbot-creds/'' @ base_name p @ [CHR 10] in
      case write_file e p (Bytes body) w of
        (Inl err, w1) \<Rightarrow> (0, Inl (prefix_err (''write '' @ p @ '': '') err), [], w1)
      | (Inr _, w1) \<Rightarrow>
          (case (case write_file e creds (Bytes ini) w1 of
                   (Inl err, w2) \<Rightarrow> (Inl (prefix_err (''rewrite '' @ creds @ '': '') err), [], w2)
                 | (Inr _, w2) \<Rightarrow> run_streaming e (certbot_command e cfg st) [] w2) of
             (r, ls, w3) \<Rightarrow> (length ini, r, ls, scrub_file e p (length body) w3)))"

definition finalize_issue_cert :: "env \<Rightarrow> config \<Rightarrow> setup_state \<Rightarrow> world \<Rightarrow> unit res \<times> string list \<times> world" where
  "finalize_issue_cert e cfg st w =
     (let creds = creds_file (st_dns_provider st) in
      if st_dns_provider st = [] then
        (Inl (Failure (''no DNS provider selected '' @ em_dash @ '' restart wizard at /setup/dns'')), [], w)
      else if st_domain st = [] then (Inl (Failure ''domain unset''), [], w)
      else if test_mode e then (Inr (), [''TEST_MODE: skipping certbot''], w)
      else (case mkdir_all e certbot_creds_dir w of
        (Inl err, w1) \<Rightarrow> (Inl (prefix_err (''mkdir '' @ certbot_creds_dir @ '': '') err), [], w1)
      | (Inr _, w1) \<Rightarrow>
          (case dns_creds_ini (st_dns_provider st) (st_dns_creds st) of
             Inl err \<Rightarrow> (Inl (prefix_err ''render dns creds INI: '' err), [], w1)
           | Inr (ini, side, body) \<Rightarrow>
               (case write_file e creds (Bytes ini) w1 of
                  (Inl err, w2) \<Rightarrow> (Inl (prefix_err (''write '' @ creds @ '': '') err), [], w2)
                | (Inr _, w2) \<Rightarrow>
                    (if side = [] then
                       (case run_streaming e (certbot_command e cfg st) [] w2 of
                          (r, ls, w3) \<Rightarrow> (r, ls, scrub_file e creds (length ini) w3))
                     else (case certbot_with_sidecar e cfg st side body w2 of
                             (n, r, ls, w3) \<Rightarrow> (r, ls, scrub_file e creds (if n = 0 then length ini else n) w3)))))))"

subsection \<open>The proxy hosts\<close>

definition text_of :: "string list \<Rightarrow> string" where
  "text_of ls = concat (map (\<lambda>l. l @ [CHR 10]) ls)"

definition npm_adv_fwd_auth :: "string \<Rightarrow> string" where
  "npm_adv_fwd_auth secret = text_of
     [''include /snippets/authelia-location.conf;'', [],
      ''proxy_set_header X-Forward-Auth-Secret '' @ [CHR 39] @ secret @ [CHR 39] @ '';'', [],
      ''location / {'',
      ''    include /snippets/proxy.conf;'',
      ''    include /snippets/authelia-authrequest.conf;'',
      ''    proxy_set_header X-Forward-Auth-Secret '' @ [CHR 39] @ secret @ [CHR 39] @ '';'',
      ''    proxy_pass $forward_scheme://$server:$port;'',
      ''}'']"

definition npm_adv_nextcloud :: string where
  "npm_adv_nextcloud = text_of
     [''client_max_body_size 50G;'', ''client_body_timeout 3600s;'', ''proxy_read_timeout 3600s;'',
      ''proxy_send_timeout 3600s;'', ''proxy_connect_timeout 60s;'', ''proxy_request_buffering off;'', [],
      ''location = /.well-known/carddav { return 301 /remote.php/dav/; }'',
      ''location = /.well-known/caldav  { return 301 /remote.php/dav/; }'',
      ''location = /.well-known/webfinger { return 301 /index.php/.well-known/webfinger; }'',
      ''location = /.well-known/nodeinfo  { return 301 /index.php/.well-known/nodeinfo; }'', [],
      ''location / {'', ''    include /snippets/proxy.conf;'', ''    proxy_pass $forward_scheme://$server:$port;'', ''}'']"

definition npm_adv_task :: string where
  "npm_adv_task = text_of
     [''client_max_body_size 5G;'', ''client_body_timeout 600s;'', ''proxy_read_timeout 600s;'',
      ''proxy_send_timeout 600s;'', ''proxy_connect_timeout 60s;'', ''proxy_request_buffering off;'', [],
      ''location / {'', ''    include /snippets/proxy.conf;'', ''    proxy_pass $forward_scheme://$server:$port;'', ''}'']"

definition npm_adv_auth_portal :: "string \<Rightarrow> string" where
  "npm_adv_auth_portal d = text_of
     [''location = / {'', ''    if ($arg_rd = '' @ [CHR 34, CHR 34] @ '') {'',
      ''        return 302 /?rd=https://enrol.'' @ d @ ''/;'', ''    }'',
      ''    include conf.d/include/proxy.conf;'', ''}'', [],
      ''location / {'', ''    include conf.d/include/proxy.conf;'', ''}'']"

definition wired_host :: "int \<Rightarrow> string \<Rightarrow> string \<Rightarrow> string \<Rightarrow> int \<Rightarrow> string \<Rightarrow> proxy_host" where
  "wired_host cert_id name scheme host port adv =
     \<lparr>ph_domain_names = [name], ph_forward_scheme = scheme, ph_forward_host = host, ph_forward_port = port,
      ph_block_exploits = True, ph_caching_enabled = False, ph_allow_websocket = True, ph_access_list_id = 0,
      ph_certificate_id = cert_id, ph_ssl_forced = True, ph_http2 = True, ph_hsts = True,
      ph_hsts_subdomains = False, ph_advanced_config = adv, ph_meta = None, ph_locations = None\<rparr>"

definition wired_hosts :: "config \<Rightarrow> string \<Rightarrow> int \<Rightarrow> string \<Rightarrow> proxy_host list" where
  "wired_hosts cfg d cert_id secret =
     [wired_host cert_id (''auth.'' @ d) ''http'' ''authelia'' 9091 (npm_adv_auth_portal d),
      wired_host cert_id (''enrol.'' @ d) ''http'' ''172.17.0.1'' 8080 (npm_adv_fwd_auth secret),
      wired_host cert_id (''console.'' @ d) ''https'' ''console'' 9443 (npm_adv_fwd_auth secret)]
     @ (if skip_cloud cfg then [] else [wired_host cert_id (''cloud.'' @ d) ''http'' ''cloud-web'' 80 npm_adv_nextcloud])
     @ (if skip_task cfg then [] else [wired_host cert_id (''task.'' @ d) ''http'' ''task-app'' 3456 npm_adv_task])"

fun upsert_hosts :: "env \<Rightarrow> npm_client \<Rightarrow> proxy_host list \<Rightarrow> world \<Rightarrow> unit res \<times> string list \<times> world" where
  "upsert_hosts e cl [] w = (Inr (), [], w)"
| "upsert_hosts e cl (h # hs) w =
     (case upsert_proxy_host e cl h w of
        (Inl err, w1) \<Rightarrow> (Inl (prefix_err (''upsert '' @ hd (ph_domain_names h) @ '': '') err), [], w1)
      | (Inr n, w1) \<Rightarrow>
          (case upsert_hosts e cl hs w1 of
             (r, ls, w2) \<Rightarrow>
               (r, (''npm: proxy host '' @ hd (ph_domain_names h) @ '' id='' @ show_int n) # ls, w2)))"

text \<open>The administrator the proxy manager has before the bootstrap.\<close>

definition current_npm_admin :: "env \<Rightarrow> world \<Rightarrow> string \<times> string" where
  "current_npm_admin e w =
     (let env_email = go_trim_space (getenv e ''NPM_INITIAL_ADMIN_EMAIL'');
          email = (if env_email \<noteq> [] then env_email else ''admin@example.com'') in
      case read_file e ''/etc/raph-installer/npm-bootstrap.pass'' w of
        Inl _ \<Rightarrow> (email, ''changeme'')
      | Inr c \<Rightarrow>
          (let bp = trim_breaks (content_text e c) in
           if bp \<noteq> [] then (if env_email = [] then ''bootstrap@local'' else email, bp)
           else (email, ''changeme'')))"

definition finalize_wire_npm :: "env \<Rightarrow> config \<Rightarrow> setup_state \<Rightarrow> world \<Rightarrow> unit res \<times> string list \<times> world" where
  "finalize_wire_npm e cfg st w =
     (if test_mode e then (Inr (), [''TEST_MODE: skipping NPM wire-up''], w)
      else (case secret_get e (st_admin_username st) w of
        (pw, w1) \<Rightarrow>
          (if pw = [] then
             (Inl (Failure (''npm: admin password missing from in-memory cache ''
                @ ''(restart wizard at /setup/admin to re-enter)'')), [], w1)
           else (case npm_bootstrap e (new_npm_client (finalize_npm_base_url e)) (fst (current_npm_admin e w1))
                   (snd (current_npm_admin e w1)) (st_admin_email st) pw w1 of
             (Inl err, cl, w2) \<Rightarrow>
               (Inl (prefix_err ''bootstrap: '' err), [''npm: bootstrapping admin credentials''], w2)
           | (Inr _, cl, w2) \<Rightarrow>
               (let le_dir = filepath_join [stacks_dir cfg, ''ingress'', ''letsencrypt'', ''live'', st_domain st];
                    log2 = [''npm: bootstrapping admin credentials'', ''npm: admin authenticated''] in
                case upsert_certificate e cl \<lparr>ce_provider = ''other'', ce_nice_name = ''wildcard-'' @ st_domain st\<rparr>
                       (filepath_join [le_dir, ''fullchain.pem'']) (filepath_join [le_dir, ''privkey.pem'']) w2 of
                  (Inl err, w3) \<Rightarrow> (Inl (prefix_err ''upsert certificate: '' err), log2, w3)
                | (Inr n, w3) \<Rightarrow>
                    (let cert_id = (if n = 0 then 3 else n);
                         log3 = log2 @ [''npm: certificate id='' @ show_int cert_id @ '' (PEM uploaded)''];
                         secret = go_trim_space (getenv e ''ENROL_FORWARD_AUTH_SECRET'');
                         skips = (if skip_cloud cfg then [''npm: SKIP_CLOUD=1 '' @ em_dash @ '' not wiring cloud.'' @ st_domain st] else [])
                           @ (if skip_task cfg then [''npm: SKIP_TASK=1 '' @ em_dash @ '' not wiring task.'' @ st_domain st] else []) in
                     if secret = [] then
                       (Inl (Failure (''finalize/wire-npm: ENROL_FORWARD_AUTH_SECRET is empty '' @ em_dash
                          @ '' refusing to wire forgeable proxy hosts; re-run scripts/generate-enrol-forward-auth-secret.sh and retry finalize'')),
                        log3, w3)
                     else (case upsert_hosts e cl (wired_hosts cfg (st_domain st) cert_id secret) w3 of
                             (r, ls, w4) \<Rightarrow> (r, log3 @ skips @ ls, w4))))))))"

definition finalize_touch_sentinel :: "env \<Rightarrow> config \<Rightarrow> world \<Rightarrow> unit res \<times> world" where
  "finalize_touch_sentinel e cfg w =
     (let p = setup_complete_sentinel cfg; dir = filepath_dir p in
      case mkdir_all e dir w of
        (Inl err, w1) \<Rightarrow> (Inl (prefix_err (''mkdir '' @ dir @ '': '') err), w1)
      | (Inr _, w1) \<Rightarrow>
          (case write_file e p (Bytes (fmt_rfc3339 (now w1) @ [CHR 10])) w1 of
             (Inl err, w2) \<Rightarrow> (Inl (prefix_err (''write '' @ p @ '': '') err), w2)
           | (Inr _, w2) \<Rightarrow> (Inr (), w2)))"

subsection \<open>The pipeline\<close>

type_synonym 'a pipe = "(finalize_err, 'a) prog"

definition logged :: "string \<Rightarrow> (world \<Rightarrow> unit res \<times> string list \<times> world) \<Rightarrow> unit pipe" where
  "logged name m w =
     (case m w of
        (Inl err, ls, w1) \<Rightarrow> (Inl (wrap_err name err), map SseLog ls, w1)
      | (Inr _, ls, w1) \<Rightarrow> (Inr (), map SseLog ls, w1))"

definition silent :: "string \<Rightarrow> (world \<Rightarrow> unit res \<times> world) \<Rightarrow> unit pipe" where
  "silent name m = logged name (\<lambda>w. case m w of (r, w1) \<Rightarrow> (r, [], w1))"

definition checked :: "string \<Rightarrow> (world \<Rightarrow> unit res) \<Rightarrow> unit pipe" where
  "checked name f = silent name (\<lambda>w. (f w, w))"

text \<open>Saving the progress; a failure is only logged.\<close>

definition persist :: "env \<Rightarrow> config \<Rightarrow> setup_state \<Rightarrow> unit pipe" where
  "persist e cfg st w =
     (case save_setup_state e cfg st w of
        (Inl err, w1) \<Rightarrow> (Inr (), [SseLog (''warning: persist state.json: '' @ err_text err)], w1)
      | (Inr _, w1) \<Rightarrow> (Inr (), [], w1))"

definition run_step :: "env \<Rightarrow> config \<Rightarrow> bool \<Rightarrow> string \<Rightarrow> string \<Rightarrow> unit pipe \<Rightarrow> setup_state \<Rightarrow> setup_state
    \<Rightarrow> setup_state pipe" where
  "run_step e cfg finished name msg body st marked =
     (if finished then give st
      else and_then (emit (SseStatus name msg)) (\<lambda>_.
           and_then body (\<lambda>_.
           and_then (persist e cfg marked) (\<lambda>_. give marked))))"

definition mark :: "(completed_steps \<Rightarrow> completed_steps) \<Rightarrow> setup_state \<Rightarrow> setup_state" where
  "mark f st = st\<lparr>st_completed := f (st_completed st)\<rparr>"

definition step_users_db :: "env \<Rightarrow> config \<Rightarrow> setup_state \<Rightarrow> setup_state pipe" where
  "step_users_db e cfg st =
     run_step e cfg (cs_users_db_written (st_completed st)) ''users_db'' ''writing admin to users_database.yml''
       (and_then (silent ''users_db'' (finalize_write_admin e cfg st)) (\<lambda>_.
        checked ''users_db'' (verify_users_db e cfg (st_admin_username st))))
       st (mark (\<lambda>c. c\<lparr>cs_users_db_written := True\<rparr>) st)"

definition step_oidc :: "env \<Rightarrow> config \<Rightarrow> setup_state \<Rightarrow> setup_state pipe" where
  "step_oidc e cfg st =
     run_step e cfg (cs_oidc_rotated (st_completed st)) ''oidc'' ''rotating OIDC client secrets (console + cloud + task)''
       (and_then (silent ''oidc'' (rotate_console_secret e (env_file_path cfg) [])) (\<lambda>_.
        and_then (emit (SseLog (''oidc: console client_secret rotated; plaintext at '' @ console_plaintext_path))) (\<lambda>_.
        and_then (silent ''oidc'' (rotate_cloud_secret e (env_file_path cfg) [])) (\<lambda>_.
        and_then (emit (SseLog (''oidc: cloud client_secret rotated; plaintext at '' @ cloud_plaintext_path))) (\<lambda>_.
        and_then (silent ''oidc'' (rotate_task_secret e (env_file_path cfg) [])) (\<lambda>_.
        emit (SseLog (''oidc: task client_secret rotated; plaintext at '' @ task_plaintext_path))))))))
       st (mark (\<lambda>c. c\<lparr>cs_oidc_rotated := True\<rparr>) st)"

definition step_templates :: "env \<Rightarrow> config \<Rightarrow> setup_state \<Rightarrow> setup_state pipe" where
  "step_templates e cfg st =
     run_step e cfg (cs_templates_rendered (st_completed st)) ''templates'' ''re-rendering templates with chosen domain''
       (and_then (logged ''templates'' (finalize_render_templates e cfg)) (\<lambda>_.
        and_then (checked ''templates'' (verify_templates_rendered e cfg)) (\<lambda>_.
        logged ''templates'' (\<lambda>w. case reload_authelia e w of (ls, w1) \<Rightarrow> (Inr (), ls, w1)))))
       st (mark (\<lambda>c. c\<lparr>cs_templates_rendered := True\<rparr>) st)"

definition step_cert :: "env \<Rightarrow> config \<Rightarrow> setup_state \<Rightarrow> setup_state pipe" where
  "step_cert e cfg st =
     run_step e cfg (cs_cert_issued (st_completed st)) ''cert''
       (''requesting wildcard cert via Let'' @ [CHR 39] @ ''s Encrypt DNS-01'')
       (and_then (logged ''cert'' (finalize_issue_cert e cfg st)) (\<lambda>_.
        checked ''cert'' (verify_cert_issued e cfg (st_domain st))))
       st (mark (\<lambda>c. c\<lparr>cs_cert_issued := True\<rparr>) st)"

definition step_npm :: "env \<Rightarrow> config \<Rightarrow> setup_state \<Rightarrow> setup_state pipe" where
  "step_npm e cfg st =
     run_step e cfg (cs_npm_routes_wired (st_completed st)) ''npm'' ''wiring NPM proxy hosts''
       (and_then (logged ''npm'' (finalize_wire_npm e cfg st)) (\<lambda>_.
        silent ''npm'' (verify_npm_routes e cfg st)))
       st (mark (\<lambda>c. c\<lparr>cs_npm_routes_wired := True\<rparr>) st)"

definition verify_step :: "env \<Rightarrow> config \<Rightarrow> setup_state \<Rightarrow> unit pipe" where
  "verify_step e cfg st w = (case finalize_verify_all e cfg st w of (r, w1) \<Rightarrow> (r, [], w1))"

definition step_sentinel :: "env \<Rightarrow> config \<Rightarrow> setup_state \<Rightarrow> setup_state pipe" where
  "step_sentinel e cfg st =
     run_step e cfg (cs_sentinel_touched (st_completed st)) ''sentinel'' ''marking setup complete''
       (and_then (silent ''sentinel'' (finalize_touch_sentinel e cfg)) (\<lambda>_.
        checked ''sentinel'' (verify_sentinel e cfg)))
       st ((mark (\<lambda>c. c\<lparr>cs_sentinel_touched := True\<rparr>) st)\<lparr>st_step := StepDone\<rparr>)"

text \<open>Dropping the password and scrubbing the stored state.\<close>

definition step_scrub :: "env \<Rightarrow> config \<Rightarrow> setup_state \<Rightarrow> unit pipe" where
  "step_scrub e cfg st =
     and_then (silent ''save-state'' (\<lambda>w. save_setup_state e cfg (st\<lparr>st_admin_password_hash := [], st_dns_creds := []\<rparr>)
                 (secret_delete e (st_admin_username st) w))) (\<lambda>_.
     emit (SseStatus ''done'' ''all steps complete''))"

definition run_finalize :: "env \<Rightarrow> config \<Rightarrow> unit pipe" where
  "run_finalize e cfg w =
     (case load_setup_state e cfg w of
        Inl err \<Rightarrow> (Inl (wrap_err ''load-state'' err), [], w)
      | Inr st \<Rightarrow>
          and_then (step_users_db e cfg st) (\<lambda>st1.
          and_then (step_oidc e cfg st1) (\<lambda>st2.
          and_then (step_templates e cfg st2) (\<lambda>st3.
          and_then (step_cert e cfg st3) (\<lambda>st4.
          and_then (step_npm e cfg st4) (\<lambda>st5.
          and_then (emit (SseStatus ''verify'' ''re-running all step verifications'')) (\<lambda>_.
          and_then (verify_step e cfg st5) (\<lambda>_.
          and_then (step_sentinel e cfg st5) (\<lambda>st6.
          step_scrub e cfg st6)))))))) w)"

subsection \<open>The event stream\<close>

definition finalize_events :: "config \<Rightarrow> (finalize_err + unit) \<times> sse_event list \<times> world \<Rightarrow> sse_event list" where
  "finalize_events cfg out =
     (case out of
        (Inl err, evs, _) \<Rightarrow> evs @ [SseError (fe_step err) (fe_message err)]
      | (Inr _, evs, _) \<Rightarrow>
          evs @ [SseDone (''{'' @ [CHR 34] @ ''redirect'' @ [CHR 34] @ '':'' @ [CHR 34] @ ''https://enrol.'' @ domain cfg @ ''/''
            @ [CHR 34] @ ''}'')])"

definition handle_setup_events :: "env \<Rightarrow> config \<Rightarrow> page handler" where
  "handle_setup_events e cfg = require_setup_token cfg (\<lambda>r w.
     if rq_method r \<noteq> ''GET'' then (method_not_allowed, w)
     else (case run_finalize e cfg w of
             (r, evs, w1) \<Rightarrow>
               (respond 200 [(''Content-Type'', ''text/event-stream''), (''Cache-Control'', ''no-cache''),
                  (''X-Accel-Buffering'', ''no'')]
                  (Text (concat (map sse_frame (finalize_events cfg (r, evs, w1))))), w1)))"

end
