(* ===== verification/NpmSpec.thy ===== *)
theory NpmSpec
  imports NpmClient LauncherSpec
begin

text \<open>
  The client of the proxy manager stays inside: every connection of every operation goes to a
  private address, and each call of the API sends at most ten requests (\<open>npm_stays_inside\<close>).
  Only a login makes the client usable (\<open>npm_bootstrap_logs_in\<close>).
\<close>

abbreviation inside :: "nat \<Rightarrow> world \<Rightarrow> world \<Rightarrow> bool" where
  "inside \<equiv> net_within is_private_ip"

interpretation npm: dial_policy npm_control is_private_ip
  by unfold_locales (simp add: npm_control_def split: if_splits)

lemma inside_step: "inside m w w1 \<Longrightarrow> inside n w1 w2 \<Longrightarrow> inside (m + n) w w2"
  by (rule within_trans [OF _ _ order_refl])

lemma inside_lookup: "lookup_ip e h w = (r, w1) \<Longrightarrow> inside 0 w w1"
  using within_lookup [of is_private_ip w e h] by simp

subsection \<open>One call\<close>

lemma inside_npm_http: "via < 10 \<Longrightarrow> inside (10 - via) w (snd (npm_http e via u0 c w))"
proof (induction e via u0 c w rule: npm_http.induct)
  case (1 e via u0 c w)
  obtain r w1 where s: "send_once npm_control e c w = (r, w1)" by fastforce
  from npm.send_within [of w e c] s have p1: "inside 1 w w1" by simp
  have up: "inside (10 - via) w w1" by (rule within_mono [OF p1]) (use 1(2) in simp)
  show ?case
  proof (cases "\<exists>rep u2. r = Inr rep \<and> is_redirect rep \<and> url_ref e (hc_url c) (location_of rep) = Inr u2 \<and> Suc via < 10")
    case False
    then show ?thesis using s up by (subst npm_http.simps) (auto split: sum.splits)
  next
    case True
    then obtain rep u2 where r: "r = Inr rep" "is_redirect rep" "url_ref e (hc_url c) (location_of rep) = Inr u2"
      "Suc via < 10" by blast
    let ?c = "redirected (hr_status rep) u0 u2 c"
    have "inside (10 - Suc via) w1 (snd (npm_http e (Suc via) u0 ?c w1))"
      by (rule 1(1) [OF s [symmetric] r(1)]) (use r in auto)
    from within_trans [OF p1 this, of "10 - via"] r(4)
    have "inside (10 - via) w (snd (npm_http e (Suc via) u0 ?c w1))" by simp
    then show ?thesis using s r by (subst npm_http.simps) simp
  qed
qed

lemma inside_http_call: "npm_http e 0 u0 c w = (r, w1) \<Longrightarrow> inside 10 w w1"
  using inside_npm_http [of 0 w e u0 c] by simp

lemma inside_npm_do: "npm_do e cl meth path bd dec z w = (r, w1) \<Longrightarrow> inside 10 w w1"
  by (auto simp: npm_do_def Let_def split: if_splits sum.splits prod.splits option.splits
      dest!: inside_http_call)

lemma inside_validate: "validate_base_url e cl w = (r, w1) \<Longrightarrow> inside 0 w w1"
  by (auto simp: validate_base_url_def split: option.splits if_splits sum.splits prod.splits
      dest!: inside_lookup)

lemma inside_login:
  assumes "npm_login e cl email pw w = (r, cl', w')"
  shows "inside 10 w w'"
proof -
  obtain v w1 where v: "validate_base_url e cl w = (v, w1)" by fastforce
  have i: "inside 0 w w1" by (rule inside_validate [OF v])
  have "inside 10 w w2"
    if "npm_do e cl ''POST'' ''/api/tokens'' (Some (JObj [(''identity'', JStr email), (''secret'', JStr pw)]))
          (Some decode_token) [] w1 = (t, w2)" for t w2
    using inside_step [OF i inside_npm_do [OF that]] by simp
  moreover have "inside 10 w w1" by (rule within_mono [OF i]) simp
  ultimately show ?thesis
    using assms v by (auto simp: npm_login_def split: if_splits sum.splits prod.splits)
qed

subsection \<open>Sequences of calls\<close>

lemma inside_rotate_admin:
  assumes "npm_rotate_admin e cl ce cp ne np w = (r, cl', w')"
  shows "inside 40 w w'"
proof -
  have up: "inside 40 w v" if "inside n w v" "n \<le> 40" for n v by (rule within_mono [OF that])
  note next_do = inside_step [OF _ inside_npm_do]
  obtain us w1 where 1: "npm_do e cl ''GET'' ''/api/users'' None (Some (decode_list decode_user_entry)) [] w = (us, w1)"
    by fastforce
  note i1 = inside_npm_do [OF 1]
  define uid where "uid = (case us of Inr l \<Rightarrow> (case find (\<lambda>u. go_to_lower (snd u) = go_to_lower ce) l of
      Some u \<Rightarrow> fst u | None \<Rightarrow> 0) | _ \<Rightarrow> 0)"
  obtain r2 w2 where 2: "npm_do e cl ''PUT'' (''/api/users/'' @ show_int uid)
      (Some (JObj [(''email'', JStr ne), (''is_disabled'', JBool False), (''name'', JStr ''Administrator''),
                      (''nickname'', JStr ''Admin''), (''roles'', JArr [JStr ''admin''])])) None () w1 = (r2, w2)" by fastforce
  note i2 = next_do [OF i1 2]
  obtain r3 w3 where 3: "npm_do e cl ''PUT'' (''/api/users/'' @ show_int uid @ ''/auth'')
      (Some (JObj [(''current'', JStr cp), (''secret'', JStr np), (''type'', JStr ''password'')])) None () w2 = (r3, w3)"
    by fastforce
  note i3 = next_do [OF i2 3]
  obtain r4 cl4 w4 where 4: "npm_login e (cl\<lparr>npm_token := []\<rparr>) ne np w3 = (r4, cl4, w4)" by (metis prod_cases3)
  note i4 = inside_step [OF i3 inside_login [OF 4]]
  show ?thesis
    using assms 1 2 3 4 up [OF i1] up [OF i2] up [OF i3] up [OF i4]
    by (auto simp: npm_rotate_admin_def Let_def uid_def split: if_splits sum.splits)
qed

lemma inside_bootstrap:
  assumes "npm_bootstrap e cl ce cp ne np w = (r, cl', w')"
  shows "inside 60 w w'"
proof -
  have up: "inside 60 w v" if "inside n w v" "n \<le> 60" for n v by (rule within_mono [OF that])
  obtain r1 cl1 w1 where 1: "npm_login e cl ne np w = (r1, cl1, w1)" by (metis prod_cases3)
  note i1 = inside_login [OF 1]
  obtain r2 cl2 w2 where 2: "npm_login e cl1 ce cp w1 = (r2, cl2, w2)" by (metis prod_cases3)
  note i2 = inside_step [OF i1 inside_login [OF 2]]
  obtain r3 cl3 w3 where 3: "npm_rotate_admin e cl2 ce cp ne np w2 = (r3, cl3, w3)" by (metis prod_cases3)
  note i3 = inside_step [OF i2 inside_rotate_admin [OF 3]]
  show ?thesis
    using assms 1 2 3 up [OF i1] up [OF i2] up [OF i3]
    by (auto simp: npm_bootstrap_def split: if_splits sum.splits)
qed

lemma inside_list: "list_proxy_hosts e cl w = (r, w') \<Longrightarrow> inside 10 w w'"
  by (auto simp: list_proxy_hosts_def split: if_splits dest: inside_npm_do)

lemma inside_upsert_host:
  assumes "upsert_proxy_host e cl h w = (r, w')"
  shows "inside 20 w w'"
proof -
  obtain l w1 where l: "npm_do e cl ''GET'' ''/api/nginx/proxy-hosts'' None (Some (decode_list decode_host_entry)) [] w = (l, w1)"
    by fastforce
  note i1 = inside_npm_do [OF l]
  have two: "inside 20 w v" if "npm_do e cl m p b (d :: (json \<Rightarrow> int option) option) z w1 = (x, v)" for m p b d z x v
    using inside_step [OF i1 inside_npm_do [OF that]] by simp
  have "inside 20 w w1" by (rule within_mono [OF i1]) simp
  with assms l show ?thesis
    by (auto simp: upsert_proxy_host_def Let_def split: if_splits list.splits sum.splits prod.splits dest: two)
qed

lemma inside_upload: "upload_certificate e cl n cp kp w = (r, w') \<Longrightarrow> inside 10 w w'"
  by (auto simp: upload_certificate_def Let_def split: if_splits sum.splits prod.splits dest: inside_http_call)

lemma inside_upsert_certificate:
  assumes "upsert_certificate e cl c cp kp w = (r, w')"
  shows "inside 30 w w'"
proof -
  obtain l w1 where l: "npm_do e cl ''GET'' ''/api/nginx/certificates'' None (Some (decode_list decode_cert_entry)) [] w = (l, w1)"
    by fastforce
  note i1 = inside_npm_do [OF l]
  have two: "inside 20 w v" if "npm_do e cl m p b (d :: (json \<Rightarrow> int option) option) z w1 = (x, v)" for m p b d z x v
    using inside_step [OF i1 inside_npm_do [OF that]] by simp
  have three: "inside 30 w v" if "upload_certificate e cl n cp kp w2 = (x, v)" "inside 20 w w2" for n x v w2
    using inside_step [OF that(2) inside_upload [OF that(1)]] by simp
  have up: "inside 30 w v" if "inside 20 w v" for v by (rule within_mono [OF that]) simp
  have 1: "inside 20 w w1" by (rule within_mono [OF i1]) simp
  show ?thesis
  proof (cases l)
    case (Inl err)
    with assms l up [OF 1] show ?thesis
      by (auto simp: upsert_certificate_def Let_def split: if_splits)
  next
    case (Inr existing)
    let ?cert = "if ce_provider c = [] then c\<lparr>ce_provider := ''other''\<rparr> else c"
    let ?cid = "case find (\<lambda>x. snd x = ce_nice_name ?cert) existing of Some x \<Rightarrow> fst x | None \<Rightarrow> 0"
    obtain q w2 where q: "(if ?cid = 0 then npm_do e cl ''POST'' ''/api/nginx/certificates'' (Some (certificate_json ?cert)) (Some decode_id) 0 w1
        else (Inr ?cid, w1)) = (q, w2)" by fastforce
    have 2: "inside 20 w w2" using q 1 two by (auto split: if_splits)
    from assms l Inr q up [OF 1] up [OF 2] show ?thesis
      by (cases q) (auto simp: upsert_certificate_def Let_def split: if_splits sum.splits prod.splits
          dest: three [OF _ 2])
  qed
qed

text \<open>C19. The proxy manager's client never talks to the public network: whatever its base address
  resolves to and wherever redirects lead, each operation only connects to private addresses, and
  the number of requests is bounded: 60 for a bootstrap, 30 for a certificate, 20 for a host, 10
  for a listing.\<close>

theorem npm_stays_inside:
  "inside 60 w (snd (snd (npm_bootstrap e cl cur_email cur_pw new_email new_pw w)))
   \<and> inside 30 w (snd (upsert_certificate e cl cert chain_path key_path w))
   \<and> inside 20 w (snd (upsert_proxy_host e cl h w))
   \<and> inside 10 w (snd (list_proxy_hosts e cl w))"
  by (intro conjI inside_bootstrap [OF surjective_pairing [THEN trans, OF arg_cong2 [where f = Pair, OF refl surjective_pairing]]]
      inside_upsert_certificate [OF surjective_pairing] inside_upsert_host [OF surjective_pairing]
      inside_list [OF surjective_pairing])

subsection \<open>Being logged in\<close>

lemma login_token:
  "npm_login e cl email pw w = (Inr u, cl', w') \<Longrightarrow> npm_token cl' \<noteq> [] \<and> npm_base cl' = npm_base cl"
  by (auto simp: npm_login_def split: if_splits sum.splits prod.splits)

lemma login_failed: "npm_login e cl email pw w = (Inl err, cl', w') \<Longrightarrow> cl' = cl"
  by (auto simp: npm_login_def split: if_splits sum.splits prod.splits)

lemma rotate_admin_token:
  "npm_rotate_admin e cl ce cp ne np w = (Inr u, cl', w') \<Longrightarrow> npm_token cl' \<noteq> [] \<and> npm_base cl' = npm_base cl"
  by (auto simp: npm_rotate_admin_def Let_def split: if_splits sum.splits prod.splits dest: login_token)

text \<open>After a successful bootstrap the client is logged in at the same address, so the
  operations that follow can run; without a login none of them sends anything.\<close>

theorem npm_bootstrap_logs_in:
  assumes "npm_bootstrap e cl cur_email cur_pw new_email new_pw w = (Inr (), cl', w')"
  shows "npm_token cl' \<noteq> [] \<and> npm_base cl' = npm_base cl
    \<and> (test_mode e \<or> (\<forall>cl0 w0. npm_token cl0 = [] \<longrightarrow>
         upsert_proxy_host e cl0 h w0 = (Inl (Failure ''npm: not logged in (call Login or Bootstrap first)''), w0)
         \<and> list_proxy_hosts e cl0 w0 = (Inl (Failure ''npm: not logged in''), w0)
         \<and> upsert_certificate e cl0 cert cp kp w0 = (Inl (Failure ''npm: not logged in''), w0)
         \<and> upload_certificate e cl0 n cp kp w0 = (Inl (Failure ''npm: not logged in''), w0)))"
proof -
  have "npm_token cl' \<noteq> [] \<and> npm_base cl' = npm_base cl"
    using assms by (auto simp: npm_bootstrap_def split: if_splits sum.splits prod.splits
        dest!: login_token rotate_admin_token login_failed)
  then show ?thesis
    by (auto simp: upsert_proxy_host_def list_proxy_hosts_def upsert_certificate_def upload_certificate_def)
qed

text \<open>A proxy manager on the loopback that accepts every login.\<close>

definition npm_env :: env where
  "npm_env = calm_env\<lparr>parse_ip := (\<lambda>_. Some [127, 0, 0, 1]), net_lookup := (\<lambda>_ _. Inr [[127, 0, 0, 1]]),
     json_first := (\<lambda>_. Some (JObj [(''token'', JStr ''t'')]))\<rparr>"

definition local_npm :: npm_client where
  "local_npm = new_npm_client ''http://127.0.0.1:81/''"

lemma local_npm_urls:
  "npm_base local_npm = ''http://127.0.0.1:81''"
  "url_parse ''http://127.0.0.1:81'' = Some \<lparr>u_scheme = ''http'', u_opaque = False, u_host = ''127.0.0.1:81''\<rparr>"
  "url_parse ''http://127.0.0.1:81/api/tokens'' = Some \<lparr>u_scheme = ''http'', u_opaque = False, u_host = ''127.0.0.1:81''\<rparr>"
  "split_host_port ''127.0.0.1:81'' = (''127.0.0.1'', ''81'')"
  by code_simp+

lemma npm_env_login:
  "\<exists>w'. npm_login npm_env local_npm email pw w = (Inr (), local_npm\<lparr>npm_token := ''t''\<rparr>, w')"
proof -
  have t: "\<not> test_mode npm_env" by (simp add: test_mode_def npm_env_def)
  have v: "validate_base_url npm_env local_npm w = (Inr (), w)"
    by (simp add: validate_base_url_def local_npm_urls url_hostname_def npm_env_def private_v4)
  have d: "decode_token (JObj [(''token'', JStr ''t'')]) = Some ''t''" by code_simp
  have s: "\<exists>evs. send_once npm_control npm_env c w
      = (Inr \<lparr>hr_status = 200, hr_headers = [], hr_body = [], hr_read_error = None\<rparr>, w\<lparr>net := evs\<rparr>)"
    if "hc_url c = ''http://127.0.0.1:81/api/tokens''" for c w
    by (simp add: send_once_def that local_npm_urls url_hostname_def url_port_def npm_env_def lookup_ip_def
        dial_ip_def send_http_def npm_control_def private_v4 calm_env_def) (rule exI, rule refl)
  have h: "\<exists>evs. npm_http npm_env 0 u0 c w
      = (Inr \<lparr>hr_status = 200, hr_headers = [], hr_body = [], hr_read_error = None\<rparr>, w\<lparr>net := evs\<rparr>)"
    if "hc_url c = ''http://127.0.0.1:81/api/tokens''" for u0 c w
    using s [OF that, of w] by (subst npm_http.simps) (auto simp: is_redirect_def)
  let ?c = "\<lparr>hc_method = ''POST'', hc_url = ''http://127.0.0.1:81/api/tokens'',
      hc_headers = [(''Content-Type'', ''application/json'')],
      hc_body = render npm_env (Json (JObj [(''identity'', JStr email), (''secret'', JStr pw)]))\<rparr>"
  obtain evs where e: "npm_http npm_env 0 ''http://127.0.0.1:81/api/tokens'' ?c w
      = (Inr \<lparr>hr_status = 200, hr_headers = [], hr_body = [], hr_read_error = None\<rparr>, w\<lparr>net := evs\<rparr>)"
    using h [of ?c "''http://127.0.0.1:81/api/tokens''" w] by auto
  have j: "json_first npm_env [] = Some (JObj [(''token'', JStr ''t'')])" by (simp add: npm_env_def)
  have n: "npm_token local_npm = []" by (simp add: local_npm_def new_npm_client_def)
  show ?thesis using t v d e j n
    by (simp add: npm_login_def npm_do_def local_npm_urls)
qed

theorem npm_bootstrap_logs_in_witness:
  "\<exists>cl' w'. npm_bootstrap npm_env local_npm ''a@b'' ''old'' ''c@d'' ''new'' blank_world = (Inr (), cl', w')
     \<and> npm_token cl' \<noteq> [] \<and> npm_base cl' = ''http://127.0.0.1:81''"
proof -
  obtain w' where "npm_login npm_env local_npm ''c@d'' ''new'' blank_world
      = (Inr (), local_npm\<lparr>npm_token := ''t''\<rparr>, w')"
    using npm_env_login by blast
  moreover have "\<not> test_mode npm_env" by (simp add: test_mode_def npm_env_def)
  ultimately have b: "npm_bootstrap npm_env local_npm ''a@b'' ''old'' ''c@d'' ''new'' blank_world
      = (Inr (), local_npm\<lparr>npm_token := ''t''\<rparr>, w')" by (simp add: npm_bootstrap_def)
  from npm_bootstrap_logs_in [OF b] b local_npm_urls(1) show ?thesis by simp
qed

end
