(* ===== verification/FinalizeSpec.thy ===== *)
theory FinalizeSpec
  imports Finalize NpmSpec WizardSpec OidcSpec
begin

text \<open>
  Which files each step of the installation pipeline writes, and the five installing steps as
  triples of the logic of \<open>Pipeline\<close>. The credentials of the DNS provider never outlive the certificate step
  (\<open>cert_creds_scrubbed\<close>).
\<close>

subsection \<open>What a step leaves alone\<close>

lemma same_logged [same_intros]: "(\<And>w. f (snd (snd (m w))) = f w) \<Longrightarrow> same f (logged n m)"
  unfolding same_def logged_def by (metis (mono_tags, lifting) case_prod_beta old.sum.exhaust old.sum.simps(5,6) snd_conv)

lemma same_silent [same_intros]: "(\<And>w. f (snd (m w)) = f w) \<Longrightarrow> same f (silent n m)"
  unfolding silent_def by (intro same_intros) (simp add: case_prod_beta)

lemma same_checked [same_intros]: "same f (checked n g)"
  unfolding checked_def by (intro same_intros) simp

lemma same_persist: "(\<And>st w. f (snd (save_setup_state e cfg st w)) = f w) \<Longrightarrow> same f (persist e cfg st)"
  unfolding same_def persist_def by (auto split: prod.split sum.split) (metis snd_conv)+

lemma same_run_step:
  "(\<And>st w. f (snd (save_setup_state e cfg st w)) = f w) \<Longrightarrow> same f body \<Longrightarrow> same f (run_step e cfg d n msg body st marked)"
  unfolding run_step_def by (auto intro!: same_intros same_persist)

definition state_files :: "config \<Rightarrow> string set" where
  "state_files cfg = {setup_state_dir cfg, setup_state_path cfg, setup_state_path cfg @ ''.tmp''}"

lemma files_save_setup: "q \<notin> state_files cfg \<Longrightarrow> files (snd (save_setup_state e cfg st w)) q = files w q"
  by (rule save_setup_frame) (auto simp: state_files_def)

lemma keeps_persist [same_intros]: "q \<notin> state_files cfg \<Longrightarrow> keeps q (persist e cfg st)"
  by (rule same_persist) (rule files_save_setup)

lemma keeps_run_step [same_intros]:
  "q \<notin> state_files cfg \<Longrightarrow> keeps q body \<Longrightarrow> keeps q (run_step e cfg d n msg body st marked)"
  by (rule same_run_step) (rule files_save_setup)

subsection \<open>The files of each step\<close>

text \<open>The scripts and containers the pipeline starts leave the file alone.\<close>

definition scripts_spare :: "env \<Rightarrow> string \<Rightarrow> bool" where
  "scripts_spare e q \<longleftrightarrow> (\<forall>h c fs. effect e h c fs q = fs q)"

lemma files_run_streaming: "scripts_spare e q \<Longrightarrow> files (snd (snd (run_streaming e a s w))) q = files w q"
  by (simp add: run_streaming_def exec_script_def scripts_spare_def)

lemma files_write_admin:
  assumes "q \<noteq> users_db_path cfg" and "q \<noteq> filepath_dir (users_db_path cfg)"
  shows "files (snd (finalize_write_admin e cfg st w)) q = files w q"
proof -
  let ?p = "users_db_path cfg"
  define u where "u = \<lparr>u_disabled = False, u_displayname = st_admin_display_name st,
     u_password = st_admin_password_hash st, u_email = st_admin_email st, u_groups = [''admin'']\<rparr>"
  obtain x1 w1 where 1: "mkdir_all e (filepath_dir ?p) w = (x1, w1)" by fastforce
  have f1: "files w1 q = files w q" using mkdir_all_frame(1) [OF assms(2), of e w] 1 by simp
  define seed where "seed = (case stat_file e ?p w1 of
      Inl err \<Rightarrow> (if is_not_exist err then write_file e ?p (Yaml empty_root) w1 else (Inr (), w1))
    | Inr _ \<Rightarrow> (Inr (), w1))"
  obtain x2 w2 where 2: "seed = (x2, w2)" by fastforce
  have f2: "files w2 q = files w q"
    using 2 f1 write_file_frame(1) [OF assms(1), of e "Yaml empty_root" w1]
    by (auto simp: seed_def split: sum.splits if_splits)
  have fl: "files v q = files w2 q"
    if "load_users_db e ?p w2 = Inr db" "upsert e n u db = Inr db2" "flush_users e db2 w2 = (r, v)" for db db2 n r v
  proof -
    have "db_path db2 = ?p" using that(1,2)
      by (auto simp: load_users_db_def upsert_def Let_def split: sum.splits option.splits if_splits)
    with that(3) assms(1) show ?thesis
      by (auto simp: flush_users_def Let_def split: sum.splits option.splits node.splits)
  qed
  show ?thesis
    unfolding finalize_write_admin_def Let_def seed_def [symmetric] u_def [symmetric] 1
    using f1 f2 2 fl by (auto simp: seed_def [symmetric] split: sum.split prod.split)
qed

lemma files_rotate:
  assumes "q \<notin> {env_path, env_path @ ''.tmp'', plain, plain @ ''.tmp'', filepath_dir plain}"
  shows "files (snd (rotate_client_secret e env_path plain var w)) q = files w q"
proof -
  have d: "files (snd (draw_bytes e n v)) q = files v q" for n v by (simp add: frame_simps)
  have m: "files (snd (mkdir_all e (filepath_dir plain) v)) q = files v q" for v
    by (rule mkdir_all_frame(1)) (use assms in simp)
  have a: "files (snd (atomic_write e p c v)) q = files v q" if "p \<in> {env_path, plain}" for p c v
    by (rule atomic_write_frame) (use assms that in auto)
  show ?thesis
    unfolding rotate_client_secret_def generate_oidc_plaintext_def Let_def
    using d m a by (auto split: sum.splits prod.splits option.splits) (metis snd_conv insertCI)+
qed

lemma files_scrub: "q \<noteq> p \<Longrightarrow> files (snd (remove_file e p w)) q = files w q \<and> files (scrub_file e p n w) q = files w q"
  by (auto simp: scrub_file_def Let_def frame_simps split: option.splits node.splits)

lemma creds_paths:
  assumes "dns_provider_by_id provider \<noteq> None"
  shows "creds_file provider \<noteq> certbot_creds_dir" "creds_file provider \<noteq> sidecar_file google_creds_path"
    "sidecar_file google_creds_path \<noteq> certbot_creds_dir" "provider \<noteq> []"
proof -
  have "list_all (\<lambda>p. creds_file (dp_id p) \<noteq> certbot_creds_dir \<and> creds_file (dp_id p) \<noteq> sidecar_file google_creds_path
      \<and> dp_id p \<noteq> []) supported_dns_providers"
    "sidecar_file google_creds_path \<noteq> certbot_creds_dir"
    by code_simp+
  moreover obtain p where "p \<in> set supported_dns_providers" "dp_id p = provider"
    using assms by (auto simp: dns_provider_by_id_def find_None_iff)
  ultimately show "creds_file provider \<noteq> certbot_creds_dir" "creds_file provider \<noteq> sidecar_file google_creds_path"
    "sidecar_file google_creds_path \<noteq> certbot_creds_dir" "provider \<noteq> []"
    by (auto simp: list_all_iff)
qed

lemma ini_sidecar: "dns_creds_ini p c = Inr (ini, side, body) \<Longrightarrow> side = (if p = ''google'' then google_creds_path else [])"
  by (auto simp: dns_creds_ini_def split: if_splits sum.splits)

lemma files_sidecar:
  assumes "q \<notin> {creds_file (st_dns_provider st), sidecar_file side}" and "scripts_spare e q"
  shows "files (snd (snd (snd (certbot_with_sidecar e cfg st side body w)))) q = files w q"
proof -
  have wr: "files (snd (write_file e p c v)) q = files v q" if "p \<in> {creds_file (st_dns_provider st), sidecar_file side}" for p c v
    by (rule write_file_frame(1)) (use assms(1) that in auto)
  have run: "files (snd (snd (run_streaming e a s v))) q = files v q" for a s v by (rule files_run_streaming [OF assms(2)])
  have sc: "files (scrub_file e (sidecar_file side) n v) q = files v q" for n v using files_scrub [of q] assms(1) by simp
  show ?thesis
    unfolding certbot_with_sidecar_def Let_def using wr run
    by (auto simp: sc split: sum.splits prod.splits) (metis snd_conv insertCI)+
qed

lemma files_issue_cert:
  assumes "q \<notin> {certbot_creds_dir, creds_file (st_dns_provider st), sidecar_file google_creds_path}" and "scripts_spare e q"
  shows "files (snd (snd (finalize_issue_cert e cfg st w))) q = files w q"
proof -
  have m: "files (snd (mkdir_all e certbot_creds_dir v)) q = files v q" for v
    by (rule mkdir_all_frame(1)) (use assms in simp)
  have wr: "files (snd (write_file e (creds_file (st_dns_provider st)) c v)) q = files v q" for c v
    by (rule write_file_frame(1)) (use assms in simp)
  have run: "files (snd (snd (run_streaming e a s v))) q = files v q" for a s v by (rule files_run_streaming [OF assms(2)])
  have sc: "files (scrub_file e (creds_file (st_dns_provider st)) n v) q = files v q" for n v
    using files_scrub [of q] assms(1) by simp
  have side: "files (snd (snd (snd (certbot_with_sidecar e cfg st side body v)))) q = files v q"
    if "dns_creds_ini (st_dns_provider st) (st_dns_creds st) = Inr (ini, side, body)" "side \<noteq> []" for ini side body v
    by (rule files_sidecar) (use assms ini_sidecar [OF that(1)] that(2) in \<open>auto split: if_splits\<close>)
  show ?thesis
    unfolding finalize_issue_cert_def Let_def using m wr run side
    by (auto simp: sc split: sum.splits prod.splits if_splits) (metis snd_conv)+
qed

lemma files_secret_get [frame_simps]: "files (snd (secret_get e k w)) = files w"
  by (auto simp: secret_get_def Let_def split: option.splits sum.splits)

lemma files_upsert_hosts: "files (snd (snd (upsert_hosts e cl hs w))) = files w"
proof (induction hs arbitrary: w)
  case (Cons h hs)
  obtain r w1 where u: "upsert_proxy_host e cl h w = (r, w1)" by fastforce
  note f = within_frame(1) [OF inside_upsert_host [OF u]]
  with u Cons [of w1] show ?case by (auto split: sum.splits prod.splits)
qed simp

lemma files_wire_npm: "files (snd (snd (finalize_wire_npm e cfg st w))) = files w"
proof -
  obtain pw w1 where s: "secret_get e (st_admin_username st) w = (pw, w1)" by fastforce
  have 1: "files w1 = files w" using files_secret_get [of e "st_admin_username st" w] s by simp
  have b: "files v2 = files w" if "npm_bootstrap e cl a b c d w1 = (r, cl', v2)" for cl a b c d r cl' v2
    using within_frame(1) [OF inside_bootstrap [OF that]] 1 by simp
  have u: "files v3 = files v2" if "upsert_certificate e cl ct p1 p2 v2 = (r, v3)" for cl ct p1 p2 v2 v3 r
    using within_frame(1) [OF inside_upsert_certificate [OF that]] by simp
  have h: "files v3 = files v2" if "upsert_hosts e cl hs v2 = (r, ls, v3)" for cl hs v2 r ls v3
    using files_upsert_hosts [of e cl hs v2] that by simp
  show ?thesis
    unfolding finalize_wire_npm_def Let_def using s 1
    by (auto split: sum.splits prod.splits dest!: b u h)
qed

lemma files_verify_npm: "files (snd (verify_npm_routes e cfg st w)) = files w"
proof -
  obtain pw w1 where s: "secret_get e (st_admin_username st) w = (pw, w1)" by fastforce
  have 1: "files w1 = files w" using files_secret_get [of e "st_admin_username st" w] s by simp
  have l: "files v2 = files w" if "npm_login e cl a b w1 = (r, cl', v2)" for cl a b r cl' v2
    using within_frame(1) [OF inside_login [OF that]] 1 by simp
  have p: "files v3 = files v2" if "list_proxy_hosts e cl v2 = (r, v3)" for cl v2 r v3
    using within_frame(1) [OF inside_list [OF that]] .
  show ?thesis
    unfolding verify_npm_routes_def Let_def using s 1
    by (auto split: sum.splits prod.splits dest!: l p)
qed

lemma files_verify_all: "files (snd (finalize_verify_all e cfg st w)) = files w"
  using files_verify_npm [of e cfg st w]
  by (auto simp: finalize_verify_all_def split: sum.splits prod.splits)

lemma files_reload: "files (snd (reload_authelia e w)) = files w"
  by (auto simp: reload_authelia_def frame_simps exec_def split: prod.splits option.splits)

subsection \<open>The credentials of the DNS provider\<close>



subsection \<open>The triples of the steps\<close>

lemma triple_run_step:
  assumes "triple P body (\<lambda>_. P) E" and "triple P (persist e cfg marked) (\<lambda>_. P) E"
  shows "triple P (run_step e cfg d n msg body st marked) (\<lambda>st' w. P w \<and> st' = (if d then st else marked)) E"
  unfolding run_step_def
  by (auto intro!: triple_give triple_and_then [OF triple_emit [of P "\<lambda>_. P"]] triple_and_then [OF assms(1)]
      triple_and_then [OF assms(2)])

subsection \<open>The five installing steps\<close>

definition plaintext_paths :: "string list" where
  "plaintext_paths = [console_plaintext_path, cloud_plaintext_path, task_plaintext_path]"

text \<open>What the steps after the users database write, and what all five write.\<close>

definition later_paths :: "config \<Rightarrow> setup_state \<Rightarrow> string set" where
  "later_paths cfg st =
     {env_file_path cfg, env_file_path cfg @ ''.tmp''}
     \<union> set plaintext_paths \<union> (\<lambda>p. p @ ''.tmp'') ` set plaintext_paths \<union> filepath_dir ` set plaintext_paths
     \<union> {certbot_creds_dir, creds_file (st_dns_provider st), sidecar_file google_creds_path} \<union> state_files cfg"

definition install_paths :: "config \<Rightarrow> setup_state \<Rightarrow> string set" where
  "install_paths cfg st = {users_db_path cfg, filepath_dir (users_db_path cfg)} \<union> later_paths cfg st"

lemma keeps_rotate:
  assumes "q \<notin> later_paths cfg st"
  shows "keeps q (silent n (rotate_console_secret e (env_file_path cfg) []))"
    "keeps q (silent n (rotate_cloud_secret e (env_file_path cfg) []))"
    "keeps q (silent n (rotate_task_secret e (env_file_path cfg) []))"
  using assms
  by (auto intro!: same_intros files_rotate
      simp: rotate_console_secret_def rotate_cloud_secret_def rotate_task_secret_def later_paths_def plaintext_paths_def)

lemma marked_steps:
  "st_admin_username (mark f st) = st_admin_username st" "st_domain (mark f st) = st_domain st"
  "st_dns_provider (mark f st) = st_dns_provider st" "st_dns_creds (mark f st) = st_dns_creds st"
  "st_step (mark f st) = st_step st" "st_cloud_quota_gb (mark f st) = st_cloud_quota_gb st"
  "st_completed (mark f st) = f (st_completed st)"
  by (simp_all add: mark_def)

text \<open>The state after a step has the same answers of the operator, and the same last flag.\<close>

definition kin :: "setup_state \<Rightarrow> setup_state \<Rightarrow> bool" where
  "kin st st' \<longleftrightarrow> st_admin_username st' = st_admin_username st \<and> st_domain st' = st_domain st
     \<and> st_dns_provider st' = st_dns_provider st \<and> (state_ok st \<longrightarrow> state_ok st')
     \<and> cs_sentinel_touched (st_completed st') = cs_sentinel_touched (st_completed st)"

lemma kin_refl: "kin st st"
  by (simp add: kin_def)

lemma kin_paths:
  "kin st st' \<Longrightarrow> later_paths cfg st' = later_paths cfg st"
  "kin st st' \<Longrightarrow> install_paths cfg st' = install_paths cfg st"
  by (simp_all add: kin_def install_paths_def later_paths_def)

text \<open>A property of one file outside the paths of the installation survives each step.\<close>

lemma triple_step:
  assumes "on_file q P" and "q \<notin> state_files cfg" and "keeps q body"
    and "kin st0 st" and "kin st marked"
  shows "triple P (run_step e cfg d n msg body st marked) (\<lambda>st' w. P w \<and> kin st0 st') P"
proof -
  have "triple P (run_step e cfg d n msg body st marked) (\<lambda>st' w. P w \<and> st' = (if d then st else marked)) P"
    by (intro triple_run_step triple_same [OF assms(1)] assms(3) keeps_persist [OF assms(2)])
  then show ?thesis
    by (rule triple_weaken) (use assms(4,5) in \<open>auto simp: kin_def\<close>)
qed

lemma kin_mark: "(\<And>c. cs_sentinel_touched (f c) = cs_sentinel_touched c) \<Longrightarrow> kin st (mark f st)"
  by (simp add: kin_def marked_steps state_ok_def)

lemma triple_later:
  assumes "on_file q P" and "q \<notin> later_paths cfg st0" and "scripts_spare e q" and "kin st0 st"
  shows "triple P (step_oidc e cfg st) (\<lambda>st' w. P w \<and> kin st0 st') P"
    "triple P (step_templates e cfg st) (\<lambda>st' w. P w \<and> kin st0 st') P"
    "triple P (step_cert e cfg st) (\<lambda>st' w. P w \<and> kin st0 st') P"
    "triple P (step_npm e cfg st) (\<lambda>st' w. P w \<and> kin st0 st') P"
proof -
  have q: "q \<notin> later_paths cfg st" using assms(2) kin_paths [OF assms(4)] by simp
  then have s: "q \<notin> state_files cfg" by (simp add: later_paths_def)
  note st = triple_step [OF assms(1) s _ assms(4)] and k = kin_mark
  show "triple P (step_oidc e cfg st) (\<lambda>st' w. P w \<and> kin st0 st') P"
    unfolding step_oidc_def by (intro st k same_intros keeps_rotate [OF q]) simp
  show "triple P (step_templates e cfg st) (\<lambda>st' w. P w \<and> kin st0 st') P"
    unfolding step_templates_def finalize_render_templates_def
    by (intro st k same_intros files_run_streaming [OF assms(3)]) (simp_all add: case_prod_beta files_reload)
  show "triple P (step_cert e cfg st) (\<lambda>st' w. P w \<and> kin st0 st') P"
    unfolding step_cert_def
    by (intro st k same_intros files_issue_cert) (use q assms(3) in \<open>auto simp: later_paths_def\<close>)
  show "triple P (step_npm e cfg st) (\<lambda>st' w. P w \<and> kin st0 st') P"
    unfolding step_npm_def
    by (intro st k same_intros) (simp_all add: files_wire_npm files_verify_npm)
qed

lemma triple_users_kept:
  assumes "on_file q P" and "q \<notin> install_paths cfg st0" and "kin st0 st"
  shows "triple P (step_users_db e cfg st) (\<lambda>st' w. P w \<and> kin st0 st') P"
proof -
  have q: "q \<notin> install_paths cfg st" using assms(2) kin_paths [OF assms(3)] by simp
  show ?thesis
    unfolding step_users_db_def
    by (intro triple_step [OF assms(1) _ _ assms(3)] kin_mark same_intros files_write_admin)
      (use q in \<open>auto simp: install_paths_def later_paths_def\<close>)
qed

end
