(* ===== verification/FinalizeGate.thy ===== *)
theory FinalizeGate
  imports FinalizeSpec
begin

text \<open>
  What the installation pipeline promises as a whole. Setup mode ends only when every check
  holds, and a finished installation keeps no secret in the wizard's state (\<open>finalize_gate\<close>);
  nothing that was marked as done is done again (\<open>finalize_no_rework\<close>); the recovery by
  removing the sentinel never ends (\<open>recovery_never_ends\<close>).
\<close>

subsection \<open>The checks of an installation\<close>

definition installed :: "env \<Rightarrow> config \<Rightarrow> setup_state \<Rightarrow> world \<Rightarrow> bool" where
  "installed e cfg st w \<longleftrightarrow>
     verify_users_db e cfg (st_admin_username st) w = Inr () \<and> verify_templates_rendered e cfg w = Inr ()
     \<and> verify_cert_issued e cfg (st_domain st) w = Inr ()"

definition checked_paths :: "config \<Rightarrow> setup_state \<Rightarrow> string set" where
  "checked_paths cfg st = {users_db_path cfg, authelia_conf_path cfg, cert_chain_path cfg (st_domain st)}"

text \<open>The sentinel and the stored state lie apart from what the installation writes and checks.\<close>

definition apart :: "config \<Rightarrow> setup_state \<Rightarrow> bool" where
  "apart cfg st \<longleftrightarrow>
     (let s = setup_complete_sentinel cfg; k = secret_cache_file (st_admin_username st) in
      s \<notin> install_paths cfg st \<and> s \<noteq> k
      \<and> checked_paths cfg st \<inter> ({s, filepath_dir s, k} \<union> state_files cfg) = {}
      \<and> k \<notin> state_files cfg)"

lemma installed_cong:
  assumes "\<And>q. q \<in> checked_paths cfg st \<Longrightarrow> files w' q = files w q"
  shows "installed e cfg st w' = installed e cfg st w"
proof -
  have "read_file e p w' = read_file e p w"
    if "p = users_db_path cfg \<or> p = authelia_conf_path cfg \<or> p = cert_chain_path cfg (st_domain st)" for p
    using that by (intro read_file_cong assms) (auto simp: checked_paths_def)
  then show ?thesis
    by (simp add: installed_def verify_users_db_def verify_templates_rendered_def verify_cert_issued_def Let_def)
qed

lemma installed_kin: "kin st st' \<Longrightarrow> installed e cfg st' = installed e cfg st"
  by (rule ext) (simp add: installed_def kin_def)

lemma setup_mode_cong:
  "files w' (setup_complete_sentinel cfg) = files w (setup_complete_sentinel cfg) \<Longrightarrow>
   setup_mode_active e cfg w' = setup_mode_active e cfg w"
  by (simp add: setup_mode_active_def stat_file_def cong: option.case_cong)

lemma on_file_setup_mode: "on_file (setup_complete_sentinel cfg) (setup_mode_active e cfg)"
  unfolding about_def using setup_mode_cong by blast

subsection \<open>The last three steps\<close>

lemma verify_step_result:
  assumes "verify_step e cfg st w = (r, evs, w')"
  shows "files w' = files w" "r = Inr () \<Longrightarrow> installed e cfg st w'"
proof -
  show f: "files w' = files w" using assms files_verify_all [of e cfg st w] by (auto simp: verify_step_def split: prod.splits)
  assume "r = Inr ()"
  then have "installed e cfg st w"
    using assms by (auto simp: verify_step_def finalize_verify_all_def installed_def split: prod.splits sum.splits)
  with f show "installed e cfg st w'" by (metis installed_cong)
qed

lemma files_touch_sentinel:
  assumes "q \<noteq> setup_complete_sentinel cfg" and "q \<noteq> filepath_dir (setup_complete_sentinel cfg)"
  shows "files (snd (finalize_touch_sentinel e cfg w)) q = files w q"
proof -
  have "files (snd (mkdir_all e (filepath_dir (setup_complete_sentinel cfg)) w)) q = files w q"
    by (rule mkdir_all_frame(1)) (use assms in simp)
  moreover have "files (snd (write_file e (setup_complete_sentinel cfg) c v)) q = files v q" for c v
    by (rule write_file_frame(1)) (use assms in simp)
  ultimately show ?thesis
    unfolding finalize_touch_sentinel_def Let_def by (auto split: sum.splits prod.splits) (metis snd_conv)+
qed

lemma keeps_sentinel:
  assumes "q \<notin> {setup_complete_sentinel cfg, filepath_dir (setup_complete_sentinel cfg)} \<union> state_files cfg"
  shows "keeps q (step_sentinel e cfg st)"
  unfolding step_sentinel_def by (intro same_intros files_touch_sentinel) (use assms in auto)

text \<open>A sentinel step that did its work has created the file.\<close>

lemma triple_checked: "triple P (checked n f) (\<lambda>_ w. P w \<and> f w = Inr ()) P"
  by (auto simp: triple_def checked_def silent_def logged_def split: sum.splits)

lemma sentinel_touched:
  assumes "\<not> cs_sentinel_touched (st_completed st)" and "setup_complete_sentinel cfg \<notin> state_files cfg"
  shows "triple (\<lambda>_. True) (step_sentinel e cfg st) (\<lambda>_ w. \<not> setup_mode_active e cfg w) (\<lambda>_. True)"
proof -
  let ?Q = "\<lambda>w. \<not> setup_mode_active e cfg w"
  have any: "triple (\<lambda>_. True) m (\<lambda>_ _. True) (\<lambda>_. True)" for m :: "unit pipe"
    by (auto simp: triple_def split: prod.split sum.split)
  have "triple (\<lambda>_. True) (checked ''sentinel'' (verify_sentinel e cfg)) (\<lambda>_. ?Q) (\<lambda>_. True)"
    by (rule triple_weaken [OF triple_checked]) (auto simp: verify_sentinel_def setup_mode_active_def split: sum.splits)
  moreover have "triple ?Q (persist e cfg st2) (\<lambda>_. ?Q) (\<lambda>_. True)" for st2
    by (rule triple_weaken [OF triple_same [OF _ keeps_persist [OF assms(2)], of ?Q]])
      (use setup_mode_cong about_def in blast)+
  ultimately show ?thesis
    unfolding step_sentinel_def run_step_def if_not_P [OF assms(1)]
    by (intro triple_and_then [where R = "\<lambda>_. ?Q", OF triple_and_then [OF any]] triple_and_then [OF any]
        triple_and_then [where R = "\<lambda>_. ?Q"] triple_give)
qed

lemma secrets_save_setup: "secrets (snd (save_setup_state e cfg st w)) = secrets w"
  by (auto simp: save_setup_state_def mkdir_all_def write_file_def rename_file_def Let_def
      split: option.split sum.split prod.split node.split)

lemma secret_delete_frame:
  "q \<noteq> secret_cache_file k \<Longrightarrow> files (secret_delete e k w) q = files w q" "secrets (secret_delete e k w) k = None"
  by (auto simp: secret_delete_def remove_file_def split: option.split)

lemma keeps_scrub:
  assumes "q \<notin> state_files cfg" and "q \<noteq> secret_cache_file (st_admin_username st)"
  shows "keeps q (step_scrub e cfg st)"
  unfolding step_scrub_def
  by (intro same_intros) (use assms files_save_setup secret_delete_frame in metis)

text \<open>The stored state holds no password hash and no DNS credentials, the cache no password.\<close>

definition scrubbed :: "env \<Rightarrow> config \<Rightarrow> string \<Rightarrow> world \<Rightarrow> bool" where
  "scrubbed e cfg admin w \<longleftrightarrow>
     (case load_setup_state e cfg w of Inl _ \<Rightarrow> False
      | Inr st \<Rightarrow> st_admin_password_hash st = [] \<and> st_dns_creds st = [])
     \<and> secrets w admin = None"

lemma scrub_scrubs:
  assumes "setup_ready e cfg" and "state_ok st" and "st_admin_username st = admin"
  shows "triple (\<lambda>_. True) (step_scrub e cfg st) (\<lambda>_. scrubbed e cfg admin) (\<lambda>_. True)"
proof -
  let ?s = "st\<lparr>st_admin_password_hash := [], st_dns_creds := []\<rparr>"
  have ok: "state_ok ?s" using assms(2) by (simp add: state_ok_def)
  have saved: "scrubbed e cfg admin w'" if "save_setup_state e cfg ?s (secret_delete e admin w) = (Inr (), w')" for w w'
    using save_setup_saved [OF assms(1) ok that] secrets_save_setup [of e cfg ?s "secret_delete e admin w"]
      secret_delete_frame(2) [of e admin w] that
    by (simp add: scrubbed_def stored_state_def sorted_creds_def sort_by_def Let_def)
  have "triple (\<lambda>_. True) (silent ''save-state'' (\<lambda>w. save_setup_state e cfg ?s (secret_delete e admin w)))
     (\<lambda>_. scrubbed e cfg admin) (\<lambda>_. True)"
    using saved by (auto simp: triple_def silent_def logged_def split: sum.split prod.split)
  then show ?thesis
    unfolding step_scrub_def assms(3)
    by (rule triple_and_then) (rule triple_emit)
qed

subsection \<open>The whole pipeline\<close>

lemma triple_laters:
  assumes "on_file q P" and "q \<notin> later_paths cfg st" and "scripts_spare e q" and "\<And>w. P w \<Longrightarrow> E w"
    and "\<And>st5. kin st st5 \<Longrightarrow> triple P (f st5) Q E" and "kin st st1"
  shows "triple P (and_then (step_oidc e cfg st1) (\<lambda>st2. and_then (step_templates e cfg st2) (\<lambda>st3.
     and_then (step_cert e cfg st3) (\<lambda>st4. and_then (step_npm e cfg st4) f)))) Q E"
proof -
  have step: "triple (\<lambda>w. P w \<and> kin st x) (step_oidc e cfg x) (\<lambda>st' w. P w \<and> kin st st') E"
    "triple (\<lambda>w. P w \<and> kin st x) (step_templates e cfg x) (\<lambda>st' w. P w \<and> kin st st') E"
    "triple (\<lambda>w. P w \<and> kin st x) (step_cert e cfg x) (\<lambda>st' w. P w \<and> kin st st') E"
    "triple (\<lambda>w. P w \<and> kin st x) (step_npm e cfg x) (\<lambda>st' w. P w \<and> kin st st') E" for x
    by (rule triple_fact, erule triple_weaken [OF triple_later(1) [OF assms(1-3)] _ _ assms(4)]
          triple_weaken [OF triple_later(2) [OF assms(1-3)] _ _ assms(4)]
          triple_weaken [OF triple_later(3) [OF assms(1-3)] _ _ assms(4)]
          triple_weaken [OF triple_later(4) [OF assms(1-3)] _ _ assms(4)]; assumption)+
  have "triple (\<lambda>w. P w \<and> kin st st1) (and_then (step_oidc e cfg st1) (\<lambda>st2. and_then (step_templates e cfg st2) (\<lambda>st3.
     and_then (step_cert e cfg st3) (\<lambda>st4. and_then (step_npm e cfg st4) f)))) Q E"
    by (intro triple_and_then [OF step(1)] triple_and_then [OF step(2)] triple_and_then [OF step(3)]
        triple_and_then [OF step(4)] triple_fact assms(5))
  then show ?thesis by (rule triple_weaken) (simp_all add: assms(6))
qed

lemma triple_installs:
  assumes "on_file q P" and "q \<notin> install_paths cfg st" and "scripts_spare e q" and "\<And>w. P w \<Longrightarrow> E w"
    and "\<And>st5. kin st st5 \<Longrightarrow> triple P (f st5) Q E"
  shows "triple P (and_then (step_users_db e cfg st) (\<lambda>st1. and_then (step_oidc e cfg st1) (\<lambda>st2.
     and_then (step_templates e cfg st2) (\<lambda>st3. and_then (step_cert e cfg st3) (\<lambda>st4.
     and_then (step_npm e cfg st4) f))))) Q E"
proof (rule triple_and_then)
  show "triple P (step_users_db e cfg st) (\<lambda>st1 w. P w \<and> kin st st1) E"
    by (rule triple_weaken [OF triple_users_kept [OF assms(1,2) kin_refl]]) (simp_all add: assms(4))
qed (intro triple_fact triple_laters [OF assms(1) _ assms(3-5)], use assms(2) in \<open>simp_all add: install_paths_def\<close>)

lemma triple_keeps_installed:
  assumes "\<And>q. q \<in> checked_paths cfg st \<Longrightarrow> keeps q m"
  shows "triple (installed e cfg st) m (\<lambda>_. installed e cfg st) (installed e cfg st)"
proof -
  have "installed e cfg st w' = installed e cfg st w" if "m w = (r, evs, w')" for w r evs w'
    by (rule installed_cong) (use assms that in \<open>metis sameD\<close>)
  then show ?thesis by (auto simp: triple_def split: prod.split sum.split)
qed

lemma verify_triple:
  assumes "on_file q P"
  shows "triple P (verify_step e cfg st) (\<lambda>_ w. P w \<and> installed e cfg st w) P"
  using assms verify_step_result [of e cfg st] unfolding triple_def about_def
  by (fastforce split: prod.splits sum.splits)

lemma sentinel_state:
  "triple (\<lambda>_. True) (step_sentinel e cfg st) (\<lambda>st' _. st_admin_username st' = st_admin_username st \<and> (state_ok st \<longrightarrow> state_ok st')) (\<lambda>_. True)"
proof -
  have any: "triple (\<lambda>_. True) m (\<lambda>_ _. True) (\<lambda>_. True)" for m :: "unit pipe"
    by (auto simp: triple_def split: prod.split sum.split)
  have s: "step_of ''done'' = StepDone" by code_simp
  show ?thesis
    unfolding step_sentinel_def
    by (rule triple_weaken [OF triple_run_step [OF any any]]) (auto simp: s state_ok_def mark_def)
qed

definition finalize_steps :: "env \<Rightarrow> config \<Rightarrow> setup_state \<Rightarrow> unit pipe" where
  "finalize_steps e cfg st =
     and_then (step_users_db e cfg st) (\<lambda>st1. and_then (step_oidc e cfg st1) (\<lambda>st2.
     and_then (step_templates e cfg st2) (\<lambda>st3. and_then (step_cert e cfg st3) (\<lambda>st4.
     and_then (step_npm e cfg st4) (\<lambda>st5.
     and_then (emit (SseStatus ''verify'' ''re-running all step verifications'')) (\<lambda>_.
     and_then (verify_step e cfg st5) (\<lambda>_. and_then (step_sentinel e cfg st5) (step_scrub e cfg))))))))"

lemma run_finalize_steps:
  "load_setup_state e cfg w = Inr st \<Longrightarrow> run_finalize e cfg w = finalize_steps e cfg st w"
  by (simp add: run_finalize_def finalize_steps_def)

lemma triple_closing:
  assumes "kin st st5" and "apart cfg st" and "setup_ready e cfg" and "state_ok st"
  defines "active \<equiv> setup_mode_active e cfg" and "ok \<equiv> installed e cfg st"
  shows "triple ok (and_then (step_sentinel e cfg st5) (step_scrub e cfg))
    (\<lambda>_ w. ok w \<and> (cs_sentinel_touched (st_completed st) \<or> \<not> active w) \<and> scrubbed e cfg (st_admin_username st) w) ok"
proof -
  let ?t = "cs_sentinel_touched (st_completed st)" and ?n = "st_admin_username st"
  let ?X = "\<lambda>w. ?t \<or> \<not> active w"
  have s: "setup_complete_sentinel cfg \<notin> state_files cfg" "setup_complete_sentinel cfg \<noteq> secret_cache_file ?n"
    and c: "q \<in> checked_paths cfg st \<Longrightarrow> q \<notin> {setup_complete_sentinel cfg, filepath_dir (setup_complete_sentinel cfg),
      secret_cache_file ?n} \<union> state_files cfg" for q
    using assms(2) by (auto simp: apart_def install_paths_def later_paths_def Let_def)
  have k: "?t = cs_sentinel_touched (st_completed st5)" "state_ok st5" "st_admin_username st5 = ?n"
    using assms(1,4) by (auto simp: kin_def)
  have any: "triple (\<lambda>_. True) m (\<lambda>_ _. True) (\<lambda>_. True)" for m :: "'b pipe"
    by (auto simp: triple_def split: prod.split sum.split)
  have touched: "triple (\<lambda>_. True) (step_sentinel e cfg st5) (\<lambda>_. ?X) (\<lambda>_. True)"
  proof (cases ?t)
    case False
    then show ?thesis unfolding k(1) active_def by (intro triple_weaken [OF sentinel_touched [OF _ s(1)]]) auto
  qed (use any in simp)
  have kept: "triple ok (step_sentinel e cfg st5) (\<lambda>_. ok) ok"
    unfolding ok_def by (intro triple_keeps_installed keeps_sentinel) (use c in blast)
  have 1: "triple ok (step_sentinel e cfg st5)
     (\<lambda>st6 w. (ok w \<and> ?X w) \<and> (state_ok st6 \<and> st_admin_username st6 = ?n)) ok"
    by (rule triple_weaken [OF triple_conj [OF triple_conj [OF touched kept] sentinel_state [of e cfg st5]]])
      (use k(2,3) in auto)
  have "triple (\<lambda>w. ok w \<and> ?X w) (step_scrub e cfg st6) (\<lambda>_ w. ok w \<and> ?X w \<and> scrubbed e cfg ?n w) ok"
    if "state_ok st6" "st_admin_username st6 = ?n" for st6
  proof -
    have "triple ok (step_scrub e cfg st6) (\<lambda>_. ok) ok"
      unfolding ok_def by (intro triple_keeps_installed keeps_scrub) (use c that in auto)
    moreover have "triple ?X (step_scrub e cfg st6) (\<lambda>_. ?X) ?X"
      unfolding active_def
      by (rule triple_same [OF _ keeps_scrub [OF s(1)]]) (use setup_mode_cong about_def in blast, use s(2) that in simp)
    moreover note scrub_scrubs [OF assms(3) that]
    ultimately show ?thesis unfolding triple_def by (fastforce split: prod.splits sum.splits)
  qed
  then show ?thesis by (intro triple_and_then [OF 1] triple_fact) auto
qed

lemma pipeline_gate:
  assumes "load_setup_state e cfg w = Inr st" and "setup_mode_active e cfg w"
    and "apart cfg st" and "scripts_spare e (setup_complete_sentinel cfg)"
    and "setup_ready e cfg" and "state_ok st" and "run_finalize e cfg w = (r, evs, w')"
  shows "(setup_mode_active e cfg w' \<or> installed e cfg st w')
    \<and> (r = Inr () \<longrightarrow> installed e cfg st w'
       \<and> (cs_sentinel_touched (st_completed st) \<or> \<not> setup_mode_active e cfg w')
       \<and> scrubbed e cfg (st_admin_username st) w')"
proof -
  let ?a = "setup_mode_active e cfg" and ?i = "installed e cfg st"
  let ?Q = "\<lambda>_ w. ?i w \<and> (cs_sentinel_touched (st_completed st) \<or> \<not> ?a w) \<and> scrubbed e cfg (st_admin_username st) w"
  have q: "setup_complete_sentinel cfg \<notin> install_paths cfg st" using assms(3) by (simp add: apart_def Let_def)
  have tail: "triple ?a (and_then (verify_step e cfg st5) (\<lambda>_. and_then (step_sentinel e cfg st5) (step_scrub e cfg)))
     ?Q (\<lambda>w. ?a w \<or> ?i w)" if k: "kin st st5" for st5
  proof (rule triple_and_then)
    show "triple ?a (verify_step e cfg st5) (\<lambda>_. ?i) (\<lambda>w. ?a w \<or> ?i w)"
      by (rule triple_weaken [OF verify_triple [OF on_file_setup_mode]]) (auto simp: installed_kin [OF k])
    show "triple ?i (and_then (step_sentinel e cfg st5) (step_scrub e cfg)) ?Q (\<lambda>w. ?a w \<or> ?i w)"
      by (rule triple_weaken [OF triple_closing [OF k assms(3,5,6)]]) auto
  qed
  have "triple ?a (finalize_steps e cfg st) ?Q (\<lambda>w. ?a w \<or> ?i w)"
    unfolding finalize_steps_def
    by (intro triple_installs [OF on_file_setup_mode q assms(4)] triple_and_then [OF triple_emit, where R = "\<lambda>_. ?a"]
        tail) auto
  then show ?thesis
    using assms(2,7) unfolding triple_def run_finalize_steps [OF assms(1)]
    by (fastforce split: sum.splits)
qed


subsection \<open>Running it again\<close>

text \<open>C32. The recipe of the code's comment (remove the sentinel to enter the wizard again) leads to a wizard
  that never ends: once the stored state marks the sentinel as made, no run of the pipeline
  makes it again, so setup mode stays active even after a run that reports success.\<close>

theorem recovery_never_ends:
  assumes "load_setup_state e cfg w = Inr st" and "cs_sentinel_touched (st_completed st)"
    and "setup_mode_active e cfg w" and "apart cfg st" and "scripts_spare e (setup_complete_sentinel cfg)"
  shows "setup_mode_active e cfg (snd (snd (run_finalize e cfg w)))"
proof -
  let ?a = "setup_mode_active e cfg"
  have q: "setup_complete_sentinel cfg \<notin> install_paths cfg st" "setup_complete_sentinel cfg \<notin> state_files cfg"
    "setup_complete_sentinel cfg \<noteq> secret_cache_file (st_admin_username st)"
    using assms(4) by (auto simp: apart_def install_paths_def later_paths_def Let_def)
  have "triple ?a (and_then (verify_step e cfg st5) (\<lambda>_. and_then (step_sentinel e cfg st5) (step_scrub e cfg)))
     (\<lambda>_. ?a) ?a" if k: "kin st st5" for st5
  proof (rule triple_and_then)
    show "triple ?a (verify_step e cfg st5) (\<lambda>_. ?a) ?a"
      by (rule triple_weaken [OF verify_triple [OF on_file_setup_mode]]) auto
    have "step_sentinel e cfg st5 = give st5" "st_admin_username st5 = st_admin_username st"
      using assms(2) k by (auto simp: step_sentinel_def run_step_def kin_def)
    then show "triple ?a (and_then (step_sentinel e cfg st5) (step_scrub e cfg)) (\<lambda>_. ?a) ?a"
      by (simp only: and_then_give) (rule triple_same [OF on_file_setup_mode keeps_scrub], use q in simp_all)
  qed
  then have "triple ?a (finalize_steps e cfg st) (\<lambda>_. ?a) ?a"
    unfolding finalize_steps_def
    by (intro triple_installs [OF on_file_setup_mode q(1) assms(5)] triple_and_then [OF triple_emit, where R = "\<lambda>_. ?a"]) auto
  then show ?thesis
    using assms(3) unfolding run_finalize_steps [OF assms(1)] by (rule triple_end)
qed

lemma cmds_secret_get: "cmds (snd (secret_get e k w)) = cmds w"
  by (auto simp: secret_get_def Let_def split: option.splits sum.splits)

lemma cmds_verify: "cmds (snd (finalize_verify_all e cfg st w)) = cmds w"
proof -
  obtain pw w1 where s: "secret_get e (st_admin_username st) w = (pw, w1)" by fastforce
  have 1: "cmds w1 = cmds w" using cmds_secret_get [of e "st_admin_username st" w] s by simp
  have l: "cmds v2 = cmds w" if "npm_login e cl a b w1 = (r, cl', v2)" for cl a b r cl' v2
    using within_frame(2) [OF inside_login [OF that]] 1 by simp
  have p: "cmds v3 = cmds v2" if "list_proxy_hosts e cl v2 = (r, v3)" for cl v2 r v3
    using within_frame(2) [OF inside_list [OF that]] .
  have "cmds (snd (verify_npm_routes e cfg st w)) = cmds w"
    unfolding verify_npm_routes_def Let_def using s 1
    by (auto split: sum.splits prod.splits dest!: l p)
  then show ?thesis by (auto simp: finalize_verify_all_def split: sum.splits prod.splits)
qed

lemma cmds_verify_step: "same cmds (verify_step e cfg st)"
  using cmds_verify by (simp add: same_def verify_step_def case_prod_beta)

lemma cmds_sentinel: "same cmds (step_sentinel e cfg st)"
proof -
  have "cmds (snd (finalize_touch_sentinel e cfg w)) = cmds w" for w
    by (auto simp: finalize_touch_sentinel_def mkdir_all_def write_file_def Let_def
        split: option.split sum.split prod.split node.split)
  then show ?thesis
    unfolding step_sentinel_def by (intro same_run_step same_intros save_setup_frame(3))
qed

lemma cmds_scrub: "same cmds (step_scrub e cfg st)"
proof -
  have "cmds (secret_delete e k w) = cmds w" for k w
    by (auto simp: secret_delete_def remove_file_def split: option.split)
  then show ?thesis unfolding step_scrub_def by (intro same_intros) (simp add: save_setup_frame(3))
qed

text \<open>C31. A run that finds its five installing steps marked as done runs no command and writes nothing but the
  sentinel, the stored state and the cached password: nothing is installed twice, and a password
  entered again at \<open>/setup/admin\<close> does not reach \<open>users_database.yml\<close>.\<close>

theorem finalize_no_rework:
  assumes "load_setup_state e cfg w = Inr st"
    and "cs_users_db_written (st_completed st)" and "cs_oidc_rotated (st_completed st)"
    and "cs_templates_rendered (st_completed st)" and "cs_cert_issued (st_completed st)"
    and "cs_npm_routes_wired (st_completed st)"
    and "q \<notin> {setup_complete_sentinel cfg, filepath_dir (setup_complete_sentinel cfg),
       secret_cache_file (st_admin_username st)} \<union> state_files cfg"
  shows "files (snd (snd (run_finalize e cfg w))) q = files w q \<and> cmds (snd (snd (run_finalize e cfg w))) = cmds w"
proof -
  have steps: "finalize_steps e cfg st = and_then (emit (SseStatus ''verify'' ''re-running all step verifications'')) (\<lambda>_.
     and_then (verify_step e cfg st) (\<lambda>_. and_then (step_sentinel e cfg st) (step_scrub e cfg)))"
    using assms(2-6)
    by (simp add: finalize_steps_def step_users_db_def step_oidc_def step_templates_def step_cert_def step_npm_def
        run_step_def and_then_give)
  have "same cmds (finalize_steps e cfg st)"
    unfolding steps by (intro same_intros cmds_verify_step cmds_sentinel cmds_scrub)
  then have c: "cmds (snd (snd (run_finalize e cfg w))) = cmds w"
    using run_finalize_steps [OF assms(1)] by (simp add: same_def)
  let ?P = "\<lambda>v. files v q = files w q"
  have o: "on_file q ?P" by (simp add: about_def)
  have any: "triple ?P m (\<lambda>_. ?P) ?P" if "keeps q m" for m :: "'c pipe"
    by (rule triple_same [OF o that])
  have "triple (\<lambda>v. ?P v \<and> True) (step_sentinel e cfg st)
      (\<lambda>st' v. ?P v \<and> st_admin_username st' = st_admin_username st \<and> (state_ok st \<longrightarrow> state_ok st')) (\<lambda>v. ?P v \<and> True)"
    by (rule triple_conj [OF any sentinel_state]) (rule keeps_sentinel, use assms(7) in simp)
  then have sentinel: "triple ?P (step_sentinel e cfg st) (\<lambda>st' v. ?P v \<and> st_admin_username st' = st_admin_username st) ?P"
    by (rule triple_weaken) auto
  have "keeps q (step_scrub e cfg st')" if "st_admin_username st' = st_admin_username st" for st'
    by (rule keeps_scrub) (use assms(7) that in simp_all)
  then have tail: "triple ?P (and_then (step_sentinel e cfg st) (step_scrub e cfg)) (\<lambda>_. ?P) ?P"
    by (intro triple_and_then [OF sentinel] triple_fact any)
  have ver: "keeps q (verify_step e cfg st)"
    using verify_step_result(1) [of e cfg st] by (simp add: same_def) (metis prod_cases3 snd_conv)
  have "triple ?P (finalize_steps e cfg st) (\<lambda>_. ?P) ?P"
    unfolding steps by (rule triple_and_then [OF any [OF same_emit]], rule triple_and_then [OF any [OF ver]], rule tail)
  with c show ?thesis
    using run_finalize_steps [OF assms(1)] by (auto dest: triple_end)
qed

subsection \<open>An installation on its last step\<close>

text \<open>The proxy manager answers with a token at its login and with all hosts elsewhere.\<close>

definition gate_env :: env where
  "gate_env = calm_env\<lparr>parse_ip := (\<lambda>_. Some [127, 0, 0, 1]), net_lookup := (\<lambda>_ _. Inr [[127, 0, 0, 1]]),
     net_call := (\<lambda>_ c. Inr \<lparr>hr_status = 200, hr_headers = [],
       hr_body = (if has_suffix (hc_url c) ''/api/tokens'' then ''T'' else []), hr_read_error = None\<rparr>),
     json_first := (\<lambda>b. Some (if b = ''T'' then JObj [(''token'', JStr ''t'')]
       else JArr [JObj [(''id'', JNum ''1''), (''domain_names'',
         JArr (map JStr [''auth.d'', ''enrol.d'', ''console.d'', ''cloud.d'', ''task.d'']))]])),
     pem_block := Some, x509_names := (\<lambda>_. Inr [''d'', ''*.d''])\<rparr>"

definition gate_state :: "bool \<Rightarrow> json" where
  "gate_state t = JObj [(''step'', JStr ''finalize''), (''domain'', JStr ''d''), (''admin_username'', JStr ''root''),
     (''admin_email'', JStr ''r@e.org''), (''admin_password_hash'', JStr ''x''),
     (''completed_steps'', JObj [(''users_db_written'', JBool True), (''oidc_rotated'', JBool True),
        (''templates_rendered'', JBool True), (''cert_issued'', JBool True), (''npm_routes_wired'', JBool True),
        (''sentinel_touched'', JBool t)])]"

definition gate_world :: "bool \<Rightarrow> world" where
  "gate_world t = blank_world\<lparr>files := [''/t/state.json'' \<mapsto> File (Json (gate_state t)),
     ''/u'' \<mapsto> File (Yaml (YNode YDocument [] [] [YNode YMapping [] [] [YNode YScalar [] ''users'' [],
        YNode YMapping [] [] [YNode YScalar [] ''root'' []]]])),
     ''/s/authelia/configuration.yml'' \<mapsto> File (Bytes (''client_secret: $pbkdf2-sha512$9$ab$cd'')),
     ''/s/ingress/letsencrypt/live/d/fullchain.pem'' \<mapsto> File (Bytes ''x'')],
     secrets := [''root'' \<mapsto> ''pw'']\<rparr>"

definition gate_loaded :: "bool \<Rightarrow> setup_state" where
  "gate_loaded t = zero_state\<lparr>st_step := step_of ''finalize'', st_domain := ''d'', st_admin_username := ''root'',
     st_admin_email := ''r@e.org'', st_admin_password_hash := ''x'',
     st_completed := \<lparr>cs_users_db_written = True, cs_oidc_rotated = True, cs_templates_rendered = True,
       cs_cert_issued = True, cs_npm_routes_wired = True, cs_sentinel_touched = t\<rparr>\<rparr>"

lemma gate_facts:
  "load_setup_state gate_env sample_config (gate_world t) = Inr (gate_loaded t)"
  "setup_mode_active gate_env sample_config (gate_world t)" "apart sample_config (gate_loaded t)"
  "state_ok (gate_loaded t)" "setup_ready gate_env sample_config"
  "scripts_spare gate_env q"
proof -
  have "load_setup_state gate_env sample_config (gate_world b) = Inr (gate_loaded b)" if "b = True \<or> b = False" for b
    using that by (elim disjE) (simp only:, code_simp)+
  then show "load_setup_state gate_env sample_config (gate_world t) = Inr (gate_loaded t)" by simp
  have "setup_mode_active gate_env sample_config (gate_world b)" if "b = True \<or> b = False" for b
    using that by (elim disjE) (simp only:, code_simp)+
  then show "setup_mode_active gate_env sample_config (gate_world t)" by simp
  have "apart sample_config (gate_loaded b)" if "b = True \<or> b = False" for b
    using that by (elim disjE) (simp only:, code_simp)+
  then show "apart sample_config (gate_loaded t)" by simp
  have "state_ok (gate_loaded b)" if "b = True \<or> b = False" for b
    using that by (elim disjE) (simp only:, code_simp)+
  then show "state_ok (gate_loaded t)" by simp
  show "setup_ready gate_env sample_config" by code_simp
  show "scripts_spare gate_env q" by (simp add: scripts_spare_def gate_env_def)
qed

text \<open>The pipeline in parts: the steps already marked are skipped, the others are run one by one.\<close>

lemma finalize_resume:
  assumes "step_users_db e cfg st w = (Inr st1, evs1, w1)" and "cs_oidc_rotated (st_completed st1)"
    and "cs_templates_rendered (st_completed st1)" and "cs_cert_issued (st_completed st1)"
    and "cs_npm_routes_wired (st_completed st1)" and "verify_step e cfg st1 w1 = (Inr (), evs2, w2)"
    and "and_then (step_sentinel e cfg st1) (step_scrub e cfg) w2 = (Inr (), evs3, w3)"
  shows "\<exists>evs. finalize_steps e cfg st w = (Inr (), evs, w3)"
proof -
  have "step_oidc e cfg st1 = give st1" "step_templates e cfg st1 = give st1" "step_cert e cfg st1 = give st1"
    "step_npm e cfg st1 = give st1"
    using assms(2-5) by (simp_all add: step_oidc_def step_templates_def step_cert_def step_npm_def run_step_def)
  then have "and_then (step_oidc e cfg st1) (\<lambda>st2. and_then (step_templates e cfg st2) (\<lambda>st3.
      and_then (step_cert e cfg st3) (\<lambda>st4. and_then (step_npm e cfg st4) f))) = f st1" for f :: "setup_state \<Rightarrow> unit pipe"
    by (simp add: and_then_give)
  then show ?thesis
    using assms(1,6,7) unfolding finalize_steps_def by (subst and_then_def) (simp add: and_then_def emit_def)
qed

text \<open>A world in which the state can be saved.\<close>

definition savable :: "world \<Rightarrow> bool" where
  "savable w \<longleftrightarrow> now w = 0 \<and> files w ''/t/state.json.tmp'' \<noteq> Some Dir \<and> files w ''/t/state.json'' \<noteq> Some Dir
     \<and> (case files w ''/t'' of Some (File _) \<Rightarrow> False | _ \<Rightarrow> True)"

lemma gate_io: "io_fault gate_env op = None"
  by (simp add: gate_env_def)

lemma gate_saves:
  assumes "is_ok (json_time (st_started_at s))" and "savable w"
  shows "\<exists>w'. save_setup_state gate_env sample_config s w = (Inr (), w') \<and> savable w'"
proof -
  have p: "setup_state_path sample_config = ''/t/state.json''" by code_simp
  have d: "setup_state_dir sample_config = ''/t''" by (simp add: sample_config_def)
  have t: "json_time 0 = Inr (JStr (fmt_nano 0))"
  proof -
    have "time_year 0 = 1970" by code_simp
    then show ?thesis by (simp add: json_time_def)
  qed
  have m: "mkdir_all gate_env ''/t'' w = (Inr (), w\<lparr>files := (files w)(''/t'' \<mapsto> Dir)\<rparr>)"
    using assms(2) by (auto simp: mkdir_all_def gate_io savable_def split: option.splits node.splits)
  show ?thesis
    using assms by (cases "json_time (st_started_at s)") (auto simp: save_setup_state_def p d m state_json_def t write_file_def rename_file_def gate_io Let_def savable_def
        split: option.splits node.splits)
qed

lemma savable_delete: "savable w \<Longrightarrow> savable (secret_delete gate_env k w)"
  by (auto simp: secret_delete_def remove_file_def gate_io savable_def split: option.splits node.splits)

lemma gate_closing:
  assumes "is_ok (json_time (st_started_at st))" and "savable w" and "files w ''/c'' = None"
    and "case files w ''/'' of Some (File _) \<Rightarrow> False | _ \<Rightarrow> True"
  shows "\<exists>evs w'. and_then (step_sentinel gate_env sample_config st) (step_scrub gate_env sample_config) w = (Inr (), evs, w')"
proof -
  have p: "setup_complete_sentinel sample_config = ''/c''" "filepath_dir ''/c'' = ''/''" by code_simp+
  let ?v = "w\<lparr>files := (files w)(''/'' \<mapsto> Dir, ''/c'' \<mapsto> File (Bytes (fmt_rfc3339 (now w) @ [CHR 10])))\<rparr>"
  have touch: "finalize_touch_sentinel gate_env sample_config w = (Inr (), ?v)"
    using assms(3,4) by (auto simp: finalize_touch_sentinel_def p mkdir_all_def write_file_def gate_io Let_def
        split: option.splits node.splits)
  have verify: "verify_sentinel gate_env sample_config ?v = Inr ()"
    by (simp add: verify_sentinel_def p stat_file_def non_empty_file_def gate_io content_text_def)
  have v: "savable ?v" using assms(2) by (simp add: savable_def)
  obtain st2 evs w2 where s: "step_sentinel gate_env sample_config st w = (Inr st2, evs, w2)" "savable w2" "is_ok (json_time (st_started_at st2))"
  proof (cases "cs_sentinel_touched (st_completed st)")
    case True
    then show ?thesis using assms(1,2) that [of st "[]" w] by (simp add: step_sentinel_def run_step_def give_def)
  next
    case False
    let ?st = "(mark (\<lambda>c. c\<lparr>cs_sentinel_touched := True\<rparr>) st)\<lparr>st_step := StepDone\<rparr>"
    have "is_ok (json_time (st_started_at ?st))" using assms(1) by (simp add: mark_def)
    moreover from gate_saves [OF this v] obtain w2 where "save_setup_state gate_env sample_config ?st ?v = (Inr (), w2)" "savable w2" by blast
    ultimately show ?thesis
      using that False by (simp add: step_sentinel_def run_step_def and_then_def emit_def silent_def checked_def logged_def
          touch verify persist_def give_def)
  qed
  have "is_ok (json_time (st_started_at (st2\<lparr>st_admin_password_hash := [], st_dns_creds := []\<rparr>)))" using s(3) by simp
  from gate_saves [OF this savable_delete [OF s(2)]] obtain w3 where
    "save_setup_state gate_env sample_config (st2\<lparr>st_admin_password_hash := [], st_dns_creds := []\<rparr>)
       (secret_delete gate_env (st_admin_username st2) w2) = (Inr (), w3)" by blast
  then show ?thesis by (simp add: and_then_def s(1) step_scrub_def silent_def logged_def emit_def)
qed

text \<open>The steps before the last two, evaluated.\<close>

definition gate_prefix :: "setup_state \<Rightarrow> world \<Rightarrow> bool" where
  "gate_prefix st w =
     (case step_users_db gate_env sample_config st w of
        (Inr st1, _, w1) \<Rightarrow>
          (case st_completed st1 of c \<Rightarrow> cs_oidc_rotated c \<and> cs_templates_rendered c \<and> cs_cert_issued c \<and> cs_npm_routes_wired c)
          \<and> is_ok (json_time (st_started_at st1))
          \<and> (case verify_step gate_env sample_config st1 w1 of
               (Inr _, _, w2) \<Rightarrow> now w2 = 0
                 \<and> list_all (\<lambda>p. case files w2 p of None \<Rightarrow> True | _ \<Rightarrow> False) [''/t/state.json.tmp'', ''/c'']
                 \<and> (case files w2 ''/t/state.json'' of Some Dir \<Rightarrow> False | _ \<Rightarrow> True)
                 \<and> list_all (\<lambda>p. case files w2 p of Some (File _) \<Rightarrow> False | _ \<Rightarrow> True) [''/t'', ''/'']
             | _ \<Rightarrow> False)
      | _ \<Rightarrow> False)"

lemma gate_finishes:
  assumes "gate_prefix st w"
  shows "\<exists>evs w'. finalize_steps gate_env sample_config st w = (Inr (), evs, w')"
proof -
  obtain st1 evs1 w1 where u: "step_users_db gate_env sample_config st w = (Inr st1, evs1, w1)"
    using assms by (auto simp: gate_prefix_def split: prod.splits sum.splits)
  obtain evs2 w2 where v: "verify_step gate_env sample_config st1 w1 = (Inr (), evs2, w2)"
    using assms by (auto simp: gate_prefix_def u split: prod.splits sum.splits)
  have f: "cs_oidc_rotated (st_completed st1)" "cs_templates_rendered (st_completed st1)" "cs_cert_issued (st_completed st1)"
    "cs_npm_routes_wired (st_completed st1)" "is_ok (json_time (st_started_at st1))" "savable w2" "files w2 ''/c'' = None"
    "case files w2 ''/'' of Some (File _) \<Rightarrow> False | _ \<Rightarrow> True"
    using assms by (auto simp: gate_prefix_def u v savable_def split: option.splits node.splits)
  from gate_closing [OF f(5-8)] finalize_resume [OF u f(1-4) v] show ?thesis by meson
qed

lemma gate_runs: "\<exists>evs w'. run_finalize gate_env sample_config (gate_world False) = (Inr (), evs, w')"
proof -
  have "gate_prefix (gate_loaded False) (gate_world False)" by code_simp
  then show ?thesis using gate_finishes run_finalize_steps [OF gate_facts(1) [of False]] by simp
qed

lemma gate_runs_marked: "\<exists>evs w'. run_finalize gate_env sample_config (gate_world True) = (Inr (), evs, w')"
proof -
  have "gate_prefix (gate_loaded True) (gate_world True)" by code_simp
  then show ?thesis using gate_finishes run_finalize_steps [OF gate_facts(1) [of True]] by simp
qed


theorem recovery_never_ends_witness:
  "(\<exists>evs w'. run_finalize gate_env sample_config (gate_world True) = (Inr (), evs, w'))
   \<and> setup_mode_active gate_env sample_config (snd (snd (run_finalize gate_env sample_config (gate_world True))))"
proof -
  have "cs_sentinel_touched (st_completed (gate_loaded True))" by (simp add: gate_loaded_def)
  note recovery_never_ends [OF gate_facts(1) this gate_facts(2,3,6)]
  then show ?thesis using gate_runs_marked by blast
qed

theorem finalize_no_rework_witness:
  "files (snd (snd (run_finalize gate_env sample_config (gate_world False)))) ''/u'' = files (gate_world False) ''/u''
   \<and> cmds (snd (snd (run_finalize gate_env sample_config (gate_world False)))) = []"
proof -
  have "''/u'' \<notin> {setup_complete_sentinel sample_config, filepath_dir (setup_complete_sentinel sample_config),
       secret_cache_file (st_admin_username (gate_loaded False))} \<union> state_files sample_config" by code_simp
  from finalize_no_rework [OF gate_facts(1) _ _ _ _ _ this] show ?thesis
    by (simp add: gate_loaded_def) (simp add: gate_world_def)
qed

end
