(* ===== verification/Backup.thy ===== *)
theory Backup
  imports Pages Storage EnvFile Streaming Sse NpmClient
begin

text \<open>
  \<open>backup.go\<close>, the data: the recipes of the stacks, the tracker of running operations and the
  lock that admits one at a time, restic's JSON, sizes, and which snapshots a retention pass
  drops. \<open>sort.Slice\<close> is taken as stable.
\<close>

subsection \<open>Recipes\<close>

record pg_dump =
  pg_container :: string
  pg_db :: string
  pg_user :: string
  pg_env_file :: string

record backup_recipe =
  rc_id :: string
  rc_display :: string
  rc_stop_services :: "string list"
  rc_pg_dump :: "pg_dump option"
  rc_paths :: "string list"
  rc_restorable :: bool

definition all_backup_recipes :: "backup_recipe list" where
  "all_backup_recipes =
     [\<lparr>rc_id = ''cloud'', rc_display = ''Cloud (Nextcloud)'', rc_stop_services = [],
       rc_pg_dump = Some \<lparr>pg_container = ''cloud-db'', pg_db = ''nextcloud'', pg_user = ''nextcloud'',
         pg_env_file = ''/opt/stacks/cloud/.env''\<rparr>,
       rc_paths = [''/srv/store/cloud-data'', ''/srv/store/cloud-config'', ''/srv/store/cloud-apps''], rc_restorable = True\<rparr>,
      \<lparr>rc_id = ''task'', rc_display = ''Tasks (Vikunja)'', rc_stop_services = [],
       rc_pg_dump = Some \<lparr>pg_container = ''task-db'', pg_db = ''vikunja'', pg_user = ''vikunja'',
         pg_env_file = ''/opt/stacks/task/.env''\<rparr>,
       rc_paths = [''/srv/store/task-files''], rc_restorable = True\<rparr>,
      \<lparr>rc_id = ''authelia'', rc_display = ''Authelia (SSO)'', rc_stop_services = [], rc_pg_dump = None,
       rc_paths = [''/opt/stacks/authelia/data'', ''/opt/stacks/authelia/users_db'', ''/opt/stacks/authelia/secrets''],
       rc_restorable = True\<rparr>,
      \<lparr>rc_id = ''ingress'', rc_display = ''Ingress (NPM)'', rc_stop_services = [], rc_pg_dump = None,
       rc_paths = [''/opt/stacks/ingress/data'', ''/opt/stacks/ingress/letsencrypt''], rc_restorable = True\<rparr>,
      \<lparr>rc_id = ''enrol'', rc_display = ''Enrol (config)'', rc_stop_services = [], rc_pg_dump = None,
       rc_paths = [''/srv/store/enrol-launcher'', ''/srv/store/enrol-peers-archive'', ''/etc/raph-installer'', ''/opt/stacks/.env''],
       rc_restorable = False\<rparr>]"

text \<open>The active recipes, filtered once at the start of the process.\<close>

definition backup_recipes :: "env \<Rightarrow> backup_recipe list" where
  "backup_recipes e =
     filter (\<lambda>r. \<not> ((rc_id r = ''cloud'' \<and> env_bool e ''ENROL_SKIP_CLOUD'')
                    \<or> (rc_id r = ''task'' \<and> env_bool e ''ENROL_SKIP_TASK''))) all_backup_recipes"

definition recipe_by_id :: "env \<Rightarrow> string \<Rightarrow> backup_recipe option" where
  "recipe_by_id e i = find (\<lambda>r. rc_id r = i) (backup_recipes e)"

definition under_prefix :: "string \<Rightarrow> string \<Rightarrow> bool" where
  "under_prefix got prefix \<longleftrightarrow> got = prefix \<or> has_prefix got (prefix @ ''/'')"

fun safe_restore_targets :: "string list \<Rightarrow> backup_recipe option \<Rightarrow> unit res" where
  "safe_restore_targets ps None = Inl (Failure ''safeRestoreTargets: nil recipe'')"
| "safe_restore_targets [] (Some r) = Inr ()"
| "safe_restore_targets (p # ps) (Some r) =
     (if list_ex (under_prefix (filepath_clean p)) (map filepath_clean (rc_paths r))
      then safe_restore_targets ps (Some r)
      else Inl (Failure (''path '' @ go_quote p @ '' is not in recipe '' @ go_quote (rc_id r) @ '' whitelist'')))"

subsection \<open>Running operations\<close>

text \<open>The tracker is a map by identifier; its list is in the order of registration. Only the
  buffer of an operation is kept here; its subscribers are the subject of \<open>BackupLive\<close>.\<close>

definition op_append :: "string \<times> string \<Rightarrow> backup_op \<Rightarrow> backup_op" where
  "op_append fr op = op\<lparr>bo_logs := bo_logs op @ [fr]\<rparr>"

definition op_finish :: "gotime \<Rightarrow> bool \<Rightarrow> backup_op \<Rightarrow> backup_op" where
  "op_finish t failed op = op\<lparr>bo_done := True, bo_failed := failed, bo_done_at := t\<rparr>"

fun register_op :: "backup_op \<Rightarrow> backup_op list \<Rightarrow> backup_op list" where
  "register_op op [] = [op]"
| "register_op op (x # xs) = (if bo_id x = bo_id op then op # xs else x # register_op op xs)"

definition get_op :: "string \<Rightarrow> world \<Rightarrow> backup_op option" where
  "get_op i w = find (\<lambda>op. bo_id op = i) (bk_ops w)"

definition current_op :: "world \<Rightarrow> backup_op option" where
  "current_op w = find (\<lambda>op. \<not> bo_done op) (bk_ops w)"

definition update_op :: "string \<Rightarrow> (backup_op \<Rightarrow> backup_op) \<Rightarrow> world \<Rightarrow> world" where
  "update_op i f w = w\<lparr>bk_ops := map (\<lambda>op. if bo_id op = i then f op else op) (bk_ops w)\<rparr>"

text \<open>One tick of the janitor: operations done more than 30 seconds ago are dropped.\<close>

definition janitor :: "world \<Rightarrow> world" where
  "janitor w = w\<lparr>bk_ops := filter (\<lambda>op. \<not> (bo_done op \<and> bo_done_at op < now w - 30 * second)) (bk_ops w)\<rparr>"

definition try_acquire :: "world \<Rightarrow> unit res \<times> world" where
  "try_acquire w =
     (if bk_lock w then (Inl (Failure ''another backup or restore operation is already in progress''), w)
      else (Inr (), w\<lparr>bk_lock := True\<rparr>))"

definition release_lock :: "world \<Rightarrow> world" where
  "release_lock w = w\<lparr>bk_lock := False\<rparr>"

definition hex_text :: "string \<Rightarrow> string" where
  "hex_text s = concat (map (\<lambda>n. [hex_digit (n div 16), hex_digit (n mod 16)]) (bytes_of s))"

text \<open>A failing random source leaves the four bytes zero.\<close>

definition new_op :: "env \<Rightarrow> string \<Rightarrow> string \<Rightarrow> world \<Rightarrow> backup_op \<times> world" where
  "new_op e stack verb w =
     (case draw_bytes e 4 w of
        (b, w1) \<Rightarrow>
          (\<lparr>bo_id = stack @ '':'' @ verb @ '':'' @ hex_text (case b of Some s \<Rightarrow> s | None \<Rightarrow> replicate 4 (byte 0)),
            bo_stack = stack, bo_verb = verb, bo_started = now w, bo_done = False, bo_done_at = zero_time,
            bo_failed = False, bo_logs = []\<rparr>, w1))"

text \<open>The emitter of an operation takes the frames of \<open>sse.go\<close> apart again.\<close>

fun scan_frame :: "string list \<Rightarrow> string \<times> string \<Rightarrow> string \<times> string" where
  "scan_frame [] acc = acc"
| "scan_frame (l # ls) (ev, pl) =
     scan_frame ls
       (if has_prefix l ''event: '' then (trim_prefix l ''event: '', pl)
        else if has_prefix l ''data: '' then (ev, trim_prefix l ''data: '') else (ev, pl))"

definition split_frame :: "string \<Rightarrow> string \<times> string" where
  "split_frame s = scan_frame (split_on CHR 10 (trim_suffix s [CHR 10, CHR 10])) ([], [])"

definition op_emit :: "string \<Rightarrow> sse_event \<Rightarrow> world \<Rightarrow> world" where
  "op_emit i ev w = update_op i (op_append (split_frame (sse_frame ev))) w"

subsection \<open>Sizes\<close>

definition format_bytes :: "env \<Rightarrow> int \<Rightarrow> string" where
  "format_bytes e n =
     (if n \<ge> 1000000000000 then fixed1 e n 1000000000000 @ '' TB''
      else if n \<ge> 1000000000 then fixed1 e n 1000000000 @ '' GB''
      else if n \<ge> 1000000 then show_int (n div 1000000) @ '' MB''
      else if n \<ge> 1000 then show_int (n div 1000) @ '' KB''
      else show_int n @ '' B'')"

text \<open>A snapshot as restic prints it; the summary holds the bytes processed and the bytes added.\<close>

record restic_snapshot =
  sn_id :: string
  sn_time :: gotime
  sn_tags :: "string list"
  sn_paths :: "string list"
  sn_hostname :: string
  sn_summary :: "(int \<times> int) option"

definition format_snapshot_size :: "env \<Rightarrow> restic_snapshot \<Rightarrow> int \<Rightarrow> string" where
  "format_snapshot_size e s on_disk =
     (case sn_summary s of
        None \<Rightarrow> em_dash
      | Some (processed, added) \<Rightarrow>
          (if on_disk \<ge> 0 then format_bytes e on_disk else em_dash) @ '' / '' @ format_bytes e added
            @ '' / '' @ format_bytes e processed)"

definition short_id :: "string \<Rightarrow> string" where
  "short_id i = (if length i \<le> 8 then i else take 8 i)"

subsection \<open>Restic's JSON\<close>

definition decode_summary :: "json \<Rightarrow> (int \<times> int) option option" where
  "decode_summary j =
     (if j = JNull then Some None
      else map_option Some (decode_obj (\<lambda>fld (p, a).
        let k = go_to_lower (fst fld) in
        if k = ''total_bytes_processed'' then map_option (\<lambda>n. (n, a)) (decode_int (snd fld) p)
        else if k = ''data_added_packed'' then map_option (\<lambda>n. (p, n)) (decode_int (snd fld) a)
        else Some (p, a)) (0, 0) j))"

definition decode_snapshot :: "json \<Rightarrow> restic_snapshot option" where
  "decode_snapshot = decode_obj (\<lambda>fld s.
     let k = go_to_lower (fst fld); v = snd fld in
     if k = ''id'' then map_option (\<lambda>x. s\<lparr>sn_id := x\<rparr>) (decode_string v (sn_id s))
     else if k = ''time'' then map_option (\<lambda>x. s\<lparr>sn_time := x\<rparr>) (decode_time v (sn_time s))
     else if k = ''tags'' then map_option (\<lambda>x. s\<lparr>sn_tags := x\<rparr>) (decode_strings v)
     else if k = ''paths'' then map_option (\<lambda>x. s\<lparr>sn_paths := x\<rparr>) (decode_strings v)
     else if k = ''hostname'' then map_option (\<lambda>x. s\<lparr>sn_hostname := x\<rparr>) (decode_string v (sn_hostname s))
     else if k = ''summary'' then map_option (\<lambda>x. s\<lparr>sn_summary := x\<rparr>) (decode_summary v)
     else Some s)
     \<lparr>sn_id = [], sn_time = zero_time, sn_tags = [], sn_paths = [], sn_hostname = [], sn_summary = None\<rparr>"

text \<open>The list a call of \<open>restic snapshots --json\<close> prints; an empty body is no list.\<close>

definition decode_snapshots :: "env \<Rightarrow> string \<Rightarrow> restic_snapshot list res" where
  "decode_snapshots e out =
     (let b = go_trim_space out in
      if b = [] \<or> b = ''null'' then Inr []
      else (case Option.bind (json_decode e b) (decode_list decode_snapshot) of
              None \<Rightarrow> Inl (Failure ''decode snapshots json'')
            | Some l \<Rightarrow> Inr l))"

definition snapshot_view :: "env \<Rightarrow> int \<Rightarrow> restic_snapshot \<Rightarrow> backup_snapshot_view" where
  "snapshot_view e on_disk s =
     \<lparr>bs_id = short_id (sn_id s), bs_created_at = fmt_minute_utc (sn_time s),
      bs_size = format_snapshot_size e s on_disk, bs_tags = sn_tags s\<rparr>"

definition parse_restic_snapshots :: "env \<Rightarrow> string \<Rightarrow> backup_snapshot_view list res" where
  "parse_restic_snapshots e out =
     (case decode_snapshots e out of
        Inl err \<Rightarrow> Inl (Failure ''decode restic snapshots json'')
      | Inr l \<Rightarrow> Inr (map (snapshot_view e (- 1)) l))"

text \<open>The number a call of \<open>restic stats --json\<close> prints under a key.\<close>

definition decode_stats :: "json \<Rightarrow> (int \<times> int) option" where
  "decode_stats = decode_obj (\<lambda>fld (t, c).
     let k = go_to_lower (fst fld) in
     if k = ''total_size'' then map_option (\<lambda>n. (n, c)) (decode_int (snd fld) t)
     else if k = ''snapshots_count'' then map_option (\<lambda>n. (t, n)) (decode_int (snd fld) c)
     else Some (t, c)) (0, 0)"

subsection \<open>Retention\<close>

definition snapshots_to_forget :: "restic_snapshot list \<Rightarrow> int \<Rightarrow> string list" where
  "snapshots_to_forget snaps keep_daily =
     (let sorted_snaps = sort_by (\<lambda>a b. sn_time a < sn_time b) snaps; keep = max 0 keep_daily in
      if snaps = [] \<or> int (length sorted_snaps) \<le> keep then []
      else map sn_id (take (length sorted_snaps - nat keep) sorted_snaps))"

definition pick_kind_tag :: "string list \<Rightarrow> string \<Rightarrow> string" where
  "pick_kind_tag tags recipe = (case find (\<lambda>t. t \<noteq> recipe) tags of Some t \<Rightarrow> t | None \<Rightarrow> em_dash)"

text \<open>The next 03:00 UTC.\<close>

definition next_scheduled_run :: "world \<Rightarrow> string" where
  "next_scheduled_run w =
     (let day = 86400 * second; t = now w div day * day + 3 * 3600 * second in
      fmt_minute_utc (if t > now w then t else t + day))"

definition audit_action_for_kind :: "string \<Rightarrow> string" where
  "audit_action_for_kind kind = (if kind = ''daily'' then ''backup.scheduled'' else ''backup.create'')"

definition render_off_host_help :: "env \<Rightarrow> config \<Rightarrow> off_host_view" where
  "render_off_host_help e cfg =
     (let host = ''root@'' @ domain cfg; ids = join '' '' (map rc_id (backup_recipes e)) in
      \<lparr>oh_rsync = ''rsync -av --delete '' @ host @ '':'' @ backup_repo_dir cfg @ ''/ ./local-backup-mirror/'',
       oh_copy = ''restic -r sftp:'' @ host @ '':'' @ backup_repo_dir cfg
         @ '' copy --from-password-file ~/.raph-restic-password --to-repo /tmp/local-mirror'',
       oh_restore = ''restic -r ./local-backup-mirror restore <snapshot-id> --target /tmp/restored --tag <stack>'',
       oh_restore_all = ''for s in '' @ ids
         @ ''; do restic -r ./local-backup-mirror restore latest --tag $s --target /tmp/restored-$s; done'',
       oh_restore_all_local = ''for s in '' @ ids @ ''; do RESTIC_PASSWORD_FILE='' @ backup_password_file cfg
         @ '' restic -r '' @ backup_repo_dir cfg @ '' restore latest --tag $s --target /tmp/restored-$s; done''\<rparr>)"

end
