(* ===== verification/BackupEngine.thy ===== *)
theory BackupEngine
  imports Backup Pipeline
begin

text \<open>
  \<open>backup.go\<close>, the engine: restic's command lines, the backup and the restore of one stack,
  the run over all stacks, and the retention pass. Programs of \<open>Pipeline\<close> with the errors of
  Go. The environment variables handed to the commands are left out, and so are the timeouts of
  the requests.
\<close>

type_synonym 'a work = "(goerr, 'a) prog"

definition annotate :: "string \<Rightarrow> 'a work \<Rightarrow> 'a work" where
  "annotate pre m = map_error (prefix_err pre) m"

definition backup_stage_dir :: string where
  "backup_stage_dir = ''/tmp/enrol-backup-stage''"

subsection \<open>Commands\<close>

definition restic_argv :: "config \<Rightarrow> string list \<Rightarrow> string list" where
  "restic_argv cfg args =
     [backup_restic_bin cfg, ''-r'', backup_repo_dir cfg, ''--password-file'', backup_password_file cfg] @ args"

text \<open>\<open>bufio.Scanner\<close> with a buffer of 1 MiB: a longer line ends the scan, the rest is not logged.\<close>

definition drop_cr :: "string \<Rightarrow> string" where
  "drop_cr l = (if l \<noteq> [] \<and> last l = CHR 13 then butlast l else l)"

definition scanner_lines :: "string \<Rightarrow> string list" where
  "scanner_lines s =
     (let ls = split_on CHR 10 s in
      map drop_cr (takeWhile (\<lambda>l. int (length l) < 1048576) (if last ls = [] then butlast ls else ls)))"

definition stream_cmd :: "env \<Rightarrow> string list \<Rightarrow> unit work" where
  "stream_cmd e argv w =
     (case exec_script e argv [] w of
        (r, w1) \<Rightarrow>
          (case pr_error r of Some m \<Rightarrow> Inl (Failure m) | None \<Rightarrow> Inr (),
           map SseLog (weave e (scanner_lines (pr_stdout r)) (scanner_lines (pr_stderr r))), w1))"

definition compose_service_cmd :: "env \<Rightarrow> backup_recipe \<Rightarrow> string \<Rightarrow> unit work" where
  "compose_service_cmd e r verb =
     (if rc_stop_services r = [] then give ()
      else (let args = [''compose'', ''-f'', filepath_join [''/opt/stacks'', rc_id r, ''docker-compose.yml''], verb]
              @ rc_stop_services r in
            and_then (emit (SseLog (''$ docker '' @ join '' '' args))) (\<lambda>_. stream_cmd e (''docker'' # args))))"

text \<open>Work with the services of the stack stopped; they are started again on every way out.\<close>

definition restart_services :: "env \<Rightarrow> backup_recipe \<Rightarrow> world \<Rightarrow> sse_event list \<times> world" where
  "restart_services e r w =
     (case compose_service_cmd e r ''start'' w of
        (Inl err, evs, w1) \<Rightarrow>
          (evs @ [SseLog (''warning: failed to restart ['' @ join '' '' (rc_stop_services r) @ '']: '' @ err_text err)], w1)
      | (Inr _, evs, w1) \<Rightarrow> (evs, w1))"

definition with_services_stopped :: "env \<Rightarrow> backup_recipe \<Rightarrow> unit work \<Rightarrow> unit work" where
  "with_services_stopped e r m =
     (if rc_stop_services r = [] then m
      else and_then (annotate ''stop services: '' (compose_service_cmd e r ''stop'')) (\<lambda>_.
           finally_do m (restart_services e r)))"

definition run_pg_dump_to_file :: "env \<Rightarrow> pg_dump \<Rightarrow> string \<Rightarrow> world \<Rightarrow> unit res \<times> world" where
  "run_pg_dump_to_file e pg path w =
     (case read_postgres_password e (pg_env_file pg) w of
        Inl err \<Rightarrow> (Inl (prefix_err (''read pg password from '' @ pg_env_file pg @ '': '') err), w)
      | Inr pwd \<Rightarrow>
          (if pwd = [] then (Inl (Failure (''POSTGRES_PASSWORD not found in '' @ pg_env_file pg)), w)
           else (case write_file e path (Bytes []) w of
             (Inl err, w1) \<Rightarrow> (Inl (prefix_err (''open '' @ path @ '': '') err), w1)
           | (Inr _, w1) \<Rightarrow>
               (case exec e [''docker'', ''exec'', ''-e'', ''PGPASSWORD='' @ pwd, pg_container pg,
                             ''pg_dump'', ''--clean'', ''-U'', pg_user pg, pg_db pg] [] w1 of
                  (r, w2) \<Rightarrow>
                    (case pr_error r of
                       Some m \<Rightarrow> Inl (Failure (''pg_dump exit: '' @ m @ '' (stderr: '' @ go_trim_space (pr_stderr r) @ '')''))
                     | None \<Rightarrow> Inr (),
                     w2\<lparr>files := (files w2)(path \<mapsto> File (Bytes (pr_stdout r)))\<rparr>)))))"

subsection \<open>Backup of one stack\<close>

definition status :: "string \<Rightarrow> string \<Rightarrow> unit work" where
  "status s m = emit (SseStatus s m)"

definition snapshot_paths :: "env \<Rightarrow> config \<Rightarrow> backup_recipe \<Rightarrow> string \<Rightarrow> string list \<Rightarrow> unit work" where
  "snapshot_paths e cfg r kind paths =
     (if paths = [] then give ()
      else and_then (status (rc_id r @ '':'' @ kind) ''snapshotting via restic'') (\<lambda>_.
           annotate ''restic backup: '' (stream_cmd e (restic_argv cfg
             ([''backup'', ''--tag'', kind, ''--tag'', rc_id r, ''--host'', ''vps'', ''--quiet''] @ paths)))))"

definition stage_dir :: "backup_recipe \<Rightarrow> string" where
  "stage_dir r = filepath_join [backup_stage_dir, rc_id r]"

definition dump_path :: "backup_recipe \<Rightarrow> string" where
  "dump_path r = filepath_join [stage_dir r, rc_id r @ ''-db.sql'']"

definition arrow :: string where
  "arrow = [CHR 0xE2, CHR 0x86, CHR 0x92]"

definition run_backup :: "env \<Rightarrow> config \<Rightarrow> backup_recipe \<Rightarrow> string \<Rightarrow> unit work" where
  "run_backup e cfg r kind =
     (let step = rc_id r @ '':'' @ kind; complete = status step ''backup complete'' in
      and_then (status step (''starting '' @ kind @ '' backup of '' @ rc_display r)) (\<lambda>_.
      with_services_stopped e r
        (case rc_pg_dump r of
           None \<Rightarrow> and_then (snapshot_paths e cfg r kind (rc_paths r)) (\<lambda>_. complete)
         | Some pg \<Rightarrow>
             and_then (status step (''pg_dump '' @ arrow @ '' staging file'')) (\<lambda>_.
             and_then (quietly (\<lambda>w. (Inr (), snd (remove_all e (stage_dir r) w)))) (\<lambda>_.
             and_then (annotate ''mkdir stage: '' (quietly (mkdir_all e (stage_dir r)))) (\<lambda>_.
             finally_do
               (and_then (annotate ''pg_dump: '' (quietly (run_pg_dump_to_file e pg (dump_path r)))) (\<lambda>_.
                and_then (snapshot_paths e cfg r kind (rc_paths r @ [stage_dir r])) (\<lambda>_. complete)))
               (\<lambda>w. ([], snd (remove_all e (stage_dir r) w)))))))))"

subsection \<open>Restore of one stack\<close>

text \<open>\<open>psql\<close> reads what the dump prints. A dump that fails ends the input of \<open>psql\<close>, which the
  code then kills unless it has finished; its own result is dropped.\<close>

definition run_pg_dump_restore :: "env \<Rightarrow> config \<Rightarrow> backup_recipe \<Rightarrow> pg_dump \<Rightarrow> string \<Rightarrow> unit work" where
  "run_pg_dump_restore e cfg r pg snap w =
     (case read_postgres_password e (pg_env_file pg) w of
        Inl err \<Rightarrow> (Inl (prefix_err ''read pg password: '' err), [], w)
      | Inr pwd \<Rightarrow>
          (if pwd = [] then (Inl (Failure (''POSTGRES_PASSWORD not found in '' @ pg_env_file pg)), [], w)
           else (case exec e (restic_argv cfg [''dump'', snap, dump_path r]) [] w of
             (d, w1) \<Rightarrow>
               (case exec e [''docker'', ''exec'', ''-i'', ''-e'', ''PGPASSWORD='' @ pwd, pg_container pg, ''psql'', ''-U'',
                             pg_user pg, ''-d'', pg_db pg, ''--quiet'', ''--single-transaction'', ''--set'',
                             ''ON_ERROR_STOP=1''] (pr_stdout d) w1 of
                  (p, w2) \<Rightarrow>
                    (case pr_error d of
                       Some m \<Rightarrow> Inl (Failure (''restic dump exited: '' @ m))
                     | None \<Rightarrow> (case pr_error p of Some m \<Rightarrow> Inl (Failure m) | None \<Rightarrow> Inr ()),
                     [SseLog (''$ restic dump '' @ snap @ '' '' @ dump_path r @ '' | docker exec -i '' @ pg_container pg
                        @ '' psql -U '' @ pg_user pg @ '' -d '' @ pg_db pg)], w2)))))"

definition restore_args :: "backup_recipe \<Rightarrow> string \<Rightarrow> string list" where
  "restore_args r snap = [''restore'', snap, ''--target'', ''/''] @ concat (map (\<lambda>p. [''--include'', p]) (rc_paths r))"

definition run_restore :: "env \<Rightarrow> config \<Rightarrow> backup_recipe \<Rightarrow> string \<Rightarrow> string \<Rightarrow> unit work" where
  "run_restore e cfg r snap actor =
     (let step = rc_id r @ '':restore'' in
      if \<not> rc_restorable r then give_up (Failure (''recipe '' @ rc_id r @ '' is not restorable (see ADR-010)''))
      else
        and_then (status step ''taking pre-restore safety snapshot'') (\<lambda>_.
        and_then (annotate ''pre-restore snapshot: '' (run_backup e cfg r ''pre_restore'')) (\<lambda>_.
        and_then (quietly (\<lambda>w. (Inr (), write_audit e (audit_path cfg)
          (entry ''backup.restore.rollback'' actor (rc_id r) ''ok''
             (''auto pre-restore snapshot before restore of '' @ snap)) w))) (\<lambda>_.
        and_then (if rc_stop_services r = [] then give () else status step ''stopping services'') (\<lambda>_.
        with_services_stopped e r
          (and_then (if rc_paths r = [] then give ()
             else and_then (status step ''restic restore (files)'') (\<lambda>_.
                  annotate ''restic restore: '' (stream_cmd e (restic_argv cfg (restore_args r snap))))) (\<lambda>_.
           and_then (case rc_pg_dump r of
               None \<Rightarrow> give ()
             | Some pg \<Rightarrow> and_then (status step ''restic dump | psql (Postgres)'') (\<lambda>_.
                 annotate ''psql restore: '' (run_pg_dump_restore e cfg r pg snap))) (\<lambda>_.
           status step ''restore complete''))))))))"

subsection \<open>All stacks, and retention\<close>

definition audited :: "env \<Rightarrow> config \<Rightarrow> string \<Rightarrow> string \<Rightarrow> string \<Rightarrow> string \<Rightarrow> string \<Rightarrow> unit work" where
  "audited e cfg action actor target result note =
     quietly (\<lambda>w. (Inr (), write_audit e (audit_path cfg) (entry action actor target result note) w))"

fun backup_each :: "env \<Rightarrow> config \<Rightarrow> string \<Rightarrow> string \<Rightarrow> backup_recipe list \<Rightarrow> string list work" where
  "backup_each e cfg kind actor [] = give []"
| "backup_each e cfg kind actor (r # rs) =
     and_then (attempt (run_backup e cfg r kind)) (\<lambda>res.
       case res of
         Inl err \<Rightarrow>
           and_then (emit (SseLog (''FAIL '' @ rc_id r @ '': '' @ err_text err))) (\<lambda>_.
           and_then (audited e cfg (audit_action_for_kind kind) actor (rc_id r) ''fail'' (err_text err)) (\<lambda>_.
           and_then (backup_each e cfg kind actor rs) (\<lambda>failed. give (rc_id r # failed))))
       | Inr _ \<Rightarrow>
           and_then (audited e cfg (audit_action_for_kind kind) actor (rc_id r) ''ok'' (''tag='' @ kind)) (\<lambda>_.
           backup_each e cfg kind actor rs))"

definition list_snapshots :: "env \<Rightarrow> config \<Rightarrow> string list \<Rightarrow> world \<Rightarrow> restic_snapshot list res \<times> world" where
  "list_snapshots e cfg tags w =
     (case exec e (restic_argv cfg (''snapshots'' # concat (map (\<lambda>t. [''--tag'', t]) tags) @ [''--json''])) [] w of
        (r, w1) \<Rightarrow>
          (case pr_error r of Some m \<Rightarrow> Inl (Failure m) | None \<Rightarrow> decode_snapshots e (pr_stdout r), w1))"

definition list_snapshots_for_tag :: "env \<Rightarrow> config \<Rightarrow> string \<Rightarrow> world \<Rightarrow> restic_snapshot list res \<times> world" where
  "list_snapshots_for_tag e cfg tag = list_snapshots e cfg [tag]"

definition list_snapshots_for_recipe_and_kind ::
    "env \<Rightarrow> config \<Rightarrow> string \<Rightarrow> string \<Rightarrow> world \<Rightarrow> restic_snapshot list res \<times> world" where
  "list_snapshots_for_recipe_and_kind e cfg i kind = list_snapshots e cfg [i, kind]"

fun audit_forgotten :: "env \<Rightarrow> config \<Rightarrow> string \<Rightarrow> string \<Rightarrow> string \<Rightarrow> string list \<Rightarrow> unit work" where
  "audit_forgotten e cfg kind actor target [] = give ()"
| "audit_forgotten e cfg kind actor target (i # is) =
     and_then (audited e cfg ''backup.forget'' actor target ''ok'' (''snapshot='' @ short_id i @ '' tag='' @ kind)) (\<lambda>_.
     audit_forgotten e cfg kind actor target is)"

definition retain_recipe :: "env \<Rightarrow> config \<Rightarrow> string \<Rightarrow> int \<Rightarrow> string \<Rightarrow> backup_recipe \<Rightarrow> unit work" where
  "retain_recipe e cfg kind keep actor r =
     and_then (attempt (quietly (list_snapshots_for_recipe_and_kind e cfg (rc_id r) kind))) (\<lambda>l.
       case l of
         Inl err \<Rightarrow> emit (SseLog (''retention: list '' @ rc_id r @ ''/'' @ kind @ '': '' @ err_text err))
       | Inr snaps \<Rightarrow>
           (let drops = snapshots_to_forget snaps keep in
            if drops = [] then give ()
            else and_then (emit (SseLog (''retention: forgetting '' @ show_nat (length drops) @ '' '' @ kind
                   @ '' snapshots for '' @ rc_id r))) (\<lambda>_.
                 and_then (attempt (stream_cmd e (restic_argv cfg ([''forget'', ''--prune''] @ drops)))) (\<lambda>f.
                   case f of
                     Inl err \<Rightarrow> emit (SseLog (''retention: forget failed: '' @ err_text err))
                   | Inr _ \<Rightarrow> audit_forgotten e cfg kind actor (rc_id r) drops))))"

fun retain_each :: "env \<Rightarrow> config \<Rightarrow> string \<Rightarrow> int \<Rightarrow> string \<Rightarrow> backup_recipe list \<Rightarrow> unit work" where
  "retain_each e cfg kind keep actor [] = give ()"
| "retain_each e cfg kind keep actor (r # rs) =
     and_then (retain_recipe e cfg kind keep actor r) (\<lambda>_. retain_each e cfg kind keep actor rs)"

definition run_retention :: "env \<Rightarrow> config \<Rightarrow> string \<Rightarrow> int \<Rightarrow> string \<Rightarrow> unit work" where
  "run_retention e cfg kind keep actor = retain_each e cfg kind keep actor (backup_recipes e)"

definition run_backup_all :: "env \<Rightarrow> config \<Rightarrow> string \<Rightarrow> string \<Rightarrow> unit work" where
  "run_backup_all e cfg kind actor =
     and_then (status (''all:'' @ kind) (''starting '' @ kind @ '' backup of all stacks'')) (\<lambda>_.
     and_then (backup_each e cfg kind actor (backup_recipes e)) (\<lambda>failed.
     and_then (if kind = ''daily'' then run_retention e cfg kind (backup_retention_daily cfg) actor else give ()) (\<lambda>_.
     if failed \<noteq> [] then give_up (Failure (''backup completed with failures: '' @ join '', '' failed))
     else status (''all:'' @ kind) ''all stacks backed up successfully'')))"

end
