(* ===== verification/BackupHandlers.thy ===== *)
theory BackupHandlers
  imports BackupEngine
begin

text \<open>
  \<open>backup.go\<close>, the pages and the command line: the overview, the requests that start a backup
  or a restore in a goroutine, the two that forget snapshots, the download of the repository,
  the event stream of an operation, and \<open>enrol backup\<close>. A request that starts an operation
  leaves its goroutine in \<open>bk_jobs\<close>; \<open>run_next_job\<close> lets it run.
\<close>

subsection \<open>The overview\<close>

definition snapshot_on_disk_bytes :: "env \<Rightarrow> config \<Rightarrow> string \<Rightarrow> world \<Rightarrow> int \<times> world" where
  "snapshot_on_disk_bytes e cfg i w =
     (case bk_sizes w i of
        Some n \<Rightarrow> (n, w)
      | None \<Rightarrow>
          (case exec e (restic_argv cfg [''stats'', i, ''--mode'', ''raw-data'', ''--json'']) [] w of
             (r, w1) \<Rightarrow>
               (if pr_error r \<noteq> None then (- 1, w1)
                else (case Option.bind (json_decode e (pr_stdout r)) decode_stats of
                        None \<Rightarrow> (- 1, w1)
                      | Some (n, _) \<Rightarrow> (n, w1\<lparr>bk_sizes := (bk_sizes w1)(i \<mapsto> n)\<rparr>)))))"

definition repo_stats :: "env \<Rightarrow> config \<Rightarrow> world \<Rightarrow> (string \<times> int) \<times> world" where
  "repo_stats e cfg w =
     (case exec e (restic_argv cfg [''stats'', ''--mode'', ''raw-data'', ''--json'']) [] w of
        (r, w1) \<Rightarrow>
          (if pr_error r \<noteq> None then ((em_dash, 0), w1)
           else (case Option.bind (json_decode e (pr_stdout r)) decode_stats of
                   None \<Rightarrow> ((em_dash, 0), w1)
                 | Some (n, c) \<Rightarrow> ((format_bytes e n, c), w1))))"

text \<open>The newest snapshot comes first; a failed listing shows as an empty one.\<close>

fun list_recipes :: "env \<Rightarrow> config \<Rightarrow> backup_recipe list \<Rightarrow> world
    \<Rightarrow> (backup_recipe \<times> restic_snapshot list) list \<times> world" where
  "list_recipes e cfg [] w = ([], w)"
| "list_recipes e cfg (r # rs) w =
     (case list_snapshots_for_tag e cfg (rc_id r) w of
        (l, w1) \<Rightarrow>
          (case list_recipes e cfg rs w1 of
             (rest, w2) \<Rightarrow>
               ((r, case l of Inl _ \<Rightarrow> [] | Inr s \<Rightarrow> sort_by (\<lambda>a b. sn_time a > sn_time b) s) # rest, w2)))"

definition visible_ids :: "string \<Rightarrow> (backup_recipe \<times> restic_snapshot list) list \<Rightarrow> string list" where
  "visible_ids expand rows =
     fold (\<lambda>i acc. if i \<in> set acc then acc else acc @ [i])
       (concat (map (\<lambda>(r, l). if l = [] then [] else if rc_id r = expand then map sn_id l else [sn_id (hd l)]) rows)) []"

fun size_all :: "env \<Rightarrow> config \<Rightarrow> string list \<Rightarrow> world \<Rightarrow> (string \<times> int) list \<times> world" where
  "size_all e cfg [] w = ([], w)"
| "size_all e cfg (i # is) w =
     (case snapshot_on_disk_bytes e cfg i w of
        (n, w1) \<Rightarrow> (case size_all e cfg is w1 of (rest, w2) \<Rightarrow> ((i, n) # rest, w2)))"

definition recipe_view :: "env \<Rightarrow> string \<Rightarrow> (string \<Rightarrow> int) \<Rightarrow> backup_recipe \<times> restic_snapshot list \<Rightarrow> backup_recipe_view" where
  "recipe_view e expand od row =
     (case row of (r, l) \<Rightarrow>
       \<lparr>br_id = rc_id r, br_display = rc_display r,
        br_last_at = (if l = [] then em_dash
          else fmt_minute (sn_time (hd l)) @ '' ('' @ pick_kind_tag (sn_tags (hd l)) (rc_id r) @ '')''),
        br_last_size = (if l = [] then em_dash else format_snapshot_size e (hd l) (od (sn_id (hd l)))),
        br_restorable = rc_restorable r,
        br_snapshots = (if rc_id r = expand then map (\<lambda>s. snapshot_view e (od (sn_id s)) s) l else [])\<rparr>)"

definition build_backup_page_view :: "env \<Rightarrow> config \<Rightarrow> string \<Rightarrow> string \<Rightarrow> world \<Rightarrow> backup_page_view \<times> world" where
  "build_backup_page_view e cfg expand csrf w =
     (case list_recipes e cfg (backup_recipes e) w of
        (rows, w1) \<Rightarrow>
          (case repo_stats e cfg w1 of
             ((repo_size, n), w2) \<Rightarrow>
               (case size_all e cfg (visible_ids expand rows) w2 of
                  (sizes, w3) \<Rightarrow>
                    (let od = (\<lambda>i. case map_of sizes i of Some v \<Rightarrow> v | None \<Rightarrow> - 1) in
                     (\<lparr>bv_repo_size = repo_size, bv_repo_count = n, bv_next = next_scheduled_run w,
                       bv_recipes = map (recipe_view e expand od) rows, bv_off_host = render_off_host_help e cfg,
                       bv_in_progress = (case current_op w3 of Some op \<Rightarrow> bo_id op | None \<Rightarrow> []),
                       bv_csrf = csrf\<rparr>, w3)))))"

definition query_value :: "request \<Rightarrow> string \<Rightarrow> string" where
  "query_value r k = first_value k (rq_query r)"

definition handle_backup_index :: "env \<Rightarrow> config \<Rightarrow> page handler" where
  "handle_backup_index e cfg r w =
     (if rq_method r \<noteq> ''GET'' then (method_not_allowed, w)
      else with_token e (\<lambda>csrf r w.
        case build_backup_page_view e cfg (go_trim_space (query_value r ''expand'')) csrf w of
          (pv, w1) \<Rightarrow>
            (html_page (BackupPage \<lparr>bt_user = viewer r, bt_csrf = csrf, bt_viewer_is_admin = True, bt_backup = pv\<rparr>), w1)) r w)"

subsection \<open>Starting an operation\<close>

definition start_op :: "env \<Rightarrow> string \<Rightarrow> string \<Rightarrow> backup_job \<Rightarrow> page handler" where
  "start_op e stack verb job r w =
     (case try_acquire w of
        (Inl err, w1) \<Rightarrow> (http_error (err_text err) 409, w1)
      | (Inr _, w1) \<Rightarrow>
          (case new_op e stack verb w1 of
             (op, w2) \<Rightarrow>
               (redirect (''/backup?op='' @ bo_id op) 303,
                w2\<lparr>bk_ops := register_op op (bk_ops w2), bk_jobs := bk_jobs w2 @ [(bo_id op, job)]\<rparr>)))"

definition handle_backup_create :: "env \<Rightarrow> config \<Rightarrow> page handler" where
  "handle_backup_create e cfg r w =
     (if rq_method r \<noteq> ''POST'' then (method_not_allowed, w)
      else (case rq_form_error r of
        Some m \<Rightarrow> (http_error (''parse form: '' @ m) 400, w)
      | None \<Rightarrow>
          (let stack = go_trim_space (form_value r ''stack'') in
           if stack = [] then (http_error ''missing stack'' 400, w)
           else if stack \<noteq> ''all'' \<and> recipe_by_id e stack = None then (http_error (''unknown stack: '' @ stack) 400, w)
           else start_op e stack ''create'' (CreateJob stack (viewer r)) r w)))"

definition handle_backup_restore :: "env \<Rightarrow> config \<Rightarrow> page handler" where
  "handle_backup_restore e cfg r w =
     (if rq_method r \<noteq> ''POST'' then (method_not_allowed, w)
      else (case rq_form_error r of
        Some m \<Rightarrow> (http_error (''parse form: '' @ m) 400, w)
      | None \<Rightarrow>
          (let stack = go_trim_space (form_value r ''stack''); snap = go_trim_space (form_value r ''snapshot'') in
           if stack = [] \<or> snap = [] then (http_error ''missing stack or snapshot'' 400, w)
           else (case recipe_by_id e stack of
             None \<Rightarrow> (http_error (''unknown stack: '' @ stack) 400, w)
           | Some recipe \<Rightarrow>
               (if \<not> rc_restorable recipe then (http_error ''recipe is not restorable'' 400, w)
                else if form_value r ''confirm'' \<noteq> stack then (http_error ''confirmation token mismatch'' 400, w)
                else start_op e stack ''restore'' (RestoreJob stack snap (viewer r)) r w)))))"

subsection \<open>The goroutine of an operation\<close>

text \<open>The requests only start jobs of known stacks; the branches for an unknown one are not reached.\<close>

definition create_one :: "env \<Rightarrow> config \<Rightarrow> string \<Rightarrow> string \<Rightarrow> unit work" where
  "create_one e cfg stack actor =
     (case recipe_by_id e stack of
        None \<Rightarrow> give_up (Failure ''runBackup: nil recipe'')
      | Some recipe \<Rightarrow>
          and_then (attempt (run_backup e cfg recipe ''manual'')) (\<lambda>res.
            case res of
              Inr _ \<Rightarrow> audited e cfg ''backup.create'' actor stack ''ok'' ''tag=manual''
            | Inl err \<Rightarrow> and_then (audited e cfg ''backup.create'' actor stack ''fail'' (err_text err)) (\<lambda>_. give_up err)))"

definition restore_one :: "env \<Rightarrow> config \<Rightarrow> string \<Rightarrow> string \<Rightarrow> string \<Rightarrow> unit work" where
  "restore_one e cfg stack snap actor =
     (case recipe_by_id e stack of
        None \<Rightarrow> give_up (Failure ''runRestore: nil recipe'')
      | Some recipe \<Rightarrow>
          and_then (attempt (run_restore e cfg recipe snap actor)) (\<lambda>res.
            case res of
              Inr _ \<Rightarrow> audited e cfg ''backup.restore'' actor stack ''ok'' (''snapshot='' @ snap)
            | Inl err \<Rightarrow>
                and_then (audited e cfg ''backup.restore'' actor stack ''fail''
                  (''snapshot='' @ snap @ '' err='' @ err_text err)) (\<lambda>_. give_up err)))"

definition job_stack :: "backup_job \<Rightarrow> string" where
  "job_stack j = (case j of CreateJob s a \<Rightarrow> s | RestoreJob s i a \<Rightarrow> s)"

definition job_verb :: "backup_job \<Rightarrow> string" where
  "job_verb j = (case j of CreateJob s a \<Rightarrow> ''create'' | RestoreJob s i a \<Rightarrow> ''restore'')"

definition job_work :: "env \<Rightarrow> config \<Rightarrow> backup_job \<Rightarrow> unit work" where
  "job_work e cfg j =
     (case j of
        CreateJob stack actor \<Rightarrow>
          (if stack = ''all'' then run_backup_all e cfg ''manual'' actor else create_one e cfg stack actor)
      | RestoreJob stack snap actor \<Rightarrow> restore_one e cfg stack snap actor)"

definition ok_payload :: string where
  "ok_payload = ''{'' @ [CHR 34] @ ''ok'' @ [CHR 34] @ '':true}''"

definition final_event :: "backup_job \<Rightarrow> unit res \<Rightarrow> sse_event" where
  "final_event j res =
     (case res of Inl err \<Rightarrow> SseError (job_stack j @ '':'' @ job_verb j) (err_text err) | Inr _ \<Rightarrow> SseDone ok_payload)"

definition failed_res :: "unit res \<Rightarrow> bool" where
  "failed_res res = (case res of Inl _ \<Rightarrow> True | Inr _ \<Rightarrow> False)"

definition run_job :: "env \<Rightarrow> config \<Rightarrow> string \<Rightarrow> backup_job \<Rightarrow> world \<Rightarrow> world" where
  "run_job e cfg i j w =
     (case job_work e cfg j w of
        (res, evs, w1) \<Rightarrow>
          release_lock (update_op i (op_finish (now w1) (failed_res res))
            (fold (op_emit i) (evs @ [final_event j res]) w1)))"

definition run_next_job :: "env \<Rightarrow> config \<Rightarrow> world \<Rightarrow> world" where
  "run_next_job e cfg w =
     (case bk_jobs w of [] \<Rightarrow> w | (i, j) # js \<Rightarrow> run_job e cfg i j (w\<lparr>bk_jobs := js\<rparr>))"

subsection \<open>Forgetting\<close>

definition handle_backup_forget :: "env \<Rightarrow> config \<Rightarrow> page handler" where
  "handle_backup_forget e cfg r w =
     (if rq_method r \<noteq> ''POST'' then (method_not_allowed, w)
      else (case rq_form_error r of
        Some m \<Rightarrow> (http_error (''parse form: '' @ m) 400, w)
      | None \<Rightarrow>
          (let snap = go_trim_space (form_value r ''snapshot'') in
           if snap = [] then (http_error ''missing snapshot'' 400, w)
           else (case exec_script e (restic_argv cfg [''forget'', ''--prune'', snap]) [] w of
             (p, w1) \<Rightarrow>
               (case pr_error p of
                  Some m \<Rightarrow>
                    (http_error (''forget: '' @ m) 500,
                     write_audit e (audit_path cfg)
                       (entry ''backup.forget'' (viewer r) snap ''fail'' (m @ '': '' @ combined p)) w1)
                | None \<Rightarrow>
                    (redirect ''/backup'' 303,
                     write_audit e (audit_path cfg) (entry ''backup.forget'' (viewer r) snap ''ok'' []) w1))))))"

definition forget_older :: "env \<Rightarrow> config \<Rightarrow> int \<Rightarrow> page handler" where
  "forget_older e cfg days r w =
     (case exec_script e (restic_argv cfg [''forget'', ''--keep-within'', show_int days @ ''d'', ''--group-by'', ''tags'', ''--prune'']) [] w of
        (p, w1) \<Rightarrow>
          (let note = ''forget-older days='' @ show_int days in
           case pr_error p of
             Some m \<Rightarrow>
               (http_error (''forget failed: '' @ m @ [CHR 10] @ combined p) 500,
                write_audit e (audit_path cfg) (entry ''backup.forget'' (viewer r) [] ''fail''
                  (note @ '' err='' @ m @ '' out='' @ go_trim_space (combined p))) w1)
           | None \<Rightarrow>
               (redirect ''/backup'' 303,
                write_audit e (audit_path cfg) (entry ''backup.forget'' (viewer r) [] ''ok''
                  (note @ '' out='' @ go_trim_space (combined p))) w1)))"

definition handle_backup_forget_older :: "env \<Rightarrow> config \<Rightarrow> page handler" where
  "handle_backup_forget_older e cfg r w =
     (if rq_method r \<noteq> ''POST'' then (method_not_allowed, w)
      else (case rq_form_error r of
        Some m \<Rightarrow> (http_error (''parse form: '' @ m) 400, w)
      | None \<Rightarrow>
          (case atoi (go_trim_space (form_value r ''days'')) of
             None \<Rightarrow> (http_error ''days must be a positive integer'' 400, w)
           | Some days \<Rightarrow>
               (if days < 1 then (http_error ''days must be a positive integer'' 400, w)
                else if form_value r ''confirm'' \<noteq> ''delete older than '' @ show_int days @ '' days''
                then (http_error ''confirmation token mismatch'' 400, w)
                else (case try_acquire w of
                  (Inl err, w1) \<Rightarrow> (http_error (err_text err) 409, w1)
                | (Inr _, w1) \<Rightarrow> (case forget_older e cfg days r w1 of (rs, w2) \<Rightarrow> (rs, release_lock w2)))))))"

subsection \<open>The download\<close>

text \<open>Entries of the archive: a directory has no content. A file that cannot be read leaves an
  empty entry and ends the archive; the archive is closed properly all the same.\<close>

definition zip_add_file :: "env \<Rightarrow> string \<Rightarrow> string \<Rightarrow> world \<Rightarrow> (string \<times> string option) list \<times> bool" where
  "zip_add_file e p name w =
     (case stat_file e p w of
        Inl _ \<Rightarrow> ([], False)
      | Inr _ \<Rightarrow>
          (case read_file e p w of
             Inl _ \<Rightarrow> ([(name, Some [])], False)
           | Inr c \<Rightarrow> ([(name, Some (content_text e c))], True)))"

definition walk_rel :: "string \<Rightarrow> string \<Rightarrow> string" where
  "walk_rel base p = trim_prefix (drop (length (filepath_clean base)) (filepath_clean p)) ''/''"

definition zip_entry :: "env \<Rightarrow> config \<Rightarrow> string \<Rightarrow> world \<Rightarrow> (string \<times> string option) list \<times> bool" where
  "zip_entry e cfg p w =
     (let rel = walk_rel (backup_repo_dir cfg) p; name = filepath_join [''restic'', rel] in
      case stat_file e p w of
        Inl _ \<Rightarrow> ([], False)
      | Inr n \<Rightarrow>
          (if rel = [] \<or> has_prefix rel ''locks/'' then ([], True)
           else if n = Dir then ([(name @ ''/'', None)], True)
           else zip_add_file e p name w))"

fun zip_walk :: "env \<Rightarrow> config \<Rightarrow> string list \<Rightarrow> world \<Rightarrow> (string \<times> string option) list" where
  "zip_walk e cfg [] w = []"
| "zip_walk e cfg (p # ps) w =
     (case zip_entry e cfg p w of
        (es, ok) \<Rightarrow> es @ (if ok then zip_walk e cfg ps w else []))"

definition backup_zip :: "env \<Rightarrow> config \<Rightarrow> world \<Rightarrow> (string \<times> string option) list" where
  "backup_zip e cfg w =
     (case zip_add_file e (backup_password_file cfg) ''restic-password'' w of
        (es, ok) \<Rightarrow> es @ (if ok then zip_walk e cfg (list_tree e (files w) (backup_repo_dir cfg)) w else []))"

definition handle_backup_download :: "env \<Rightarrow> config \<Rightarrow> page handler" where
  "handle_backup_download e cfg r w =
     (if rq_method r \<noteq> ''GET'' then (method_not_allowed, w)
      else if current_op w \<noteq> None then
        (http_error ''a backup or restore op is in progress; try again when it completes'' 409, w)
      else (case stat_file e (backup_repo_dir cfg) w of
        Inl err \<Rightarrow> (http_error (''restic repo not initialised yet: '' @ err_text err) 503, w)
      | Inr _ \<Rightarrow>
          (case stat_file e (backup_password_file cfg) w of
             Inl err \<Rightarrow> (http_error (''restic password file missing: '' @ err_text err) 503, w)
           | Inr _ \<Rightarrow>
               (let name = ''enrol-backup-'' @ fmt_date (now w) @ ''-'' @ filter (\<lambda>c. c \<noteq> CHR '':'') (fmt_hms (now w)) @ ''.zip'';
                    w1 = write_audit e (audit_path cfg)
                      (entry ''backup.download'' (get_header r (header_user cfg)) ''all'' ''ok'' []) w in
                (respond 200 [(''Content-Type'', ''application/zip''),
                   (''Content-Disposition'', ''attachment; filename='' @ [CHR 34] @ name @ [CHR 34]),
                   (''Cache-Control'', ''no-store''), (''X-Content-Type-Options'', ''nosniff'')]
                   (Text (zip_bytes e (backup_zip e cfg w1))), w1)))))"

subsection \<open>The event stream\<close>

definition frame_text :: "string \<times> string \<Rightarrow> string" where
  "frame_text fr = sse_emit (fst fr) (snd fr)"

fun until_final :: "(string \<times> string) list \<Rightarrow> (string \<times> string) list" where
  "until_final [] = []"
| "until_final (fr # frs) = (if fst fr \<in> {''done'', ''error''} then [fr] else fr # until_final frs)"

text \<open>What a reader gets: the frames buffered when it subscribed, and, unless the operation is
  marked as done when the handler looks, the later ones up to a final frame. Keep-alive comments
  are left out; \<open>BackupLive\<close> has the channels of the readers and the frames a slow one loses.\<close>

definition stream_frames :: "(string \<times> string) list \<Rightarrow> bool \<Rightarrow> (string \<times> string) list \<Rightarrow> (string \<times> string) list" where
  "stream_frames hist finished later = hist @ (if finished then [] else until_final later)"

text \<open>The handler, with nothing happening between the two looks and no later frame yet.\<close>

definition handle_backup_events :: "env \<Rightarrow> config \<Rightarrow> page handler" where
  "handle_backup_events e cfg r w =
     (if rq_method r \<noteq> ''GET'' then (method_not_allowed, w)
      else (let i = go_trim_space (query_value r ''op'') in
        if i = [] then (http_error ''missing op'' 400, w)
        else (case get_op i w of
                None \<Rightarrow> (http_error ''unknown or expired op'' 404, w)
              | Some op \<Rightarrow>
                  (respond 200 [(''Content-Type'', ''text/event-stream''), (''Cache-Control'', ''no-cache''),
                     (''X-Accel-Buffering'', ''no'')]
                     (Text (concat (map frame_text (stream_frames (bo_logs op) (bo_done op) [])))), w))))"

subsection \<open>The command line\<close>

record cli_flags =
  cf_scheduled :: bool
  cf_tag :: string
  cf_stack :: string
  cf_repo :: string
  cf_password_file :: string

text \<open>Package \<open>flag\<close>: parsing stops at the first argument that is no flag. The error is the exit code.\<close>

definition parse_bool :: "string \<Rightarrow> bool option" where
  "parse_bool s =
     (if s \<in> {''1'', ''t'', ''T'', ''true'', ''TRUE'', ''True''} then Some True
      else if s \<in> {''0'', ''f'', ''F'', ''false'', ''FALSE'', ''False''} then Some False else None)"

definition set_flag :: "string \<Rightarrow> string \<Rightarrow> cli_flags \<Rightarrow> cli_flags option" where
  "set_flag k v f =
     (if k = ''tag'' then Some (f\<lparr>cf_tag := v\<rparr>) else if k = ''stack'' then Some (f\<lparr>cf_stack := v\<rparr>)
      else if k = ''repo'' then Some (f\<lparr>cf_repo := v\<rparr>) else if k = ''password-file'' then Some (f\<lparr>cf_password_file := v\<rparr>)
      else None)"

definition flag_name :: "string \<Rightarrow> string" where
  "flag_name a = (if has_prefix a ''--'' then drop 2 a else drop 1 a)"

fun parse_flags :: "string list \<Rightarrow> cli_flags \<Rightarrow> nat + cli_flags" where
  "parse_flags [] f = Inr f"
| "parse_flags (a # as) f =
     (if length a < 2 \<or> hd a \<noteq> CHR ''-'' \<or> a = ''--'' then Inr f
      else (let body = flag_name a; k = takeWhile (\<lambda>c. c \<noteq> CHR ''='') body; has_val = CHR ''='' \<in> set body;
                v = drop (Suc (length k)) body in
        if body = [] \<or> hd body = CHR ''-'' \<or> hd body = CHR ''='' then Inl 2
        else if k = ''scheduled'' then
          (if has_val then (case parse_bool v of None \<Rightarrow> Inl 2 | Some b \<Rightarrow> parse_flags as (f\<lparr>cf_scheduled := b\<rparr>))
           else parse_flags as (f\<lparr>cf_scheduled := True\<rparr>))
        else if set_flag k [] f = None then Inl (if k \<in> {''help'', ''h''} then 0 else 2)
        else if has_val then (case set_flag k v f of None \<Rightarrow> Inl 2 | Some f2 \<Rightarrow> parse_flags as f2)
        else (case as of [] \<Rightarrow> Inl 2
              | x # xs \<Rightarrow> (case set_flag k x f of None \<Rightarrow> Inl 2 | Some f2 \<Rightarrow> parse_flags xs f2))))"

definition cli_defaults :: cli_flags where
  "cli_defaults = \<lparr>cf_scheduled = False, cf_tag = ''manual'', cf_stack = [], cf_repo = [], cf_password_file = []\<rparr>"

definition cli_line :: "sse_event \<Rightarrow> string" where
  "cli_line ev = (case split_frame (sse_frame ev) of (k, p) \<Rightarrow> ''[backup] '' @ k @ '' '' @ p)"

definition cli_actor :: "env \<Rightarrow> cli_flags \<Rightarrow> string" where
  "cli_actor e f =
     (if cf_scheduled f then ''system'' else if getenv e ''USER'' \<noteq> [] then ''cli:'' @ getenv e ''USER'' else ''cli'')"

definition cli_one :: "env \<Rightarrow> config \<Rightarrow> cli_flags \<Rightarrow> backup_recipe \<Rightarrow> unit work" where
  "cli_one e cfg f r =
     (let act = audit_action_for_kind (cf_tag f); actor = cli_actor e f in
      and_then (attempt (run_backup e cfg r (cf_tag f))) (\<lambda>res.
      and_then (case res of Inl err \<Rightarrow> audited e cfg act actor (rc_id r) ''fail'' (err_text err)
                | Inr _ \<Rightarrow> audited e cfg act actor (rc_id r) ''ok'' (''tag='' @ cf_tag f)) (\<lambda>_.
      and_then (if cf_tag f = ''daily'' then run_retention e cfg (cf_tag f) (backup_retention_daily cfg) actor else give ()) (\<lambda>_.
      case res of Inl err \<Rightarrow> give_up err | Inr _ \<Rightarrow> give ()))))"

text \<open>The exit code, the lines on standard output, and the world.\<close>

definition run_backup_cli :: "env \<Rightarrow> string list \<Rightarrow> world \<Rightarrow> nat \<times> string list \<times> world" where
  "run_backup_cli e args w =
     (case parse_flags args cli_defaults of
        Inl code \<Rightarrow> (code, [], w)
      | Inr f \<Rightarrow>
          (case load_config e w of
             Inl _ \<Rightarrow> (1, [], w)
           | Inr cfg0 \<Rightarrow>
               (let cfg = cfg0\<lparr>backup_repo_dir := (if cf_repo f \<noteq> [] then cf_repo f else backup_repo_dir cfg0),
                      backup_password_file := (if cf_password_file f \<noteq> [] then cf_password_file f
                        else backup_password_file cfg0)\<rparr>;
                    work = (if cf_stack f \<noteq> [] then map_option (cli_one e cfg f) (recipe_by_id e (cf_stack f))
                            else Some (run_backup_all e cfg (cf_tag f) (cli_actor e f))) in
                case work of
                  None \<Rightarrow> (2, [], w)
                | Some m \<Rightarrow>
                    (case m w of
                       (res, evs, w1) \<Rightarrow> (if failed_res res then 1 else 0, map cli_line evs, w1)))))"

end
