(* ===== verification/BackupSpec.thy ===== *)
theory BackupSpec
  imports BackupHandlers HttpSpec PeerSpec
begin

text \<open>
  At most one backup operation runs, whatever requests arrive in whatever order, and it ends with
  the lock free (\<open>one_operation\<close>): the step relation of the backup page, the frame lemmas of the
  tracker, and the invariant that ties the lock, the tracker and the goroutines together.
\<close>

subsection \<open>What leaves the tracker alone\<close>

definition tracker :: "world \<Rightarrow> bool \<times> backup_op list \<times> (string \<times> backup_job) list" where
  "tracker w = (bk_lock w, bk_ops w, bk_jobs w)"

named_theorems tracker_simps

lemma tracker_io [tracker_simps]:
  "tracker (snd (write_file e p c w)) = tracker w" "tracker (snd (remove_all e p w)) = tracker w"
  "tracker (snd (mkdir_all e p w)) = tracker w" "tracker (snd (exec e a s w)) = tracker w"
  "tracker (snd (exec_script e a s w)) = tracker w" "tracker (snd (draw_bytes e n w)) = tracker w"
  "tracker (write_audit e p x w) = tracker w" "tracker (w\<lparr>files := fs\<rparr>) = tracker w"
  "tracker (w\<lparr>bk_sizes := sz\<rparr>) = tracker w"
  by (auto simp: tracker_def write_file_def remove_all_def mkdir_all_def exec_def exec_script_def draw_bytes_def
      write_audit_def split: option.split node.split)

lemma tracker_pg_dump [tracker_simps]: "tracker (snd (run_pg_dump_to_file e pg p w)) = tracker w"
proof -
  have "tracker v = tracker w" if "write_file e p c w = (r, v)" for r v c
    using tracker_io(1) [of e p c w] that by simp
  then show ?thesis
    unfolding run_pg_dump_to_file_def
    by (auto simp: tracker_simps exec_def split: sum.split prod.split) (auto simp: tracker_def)
qed

lemma same_stream [same_intros]: "same tracker (stream_cmd e argv)"
  by (auto simp: same_def stream_cmd_def exec_script_def tracker_def split: prod.split)

lemma same_annotate [same_intros]: "same f m \<Longrightarrow> same f (annotate pre m)"
  unfolding annotate_def by (rule same_map_error)

lemma same_status [same_intros]: "same f (status s m)"
  unfolding status_def by (rule same_emit)

lemma same_compose [same_intros]: "same tracker (compose_service_cmd e r verb)"
  unfolding compose_service_cmd_def Let_def by (auto intro!: same_intros)

lemma tracker_restart [tracker_simps]: "tracker (snd (restart_services e r w)) = tracker w"
  using same_compose [of e r "''start''"] unfolding same_def restart_services_def
  by (auto split: prod.split sum.split) (metis snd_conv)+

lemma same_services [same_intros]: "same tracker m \<Longrightarrow> same tracker (with_services_stopped e r m)"
  unfolding with_services_stopped_def by (auto intro!: same_intros simp: tracker_simps)

lemma same_snapshot [same_intros]: "same tracker (snapshot_paths e cfg r kind ps)"
  unfolding snapshot_paths_def by (auto intro!: same_intros)

lemma same_backup [same_intros]: "same tracker (run_backup e cfg r kind)"
  unfolding run_backup_def Let_def
  by (auto intro!: same_intros simp: tracker_simps split: option.split)

lemma same_audit [same_intros]: "same tracker (audited e cfg a b c d n)"
  unfolding audited_def by (auto intro!: same_intros simp: tracker_simps)

lemma same_pg_restore [same_intros]: "same tracker (run_pg_dump_restore e cfg r pg snap)"
  by (auto simp: same_def run_pg_dump_restore_def exec_def tracker_def split: sum.split prod.split)

lemma same_restore [same_intros]: "same tracker (run_restore e cfg r snap actor)"
  unfolding run_restore_def Let_def
  by (auto intro!: same_intros simp: tracker_simps split: option.split)

lemma same_backup_each [same_intros]: "same tracker (backup_each e cfg kind actor rs)"
  by (induction rs) (auto intro!: same_intros split: sum.split)

lemma tracker_list [tracker_simps]: "tracker (snd (list_snapshots e cfg tags w)) = tracker w"
  by (auto simp: list_snapshots_def exec_def tracker_def)

lemma same_audit_forgotten [same_intros]: "same tracker (audit_forgotten e cfg kind actor t is)"
  by (induction "is") (auto intro!: same_intros)

lemma same_retain [same_intros]: "same tracker (retain_recipe e cfg kind keep actor r)"
  unfolding retain_recipe_def Let_def
  by (auto intro!: same_intros simp: list_snapshots_for_recipe_and_kind_def tracker_simps split: sum.split)

lemma same_retain_each [same_intros]: "same tracker (retain_each e cfg kind keep actor rs)"
  by (induction rs) (auto intro!: same_intros)

lemma same_backup_all [same_intros]: "same tracker (run_backup_all e cfg kind actor)"
  unfolding run_backup_all_def run_retention_def by (auto intro!: same_intros)

lemma same_job: "same tracker (job_work e cfg j)"
  unfolding job_work_def create_one_def restore_one_def
  by (auto intro!: same_intros split: backup_job.split option.split sum.split)

subsection \<open>At most one operation\<close>

text \<open>The lock is taken exactly while one goroutine waits to run, its operation is the only one that
  is not done, and it is a job the requests may start.\<close>

definition job_ok :: "env \<Rightarrow> backup_job \<Rightarrow> bool" where
  "job_ok e j =
     (case j of
        CreateJob stack actor \<Rightarrow> stack = ''all'' \<or> recipe_by_id e stack \<noteq> None
      | RestoreJob stack snap actor \<Rightarrow> (case recipe_by_id e stack of None \<Rightarrow> False | Some r \<Rightarrow> rc_restorable r))"

definition tracked :: "env \<Rightarrow> bool \<times> backup_op list \<times> (string \<times> backup_job) list \<Rightarrow> bool" where
  "tracked e t \<longleftrightarrow>
     (case t of (lock, ops, jobs) \<Rightarrow>
       distinct (map bo_id ops) \<and>
       (if lock then \<exists>i j. jobs = [(i, j)] \<and> job_ok e j \<and> i \<in> bo_id ` set ops
            \<and> (\<forall>op \<in> set ops. bo_done op \<longleftrightarrow> bo_id op \<noteq> i)
        else jobs = [] \<and> (\<forall>op \<in> set ops. bo_done op)))"

lemma set_register: "set (register_op op ops) \<subseteq> insert op (set ops)" "op \<in> set (register_op op ops)"
  by (induction ops) auto

lemma ids_register:
  "distinct (map bo_id ops) \<Longrightarrow> distinct (map bo_id (register_op op ops))"
  "bo_id ` set (register_op op ops) = insert (bo_id op) (bo_id ` set ops)"
  by (induction ops) auto

lemma register_same_id:
  "distinct (map bo_id ops) \<Longrightarrow> x \<in> set (register_op op ops) \<Longrightarrow> bo_id x = bo_id op \<Longrightarrow> x = op"
  by (induction ops) (auto split: if_splits, metis image_eqI)

lemma tracked_start:
  assumes "tracked e (False, ops, jobs)" and "job_ok e j" and "\<not> bo_done op"
  shows "tracked e (True, register_op op ops, jobs @ [(bo_id op, j)])"
proof -
  have d: "distinct (map bo_id ops)" and jobs: "jobs = []" and dn: "x \<in> set ops \<Longrightarrow> bo_done x" for x
    using assms(1) by (auto simp: tracked_def)
  have "bo_done x \<longleftrightarrow> bo_id x \<noteq> bo_id op" if x: "x \<in> set (register_op op ops)" for x
  proof (cases "bo_id x = bo_id op")
    case True
    then show ?thesis using register_same_id [OF d x] assms(3) by simp
  next
    case False
    then show ?thesis using set_register(1) [of op ops] x dn by auto
  qed
  then show ?thesis
    using ids_register(1) [OF d] ids_register(2) [of op ops] assms(2) jobs by (auto simp: tracked_def)
qed

lemma start_op_tracked:
  assumes "tracked e (tracker w)" and "job_ok e job"
  shows "tracked e (tracker (snd (start_op e stack verb job r w)))"
proof (cases "bk_lock w")
  case True
  then show ?thesis using assms(1) by (simp add: start_op_def try_acquire_def)
next
  case False
  let ?w = "w\<lparr>bk_lock := True\<rparr>"
  obtain op w2 where n: "new_op e stack verb ?w = (op, w2)" by fastforce
  have "tracker w2 = (True, bk_ops w, bk_jobs w)" and op: "\<not> bo_done op"
    using n tracker_io(6) [of e 4 ?w] by (auto simp: new_op_def tracker_def split: prod.splits)
  then have "tracker (snd (start_op e stack verb job r w)) = (True, register_op op (bk_ops w), bk_jobs w @ [(bo_id op, job)])"
    using False n by (simp add: start_op_def try_acquire_def tracker_def)
  with tracked_start [OF _ assms(2) op, of "bk_ops w" "bk_jobs w"] assms(1) False show ?thesis
    by (simp add: tracker_def)
qed

lemma create_tracked:
  "tracked e (tracker w) \<Longrightarrow> tracked e (tracker (snd (handle_backup_create e cfg r w)))"
  unfolding handle_backup_create_def Let_def
  by (auto intro!: start_op_tracked simp: job_ok_def split: option.split)

lemma restore_tracked:
  "tracked e (tracker w) \<Longrightarrow> tracked e (tracker (snd (handle_backup_restore e cfg r w)))"
  unfolding handle_backup_restore_def Let_def
  by (auto intro!: start_op_tracked simp: job_ok_def split: option.split)

lemma tracker_forget: "tracker (snd (handle_backup_forget e cfg r w)) = tracker w"
proof -
  have "tracker v = tracker w" if "exec_script e a s w = (p, v)" for a s p v
    using tracker_io(5) [of e a s w] that by simp
  then show ?thesis
    unfolding handle_backup_forget_def Let_def by (auto simp: tracker_simps split: option.split prod.split)
qed

lemma tracker_forget_older: "tracker (snd (handle_backup_forget_older e cfg r w)) = tracker w"
proof -
  have run: "tracker v = tracker u" if "exec_script e a s u = (p, v)" for a s p u v
    using tracker_io(5) [of e a s u] that by simp
  have "tracker v = tracker u" if "forget_older e cfg d r u = (rs, v)" for d rs u v
    using that by (auto simp: forget_older_def Let_def tracker_simps split: prod.splits option.splits dest: run)
  then have "tracker (release_lock v) = tracker w" if "forget_older e cfg d r (w\<lparr>bk_lock := True\<rparr>) = (rs, v)" "\<not> bk_lock w" for d rs v
    using that by (fastforce simp: tracker_def release_lock_def)
  then show ?thesis
    unfolding handle_backup_forget_older_def try_acquire_def Let_def by (auto split: option.split prod.split)
qed

lemma emit_all:
  "fold (op_emit i) evs w = w\<lparr>bk_ops := map (\<lambda>op. if bo_id op = i
     then op\<lparr>bo_logs := bo_logs op @ map (split_frame \<circ> sse_frame) evs\<rparr> else op) (bk_ops w)\<rparr>"
proof (induction evs arbitrary: w)
  case Nil
  have "(\<lambda>op :: backup_op. if bo_id op = i then op\<lparr>bo_logs := bo_logs op @ map (split_frame \<circ> sse_frame) []\<rparr> else op) = id"
    by (rule ext) simp
  then show ?case by simp
next
  case (Cons ev evs)
  show ?case by (simp add: Cons.IH) (simp add: op_emit_def update_op_def op_append_def)
qed

text \<open>The operation after its goroutine ran: its buffer holds all events, and it is done.\<close>

definition ended_op :: "sse_event list \<Rightarrow> gotime \<Rightarrow> bool \<Rightarrow> backup_op \<Rightarrow> backup_op" where
  "ended_op evs t failed op = op\<lparr>bo_logs := bo_logs op @ map (split_frame \<circ> sse_frame) evs,
     bo_done := True, bo_failed := failed, bo_done_at := t\<rparr>"

lemma run_job_world:
  assumes "job_work e cfg j w = (res, evs, w1)"
  shows "run_job e cfg i j w = w1\<lparr>bk_lock := False, bk_ops := map (\<lambda>op. if bo_id op = i
     then ended_op (evs @ [final_event j res]) (now w1) (failed_res res) op else op) (bk_ops w)\<rparr>"
proof -
  have "bk_ops w1 = bk_ops w" using sameD [OF same_job assms] by (simp add: tracker_def)
  then show ?thesis
    unfolding run_job_def assms prod.case emit_all release_lock_def update_op_def
    by (simp add: op_finish_def ended_op_def)
qed

lemma run_next_tracked:
  assumes "tracked e (tracker w)"
  shows "tracked e (tracker (run_next_job e cfg w))" and "\<not> bk_lock (run_next_job e cfg w)"
proof -
  have "tracked e (tracker (run_next_job e cfg w)) \<and> \<not> bk_lock (run_next_job e cfg w)"
  proof (cases "bk_lock w")
    case True
    then obtain i j where t: "bk_jobs w = [(i, j)]" "distinct (map bo_id (bk_ops w))"
      "\<forall>op \<in> set (bk_ops w). bo_done op \<longleftrightarrow> bo_id op \<noteq> i"
      using assms by (auto simp: tracked_def tracker_def)
    obtain res evs w1 where j: "job_work e cfg j (w\<lparr>bk_jobs := []\<rparr>) = (res, evs, w1)" by (metis prod_cases3)
    have "bk_jobs w1 = []" using sameD [OF same_job j] by (simp add: tracker_def)
    moreover have "(\<lambda>op. bo_id (if bo_id op = i then ended_op x y z op else op)) = bo_id" for x y z
      by (rule ext) (simp add: ended_op_def)
    ultimately show ?thesis
      using t unfolding run_next_job_def t(1) list.case prod.case run_job_world [OF j]
      by (auto simp: tracked_def tracker_def comp_def ended_op_def)
  next
    case False
    with assms have "bk_jobs w = []" by (auto simp: tracked_def tracker_def)
    with False assms show ?thesis by (simp add: run_next_job_def)
  qed
  then show "tracked e (tracker (run_next_job e cfg w))" "\<not> bk_lock (run_next_job e cfg w)" by auto
qed

lemma janitor_tracked:
  assumes "tracked e (tracker w)"
  shows "tracked e (tracker (janitor w))"
proof -
  let ?keep = "\<lambda>op. \<not> (bo_done op \<and> bo_done_at op < now w - 30 * second)"
  have "distinct (map bo_id (filter ?keep ops))" if "distinct (map bo_id ops)" for ops
    using that by (simp add: distinct_map_filter)
  moreover have "i \<in> bo_id ` set (filter ?keep (bk_ops w))"
    if "i \<in> bo_id ` set (bk_ops w)" "\<forall>op \<in> set (bk_ops w). bo_done op \<longleftrightarrow> bo_id op \<noteq> i" for i
    using that by auto
  ultimately show ?thesis
    using assms by (auto simp: tracked_def tracker_def janitor_def split: if_splits)
qed

lemma tracker_list_recipes: "tracker (snd (list_recipes e cfg rs w)) = tracker w"
proof (induction rs arbitrary: w)
  case (Cons r rs)
  obtain l w1 where 1: "list_snapshots_for_tag e cfg (rc_id r) w = (l, w1)" by fastforce
  have "tracker w1 = tracker w" using tracker_list [of e cfg "[rc_id r]" w] 1 by (simp add: list_snapshots_for_tag_def)
  with 1 Cons [of w1] show ?case by (auto split: prod.split)
qed simp

lemma tracker_sizes: "tracker (snd (size_all e cfg ids w)) = tracker w"
proof (induction ids arbitrary: w)
  case (Cons i ids)
  obtain n w1 where 1: "snapshot_on_disk_bytes e cfg i w = (n, w1)" by fastforce
  have "tracker w1 = tracker w"
    using 1 by (auto simp: snapshot_on_disk_bytes_def exec_def tracker_def split: option.splits if_splits prod.splits)
  with 1 Cons [of w1] show ?case by (auto split: prod.split)
qed simp

lemma tracker_index: "tracker (snd (handle_backup_index e cfg r w)) = tracker w"
proof -
  have stats: "tracker (snd (repo_stats e cfg v)) = tracker v" for v
    by (auto simp: repo_stats_def exec_def tracker_def split: option.splits prod.splits)
  have view: "tracker (snd (build_backup_page_view e cfg expand csrf v)) = tracker v" for expand csrf v
    unfolding build_backup_page_view_def Let_def
    using tracker_list_recipes [of e cfg "backup_recipes e" v] stats tracker_sizes
    by (auto split: prod.split) (metis snd_conv)
  have "tracker (snd (ensure_csrf e r w)) = tracker w"
    using tracker_io(6) by (auto simp: ensure_csrf_def new_csrf_token_def split: option.split prod.split) (metis snd_conv)+
  then show ?thesis
    unfolding handle_backup_index_def with_token_def
    using view by (auto split: prod.split option.split) (metis snd_conv)+
qed

text \<open>Everything the backup page, its goroutines and the rest of the server do, in any order.\<close>

inductive backup_step :: "env \<Rightarrow> config \<Rightarrow> world \<Rightarrow> world \<Rightarrow> bool" for e cfg where
  overview: "backup_step e cfg w (snd (handle_backup_index e cfg r w))"
| create: "backup_step e cfg w (snd (handle_backup_create e cfg r w))"
| restore: "backup_step e cfg w (snd (handle_backup_restore e cfg r w))"
| forget: "backup_step e cfg w (snd (handle_backup_forget e cfg r w))"
| forget_older: "backup_step e cfg w (snd (handle_backup_forget_older e cfg r w))"
| download: "backup_step e cfg w (snd (handle_backup_download e cfg r w))"
| events: "backup_step e cfg w (snd (handle_backup_events e cfg r w))"
| goroutine: "backup_step e cfg w (run_next_job e cfg w)"
| janitor: "backup_step e cfg w (janitor w)"
| elsewhere: "tracker w' = tracker w \<Longrightarrow> backup_step e cfg w w'"

lemma step_tracked: "backup_step e cfg w w' \<Longrightarrow> tracked e (tracker w) \<Longrightarrow> tracked e (tracker w')"
proof (induction rule: backup_step.induct)
  case (download w r)
  then show ?case
    by (auto simp: handle_backup_download_def tracker_simps Let_def split: sum.split)
next
  case (events w r)
  then show ?case by (auto simp: handle_backup_events_def Let_def split: option.split)
qed (simp_all add: tracker_index create_tracked restore_tracked tracker_forget tracker_forget_older run_next_tracked
    janitor_tracked)

lemma steps_tracked: "(backup_step e cfg)\<^sup>*\<^sup>* w w' \<Longrightarrow> tracked e (tracker w) \<Longrightarrow> tracked e (tracker w')"
  by (induction rule: rtranclp_induct) (auto dest: step_tracked)

lemma tracked_running:
  assumes "tracked e (tracker w)"
  shows "length (filter (\<lambda>op. \<not> bo_done op) (bk_ops w)) = (if bk_lock w then 1 else 0)"
    "current_op w = None \<longleftrightarrow> \<not> bk_lock w"
proof -
  have d: "distinct (map bo_id (bk_ops w))" using assms by (auto simp: tracked_def tracker_def)
  show n: "length (filter (\<lambda>op. \<not> bo_done op) (bk_ops w)) = (if bk_lock w then 1 else 0)"
  proof (cases "bk_lock w")
    case True
    then obtain i where i: "i \<in> bo_id ` set (bk_ops w)" "\<forall>op \<in> set (bk_ops w). bo_done op \<longleftrightarrow> bo_id op \<noteq> i"
      using assms by (auto simp: tracked_def tracker_def)
    have f: "filter (\<lambda>op. \<not> bo_done op) (bk_ops w) = filter (\<lambda>op. bo_id op = i) (bk_ops w)"
      by (rule filter_cong) (use i(2) in auto)
    have "length (filter (\<lambda>op. bo_id op = i) ops) = 1" if "distinct (map bo_id ops)" "i \<in> bo_id ` set ops" for ops
      using that by (induction ops) (auto simp: filter_empty_conv, metis image_eqI)
    with d i(1) True show ?thesis unfolding f by simp
  next
    case False
    with assms show ?thesis by (auto simp: tracked_def tracker_def filter_empty_conv)
  qed
  show "current_op w = None \<longleftrightarrow> \<not> bk_lock w"
    using n by (auto simp: current_op_def find_None_iff filter_empty_conv split: if_splits)
      (metis (no_types, lifting) filter_False length_0_conv n zero_neq_one)
qed

text \<open>C13. From a server that is idle, whatever requests, goroutines and janitor ticks follow in any
  order: at most one operation is running, exactly while the lock is taken; a request that would
  start another is refused and changes nothing; and once the goroutine has run, the lock is free
  and no operation is left running, whatever failed in it.\<close>

theorem one_operation:
  assumes "(backup_step e cfg)\<^sup>*\<^sup>* w0 w" and "tracked e (tracker w0)"
  shows "length (filter (\<lambda>op. \<not> bo_done op) (bk_ops w)) = (if bk_lock w then 1 else 0)
    \<and> (if bk_lock w then start_op e stack verb job r w
         = (http_error ''another backup or restore operation is already in progress'' 409, w) else current_op w = None)
    \<and> \<not> bk_lock (run_next_job e cfg w) \<and> current_op (run_next_job e cfg w) = None"
proof -
  have t: "tracked e (tracker w)" using steps_tracked [OF assms] .
  note n = run_next_tracked [OF t, of cfg]
  show ?thesis
    using tracked_running [OF t] n(2) tracked_running(2) [OF n(1)]
    by (auto simp: start_op_def try_acquire_def)
qed

definition backup_request :: "string \<Rightarrow> (string \<times> string) list \<Rightarrow> request" where
  "backup_request p form = sample_request\<lparr>rq_method := ''POST'', rq_path := p, rq_form := form,
     rq_headers := [(''X-Enrol-User'', ''root'')]\<rparr>"

theorem one_operation_witness:
  "bk_lock (snd (handle_backup_create calm_env sample_config (backup_request ''/backup/create'' [(''stack'', ''enrol'')]) blank_world))
   \<and> fst (start_op calm_env ''all'' ''create'' (CreateJob ''all'' ''eve'') sample_request
       (snd (handle_backup_create calm_env sample_config (backup_request ''/backup/create'' [(''stack'', ''enrol'')]) blank_world)))
     = http_error ''another backup or restore operation is already in progress'' 409"
proof -
  let ?w = "snd (handle_backup_create calm_env sample_config (backup_request ''/backup/create'' [(''stack'', ''enrol'')]) blank_world)"
  have "(backup_step calm_env sample_config)\<^sup>*\<^sup>* blank_world ?w" by (rule r_into_rtranclp) (rule backup_step.create)
  moreover have "tracked calm_env (tracker blank_world)" by (simp add: tracked_def tracker_def blank_world_def)
  moreover have "bk_lock ?w" by code_simp
  ultimately show ?thesis using one_operation [of calm_env sample_config blank_world ?w "''all''" "''create''" "CreateJob ''all'' ''eve''" sample_request]
    by simp
qed

end
