(* ===== verification/BackupRuns.thy ===== *)
theory BackupRuns
  imports BackupSpec
begin

text \<open>
  What one backup, one restore and one retention pass do: which snapshots a pass drops, that
  every stack gets its turn, that the staged dump is removed, that a restore saves first, and
  what a browser sees of it.
\<close>

subsection \<open>Retention\<close>

lemma sorted_insert_by:
  fixes key :: "'a \<Rightarrow> int"
  assumes "sorted_wrt (\<lambda>a b. key a \<le> key b) xs"
  shows "sorted_wrt (\<lambda>a b. key a \<le> key b) (insert_by (\<lambda>a b. key a < key b) x xs)"
  using assms by (induction xs) auto

lemma sorted_sort_by:
  fixes key :: "'a \<Rightarrow> int"
  shows "sorted_wrt (\<lambda>a b. key a \<le> key b) (sort_by (\<lambda>a b. key a < key b) xs)"
proof -
  have "sorted_wrt (\<lambda>a b. key a \<le> key b) (fold (insert_by (\<lambda>a b. key a < key b)) xs acc)"
    if "sorted_wrt (\<lambda>a b. key a \<le> key b) acc" for acc
    using that by (induction xs arbitrary: acc) (auto intro: sorted_insert_by)
  then show ?thesis by (simp add: sort_by_def)
qed

text \<open>C26. A retention pass splits the snapshots of a listing in two: it forgets the older part and keeps the
  newer one, which has as many as the count says (all, when there are fewer; none for a count
  below zero).\<close>

theorem retention_keeps_newest:
  "\<exists>drops kept. mset snaps = mset drops + mset kept \<and> snapshots_to_forget snaps keep = map sn_id drops
     \<and> int (length kept) = min (int (length snaps)) (max 0 keep)
     \<and> (\<forall>d \<in> set drops. \<forall>k \<in> set kept. sn_time d \<le> sn_time k)"
proof -
  let ?s = "sort_by (\<lambda>a b. sn_time a < sn_time b) snaps" and ?k = "nat (max 0 keep)"
  let ?n = "length ?s - ?k"
  have sorted: "sorted_wrt (\<lambda>a b. sn_time a \<le> sn_time b) (take ?n ?s @ drop ?n ?s)"
    using sorted_sort_by [of sn_time snaps] by simp
  have le: "\<forall>d \<in> set (take ?n ?s). \<forall>k \<in> set (drop ?n ?s). sn_time d \<le> sn_time k"
    using sorted unfolding sorted_wrt_append by blast
  have m: "mset snaps = mset (take ?n ?s) + mset (drop ?n ?s)"
    by (metis append_take_drop_id mset_append mset_sort_by)
  have l: "int (length (drop ?n ?s)) = min (int (length snaps)) (max 0 keep)" by simp
  have "snapshots_to_forget snaps keep = map sn_id (take ?n ?s)"
    by (auto simp: snapshots_to_forget_def Let_def sort_by_def)
  with le m l show ?thesis by blast
qed

definition sample_snapshot :: "gotime \<Rightarrow> restic_snapshot" where
  "sample_snapshot t = \<lparr>sn_id = ''s'' @ show_int t, sn_time = t, sn_tags = [''cloud'', ''daily''], sn_paths = [],
     sn_hostname = ''vps'', sn_summary = None\<rparr>"

theorem retention_keeps_newest_witness:
  "\<exists>drops kept. mset [sample_snapshot 5, sample_snapshot 3] = mset drops + mset kept
     \<and> map sn_id drops = [''s3''] \<and> length kept = 1 \<and> (\<forall>d \<in> set drops. \<forall>k \<in> set kept. sn_time d \<le> sn_time k)"
proof -
  have "snapshots_to_forget [sample_snapshot 5, sample_snapshot 3] 1 = [''s3'']" by code_simp
  moreover obtain drops kept where "mset [sample_snapshot 5, sample_snapshot 3] = mset drops + mset kept"
    "snapshots_to_forget [sample_snapshot 5, sample_snapshot 3] 1 = map sn_id drops"
    "int (length kept) = 1" "\<forall>d \<in> set drops. \<forall>k \<in> set kept. sn_time d \<le> sn_time k"
    using retention_keeps_newest [of "[sample_snapshot 5, sample_snapshot 3]" 1] by auto
  ultimately show ?thesis by (intro exI [of _ drops] exI [of _ kept]) simp
qed

subsection \<open>What the engine may do\<close>

text \<open>The engine emits no final event, and commands are only added to the history.\<close>

fun is_progress :: "sse_event \<Rightarrow> bool" where
  "is_progress (SseStatus s m) = True"
| "is_progress (SseLog l) = True"
| "is_progress (SseError s m) = False"
| "is_progress (SseDone p) = False"

definition advances :: "world \<Rightarrow> sse_event list \<Rightarrow> world \<Rightarrow> bool" where
  "advances w evs w' \<longleftrightarrow> list_all is_progress evs \<and> (\<exists>rest. cmds w' = cmds w @ rest)"

interpretation engine: effect_order advances
  by unfold_locales (auto simp: advances_def)

named_theorems advance_intros

lemmas [advance_intros] = engine.moves_intros

lemma advances_world:
  "advances w [] (snd (remove_all e p w))" "advances w [] (snd (mkdir_all e p w))" "advances w [] (write_audit e p x w)"
  "advances w [] (snd (run_pg_dump_to_file e pg p w))" "advances w [] (snd (list_snapshots e cfg tags w))"
  by (auto simp: advances_def remove_all_def mkdir_all_def write_audit_def list_snapshots_def exec_def
      run_pg_dump_to_file_def write_file_def split: option.splits node.splits sum.splits prod.splits if_splits)

lemma advances_status [advance_intros]: "moves advances (status s m)" "moves advances (emit (SseLog l))"
  unfolding status_def by (rule engine.moves_emit; simp add: advances_def)+

lemma advances_stream [advance_intros]: "moves advances (stream_cmd e argv)"
  by (auto simp: moves_def stream_cmd_def exec_script_def advances_def list_all_iff split: prod.split)

lemma advances_annotate [advance_intros]: "moves advances m \<Longrightarrow> moves advances (annotate pre m)"
  unfolding annotate_def by (rule engine.moves_map_error)

lemma advances_compose [advance_intros]: "moves advances (compose_service_cmd e r verb)"
  unfolding compose_service_cmd_def Let_def by (auto intro!: advance_intros)

lemma advances_restart: "advances w (fst (restart_services e r w)) (snd (restart_services e r w))"
  using advances_compose [of e r "''start''"] unfolding moves_def restart_services_def
  by (auto simp: advances_def split: prod.split sum.split dest!: spec [of _ w])

lemma advances_services [advance_intros]: "moves advances m \<Longrightarrow> moves advances (with_services_stopped e r m)"
  unfolding with_services_stopped_def by (auto intro!: advance_intros advances_restart)

lemma advances_snapshot [advance_intros]: "moves advances (snapshot_paths e cfg r kind ps)"
  unfolding snapshot_paths_def by (auto intro!: advance_intros)

lemma advances_backup [advance_intros]: "moves advances (run_backup e cfg r kind)"
  unfolding run_backup_def Let_def
  by (auto intro!: advance_intros simp: advances_world split: option.split)

lemma advances_audit [advance_intros]: "moves advances (audited e cfg a b c d n)"
  unfolding audited_def by (auto intro!: advance_intros simp: advances_world)

lemma advances_pg_restore [advance_intros]: "moves advances (run_pg_dump_restore e cfg r pg snap)"
  by (auto simp: moves_def run_pg_dump_restore_def exec_def advances_def split: sum.split prod.split)

lemma advances_restore [advance_intros]: "moves advances (run_restore e cfg r snap actor)"
  unfolding run_restore_def Let_def
  by (auto intro!: advance_intros simp: advances_world split: option.split)

lemma advances_each [advance_intros]: "moves advances (backup_each e cfg kind actor rs)"
  by (induction rs) (auto intro!: advance_intros split: sum.split)

lemma advances_audit_forgotten [advance_intros]: "moves advances (audit_forgotten e cfg kind actor t is)"
  by (induction "is") (auto intro!: advance_intros)

lemma advances_retain [advance_intros]: "moves advances (retain_recipe e cfg kind keep actor r)"
  unfolding retain_recipe_def Let_def
  by (auto intro!: advance_intros simp: list_snapshots_for_recipe_and_kind_def advances_world split: sum.split)

lemma advances_retain_each [advance_intros]: "moves advances (retain_each e cfg kind keep actor rs)"
  by (induction rs) (auto intro!: advance_intros)

lemma advances_backup_all [advance_intros]: "moves advances (run_backup_all e cfg kind actor)"
  unfolding run_backup_all_def run_retention_def by (auto intro!: advance_intros)

lemma advances_job: "moves advances (job_work e cfg j)"
  unfolding job_work_def create_one_def restore_one_def
  by (auto intro!: advance_intros split: backup_job.split option.split sum.split)

subsection \<open>Every stack gets its turn\<close>

definition start_event :: "string \<Rightarrow> backup_recipe \<Rightarrow> sse_event" where
  "start_event kind r = SseStatus (rc_id r @ '':'' @ kind) (''starting '' @ kind @ '' backup of '' @ rc_display r)"

lemma and_then_events: "set (fst (snd (m w))) \<subseteq> set (fst (snd (and_then m f w)))"
  by (auto simp: and_then_def split: prod.split sum.split)

lemma backup_starts: "start_event kind r \<in> set (fst (snd (run_backup e cfg r kind w)))"
proof -
  have "start_event kind r \<in> set (fst (snd (status (rc_id r @ '':'' @ kind) (''starting '' @ kind @ '' backup of '' @ rc_display r) w)))"
    by (simp add: status_def emit_def start_event_def)
  then show ?thesis unfolding run_backup_def Let_def using and_then_events by blast
qed

lemma each_starts:
  "\<exists>failed evs w'. backup_each e cfg kind actor rs w = (Inr failed, evs, w')
     \<and> set failed \<subseteq> rc_id ` set rs \<and> (\<forall>r \<in> set rs. start_event kind r \<in> set evs)"
proof (induction rs arbitrary: w)
  case Nil
  then show ?case by (simp add: give_def)
next
  case (Cons r rs)
  obtain x evs1 w1 where b: "run_backup e cfg r kind w = (x, evs1, w1)" by (metis prod_cases3)
  have s: "start_event kind r \<in> set evs1" using backup_starts [of kind r e cfg w] b by simp
  have au: "audited e cfg a bb c d n v = (Inr (), [], write_audit e (audit_path cfg) (entry a bb c d n) v)" for a bb c d n v
    by (simp add: audited_def quietly_def)
  show ?case
  proof (cases x)
    case (Inl err)
    obtain failed evs w' where "backup_each e cfg kind actor rs (write_audit e (audit_path cfg)
        (entry (audit_action_for_kind kind) actor (rc_id r) ''fail'' (err_text err)) w1) = (Inr failed, evs, w')"
      "set failed \<subseteq> rc_id ` set rs" "\<forall>r \<in> set rs. start_event kind r \<in> set evs"
      using Cons by meson
    then show ?thesis using b Inl s by (auto simp: and_then_def attempt_def emit_def au give_def)
  next
    case (Inr y)
    obtain failed evs w' where "backup_each e cfg kind actor rs (write_audit e (audit_path cfg)
        (entry (audit_action_for_kind kind) actor (rc_id r) ''ok'' (''tag='' @ kind)) w1) = (Inr failed, evs, w')"
      "set failed \<subseteq> rc_id ` set rs" "\<forall>r \<in> set rs. start_event kind r \<in> set evs"
      using Cons by meson
    then show ?thesis using b Inr s by (auto simp: and_then_def attempt_def au)
  qed
qed

abbreviation never_fails :: "unit work \<Rightarrow> bool" where
  "never_fails m \<equiv> triple (\<lambda>_. True) m (\<lambda>_ _. True) (\<lambda>_. False)"

lemma attempt_ends: "triple (\<lambda>_. True) (attempt m) (\<lambda>_ _. True) (\<lambda>_. False)"
  by (auto simp: triple_def attempt_def split: prod.split)

lemma audit_ends: "never_fails (audited e cfg a b c d n)"
  by (simp add: triple_def audited_def quietly_def)

lemma audit_forgotten_ends: "never_fails (audit_forgotten e cfg kind actor t is)"
  by (induction "is") (auto intro!: triple_give triple_and_then [OF audit_ends])

lemma retain_ends: "never_fails (retain_recipe e cfg kind keep actor r)"
  unfolding retain_recipe_def Let_def
  by (rule triple_and_then [OF attempt_ends])
    (auto intro!: triple_give triple_emit audit_forgotten_ends triple_and_then [OF triple_emit [of _ "\<lambda>_ _. True"]]
      triple_and_then [OF attempt_ends] split: sum.split)

lemma retention_ends: "never_fails (retain_each e cfg kind keep actor rs)"
  by (induction rs) (auto intro!: triple_give triple_and_then [OF retain_ends])

text \<open>C27. However many stacks fail, the nightly run starts the backup of every active stack, and ends: with
  success, or with an error that names only active stacks.\<close>

theorem every_stack_starts:
  "\<exists>res evs w'. run_backup_all e cfg kind actor w = (res, evs, w')
     \<and> start_event kind ` set (backup_recipes e) \<subseteq> set evs
     \<and> (res = Inr () \<or> (\<exists>failed. failed \<noteq> [] \<and> set failed \<subseteq> rc_id ` set (backup_recipes e)
          \<and> res = Inl (Failure (''backup completed with failures: '' @ join '', '' failed))))"
proof -
  obtain failed evs w1 where f: "backup_each e cfg kind actor (backup_recipes e) w = (Inr failed, evs, w1)"
    "set failed \<subseteq> rc_id ` set (backup_recipes e)" "\<forall>r \<in> set (backup_recipes e). start_event kind r \<in> set evs"
    using each_starts by meson
  obtain evs2 w2 where "retain_each e cfg kind (backup_retention_daily cfg) actor (backup_recipes e) w1 = (Inr (), evs2, w2)"
    using retention_ends [of e cfg kind _ actor] unfolding triple_def
    by (force split: prod.splits sum.splits)
  then have "\<exists>evs2 w2. (if kind = ''daily'' then run_retention e cfg kind (backup_retention_daily cfg) actor else give ()) w1
      = (Inr (), evs2, w2)" by (auto simp: run_retention_def give_def)
  with f show ?thesis
    by (auto simp: run_backup_all_def and_then_def status_def emit_def give_up_def)
qed

subsection \<open>The staged dump\<close>

definition gone :: "string \<Rightarrow> world \<Rightarrow> bool" where
  "gone p w \<longleftrightarrow> (\<forall>q. q = p \<or> has_prefix q (p @ ''/'') \<longrightarrow> files w q = None)"

lemma gone_removed: "io_fault e (OpRemoveAll p) = None \<Longrightarrow> gone p (snd (remove_all e p w))"
  by (simp add: gone_def remove_all_def)

lemma triple_finally: "(\<And>w. R (snd (k w))) \<Longrightarrow> triple P (finally_do m k) (\<lambda>_. R) R"
  by (auto simp: triple_def finally_do_def split: prod.split sum.split) (metis snd_conv)+

lemma triple_quietly:
  "(\<And>w err w'. P w \<Longrightarrow> m w = (Inl err, w') \<Longrightarrow> E w') \<Longrightarrow> (\<And>w x w'. P w \<Longrightarrow> m w = (Inr x, w') \<Longrightarrow> Q x w') \<Longrightarrow>
   triple P (quietly m) Q E"
  by (auto simp: triple_def quietly_def split: prod.split sum.split)

text \<open>C28. However a backup of a stack with a database ends, its plaintext dump is no longer on the disk of
  the container (for a stack whose services are not stopped, which is every stack of the table).\<close>

theorem dump_never_stays:
  assumes "rc_pg_dump r = Some pg" and "rc_stop_services r = []" and "io_fault e (OpRemoveAll (stage_dir r)) = None"
    and "run_backup e cfg r kind w = (res, evs, w')" and "q = stage_dir r \<or> has_prefix q (stage_dir r @ ''/'')"
  shows "files w' q = None"
proof -
  let ?g = "gone (stage_dir r)"
  have rm: "?g (snd (remove_all e (stage_dir r) v))" for v by (rule gone_removed [OF assms(3)])
  have "triple ?g (annotate ''mkdir stage: '' (quietly (mkdir_all e (stage_dir r)))) (\<lambda>_ _. True) ?g"
    unfolding annotate_def
    by (intro triple_map_error triple_quietly) (auto simp: mkdir_all_def split: option.splits node.splits)
  moreover have "triple (\<lambda>_. True) (quietly (\<lambda>w. (Inr (), snd (remove_all e (stage_dir r) w)))) (\<lambda>_. ?g) ?g"
    by (rule triple_quietly) (auto simp: rm)
  moreover have "triple P (finally_do m (\<lambda>w. ([], snd (remove_all e (stage_dir r) w)))) (\<lambda>_. ?g) ?g" for P and m :: "unit work"
    by (rule triple_finally) (simp add: rm)
  ultimately have "triple (\<lambda>_. True) (run_backup e cfg r kind) (\<lambda>_. ?g) ?g"
    unfolding run_backup_def with_services_stopped_def assms(1,2) Let_def status_def
    by (auto intro!: triple_and_then [OF triple_emit [of _ "\<lambda>_ _. True"]] intro: triple_and_then)
  then have "?g w'" using assms(4) by (cases res) (auto simp: triple_def dest!: spec [of _ w])
  with assms(5) show ?thesis by (auto simp: gone_def)
qed

subsection \<open>A restore saves first\<close>

definition backup_argv :: "config \<Rightarrow> string \<Rightarrow> backup_recipe \<Rightarrow> string list \<Rightarrow> string list" where
  "backup_argv cfg kind r ps = restic_argv cfg ([''backup'', ''--tag'', kind, ''--tag'', rc_id r, ''--host'', ''vps'', ''--quiet''] @ ps)"

text \<open>From command number \<open>n\<close> on, restic took a snapshot of all files of the stack without an error.\<close>

definition saved :: "env \<Rightarrow> config \<Rightarrow> backup_recipe \<Rightarrow> string \<Rightarrow> nat \<Rightarrow> world \<Rightarrow> bool" where
  "saved e cfg r kind n w \<longleftrightarrow>
     (\<exists>h ps rest. cmds w = h @ [(backup_argv cfg kind r ps, [])] @ rest \<and> n \<le> length h \<and> set (rc_paths r) \<subseteq> set ps
        \<and> pr_error (run e h (backup_argv cfg kind r ps, [])) = None)"

lemma saved_advances: "advances w evs w' \<Longrightarrow> saved e cfg r kind n w \<Longrightarrow> saved e cfg r kind n w'"
  unfolding saved_def advances_def by (metis append.assoc)

lemma triple_advance:
  "moves advances m \<Longrightarrow> (\<And>w evs w'. advances w evs w' \<Longrightarrow> P w \<Longrightarrow> P w') \<Longrightarrow> triple P m (\<lambda>_. P) (\<lambda>_. True)"
  unfolding triple_def moves_def by (fastforce split: prod.splits sum.splits)

lemma triple_finally_advance:
  assumes "triple P m (\<lambda>_. Q) (\<lambda>_. True)" and "\<And>w. advances w (fst (k w)) (snd (k w))"
    and "\<And>w evs w'. advances w evs w' \<Longrightarrow> Q w \<Longrightarrow> Q w'"
  shows "triple P (finally_do m k) (\<lambda>_. Q) (\<lambda>_. True)"
  using assms unfolding triple_def finally_do_def
  by (auto split: prod.splits sum.splits) (metis fst_conv snd_conv)

lemma snapshot_saves:
  assumes "set (rc_paths r) \<subseteq> set ps" and "ps \<noteq> []"
  shows "triple (\<lambda>w. n \<le> length (cmds w)) (snapshot_paths e cfg r kind ps) (\<lambda>_. saved e cfg r kind n) (\<lambda>_. True)"
proof -
  have "triple (\<lambda>w. n \<le> length (cmds w)) (stream_cmd e (backup_argv cfg kind r ps)) (\<lambda>_. saved e cfg r kind n) (\<lambda>_. True)"
    using assms(1) by (auto simp: triple_def stream_cmd_def exec_script_def saved_def split: option.split)
  then show ?thesis
    using assms(2) unfolding snapshot_paths_def annotate_def status_def backup_argv_def
    by (auto intro!: triple_and_then [OF triple_emit [of _ "\<lambda>_ w. n \<le> length (cmds w)"]] triple_map_error)
qed

lemma backup_saves:
  assumes "rc_paths r \<noteq> []"
  shows "triple (\<lambda>w. n \<le> length (cmds w)) (run_backup e cfg r kind) (\<lambda>_. saved e cfg r kind n) (\<lambda>_. True)"
proof -
  let ?P = "\<lambda>w. n \<le> length (cmds w)" and ?Q = "saved e cfg r kind n"
  have P: "moves advances m \<Longrightarrow> triple ?P m (\<lambda>_. ?P) (\<lambda>_. True)" for m :: "unit work"
    by (rule triple_advance) (auto simp: advances_def)
  have Q: "moves advances m \<Longrightarrow> triple ?Q m (\<lambda>_. ?Q) (\<lambda>_. True)" for m :: "unit work"
    by (rule triple_advance) (auto intro: saved_advances)
  have snap: "triple ?P (and_then (snapshot_paths e cfg r kind ps) (\<lambda>_. status s m)) (\<lambda>_. ?Q) (\<lambda>_. True)"
    if "set (rc_paths r) \<subseteq> set ps" "ps \<noteq> []" for ps s m
    by (rule triple_and_then [OF snapshot_saves [OF that] Q]) (rule advance_intros)
  have fin: "triple ?P m (\<lambda>_. ?Q) (\<lambda>_. True) \<Longrightarrow> triple ?P (finally_do m k) (\<lambda>_. ?Q) (\<lambda>_. True)"
    if "\<And>w. advances w (fst (k w)) (snd (k w))" for m :: "unit work" and k
    by (rule triple_finally_advance [OF _ that]) (auto intro: saved_advances)
  have stopped: "triple ?P m (\<lambda>_. ?Q) (\<lambda>_. True) \<Longrightarrow> triple ?P (with_services_stopped e r m) (\<lambda>_. ?Q) (\<lambda>_. True)" for m
    unfolding with_services_stopped_def
    by (auto intro!: triple_and_then [OF P] advance_intros fin advances_restart)
  show ?thesis
  proof (cases "rc_pg_dump r")
    case None
    then show ?thesis
      unfolding run_backup_def Let_def using assms
      by (auto intro!: triple_and_then [OF P] advance_intros stopped snap)
  next
    case (Some pg)
    have rm: "moves advances (quietly (\<lambda>w. (Inr (), snd (remove_all e (stage_dir r) w))) :: unit work)"
      by (rule engine.moves_quietly) (simp add: advances_world)
    have mk: "moves advances (annotate a (quietly (mkdir_all e (stage_dir r))))" for a
      by (intro advance_intros) (simp add: advances_world)
    have pd: "moves advances (annotate a (quietly (run_pg_dump_to_file e pg (dump_path r))))" for a
      by (intro advance_intros) (simp add: advances_world)
    show ?thesis
      unfolding run_backup_def Let_def Some option.case
      by (intro triple_and_then [OF P] advances_status stopped rm mk fin pd snap)
        (auto simp: advances_world)
  qed
qed

text \<open>C16. A restore first takes a snapshot of the files it is about to overwrite. When that fails the
  restore stops there, with its error and nothing else done; otherwise everything it does comes
  after a successful snapshot of all paths of the stack. A stack that must not be restored is
  refused before anything happens.\<close>

theorem restore_saves_first:
  assumes "rc_paths r \<noteq> []" and "run_restore e cfg r snap actor w = (res, evs, w')"
  shows "if rc_restorable r
    then (case run_backup e cfg r ''pre_restore'' w of
        (Inl err, evs1, w1) \<Rightarrow> res = Inl (prefix_err ''pre-restore snapshot: '' err) \<and> w' = w1
      | (Inr _, evs1, w1) \<Rightarrow> saved e cfg r ''pre_restore'' (length (cmds w)) w1 \<and> (\<exists>rest. cmds w' = cmds w1 @ rest))
    else (\<exists>err. res = Inl err) \<and> evs = [] \<and> w' = w"
proof (cases "rc_restorable r")
  case False
  then show ?thesis using assms(2) by (auto simp: run_restore_def give_up_def)
next
  case True
  obtain x evs1 w1 where b: "run_backup e cfg r ''pre_restore'' w = (x, evs1, w1)" by (metis prod_cases3)
  define rest where "rest = (\<lambda>_ :: unit. and_then (quietly (\<lambda>w. (Inr (), write_audit e (audit_path cfg)
          (entry ''backup.restore.rollback'' actor (rc_id r) ''ok''
             (''auto pre-restore snapshot before restore of '' @ snap)) w))) (\<lambda>_.
        and_then (if rc_stop_services r = [] then give () else status (rc_id r @ '':restore'') ''stopping services'') (\<lambda>_.
        with_services_stopped e r
          (and_then (if rc_paths r = [] then give ()
             else and_then (status (rc_id r @ '':restore'') ''restic restore (files)'') (\<lambda>_.
                  annotate ''restic restore: '' (stream_cmd e (restic_argv cfg (restore_args r snap))))) (\<lambda>_.
           and_then (case rc_pg_dump r of
               None \<Rightarrow> give ()
             | Some pg \<Rightarrow> and_then (status (rc_id r @ '':restore'') ''restic dump | psql (Postgres)'') (\<lambda>_.
                 annotate ''psql restore: '' (run_pg_dump_restore e cfg r pg snap))) (\<lambda>_.
           status (rc_id r @ '':restore'') ''restore complete''))))))"
  have m: "moves advances (rest u)" for u
    unfolding rest_def by (auto intro!: advance_intros simp: advances_world split: option.split)
  have run: "run_restore e cfg r snap actor w = and_then (status (rc_id r @ '':restore'') ''taking pre-restore safety snapshot'')
      (\<lambda>_. and_then (annotate ''pre-restore snapshot: '' (run_backup e cfg r ''pre_restore'')) rest) w"
    using True by (simp add: run_restore_def rest_def Let_def)
  show ?thesis
  proof (cases x)
    case (Inl err)
    then show ?thesis
      using assms(2) True b unfolding run by (auto simp: and_then_def status_def emit_def annotate_def map_error_def)
  next
    case (Inr u)
    obtain r2 evs2 w2 where r2: "rest u w1 = (r2, evs2, w2)" by (metis prod_cases3)
    have "w' = w2" using assms(2) b Inr r2 unfolding run by (auto simp: and_then_def status_def emit_def annotate_def map_error_def)
    moreover have "\<exists>more. cmds w2 = cmds w1 @ more" using movesD [OF m r2] by (simp add: advances_def)
    moreover have "saved e cfg r ''pre_restore'' (length (cmds w)) w1"
      using backup_saves [OF assms(1), of "length (cmds w)" e cfg "''pre_restore''"] b Inr
      by (auto simp: triple_def dest!: spec [of _ w])
    ultimately show ?thesis using True b Inr by simp
  qed
qed

subsection \<open>What the browser sees\<close>

lemma split_sse_frame:
  assumes "CHR 10 \<notin> set (sse_payload ev)"
  shows "split_frame (sse_frame ev) = (sse_name ev, sse_payload ev)"
proof -
  have n: "CHR 10 \<notin> set (''event: '' @ sse_name ev)" by (cases ev) auto
  have d: "CHR 10 \<notin> set (''data: '' @ sse_payload ev)" using assms by simp
  have f: "sse_frame ev = ((''event: '' @ sse_name ev) @ CHR 10 # (''data: '' @ sse_payload ev)) @ [CHR 10, CHR 10]"
    by (simp add: sse_frame_def sse_emit_def)
  have "trim_suffix (s @ t) t = s" for s t :: string
    by (simp add: trim_suffix_def has_suffix_def)
  then have "trim_suffix (sse_frame ev) [CHR 10, CHR 10]
      = (''event: '' @ sse_name ev) @ CHR 10 # (''data: '' @ sse_payload ev)" by (simp only: f)
  then show ?thesis
    unfolding split_frame_def using split_on_append_sep [OF n] split_on_single [OF d]
    by (simp add: trim_prefix_def has_prefix_def)
qed

lemma progress_frames:
  assumes "list_all is_progress evs"
  shows "map frame_text (map (split_frame \<circ> sse_frame) (evs @ [final_event j res])) = map sse_frame (evs @ [final_event j res])"
    "until_final (map (split_frame \<circ> sse_frame) (evs @ [final_event j res])) = map (split_frame \<circ> sse_frame) (evs @ [final_event j res])"
proof -
  have fin: "CHR 10 \<notin> set (sse_payload (final_event j res))" "sse_name (final_event j res) \<in> {''done'', ''error''}"
    by (intro sse_payload_no_newline) (auto simp: final_event_def ok_payload_def split: sum.splits)
  have pr: "CHR 10 \<notin> set (sse_payload ev) \<and> sse_name ev \<notin> {''done'', ''error''}" if "is_progress ev" for ev
    using that go_quote_no_newline by (cases ev) (auto simp: step_msg_def)
  have fr: "frame_text (split_frame (sse_frame ev)) = sse_frame ev" if "CHR 10 \<notin> set (sse_payload ev)" for ev
    using split_sse_frame [OF that] by (simp add: frame_text_def sse_frame_def)
  show "map frame_text (map (split_frame \<circ> sse_frame) (evs @ [final_event j res])) = map sse_frame (evs @ [final_event j res])"
    using assms pr fin(1) fr by (auto simp: list_all_iff)
  show "until_final (map (split_frame \<circ> sse_frame) (evs @ [final_event j res])) = map (split_frame \<circ> sse_frame) (evs @ [final_event j res])"
    using assms
  proof (induction evs)
    case Nil
    then show ?case using fin split_sse_frame [OF fin(1)] by auto
  next
    case (Cons ev evs)
    then show ?case using pr [of ev] split_sse_frame [of ev] by auto
  qed
qed

text \<open>C22. Who asks for the events of an operation after its goroutine has run gets exactly the frames it
  emitted, in order, the last one telling how it ended; so does who follows it from the start.\<close>

theorem events_complete:
  assumes "bk_jobs w = (i, j) # js" and "get_op i w = Some op" and "bo_logs op = []"
    and "job_work e cfg j (w\<lparr>bk_jobs := js\<rparr>) = (res, evs, w1)"
    and "rq_method r = ''GET''" and "go_trim_space (query_value r ''op'') = i" and "i \<noteq> []"
  shows "rs_body (fst (handle_backup_events e cfg r (run_next_job e cfg w)))
      = Text (concat (map sse_frame (evs @ [final_event j res])))
    \<and> map frame_text (stream_frames (bo_logs op) False (map (split_frame \<circ> sse_frame) (evs @ [final_event j res])))
      = map sse_frame (evs @ [final_event j res])"
proof -
  have p: "list_all is_progress evs" using movesD [OF advances_job assms(4)] by (simp add: advances_def)
  note frames = progress_frames [OF p, of j res]
  let ?f = "\<lambda>op. if bo_id op = i then ended_op (evs @ [final_event j res]) (now w1) (failed_res res) op else op"
  have b: "bk_ops (run_next_job e cfg w) = map ?f (bk_ops w)"
    using assms(1) run_job_world [OF assms(4), of i] by (simp add: run_next_job_def)
  have id: "bo_id op = i" and fnd: "find (\<lambda>op. bo_id op = i) (bk_ops w) = Some op"
    using assms(2) by (auto simp: get_op_def find_Some_iff)
  have "find (\<lambda>op. bo_id op = i) (map ?f ops) = map_option ?f (find (\<lambda>op. bo_id op = i) ops)" for ops
    by (induction ops) (auto simp: ended_op_def)
  then have g: "get_op i (run_next_job e cfg w) = Some (ended_op (evs @ [final_event j res]) (now w1) (failed_res res) op)"
    using fnd id b by (simp add: get_op_def)
  define fs where "fs = map (split_frame \<circ> sse_frame) (evs @ [final_event j res])"
  show ?thesis
    unfolding frames(1) [symmetric] using assms(3,5-7) g frames(2)
    unfolding ended_op_def fs_def [symmetric]
    by (simp add: handle_backup_events_def Let_def stream_frames_def respond_def)
qed

text \<open>Who subscribes while the operation runs and looks whether it is done only after it ended gets
  the frames up to the subscription and no final one, although the code takes it for complete.\<close>

theorem reader_misses_end:
  assumes "list_all is_progress seen" and "list_all is_progress evs"
  shows "stream_frames (map (split_frame \<circ> sse_frame) seen) True (map (split_frame \<circ> sse_frame) (evs @ [final_event j res]))
      = map (split_frame \<circ> sse_frame) seen
    \<and> split_frame (sse_frame (final_event j res)) \<notin> set (map (split_frame \<circ> sse_frame) seen)"
proof -
  have "CHR 10 \<notin> set (sse_payload (final_event j res))" "sse_name (final_event j res) \<in> {''done'', ''error''}"
    by (intro sse_payload_no_newline) (auto simp: final_event_def ok_payload_def split: sum.splits)
  note fin = split_sse_frame [OF this(1)] this(2)
  have "split_frame (sse_frame ev) \<noteq> split_frame (sse_frame (final_event j res))" if "is_progress ev" for ev
  proof -
    have "CHR 10 \<notin> set (sse_payload ev)" using that go_quote_no_newline by (cases ev) (auto simp: step_msg_def)
    from split_sse_frame [OF this] fin that show ?thesis by (cases ev) auto
  qed
  then show ?thesis using assms(1) by (auto simp: stream_frames_def list_all_iff) (metis)
qed

subsection \<open>Retention across stacks\<close>

text \<open>Restic's documented reading of several \<open>--tag\<close> options: a snapshot is listed when it has any of
  them. The comment of the code expects all of them.\<close>

definition tags_any :: "env \<Rightarrow> config \<Rightarrow> restic_snapshot list \<Rightarrow> cmd list \<Rightarrow> bool" where
  "tags_any e cfg repo h \<longleftrightarrow>
     (\<forall>ts. let p = run e h (restic_argv cfg (''snapshots'' # concat (map (\<lambda>t. [''--tag'', t]) ts) @ [''--json'']), []) in
        pr_error p = None
        \<and> decode_snapshots e (pr_stdout p) = Inr (filter (\<lambda>s. \<exists>t \<in> set ts. t \<in> set (sn_tags s)) repo))"


subsection \<open>The download\<close>

lemma zip_walk_stops:
  "(\<forall>x \<in> set ps. snd (zip_entry e cfg x w)) \<Longrightarrow> \<not> snd (zip_entry e cfg p w) \<Longrightarrow>
   zip_walk e cfg (ps @ p # qs) w = zip_walk e cfg (ps @ [p]) w"
  by (induction ps) (auto split: prod.splits)

text \<open>C38. When a file of the repository cannot be read, the download is still answered with success and a
  well-formed archive: it lacks every file after that one, and nothing tells the reader so.\<close>

theorem download_incomplete:
  assumes "handle_backup_download e cfg r w = (rs, w')" and "rq_method r = ''GET''" and "current_op w = None"
    and "stat_file e (backup_repo_dir cfg) w = Inr n" and "stat_file e (backup_password_file cfg) w = Inr m"
    and "zip_add_file e (backup_password_file cfg) ''restic-password'' w' = (es, True)"
    and "list_tree e (files w') (backup_repo_dir cfg) = ps @ p # qs"
    and "\<forall>x \<in> set ps. snd (zip_entry e cfg x w')" and "\<not> snd (zip_entry e cfg p w')"
  shows "rs_status rs = 200 \<and> rs_body rs = Text (zip_bytes e (es @ zip_walk e cfg (ps @ [p]) w'))"
proof -
  have z: "backup_zip e cfg w' = es @ zip_walk e cfg (ps @ [p]) w'"
    using assms(6,7) zip_walk_stops [OF assms(8,9), of qs] by (simp add: backup_zip_def)
  show ?thesis
    using assms(1-5) unfolding z [symmetric] by (auto simp: handle_backup_download_def Let_def respond_def)
qed

subsection \<open>Concrete runs\<close>

definition stack_recipe :: "string \<Rightarrow> backup_recipe" where
  "stack_recipe i = hd (filter (\<lambda>r. rc_id r = i) all_backup_recipes)"

theorem dump_never_stays_witness:
  "files (snd (snd (run_backup calm_env sample_config (stack_recipe ''task'') ''daily'' blank_world)))
     ''/tmp/enrol-backup-stage/task/task-db.sql'' = None"
proof -
  obtain pg where pg: "rc_pg_dump (stack_recipe ''task'') = Some pg" "rc_stop_services (stack_recipe ''task'') = []"
    by (simp add: stack_recipe_def all_backup_recipes_def)
  obtain res evs w' where r: "run_backup calm_env sample_config (stack_recipe ''task'') ''daily'' blank_world = (res, evs, w')"
    by (metis prod_cases3)
  have "has_prefix ''/tmp/enrol-backup-stage/task/task-db.sql'' (stage_dir (stack_recipe ''task'') @ ''/'')" by code_simp
  with dump_never_stays [OF pg _ r] show ?thesis using r by simp
qed

theorem restore_saves_first_witness:
  "\<exists>evs1 w1. run_backup calm_env sample_config (stack_recipe ''authelia'') ''pre_restore'' blank_world = (Inr (), evs1, w1)
     \<and> saved calm_env sample_config (stack_recipe ''authelia'') ''pre_restore'' 0 w1
     \<and> (\<exists>rest. cmds (snd (snd (run_restore calm_env sample_config (stack_recipe ''authelia'') ''a1'' ''root'' blank_world)))
          = cmds w1 @ rest)"
proof -
  let ?r = "stack_recipe ''authelia''"
  obtain res evs w' where r: "run_restore calm_env sample_config ?r ''a1'' ''root'' blank_world = (res, evs, w')"
    by (metis prod_cases3)
  have f: "rc_paths ?r \<noteq> []" "rc_restorable ?r" by (simp_all add: stack_recipe_def all_backup_recipes_def)
  have "(case fst (run_backup calm_env sample_config ?r ''pre_restore'' blank_world) of Inr _ \<Rightarrow> True | _ \<Rightarrow> False)" by code_simp
  then obtain evs1 w1 where "run_backup calm_env sample_config ?r ''pre_restore'' blank_world = (Inr (), evs1, w1)"
    by (cases "run_backup calm_env sample_config ?r ''pre_restore'' blank_world") (auto split: sum.splits)
  with restore_saves_first [OF f(1) r] f(2) r show ?thesis by simp
qed

theorem events_complete_witness:
  "\<exists>evs res. rs_body (fst (handle_backup_events calm_env sample_config
        (sample_request\<lparr>rq_query := [(''op'', ''enrol:create:00000000'')]\<rparr>)
        (run_next_job calm_env sample_config (snd (handle_backup_create calm_env sample_config
           (backup_request ''/backup/create'' [(''stack'', ''enrol'')]) blank_world)))))
      = Text (concat (map sse_frame (evs @ [final_event (CreateJob ''enrol'' ''root'') res])))"
proof -
  let ?w = "snd (handle_backup_create calm_env sample_config (backup_request ''/backup/create'' [(''stack'', ''enrol'')]) blank_world)"
  let ?r = "sample_request\<lparr>rq_query := [(''op'', ''enrol:create:00000000'')]\<rparr>"
  have j: "bk_jobs ?w = [(''enrol:create:00000000'', CreateJob ''enrol'' ''root'')]" by code_simp
  have "(case get_op ''enrol:create:00000000'' ?w of Some op \<Rightarrow> bo_logs op = [] | None \<Rightarrow> False)" by code_simp
  then obtain op where op: "get_op ''enrol:create:00000000'' ?w = Some op" "bo_logs op = []" by (auto split: option.splits)
  obtain res evs w1 where work: "job_work calm_env sample_config (CreateJob ''enrol'' ''root'') (?w\<lparr>bk_jobs := []\<rparr>) = (res, evs, w1)"
    by (metis prod_cases3)
  have q: "rq_method ?r = ''GET''" "go_trim_space (query_value ?r ''op'') = ''enrol:create:00000000''" by code_simp+
  show ?thesis
    using events_complete [OF j op work q(1,2)] by blast
qed

theorem reader_misses_end_witness:
  "stream_frames [split_frame (sse_frame (SseLog ''a''))] True
       (map (split_frame \<circ> sse_frame) [SseLog ''b'', final_event (CreateJob ''all'' ''root'') (Inr ())])
     = [split_frame (sse_frame (SseLog ''a''))]"
  using reader_misses_end [of "[SseLog ''a'']" "[SseLog ''b'']" "CreateJob ''all'' ''root''" "Inr ()"] by simp

text \<open>A repository with an old manual snapshot of one stack and a new nightly one of another.\<close>

definition tag_env :: env where
  "tag_env = calm_env\<lparr>
     run := (\<lambda>h c. if ''snapshots'' \<in> set (fst c)
       then proc_ok\<lparr>pr_stdout := (if ''cloud'' \<in> set (fst c) \<or> ''manual'' \<in> set (fst c) then ''A'' else [])
         @ (if ''enrol'' \<in> set (fst c) \<or> ''daily'' \<in> set (fst c) then ''B'' else []) @ ''.''\<rparr>
       else proc_ok),
     json_decode := (\<lambda>s. Some (JArr
       ((if CHR ''A'' \<in> set s then [JObj [(''id'', JStr ''aaa''), (''time'', JStr ''1970-01-01T00:00:01Z''),
           (''tags'', JArr [JStr ''cloud'', JStr ''manual''])]] else [])
        @ (if CHR ''B'' \<in> set s then [JObj [(''id'', JStr ''bbb''), (''time'', JStr ''1970-01-01T00:00:02Z''),
           (''tags'', JArr [JStr ''enrol'', JStr ''daily''])]] else []))))\<rparr>"

definition tag_repo :: "restic_snapshot list" where
  "tag_repo =
     [\<lparr>sn_id = ''aaa'', sn_time = second, sn_tags = [''cloud'', ''manual''], sn_paths = [], sn_hostname = [], sn_summary = None\<rparr>,
      \<lparr>sn_id = ''bbb'', sn_time = 2 * second, sn_tags = [''enrol'', ''daily''], sn_paths = [], sn_hostname = [], sn_summary = None\<rparr>]"

lemma tag_env_any: "tags_any tag_env sample_config tag_repo h"
proof -
  have d: "decode_snapshots tag_env ''.'' = Inr []" "decode_snapshots tag_env ''A.'' = Inr [hd tag_repo]"
    "decode_snapshots tag_env ''B.'' = Inr (tl tag_repo)" "decode_snapshots tag_env ''AB.'' = Inr tag_repo"
    by code_simp+
  have t: "tag_repo = [hd tag_repo, hd (tl tag_repo)]" "sn_tags (hd tag_repo) = [''cloud'', ''manual'']"
    "sn_tags (hd (tl tag_repo)) = [''enrol'', ''daily'']" "tl tag_repo = [hd (tl tag_repo)]"
    by (simp_all add: tag_repo_def)
  show ?thesis
    unfolding tags_any_def Let_def
  proof (intro allI)
    fix ts
    let ?argv = "restic_argv sample_config (''snapshots'' # concat (map (\<lambda>t. [''--tag'', t]) ts) @ [''--json''])"
    define a where "a \<longleftrightarrow> ''cloud'' \<in> set ts \<or> ''manual'' \<in> set ts"
    define b where "b \<longleftrightarrow> ''enrol'' \<in> set ts \<or> ''daily'' \<in> set ts"
    have argv: "x \<in> set ?argv \<longleftrightarrow> x \<in> set ts" if "x \<in> {''cloud'', ''manual'', ''enrol'', ''daily''}" for x
      using that by (auto simp: restic_argv_def sample_config_def)
    have "''snapshots'' \<in> set ?argv" by (simp add: restic_argv_def)
    then have run: "run tag_env h (?argv, []) = proc_ok\<lparr>pr_stdout := (if a then ''A'' else []) @ (if b then ''B'' else []) @ ''.''\<rparr>"
      using argv by (simp add: tag_env_def a_def b_def)
    have "filter (\<lambda>s. \<exists>t \<in> set ts. t \<in> set (sn_tags s)) tag_repo
        = (if a then [hd tag_repo] else []) @ (if b then tl tag_repo else [])"
      by (auto simp: tag_repo_def a_def b_def)
    moreover have "tag_repo = hd tag_repo # tl tag_repo" by (simp add: tag_repo_def)
    ultimately show "pr_error (run tag_env h (?argv, [])) = None
        \<and> decode_snapshots tag_env (pr_stdout (run tag_env h (?argv, []))) = Inr (filter (\<lambda>s. \<exists>t \<in> set ts. t \<in> set (sn_tags s)) tag_repo)"
      unfolding run using d by (cases a; cases b) simp_all
  qed
qed


definition torn_env :: env where
  "torn_env = calm_env\<lparr>io_fault := (\<lambda>op. if op = OpRead ''/x/data'' then Some ''read: input/output error'' else None),
     list_tree := (\<lambda>_ _. [''/x'', ''/x/data'', ''/x/keys'']), zip_bytes := (\<lambda>es. concat (map (\<lambda>x. fst x @ ''|'') es))\<rparr>"

definition repo_world :: world where
  "repo_world = blank_world\<lparr>files := [''/x'' \<mapsto> Dir, ''/y'' \<mapsto> File (Bytes ''pw''),
     ''/x/data'' \<mapsto> File (Bytes ''d''), ''/x/keys'' \<mapsto> File (Bytes ''k'')]\<rparr>"

theorem download_incomplete_witness:
  "rs_status (fst (handle_backup_download torn_env sample_config sample_request repo_world)) = 200
   \<and> rs_body (fst (handle_backup_download torn_env sample_config sample_request repo_world)) = Text ''restic-password|restic/data|''"
proof -
  obtain rs w' where r: "handle_backup_download torn_env sample_config sample_request repo_world = (rs, w')" by fastforce
  have w': "w' = snd (handle_backup_download torn_env sample_config sample_request repo_world)" using r by simp
  have f: "rq_method sample_request = ''GET''" by (simp add: sample_request_def)
  have c: "current_op repo_world = None" by (simp add: current_op_def repo_world_def blank_world_def)
  have s: "stat_file torn_env (backup_repo_dir sample_config) repo_world = Inr Dir"
    "stat_file torn_env (backup_password_file sample_config) repo_world = Inr (File (Bytes ''pw''))" by code_simp+
  have z: "zip_add_file torn_env (backup_password_file sample_config) ''restic-password'' w' = ([(''restic-password'', Some ''pw'')], True)"
    unfolding w' by code_simp
  have t: "list_tree torn_env (files w') (backup_repo_dir sample_config) = [''/x''] @ ''/x/data'' # [''/x/keys'']"
    by (simp add: torn_env_def)
  have ok: "\<forall>x \<in> set [''/x'']. snd (zip_entry torn_env sample_config x w')" unfolding w' by code_simp
  have bad: "\<not> snd (zip_entry torn_env sample_config ''/x/data'' w')" unfolding w' by code_simp
  have "zip_bytes torn_env ([(''restic-password'', Some ''pw'')] @ zip_walk torn_env sample_config ([''/x''] @ [''/x/data'']) w')
      = ''restic-password|restic/data|''" unfolding w' by code_simp
  with download_incomplete [OF r f c s z t ok bad] r show ?thesis by simp
qed

end
