(* ===== verification/Routes.thy ===== *)
theory Routes
  imports UserHandlers PeerHandlers LauncherHandlers Finalize BackupHandlers HttpSpec
begin

text \<open>
  The server as a whole: the logout page (\<open>logout.go\<close>), the table of routes with the gate of
  each, the dispatch of \<open>http.ServeMux\<close>, the gate between the wizard and the daily surface
  (\<open>server.go\<close>), and the start of the process (\<open>main.go\<close>). Paths are taken without escapes, and
  the query a redirect repeats is left out. The file server under \<open>/static/\<close> is a parameter.
\<close>

subsection \<open>Functions of the templates\<close>

definition tmpl_gb :: "env \<Rightarrow> int \<Rightarrow> string" where
  "tmpl_gb e n = fixed1 e n (2 ^ 30)"

fun index_in :: "string \<Rightarrow> string list \<Rightarrow> int" where
  "index_in s [] = - 1"
| "index_in s (x # xs) = (if x = s then 0 else (let i = index_in s xs in if i < 0 then i else i + 1))"

definition setup_step_done :: "string \<Rightarrow> string \<Rightarrow> bool" where
  "setup_step_done cur target =
     (let order = [''welcome'', ''domain'', ''dns'', ''admin'', ''storage'', ''finalize'', ''done''];
          ci = index_in cur order; ti = index_in target order in
      if ci < 0 \<or> ti < 0 then False else ti < ci)"

definition storage_by_name :: "user_storage list \<Rightarrow> string \<rightharpoonup> user_storage" where
  "storage_by_name rows = map_of (rev (map (\<lambda>r. (us_name r, r)) rows))"

definition pretty_bytes :: "env \<Rightarrow> int \<Rightarrow> string" where
  "pretty_bytes e n =
     (if n \<ge> 2 ^ 30 then fixed1 e n (2 ^ 30) @ '' GiB''
      else if n \<ge> 2 ^ 20 then fixed1 e n (2 ^ 20) @ '' MiB''
      else if n \<ge> 2 ^ 10 then fixed1 e n (2 ^ 10) @ '' KiB''
      else show_int n @ '' B'')"

subsection \<open>The logout page\<close>

definition logout_page :: "string \<Rightarrow> string" where
  "logout_page d =
     (let q = [CHR 34]; ell = [CHR 0xE2, CHR 0x80, CHR 0xA6] in text_of
      [''<!doctype html>'',
       ''<html lang='' @ q @ ''en'' @ q @ ''><head>'',
       ''<meta charset='' @ q @ ''utf-8'' @ q @ ''>'',
       ''<title>Logging out'' @ ell @ ''</title>'',
       ''<style>'',
       ''  body { font-family: system-ui, -apple-system, sans-serif;'',
       ''         text-align: center; margin-top: 6em; color: #555; }'',
       ''  .spinner { display: inline-block; width: 28px; height: 28px;'',
       ''             border: 3px solid #ddd; border-top-color: #777;'',
       ''             border-radius: 50%; animation: spin 0.8s linear infinite;'',
       ''             margin-bottom: 1em; }'',
       ''  @keyframes spin { to { transform: rotate(360deg); } }'',
       ''  iframe { position: absolute; left: -9999px; width: 1px; height: 1px; border: 0; }'',
       ''</style>'',
       ''</head><body>'',
       ''<div class='' @ q @ ''spinner'' @ q @ ''></div>'',
       ''<p>Logging you out of all apps'' @ ell @ ''</p>'',
       ''<iframe src='' @ q @ ''https://task.'' @ d @ ''/logout'' @ q @ ''></iframe>'',
       ''<iframe src='' @ q @ ''https://cloud.'' @ d @ ''/index.php/logout'' @ q @ ''></iframe>'',
       ''<script>'',
       ''setTimeout(function () {'',
       ''  window.location.href = '' @ q @ ''https://auth.'' @ d @ ''/logout?rd=https://enrol.'' @ d @ ''/'' @ q @ '';'',
       ''}, 1500);'',
       ''</script>''] @ ''</body></html>'')"

definition handle_logout :: "config \<Rightarrow> page handler" where
  "handle_logout cfg r w =
     (respond 200 [(''Content-Type'', ''text/html; charset=utf-8''), (''Cache-Control'', ''no-store'')]
        (Text (logout_page (domain cfg))), w)"

subsection \<open>The table\<close>

definition handle_static :: "page handler \<Rightarrow> page handler" where
  "handle_static fs r w =
     (if \<not> has_prefix (rq_path r) ''/static/'' then (not_found, w)
      else (case fs (r\<lparr>rq_path := trim_prefix (rq_path r) ''/static/''\<rparr>) w of
              (rs, w1) \<Rightarrow> (rs\<lparr>rs_headers := (''Cache-Control'', ''no-cache, must-revalidate'') # rs_headers rs\<rparr>, w1)))"

definition public_routes :: "env \<Rightarrow> config \<Rightarrow> page handler \<Rightarrow> (string \<times> page handler) list" where
  "public_routes e cfg fs =
     [(''/healthz'', handle_healthz e cfg), (''/healthz/awg'', handle_healthz_awg e cfg),
      (''/static/'', handle_static fs), (''/logout'', handle_logout cfg)]"

definition setup_routes :: "env \<Rightarrow> config \<Rightarrow> (string \<times> page handler) list" where
  "setup_routes e cfg =
     [(''/setup'', handle_setup_root e cfg), (''/setup/'', handle_setup_sub e cfg),
      (''/setup/events'', handle_setup_events e cfg)]"

definition user_routes :: "env \<Rightarrow> config \<Rightarrow> (string \<times> page handler) list" where
  "user_routes e cfg = map (\<lambda>(p, h). (p, require_auth cfg False h))
     [(''/'', with_csrf e cfg (handle_launcher e cfg)), (''/launcher/icons/'', handle_launcher_icon e cfg),
      (''/account'', handle_account e cfg), (''/account/password'', with_csrf e cfg (handle_account_password e cfg)),
      (''/peers'', with_csrf e cfg (handle_peers e cfg)), (''/peers/'', with_csrf e cfg (handle_peer_sub e cfg))]"

definition admin_routes :: "env \<Rightarrow> config \<Rightarrow> (string \<times> page handler) list" where
  "admin_routes e cfg = map (\<lambda>(p, h). (p, require_admin cfg h))
     [(''/launcher/apps'', with_csrf e cfg (handle_launcher_add_app e cfg)),
      (''/launcher/apps/'', with_csrf e cfg (handle_launcher_app_sub e cfg)),
      (''/audit'', handle_audit e cfg),
      (''/users'', with_csrf e cfg (handle_users e cfg)), (''/users/'', with_csrf e cfg (handle_user_sub e cfg)),
      (''/backup'', handle_backup_index e cfg), (''/backup/create'', with_csrf e cfg (handle_backup_create e cfg)),
      (''/backup/restore'', with_csrf e cfg (handle_backup_restore e cfg)),
      (''/backup/forget'', with_csrf e cfg (handle_backup_forget e cfg)),
      (''/backup/forget-older'', with_csrf e cfg (handle_backup_forget_older e cfg)),
      (''/backup/events'', handle_backup_events e cfg), (''/backup/download'', handle_backup_download e cfg)]"

definition route_table :: "env \<Rightarrow> config \<Rightarrow> page handler \<Rightarrow> (string \<times> page handler) list" where
  "route_table e cfg fs = public_routes e cfg fs @ setup_routes e cfg @ user_routes e cfg @ admin_routes e cfg"

subsection \<open>Dispatch\<close>

definition mux_clean :: "string \<Rightarrow> string" where
  "mux_clean p =
     (if p = [] then ''/''
      else (let q = (if hd p = CHR ''/'' then p else CHR ''/'' # p); c = filepath_clean q in
            if last q = CHR ''/'' \<and> c \<noteq> ''/'' then c @ ''/'' else c))"

text \<open>An exact pattern wins; otherwise the longest pattern that ends in a slash and starts the path.\<close>

definition is_subtree :: "string \<Rightarrow> bool" where
  "is_subtree p \<longleftrightarrow> p \<noteq> [] \<and> last p = CHR ''/''"

definition longer :: "string \<times> 'h \<Rightarrow> (string \<times> 'h) option \<Rightarrow> (string \<times> 'h) option" where
  "longer x best = (case best of None \<Rightarrow> Some x | Some y \<Rightarrow> (if length (fst y) < length (fst x) then Some x else Some y))"

definition mux_match :: "(string \<times> 'h) list \<Rightarrow> string \<Rightarrow> (string \<times> 'h) option" where
  "mux_match table p =
     (case find (\<lambda>x. fst x = p) table of
        Some x \<Rightarrow> Some x
      | None \<Rightarrow> fold longer (filter (\<lambda>x. is_subtree (fst x) \<and> has_prefix p (fst x)) table) None)"

definition mux :: "(string \<times> page handler) list \<Rightarrow> page handler" where
  "mux table r w =
     (let p = mux_clean (rq_path r); exact = find (\<lambda>x. fst x = p) table in
      if exact = None \<and> \<not> is_subtree p \<and> find (\<lambda>x. fst x = p @ ''/'') table \<noteq> None
      then (redirect (p @ ''/'') 301, w)
      else if p \<noteq> rq_path r then (redirect p 301, w)
      else (case mux_match table p of None \<Rightarrow> (not_found, w) | Some (pat, h) \<Rightarrow> h r w))"

definition setup_route_gate :: "env \<Rightarrow> config \<Rightarrow> page handler \<Rightarrow> page handler" where
  "setup_route_gate e cfg next_handler r w =
     (let p = rq_path r; is_setup = (p = ''/setup'' \<or> has_prefix p ''/setup/'') in
      if setup_mode_active e cfg w then
        (if p = ''/'' then handle_setup_root e cfg r w
         else if \<not> is_setup \<and> \<not> has_prefix p ''/static/'' \<and> p \<noteq> ''/healthz'' then (redirect ''/'' 303, w)
         else next_handler r w)
      else if is_setup then (not_found, w)
      else next_handler r w)"

definition routes :: "env \<Rightarrow> config \<Rightarrow> page handler \<Rightarrow> page handler" where
  "routes e cfg fs = setup_route_gate e cfg (mux (route_table e cfg fs))"

subsection \<open>The start of the process\<close>

text \<open>The templates are parsed before; a template that does not parse stops the process too.\<close>

definition new_server :: "env \<Rightarrow> config \<Rightarrow> world \<Rightarrow> unit res \<times> world" where
  "new_server e cfg w =
     (case bootstrap_launcher e (launcher_dir cfg) (domain cfg) (skip_cloud cfg) (skip_task cfg) w of
        (Inl err, w1) \<Rightarrow> (Inl (prefix_err ''bootstrap launcher: '' err), w1)
      | (Inr _, w1) \<Rightarrow>
          (case ensure_archive_dir e cfg w1 of
             (Inl err, w2) \<Rightarrow> (Inl (prefix_err ''ensure peers archive dir: '' err), w2)
           | (Inr _, w2) \<Rightarrow> (Inr (), w2)))"

text \<open>What the process becomes: the command line's exit code, or a server with its routes.\<close>

datatype process = Exited nat "string list" | Serving config

definition run_server :: "env \<Rightarrow> world \<Rightarrow> process \<times> world" where
  "run_server e w =
     (case load_config e w of
        Inl _ \<Rightarrow> (Exited 1 [], w)
      | Inr cfg \<Rightarrow>
          (case new_server e cfg w of
             (Inl _, w1) \<Rightarrow> (Exited 1 [], w1)
           | (Inr _, w1) \<Rightarrow> (Serving cfg, w1)))"

definition main_program :: "env \<Rightarrow> string list \<Rightarrow> world \<Rightarrow> process \<times> world" where
  "main_program e args w =
     (if args \<noteq> [] \<and> hd args = ''backup'' then
        (case run_backup_cli e (tl args) w of (code, out, w1) \<Rightarrow> (Exited code out, w1))
      else run_server e w)"

end
