(* ===== verification/RoutesSpec.thy ===== *)
theory RoutesSpec
  imports Routes PeerSpec
begin

text \<open>
  What the routes promise for every request: the admin pages answer nobody but admins, nothing
  but the public pages answers a request without the secret of the proxy, and the wizard and
  the daily pages are never reachable together.
\<close>

subsection \<open>What the dispatch can pick\<close>

lemma longer_choice: "fold longer xs best = Some x \<Longrightarrow> best = Some x \<or> x \<in> set xs"
proof (induction xs arbitrary: best)
  case (Cons y ys)
  from Cons.IH [of "longer y best"] Cons.prems show ?case
    by (auto simp: longer_def split: option.splits if_splits)
qed simp

lemma mux_match_in: "mux_match table p = Some x \<Longrightarrow> x \<in> set table"
  using longer_choice [of "filter (\<lambda>x. is_subtree (fst x) \<and> has_prefix p (fst x)) table" None x]
  by (auto simp: mux_match_def find_Some_iff split: option.splits)

lemma mux_result:
  assumes "mux table r w = (rs, w')"
  shows "(rs_status rs \<in> {301, 404} \<and> w' = w)
    \<or> (\<exists>p h. mux_match table (mux_clean (rq_path r)) = Some (p, h) \<and> h r w = (rs, w'))"
  using assms by (auto simp: mux_def Let_def redirect_def respond_def not_found_def http_error_def
      split: if_splits option.splits)

lemma table_patterns:
  "map fst (public_routes e cfg fs) = [''/healthz'', ''/healthz/awg'', ''/static/'', ''/logout'']"
  "map fst (setup_routes e cfg) = [''/setup'', ''/setup/'', ''/setup/events'']"
  "map fst (user_routes e cfg) = [''/'', ''/launcher/icons/'', ''/account'', ''/account/password'', ''/peers'', ''/peers/'']"
  "map fst (admin_routes e cfg) = [''/launcher/apps'', ''/launcher/apps/'', ''/audit'', ''/users'', ''/users/'',
     ''/backup'', ''/backup/create'', ''/backup/restore'', ''/backup/forget'', ''/backup/forget-older'',
     ''/backup/events'', ''/backup/download'']"
  by (simp_all add: public_routes_def setup_routes_def user_routes_def admin_routes_def)

lemma table_gates:
  "(p, h) \<in> set (setup_routes e cfg) \<Longrightarrow> \<exists>h'. h = require_setup_token cfg h'"
  "(p, h) \<in> set (user_routes e cfg) \<Longrightarrow> \<exists>h'. h = require_auth cfg False h'"
  "(p, h) \<in> set (admin_routes e cfg) \<Longrightarrow> \<exists>h'. h = require_admin cfg h'"
  by (auto simp: setup_routes_def user_routes_def admin_routes_def handle_setup_root_def handle_setup_sub_def
      handle_setup_events_def)

text \<open>Requests the gates turn away: without the secret of the proxy, and without an admin.\<close>

definition anonymous :: "config \<Rightarrow> request \<Rightarrow> bool" where
  "anonymous cfg r \<longleftrightarrow> forward_auth_secret cfg = [] \<or> get_header r ''X-Forward-Auth-Secret'' \<noteq> forward_auth_secret cfg"

definition not_admin :: "config \<Rightarrow> request \<Rightarrow> bool" where
  "not_admin cfg r \<longleftrightarrow> anonymous cfg r \<or> get_header r (header_user cfg) = []
     \<or> required_group cfg \<notin> set (split_groups (get_header r (header_groups cfg)))"

lemma anonymous_checked: "anonymous cfg r \<Longrightarrow> \<exists>err. check_forward_auth_secret cfg r = Inl err"
  by (auto simp: anonymous_def check_forward_auth_secret_def Let_def)

lemma anonymous_auth: "anonymous cfg r \<Longrightarrow> require_auth cfg need h r w = (rs, w') \<Longrightarrow> rs_status rs = 401 \<and> w' = w"
  using anonymous_checked [of cfg r] by (auto simp: require_auth_def http_error_def respond_def)

lemma anonymous_setup: "anonymous cfg r \<Longrightarrow> require_setup_token cfg h r w = (rs, w') \<Longrightarrow> rs_status rs = 401 \<and> w' = w"
  using anonymous_checked [of cfg r] by (auto simp: require_setup_token_def http_error_def respond_def)

lemma not_admin_refused:
  "not_admin cfg r \<Longrightarrow> require_admin cfg h r w = (rs, w') \<Longrightarrow> rs_status rs \<in> {401, 403} \<and> w' = w"
  by (auto simp: not_admin_def anonymous_def require_admin_def require_auth_def check_forward_auth_secret_def
      auth_from_request_def in_group_def http_error_def respond_def Let_def split: if_splits)

lemma gate_result:
  assumes "routes e cfg fs r w = (rs, w')"
  shows "(rs_status rs \<in> {301, 303, 404} \<and> w' = w)
    \<or> (rq_path r = ''/'' \<and> handle_setup_root e cfg r w = (rs, w'))
    \<or> (\<exists>p h. mux_match (route_table e cfg fs) (mux_clean (rq_path r)) = Some (p, h) \<and> h r w = (rs, w'))"
  using assms mux_result [of "route_table e cfg fs" r w rs w']
  by (auto simp: routes_def setup_route_gate_def Let_def redirect_def respond_def not_found_def http_error_def
      split: if_splits)

text \<open>C1. Whatever the mode of the server and the method, a request without the secret of the proxy gets
  nothing but redirects and refusals from every path outside the four public patterns, and
  changes nothing.\<close>

theorem anonymous_locked_out:
  assumes "anonymous cfg r" and "routes e cfg fs r w = (rs, w')"
    and "\<forall>h. mux_match (route_table e cfg fs) (mux_clean (rq_path r)) \<notin>
       {Some (''/healthz'', h), Some (''/healthz/awg'', h), Some (''/static/'', h), Some (''/logout'', h)}"
  shows "rs_status rs \<in> {301, 303, 401, 404} \<and> w' = w"
proof -
  from gate_result [OF assms(2)] consider
      "rs_status rs \<in> {301, 303, 404} \<and> w' = w" | "handle_setup_root e cfg r w = (rs, w')"
    | p h where "mux_match (route_table e cfg fs) (mux_clean (rq_path r)) = Some (p, h)" "h r w = (rs, w')"
    by blast
  then show ?thesis
  proof cases
    case 2
    then show ?thesis using anonymous_setup [OF assms(1)] unfolding handle_setup_root_def by auto
  next
    case (3 p h)
    have "p \<notin> set (map fst (public_routes e cfg fs))" using 3(1) assms(3) by (auto simp: table_patterns)
    then have "(p, h) \<in> set (setup_routes e cfg @ user_routes e cfg @ admin_routes e cfg)"
      using mux_match_in [OF 3(1)] by (force simp: route_table_def)
    then have "rs_status rs = 401 \<and> w' = w"
      using 3(2) table_gates [of p h e cfg] anonymous_setup [OF assms(1)] anonymous_auth [OF assms(1)]
      unfolding require_admin_def by (metis Un_iff set_append)
    then show ?thesis by simp
  qed auto
qed

text \<open>C2. A request that is not an admin's gets only redirects and refusals from the paths of the admin
  pages, and changes nothing: users, launcher entries, backups and the audit log stay closed.\<close>

theorem admin_pages_closed:
  assumes "not_admin cfg r" and "routes e cfg fs r w = (rs, w')"
    and "mux_match (route_table e cfg fs) (mux_clean (rq_path r)) = Some (p, h)"
    and "p \<in> fst ` set (admin_routes e cfg)"
  shows "rs_status rs \<in> {301, 303, 401, 403, 404} \<and> w' = w"
proof -
  have pats: "p \<in> set (map fst (admin_routes e cfg))" using assms(4) by simp
  have "p \<notin> set (map fst (public_routes e cfg fs @ setup_routes e cfg @ user_routes e cfg))"
    using pats unfolding map_append table_patterns by auto
  then have "(p, h) \<in> set (admin_routes e cfg)"
    using mux_match_in [OF assms(3)] by (force simp: route_table_def)
  then obtain h' where h: "h = require_admin cfg h'" using table_gates(3) by blast
  have "rq_path r \<noteq> ''/''"
  proof
    assume r: "rq_path r = ''/''"
    have "mux_clean ''/'' = ''/''" by code_simp
    moreover have "\<exists>h. find (\<lambda>x. fst x = ''/'') (route_table e cfg fs) = Some (''/'', h)"
      by (simp add: route_table_def public_routes_def setup_routes_def user_routes_def)
    ultimately have "p = ''/''" using assms(3) r by (auto simp: mux_match_def)
    then show False using pats by (simp add: table_patterns)
  qed
  then have "(rs_status rs \<in> {301, 303, 404} \<and> w' = w) \<or> h r w = (rs, w')"
    using gate_result [OF assms(2)] assms(3) by auto
  then show ?thesis using not_admin_refused [OF assms(1), of h' w] unfolding h by auto
qed

text \<open>The wizard and the daily pages exclude each other: while the sentinel is missing every path
  but the wizard's, the static files and the health check leads back to the wizard; once it
  exists the wizard's paths are not found. Neither changes anything.\<close>

theorem modes_exclude:
  "if setup_mode_active e cfg w
   then rq_path r = ''/'' \<or> rq_path r = ''/setup'' \<or> has_prefix (rq_path r) ''/setup/''
     \<or> has_prefix (rq_path r) ''/static/'' \<or> rq_path r = ''/healthz''
     \<or> routes e cfg fs r w = (redirect ''/'' 303, w)
   else (if rq_path r = ''/setup'' \<or> has_prefix (rq_path r) ''/setup/'' then routes e cfg fs r w = (not_found, w) else True)"
  by (simp add: routes_def setup_route_gate_def Let_def)

subsection \<open>Requests of each kind\<close>

definition no_files :: "page handler" where
  "no_files r w = (not_found, w)"

definition forged_request :: "string \<Rightarrow> request" where
  "forged_request p = sample_request\<lparr>rq_method := ''POST'', rq_path := p,
     rq_headers := [(''Remote-User'', ''eve''), (''Remote-Groups'', ''admin'')]\<rparr>"

definition user_request :: "string \<Rightarrow> request" where
  "user_request p = sample_request\<lparr>rq_method := ''POST'', rq_path := p,
     rq_headers := [(''Remote-User'', ''eve''), (''Remote-Groups'', ''users''), (''X-Forward-Auth-Secret'', ''s'')]\<rparr>"

definition day_world :: world where
  "day_world = blank_world\<lparr>files := [''/c'' \<mapsto> File (Bytes ''x'')]\<rparr>"

lemma users_route:
  "\<exists>h. mux_match (route_table e cfg fs) ''/users'' = Some (''/users'', h)"
  by (simp add: mux_match_def route_table_def public_routes_def setup_routes_def user_routes_def admin_routes_def)

theorem anonymous_locked_out_witness:
  "rs_status (fst (routes calm_env sample_config no_files (forged_request ''/users'') day_world)) = 401
   \<and> snd (routes calm_env sample_config no_files (forged_request ''/users'') day_world) = day_world"
proof -
  let ?r = "forged_request ''/users''"
  obtain rs w' where r: "routes calm_env sample_config no_files ?r day_world = (rs, w')" by fastforce
  have a: "anonymous sample_config ?r" by code_simp
  have c: "mux_clean (rq_path ?r) = ''/users''" by code_simp
  have "w' = day_world"
    using anonymous_locked_out [OF a r] users_route [of calm_env sample_config no_files] unfolding c by auto
  moreover have "rs_status (fst (routes calm_env sample_config no_files ?r day_world)) = 401" by code_simp
  ultimately show ?thesis using r by simp
qed

theorem admin_pages_closed_witness:
  "rs_status (fst (routes calm_env sample_config no_files (user_request ''/users'') day_world)) = 403
   \<and> snd (routes calm_env sample_config no_files (user_request ''/users'') day_world) = day_world"
proof -
  let ?r = "user_request ''/users''"
  obtain rs w' where r: "routes calm_env sample_config no_files ?r day_world = (rs, w')" by fastforce
  have a: "not_admin sample_config ?r" by code_simp
  have c: "mux_clean (rq_path ?r) = ''/users''" by code_simp
  obtain h where m: "mux_match (route_table calm_env sample_config no_files) (mux_clean (rq_path ?r)) = Some (''/users'', h)"
    using users_route c by metis
  have "''/users'' \<in> fst ` set (admin_routes calm_env sample_config)" by (simp add: admin_routes_def)
  from admin_pages_closed [OF a r m this] have "w' = day_world" by simp
  moreover have "rs_status (fst (routes calm_env sample_config no_files ?r day_world)) = 403" by code_simp
  ultimately show ?thesis using r by simp
qed

end
