(* ===== verification/EnrolSpec.thy ===== *)
theory EnrolSpec
  imports PeerHandlers PeerSpec UsersSpec HttpSpec
begin

text \<open>
  What adding and deleting a device does to \<open>gw0.conf\<close>: the new block carries a fresh key and an
  address no other block uses, everything else in the file stays, and no two blocks ever come to
  share an address.
\<close>

subsection \<open>The files of the handlers\<close>

text \<open>A plain interface name, rooted directories, and an archive in a directory of its own.\<close>

definition device_dirs_ok :: "config \<Rightarrow> bool" where
  "device_dirs_ok cfg \<longleftrightarrow>
     has_prefix (awg_dir cfg) ''/'' \<and> valid_name (awg_iface cfg) \<and> has_prefix (peers_archive_dir cfg) ''/''
     \<and> path_comps (peers_archive_dir cfg) \<noteq> path_comps (awg_dir cfg)
     \<and> path_comps (peers_archive_dir cfg) \<noteq> path_comps (awg_dir cfg) @ [awg_iface cfg @ ''.conf'']"

lemma join_last: "\<exists>r. join ''/'' (d @ [x]) = r @ x"
  by (cases "d = []") (auto simp: join_snoc intro: exI [of _ "_ @ _"])

lemma conf_path_other:
  assumes "device_dirs_ok cfg"
  shows "conf_path cfg \<noteq> meta_path cfg" "conf_path cfg \<noteq> audit_path cfg" "conf_path cfg \<noteq> p @ ''.tmp''"
proof -
  have c: "conf_path cfg = ''/'' @ join ''/'' (path_comps (awg_dir cfg) @ [awg_iface cfg @ ''.conf''])"
    using assms path_comps_join_name valid_name_plain unfolding conf_path_def device_dirs_ok_def by blast
  have "plain_comp ''peers-meta.json''" "plain_comp ''peers-audit.log''" by code_simp+
  then have m: "meta_path cfg = ''/'' @ join ''/'' (path_comps (awg_dir cfg) @ [''peers-meta.json''])"
    "audit_path cfg = ''/'' @ join ''/'' (path_comps (awg_dir cfg) @ [''peers-audit.log''])"
    using assms path_comps_join_name unfolding meta_path_def audit_path_def device_dirs_ok_def by blast+
  have rev: "take 4 (rev (a @ b @ ''.conf'')) = ''fnoc''" for a b by simp
  obtain r1 r2 r3 where r: "join ''/'' (path_comps (awg_dir cfg) @ [awg_iface cfg @ ''.conf'']) = r1 @ awg_iface cfg @ ''.conf''"
    "join ''/'' (path_comps (awg_dir cfg) @ [''peers-meta.json'']) = r2 @ ''peers-meta.json''"
    "join ''/'' (path_comps (awg_dir cfg) @ [''peers-audit.log'']) = r3 @ ''peers-audit.log''"
    using join_last by meson
  have k: "take 4 (rev (conf_path cfg)) = ''fnoc''" unfolding c r(1) by simp
  show "conf_path cfg \<noteq> meta_path cfg" using k unfolding m r(2) by auto
  show "conf_path cfg \<noteq> audit_path cfg" using k unfolding m r(3) by auto
  show "conf_path cfg \<noteq> p @ ''.tmp''" using k by auto
qed

lemma conf_path_archive:
  assumes "device_dirs_ok cfg" and "valid_name name"
  shows "conf_path cfg \<noteq> projr (archive_path cfg name)" "conf_path cfg \<noteq> peers_archive_dir cfg"
proof -
  let ?d = "path_comps (awg_dir cfg)" and ?a = "path_comps (peers_archive_dir cfg)"
  have c: "conf_path cfg = ''/'' @ join ''/'' (?d @ [awg_iface cfg @ ''.conf''])"
    using assms(1) path_comps_join_name valid_name_plain unfolding conf_path_def device_dirs_ok_def by blast
  have ok: "\<forall>x \<in> set (path_comps s @ [n @ ''.conf'']). CHR ''/'' \<notin> set x \<and> x \<noteq> []" if "valid_name n" for s n
    using path_comps_no_sep path_comps_nonempty valid_name_plain [OF that] by (auto simp: plain_comp_def)
  have a: "archive_path cfg name = Inr (''/'' @ join ''/'' (?a @ [name @ ''.conf'']))"
    using archive_path_eq assms unfolding device_dirs_ok_def by blast
  have v: "valid_name (awg_iface cfg)" using assms(1) by (simp add: device_dirs_ok_def)
  show "conf_path cfg \<noteq> projr (archive_path cfg name)"
    unfolding c a using join_eq_iff [OF ok [OF v] ok [OF assms(2)]] assms(1) by (auto simp: device_dirs_ok_def)
  have "path_comps (conf_path cfg) = ?d @ [awg_iface cfg @ ''.conf'']"
  proof -
    have p: "\<forall>x \<in> set (?d @ [awg_iface cfg @ ''.conf'']). plain_comp x"
      using ok [OF v] path_comps_no_dot path_comps_rooted_no_up assms(1) valid_name_plain [OF v]
      unfolding device_dirs_ok_def plain_comp_def by (metis Un_iff empty_iff insert_iff list.set(1,2) set_append)
    have "split_on CHR ''/'' (conf_path cfg) = [] # ?d @ [awg_iface cfg @ ''.conf'']"
      unfolding c using ok [OF v] by (simp add: split_on_join)
    then show ?thesis using p unfolding path_comps_def [of "conf_path cfg"] by (simp add: clean_comps_plain)
  qed
  then show "conf_path cfg \<noteq> peers_archive_dir cfg" using assms(1) by (auto simp: device_dirs_ok_def)
qed

lemma meta_path_store: "new_meta_store e p w = Inr m \<Longrightarrow> ms_path m = p"
  by (auto simp: new_meta_store_def Let_def split: sum.splits if_splits option.splits)

lemma files_reload_interface: "files (snd (reload_interface e d i w)) = files w"
  by (auto simp: reload_interface_def Let_def exec_def split: option.split)

lemma files_store_meta:
  "(\<And>m. meta = Inr m \<Longrightarrow> q \<noteq> ms_path m \<and> q \<noteq> ms_path m @ ''.tmp'') \<Longrightarrow> files (store_meta e meta p w) q = files w q"
  using atomic_write_frame(1)
  by (auto simp: store_meta_def ms_put_def ms_flush_def ms_set_def Let_def split: sum.split prod.splits option.splits)
    (metis snd_conv)+

lemma files_archive_new:
  assumes "device_dirs_ok cfg"
  shows "files (archive_new e cfg a p conf w) (conf_path cfg) = files w (conf_path cfg)"
proof -
  have "files (snd (archive_write e cfg (p_name p) conf w)) (conf_path cfg) = files w (conf_path cfg)"
  proof (cases "valid_name (p_name p)")
    case True
    note ne = conf_path_other(3) [OF assms] conf_path_archive [OF assms True]
    show ?thesis
      using ne ensure_archive_frame [OF ne(3), of e w] atomic_write_frame(1)
      by (auto simp: archive_write_def split: sum.split prod.split)
  next
    case False
    then show ?thesis by (simp add: archive_write_def archive_path_def)
  qed
  then show ?thesis
    using conf_path_other(2) [OF assms]
    by (auto simp: archive_new_def audit_def frame_simps split: prod.splits sum.splits)
qed

lemma files_finish_add:
  assumes "device_dirs_ok cfg" and "\<And>m. meta = Inr m \<Longrightarrow> ms_path m = meta_path cfg"
  shows "files (snd (finish_add_peer e cfg pc meta p r w)) (conf_path cfg) = files w (conf_path cfg)"
proof -
  note ne = conf_path_other [OF assms(1)]
  have "files (snd (build_setup_help e cfg r p conf w)) = files w" for conf r w
    by (auto simp: build_setup_help_def Let_def qrencode_def exec_def split: sum.split prod.split option.split)
  then have t: "files (snd (with_token e (\<lambda>csrf r w. (g csrf r w, snd (build_setup_help e cfg r p conf w))) r w)) = files w"
    for g conf r w
    by (intro files_with_token) simp
  show ?thesis
    unfolding finish_add_peer_def Let_def case_prod_beta t
    by (simp add: files_archive_new [OF assms(1)] files_store_meta files_reload_interface ne assms(2) audit_def frame_simps)
qed

subsection \<open>Addresses\<close>

lemma append_parsed:
  assumes "solid_text (p_public_key p)" and "solid_text (p_ip p)"
  shows "map kv (pc_peers (parse_conf (append_text raw p)))
      = map kv (pc_peers (parse_conf raw)) @ [(p_public_key p, p_ip p @ ''/32'')]"
    and "pc_params (parse_conf (append_text raw p)) = pc_params (parse_conf raw)"
  using append_parsed_text [OF assms, of raw] by (simp_all add: Let_def)

lemma used_octets_kv: "used_octets pc prefix = concat (map (entry_octets prefix \<circ> snd) (map kv (pc_peers pc)))"
  by (simp add: used_octets_def kv_def comp_def)

lemma subnet_prefix_chars:
  "subnet_prefix c = Inr p \<Longrightarrow> p \<noteq> [] \<and> (\<forall>x \<in> set p. is_digit x \<or> x = CHR ''.'')"
  using show_nat_digits by (auto simp: subnet_prefix_def list_all_iff split: option.splits)

lemma digit_solid: "is_digit x \<Longrightarrow> solid x" "solid CHR ''.''" "solid CHR ''/''"
  by (auto simp: is_digit_def solid_def)

text \<open>The address of a new block, and the octet the parser finds in it.\<close>

lemma new_octet:
  assumes "subnet_prefix c = Inr p" and "0 \<le> n" and "n \<le> 254"
  shows "solid_text (p @ show_int n)" "entry_octets p ((p @ show_int n) @ ''/32'') = [n]"
proof -
  define a where "a = p @ show_int n"
  have s: "show_int n = show_nat (nat n)" using assms(2) by (simp add: show_int_def)
  have d: "\<forall>x \<in> set a. is_digit x \<or> x = CHR ''.''" and ne: "a \<noteq> []"
    using subnet_prefix_chars [OF assms(1)] show_nat_digits [of "nat n"] by (auto simp: s a_def list_all_iff)
  have solid: "solid_text a" using d ne digit_solid unfolding solid_text_def list_all_iff by blast
  then show "solid_text (p @ show_int n)" unfolding a_def .
  have d2: "is_digit (CHR ''3'')" "is_digit (CHR ''2'')" by (simp_all add: is_digit_def)
  have "solid_text (a @ ''/32'')"
    using solid digit_solid d2 by (auto simp: solid_text_def)
  then have t: "go_trim_space (a @ ''/32'') = a @ ''/32''" by (rule trim_solid_text)
  have "\<not> is_digit (CHR '','')" "\<not> is_digit (CHR ''/'')" by (simp_all add: is_digit_def)
  then have no: "CHR '','' \<notin> set (a @ ''/32'')" "CHR ''/'' \<notin> set a"
    using d by auto
  then have h: "hd (split2 CHR ''/'' (a @ ''/32'')) = a"
    by (subst split2_def) (subst takeWhile_append2, auto simp: Let_def)
  have "cidr_octet p (a @ ''/32'') = Some n"
    using h ne atoi_show_nat [of "nat n"] assms(2,3) unfolding cidr_octet_def t Let_def
    by (simp add: a_def s)
  then show "entry_octets p ((p @ show_int n) @ ''/32'') = [n]"
    using no(1) unfolding a_def [symmetric] by (simp add: entry_octets_def split_on_single map_filter_simps)
qed

text \<open>No two blocks of \<open>gw0.conf\<close> use the same octet of the subnet.\<close>

definition unshared :: "env \<Rightarrow> config \<Rightarrow> world \<Rightarrow> bool" where
  "unshared e cfg w =
     (case (load_conf e (conf_path cfg) w, subnet_prefix (peer_subnet cfg)) of
        (Inr pc, Inr prefix) \<Rightarrow> distinct (used_octets pc prefix)
      | _ \<Rightarrow> True)"

lemma load_conf_cong: "files w' p = files w p \<Longrightarrow> load_conf e p w' = load_conf e p w"
  by (simp only: load_conf_def read_file_cong [of w' p w e])

lemma unshared_cong: "files w' (conf_path cfg) = files w (conf_path cfg) \<Longrightarrow> unshared e cfg w' = unshared e cfg w"
  by (simp only: unshared_def load_conf_cong [of w' "conf_path cfg" w e])

lemma load_conf_parsed: "load_conf e p w = Inr pc \<Longrightarrow> pc = parse_conf (pc_raw pc) \<and> io_fault e (OpRead p) = None"
  by (auto simp: load_conf_def read_file_def parse_conf_def Let_def split: sum.splits option.splits)

lemma load_conf_written:
  "files w p = Some (File (Bytes s)) \<Longrightarrow> io_fault e (OpRead p) = None \<Longrightarrow> load_conf e p w = Inr (parse_conf s)"
  by (simp add: load_conf_def read_file_def content_text_def)

lemma atomic_write_result:
  "files (snd (atomic_write e p c w)) p = files w p \<or> files (snd (atomic_write e p c w)) p = Some (File c)"
  by (auto simp: atomic_write_def write_file_def rename_file_def split: option.split sum.split)

lemma unshared_write:
  assumes "unshared e cfg w" and "load_conf e (conf_path cfg) w = Inr pc"
    and "\<And>p. subnet_prefix (peer_subnet cfg) = Inr p \<Longrightarrow> distinct (used_octets pc p) \<Longrightarrow> distinct (used_octets (parse_conf s) p)"
    and "files v (conf_path cfg) = files w (conf_path cfg)"
  shows "unshared e cfg (snd (atomic_write e (conf_path cfg) (Bytes s) v))"
proof -
  let ?v = "snd (atomic_write e (conf_path cfg) (Bytes s) v)"
  consider "files ?v (conf_path cfg) = files w (conf_path cfg)" | "files ?v (conf_path cfg) = Some (File (Bytes s))"
    using atomic_write_result [of e "conf_path cfg" "Bytes s" v] assms(4) by auto
  then show ?thesis
  proof cases
    case 1
    then show ?thesis using unshared_cong assms(1) by blast
  next
    case 2
    have "load_conf e (conf_path cfg) ?v = Inr (parse_conf s)"
      using 2 load_conf_parsed [OF assms(2)] by (intro load_conf_written) auto
    then show ?thesis using assms(1-3) by (simp add: unshared_def split: sum.splits)
  qed
qed

lemma used_octets_of:
  "map kv (pc_peers pc') = map kv es \<Longrightarrow> used_octets pc' p = concat (map (entry_octets p \<circ> e_allowed_ips) es)"
  by (simp add: used_octets_kv kv_def comp_def)

lemma distinct_kept:
  assumes "map kv (pc_peers pc') = map kv (filter P (pc_peers pc))" and "distinct (used_octets pc p)"
  shows "distinct (used_octets pc' p)"
proof -
  have keep: "distinct (concat (map f xs)) \<Longrightarrow> distinct (concat (map f (filter P xs)))"
    for f :: "peer_entry \<Rightarrow> int list" and xs
  proof (induction xs)
    case (Cons x xs)
    let ?c = "\<lambda>xs. concat (map f xs)"
    have d: "distinct (f x)" "distinct (?c xs)" "set (f x) \<inter> set (?c xs) = {}"
      using Cons.prems by (simp_all only: list.map concat.simps distinct_append)
    moreover have "set (?c (filter P xs)) \<subseteq> set (?c xs)" by auto
    ultimately have "distinct (f x @ ?c (filter P xs))"
      unfolding distinct_append using Cons.IH by blast
    then show ?case using Cons.IH [OF d(2)] by (cases "P x") (simp_all only: filter.simps if_True if_False list.map concat.simps)
  qed simp
  show ?thesis unfolding used_octets_of [OF assms(1)] by (rule keep [OF assms(2) [unfolded used_octets_def]])
qed

subsection \<open>Adding a device\<close>

definition new_device :: "env \<Rightarrow> config \<Rightarrow> request \<Rightarrow> world \<Rightarrow> parsed_conf \<Rightarrow> string \<Rightarrow> int \<Rightarrow> peer \<Rightarrow> world \<Rightarrow> bool" where
  "new_device e cfg r w pc prefix n p w1 \<longleftrightarrow>
     load_conf e (conf_path cfg) w = Inr pc \<and> subnet_prefix (peer_subnet cfg) = Inr prefix
     \<and> pick_free_octet pc prefix (peer_start cfg) = Inr n \<and> p_ip p = prefix @ show_int n
     \<and> gen_keypair e w = (Inr (p_private_key p, p_public_key p), w1)
     \<and> peer_name_for (if viewer_is_admin cfg r then go_trim_space (form_value r ''user'') else viewer r)
         (p_device_tag p) = Inr (p_name p)"

lemma add_peer_cases:
  assumes "handle_add_peer e cfg r w = (rs, w')"
  obtains (refused) "files w' = files w" "rs_status rs \<noteq> 200"
  | (added) pc prefix n p u w1 w2 where
      "new_device e cfg r w pc prefix n p w1" "append_peer e pc (conf_path cfg) p w1 = (Inr u, w2)"
      "finish_add_peer e cfg pc (new_meta_store e (meta_path cfg) w) p r w2 = (rs, w')"
  | (unwritten) pc prefix n p err w1 w2 where
      "new_device e cfg r w pc prefix n p w1" "append_peer e pc (conf_path cfg) p w1 = (Inl err, w2)"
      "w' = w2" "rs_status rs \<noteq> 200"
proof -
  show thesis
    using assms
    apply (simp only: handle_add_peer_def Let_def split: if_split_asm option.split_asm sum.split_asm prod.split_asm)
    apply ((hypsubst_thin+)?,
        (rule refused; auto simp: respond_def http_error_def auth_required_def panic_response_def gen_keypair_def
          split: sum.split_asm; fail)
      | (rule added [rotated], assumption, simp, unfold new_device_def, intro conjI, assumption, assumption,
          assumption, simp, simp, simp)
      | (rule unwritten [rotated], assumption, simp, force simp: http_error_def respond_def, unfold new_device_def, intro conjI,
          assumption, assumption, assumption, simp, simp, simp))+
    done
qed

lemma new_device_octet:
  assumes "new_device e cfg r w pc prefix n p w1" and "0 \<le> peer_start cfg"
  shows "peer_start cfg \<le> n \<and> n \<le> 254 \<and> n \<notin> set (used_octets pc prefix)"
    and "used_octets (parse_conf (append_text (pc_raw pc) p)) prefix = used_octets pc prefix @ [n]"
    and "map kv (pc_peers (parse_conf (append_text (pc_raw pc) p))) = map kv (pc_peers pc) @ [(p_public_key p, p_ip p @ ''/32'')]"
    and "pc_params (parse_conf (append_text (pc_raw pc) p)) = pc_params pc"
    and "files w1 = files w"
proof -
  have n: "pick_free_octet pc prefix (peer_start cfg) = Inr n" "subnet_prefix (peer_subnet cfg) = Inr prefix"
    "p_ip p = prefix @ show_int n" "gen_keypair e w = (Inr (p_private_key p, p_public_key p), w1)"
    "load_conf e (conf_path cfg) w = Inr pc"
    using assms(1) by (auto simp: new_device_def)
  show r: "peer_start cfg \<le> n \<and> n \<le> 254 \<and> n \<notin> set (used_octets pc prefix)"
    using pick_free_octet_least [where pc = pc and prefix = prefix and start = "peer_start cfg"] n(1) by simp
  have pc: "pc = parse_conf (pc_raw pc)" using load_conf_parsed [OF n(5)] by simp
  note o = new_octet [OF n(2), where n = n, folded n(3)]
  have s: "solid_text (p_public_key p)" "solid_text (p_ip p)" using gen_keypair_ok [OF n(4)] o(1) r assms(2) by auto
  show k: "map kv (pc_peers (parse_conf (append_text (pc_raw pc) p))) = map kv (pc_peers pc) @ [(p_public_key p, p_ip p @ ''/32'')]"
    using append_parsed(1) [OF s, of "pc_raw pc"] pc by simp
  show "pc_params (parse_conf (append_text (pc_raw pc) p)) = pc_params pc"
    using append_parsed(2) [OF s, of "pc_raw pc"] pc by simp
  show "used_octets (parse_conf (append_text (pc_raw pc) p)) prefix = used_octets pc prefix @ [n]"
    using o(2) r assms(2) unfolding used_octets_kv k by simp
  show "files w1 = files w" using gen_keypair_ok [OF n(4)] by simp
qed

text \<open>C3. An accepted request for a new device: the next reading of \<open>gw0.conf\<close> gives every old block
  unchanged, then one block with the key that was just drawn and an address in the subnet whose last
  octet lies between the first free one of the configuration and 254 and is used by no other block. The
  parameters of the interface stay, and a user who is no administrator enrols under their own name only.\<close>

theorem enrol_device:
  assumes "device_dirs_ok cfg" and "0 \<le> peer_start cfg"
    and "handle_add_peer e cfg r w = (rs, w')" and "rs_status rs = 200"
  shows "\<exists>pc prefix n p w1 pc'. new_device e cfg r w pc prefix n p w1
     \<and> peer_start cfg \<le> n \<and> n \<le> 254 \<and> n \<notin> set (used_octets pc prefix)
     \<and> load_conf e (conf_path cfg) w' = Inr pc'
     \<and> map kv (pc_peers pc') = map kv (pc_peers pc) @ [(p_public_key p, p_ip p @ ''/32'')]
     \<and> pc_params pc' = pc_params pc \<and> used_octets pc' prefix = used_octets pc prefix @ [n]"
  using assms(3)
proof (cases rule: add_peer_cases)
  case (added pc prefix n p u w1 w2)
  have "files w2 (conf_path cfg) = Some (File (Bytes (append_text (pc_raw pc) p)))"
    using added(2) atomic_write_ok by (simp add: append_peer_def)
  then have "files w' (conf_path cfg) = Some (File (Bytes (append_text (pc_raw pc) p)))"
    using files_finish_add [OF assms(1), where meta = "new_meta_store e (meta_path cfg) w" and w = w2 and p = p and r = r
        and pc = pc and e = e] meta_path_store added(3) by force
  moreover have "io_fault e (OpRead (conf_path cfg)) = None"
    using added(1) load_conf_parsed [of e "conf_path cfg" w pc] by (simp add: new_device_def)
  ultimately have "load_conf e (conf_path cfg) w' = Inr (parse_conf (append_text (pc_raw pc) p))"
    by (rule load_conf_written)
  with new_device_octet [OF added(1) assms(2)] added(1) show ?thesis by blast
qed (use assms(4) in simp_all)

subsection \<open>No two devices share an address\<close>

lemma unshared_append:
  assumes "unshared e cfg w" and "new_device e cfg r w pc prefix n p w1" and "0 \<le> peer_start cfg"
  shows "unshared e cfg (snd (append_peer e pc (conf_path cfg) p w1))"
  unfolding append_peer_def
proof (rule unshared_write [OF assms(1)])
  show "load_conf e (conf_path cfg) w = Inr pc" using assms(2) by (simp add: new_device_def)
  note o = new_device_octet [OF assms(2,3)]
  show "files w1 (conf_path cfg) = files w (conf_path cfg)" by (simp add: o(5))
  fix q
  assume q: "subnet_prefix (peer_subnet cfg) = Inr q" "distinct (used_octets pc q)"
  then have "q = prefix" using assms(2) by (simp add: new_device_def)
  then show "distinct (used_octets (parse_conf (append_text (pc_raw pc) p)) q)"
    using q(2) o(1,2) by simp
qed

lemma unshared_add:
  assumes "device_dirs_ok cfg" and "0 \<le> peer_start cfg" and "unshared e cfg w"
  shows "unshared e cfg (snd (handle_add_peer e cfg r w))"
proof -
  obtain rs w' where h: "handle_add_peer e cfg r w = (rs, w')" by fastforce
  from h show ?thesis
  proof (cases rule: add_peer_cases)
    case refused
    then show ?thesis using assms(3) unshared_cong [of w' cfg w e] h by simp
  next
    case (added pc prefix n p u w1 w2)
    have "files w' (conf_path cfg) = files w2 (conf_path cfg)"
      using files_finish_add [OF assms(1), where meta = "new_meta_store e (meta_path cfg) w" and w = w2 and p = p and r = r
          and pc = pc and e = e] meta_path_store added(3) by force
    then show ?thesis
      using unshared_append [OF assms(3) added(1) assms(2)] added(2) unshared_cong [of w' cfg w2 e] h by simp
  next
    case (unwritten pc prefix n p err w1 w2)
    then show ?thesis using unshared_append [OF assms(3) unwritten(1) assms(2)] h by simp
  qed
qed

lemma unshared_remove:
  assumes "unshared e cfg w" and "load_conf e (conf_path cfg) w = Inr pc"
  shows "unshared e cfg (snd (snd (remove_peer_by_pubkey e pc (conf_path cfg) key w)))"
    and "unshared e cfg (snd (remove_peers_by_pubkeys e pc (conf_path cfg) keys w))"
proof -
  obtain raw where pc: "pc = parse_conf raw" using load_conf_parsed [OF assms(2)] by blast
  have "distinct (used_octets (parse_conf out) q)"
    if rt: "remove_text pc key = Some out" and d: "distinct (used_octets pc q)" for out q
  proof -
    obtain xs t ys where k: "pc_peers pc = xs @ t # ys" "map kv (pc_peers (parse_conf out)) = map kv (xs @ ys)"
      using remove_one_reload [of key raw] rt pc by auto
    show ?thesis
      unfolding used_octets_of [OF k(2)] using d unfolding used_octets_def k(1)
      by (auto simp only: map_append list.map concat_append concat.simps distinct_append set_append)
  qed
  then show "unshared e cfg (snd (snd (remove_peer_by_pubkey e pc (conf_path cfg) key w)))"
    using unshared_write [OF assms, where v = w] assms(1)
    by (auto simp: remove_peer_by_pubkey_def split: option.split)
  have "distinct (used_octets (parse_conf (remove_many_text pc keys)) q)" if "distinct (used_octets pc q)" for q
    using distinct_kept [OF _ that, where P = "\<lambda>x. e_public_key x \<notin> set keys"]
      parse_keep(1) [OF refl, where sel = "\<lambda>x. e_public_key x \<in> set keys" and raw = raw]
    by (simp add: pc remove_many_text_def)
  then show "unshared e cfg (snd (remove_peers_by_pubkeys e pc (conf_path cfg) keys w))"
    using unshared_write [OF assms, where v = w] assms(1) by (auto simp: remove_peers_by_pubkeys_def)
qed

text \<open>After the rewrite the handlers only touch the sidecar and the audit log.\<close>

lemma files_forget:
  assumes "device_dirs_ok cfg" and "ms_path m = meta_path cfg"
  shows "files (snd (snd (ms_delete e m k w))) (conf_path cfg) = files w (conf_path cfg)"
    and "ms_path (fst (snd (ms_delete e m k w))) = meta_path cfg"
    and "files (audit e cfg x w) (conf_path cfg) = files w (conf_path cfg)"
  using assms(2) conf_path_other [OF assms(1)] atomic_write_frame(1) [OF conf_path_other(1) [OF assms(1)] conf_path_other(3) [OF assms(1)]]
  by (auto simp: ms_delete_def ms_flush_def ms_unset_def audit_def frame_simps Let_def case_prod_beta
      split: option.split sum.split)

lemma files_forget_peers:
  assumes "device_dirs_ok cfg"
  shows "ms_path m = meta_path cfg \<Longrightarrow>
    files (forget_peers e cfg actor ps m w) (conf_path cfg) = files w (conf_path cfg)"
proof (induction ps arbitrary: m w)
  case (Cons p ps)
  note f = files_forget [OF assms Cons.prems]
  show ?case
    using Cons.IH [OF f(2)] by (simp add: case_prod_beta f(3) f(1))
qed simp

lemma unshared_delete:
  assumes "device_dirs_ok cfg" and "unshared e cfg w"
  shows "unshared e cfg (snd (handle_delete_peer e cfg name r w))"
proof (cases "\<exists>pc m. load_conf e (conf_path cfg) w = Inr pc \<and> new_meta_store e (meta_path cfg) w = Inr m")
  case True
  then obtain pc m where pm: "load_conf e (conf_path cfg) w = Inr pc" "new_meta_store e (meta_path cfg) w = Inr m" by blast
  note f = files_forget [OF assms(1) meta_path_store [OF pm(2)]]
  define t where "t = (case find (\<lambda>p. p_name p = name) (list_peers_with_meta pc m) of Some p \<Rightarrow> p | None \<Rightarrow> zero_peer)"
  obtain b x w1 where rm: "remove_peer_by_pubkey e pc (conf_path cfg) (p_public_key t) w = (b, x, w1)" by (metis prod_cases3)
  have w1: "unshared e cfg w1" using unshared_remove(1) [OF assms(2) pm(1), of "p_public_key t"] rm by simp
  have "files (snd (handle_delete_peer e cfg name r w)) (conf_path cfg) \<in> {files w (conf_path cfg), files w1 (conf_path cfg)}"
    unfolding handle_delete_peer_def pm sum.case Let_def t_def [symmetric] rm prod.case
    by (cases x; cases b) (simp_all add: case_prod_beta files_reload_interface f)
  then show ?thesis
    using unshared_cong assms(2) w1 by (metis insertE singletonD)
next
  case False
  then show ?thesis using assms(2) by (auto simp: handle_delete_peer_def split: sum.split)
qed

lemma unshared_user:
  assumes "device_dirs_ok cfg" and "unshared e cfg w"
  shows "unshared e cfg (snd (remove_user_peers e cfg name actor w))"
proof (cases "\<exists>pc m. load_conf e (conf_path cfg) w = Inr pc \<and> new_meta_store e (meta_path cfg) w = Inr m")
  case True
  then obtain pc m where pm: "load_conf e (conf_path cfg) w = Inr pc" "new_meta_store e (meta_path cfg) w = Inr m" by blast
  define gone where "gone = filter (owned_by name) (list_peers_with_meta pc m)"
  obtain x w1 where rm: "remove_peers_by_pubkeys e pc (conf_path cfg) (map p_public_key gone) w = (x, w1)" by fastforce
  have w1: "unshared e cfg w1" using unshared_remove(2) [OF assms(2) pm(1), of "map p_public_key gone"] rm by simp
  have log: "files (fold (\<lambda>p. audit e cfg (g p)) ps v) (conf_path cfg) = files v (conf_path cfg)" for g and ps :: "peer list" and v
    by (induction ps arbitrary: v) (simp_all add: files_forget(3) [OF assms(1) meta_path_store [OF pm(2)]])
  have "files (snd (remove_user_peers e cfg name actor w)) (conf_path cfg) \<in> {files w (conf_path cfg), files w1 (conf_path cfg)}"
    unfolding remove_user_peers_def pm sum.case Let_def gone_def [symmetric] rm prod.case
    by (cases x) (simp_all add: log files_reload_interface files_forget_peers [OF assms(1) meta_path_store [OF pm(2)]])
  then show ?thesis
    using unshared_cong assms(2) w1 by (metis insertE singletonD)
next
  case False
  then show ?thesis using assms(2) by (auto simp: remove_user_peers_def split: sum.split)
qed

lemma files_peer_pages:
  "files (snd (handle_peer_detail e cfg name r w)) = files w" "files (snd (handle_download_conf e cfg name r w)) = files w"
  "files (snd (handle_qr e cfg name r w)) = files w" "files (snd (render_peers_disabled e cfg r w)) = files w"
  "files (snd (render_peer_list e cfg flash r w)) = files w"
proof -
  have h: "files (snd (build_setup_help e cfg r p conf w)) = files w" "files (snd (qrencode e conf w)) = files w"
    "files (snd (random_animal e w)) = files w" for conf r p w
    by (auto simp: build_setup_help_def random_animal_def Let_def qrencode_def exec_def frame_simps
        split: sum.split prod.split option.split) (metis draw_bytes_frame(1) snd_conv)+
  show "files (snd (handle_peer_detail e cfg name r w)) = files w"
    unfolding handle_peer_detail_def
    by (intro files_with_token) (auto simp: h case_prod_beta Let_def split: sum.split)
  show "files (snd (handle_download_conf e cfg name r w)) = files w"
    by (auto simp: handle_download_conf_def split: sum.split)
  show "files (snd (handle_qr e cfg name r w)) = files w"
    using h(2) by (auto simp: handle_qr_def split: sum.split prod.split) (metis snd_conv)+
  show "files (snd (render_peers_disabled e cfg r w)) = files w"
    unfolding render_peers_disabled_def by (intro files_with_token) simp
  have "files (snd (with_token e (\<lambda>csrf r w. f csrf r w) r w)) = files w" if "\<And>c r w. files (snd (f c r w)) = files w"
    for f :: "string \<Rightarrow> page handler"
    using that by (rule files_with_token)
  then show "files (snd (render_peer_list e cfg flash r w)) = files w"
    unfolding render_peer_list_def
    by (auto simp: h Let_def case_prod_beta split: sum.split intro!: files_with_token)
qed

text \<open>What can happen to \<open>gw0.conf\<close>: a request to the pages of the devices, the deletion of the devices of
  an account, and anything that leaves the file alone.\<close>

inductive device_step :: "env \<Rightarrow> config \<Rightarrow> world \<Rightarrow> world \<Rightarrow> bool" for e cfg where
  peers: "device_step e cfg w (snd (handle_peers e cfg r w))"
| peer: "device_step e cfg w (snd (handle_peer_sub e cfg r w))"
| user: "device_step e cfg w (snd (remove_user_peers e cfg name actor w))"
| other: "files w' (conf_path cfg) = files w (conf_path cfg) \<Longrightarrow> device_step e cfg w w'"

inductive_cases device_stepE [consumes 1, case_names peers peer user other]: "device_step e cfg w w'"

lemma files_peer_archive:
  assumes "device_dirs_ok cfg" and "valid_name name"
  shows "files (snd (handle_upload_peer_conf e cfg name r w)) (conf_path cfg) = files w (conf_path cfg)"
    and "files (snd (handle_forget_peer_conf e cfg name r w)) (conf_path cfg) = files w (conf_path cfg)"
proof -
  note ne = conf_path_other [OF assms(1)] conf_path_archive [OF assms]
  have a: "files (audit e cfg x v) (conf_path cfg) = files v (conf_path cfg)" for x v
    by (simp add: audit_def frame_simps ne)
  have wr: "files (snd (archive_write e cfg name c v)) (conf_path cfg) = files v (conf_path cfg)" for c v
    using ne ensure_archive_frame [OF ne(5), of e v] atomic_write_frame(1)
    by (auto simp: archive_write_def split: sum.split prod.split)
  have del: "files (snd (archive_delete e cfg name v)) (conf_path cfg) = files v (conf_path cfg)" for v
  proof (cases "archive_path cfg name")
    case (Inr p)
    then have "conf_path cfg \<noteq> p" using ne(4) by simp
    then have "files (snd (remove_file e p v)) (conf_path cfg) = files v (conf_path cfg)" by (simp add: frame_simps)
    then show ?thesis using Inr by (auto simp: archive_delete_def split: prod.split sum.split)
  qed (simp add: archive_delete_def)
  show "files (snd (handle_upload_peer_conf e cfg name r w)) (conf_path cfg) = files w (conf_path cfg)"
    using wr a by (auto simp: handle_upload_peer_conf_def Let_def split: sum.split option.split prod.split) (metis snd_conv)+
  show "files (snd (handle_forget_peer_conf e cfg name r w)) (conf_path cfg) = files w (conf_path cfg)"
    using del a by (auto simp: handle_forget_peer_conf_def split: sum.split prod.split) (metis snd_conv)+
qed

lemma unshared_files: "files w' = files w \<Longrightarrow> unshared e cfg w' = unshared e cfg w"
  by (rule unshared_cong) simp

lemmas unshared_pages = files_peer_pages [THEN unshared_files]

lemma unshared_step:
  assumes "device_dirs_ok cfg" and "0 \<le> peer_start cfg" and "device_step e cfg w w'" and "unshared e cfg w"
  shows "unshared e cfg w'"
  using assms(3)
proof (cases rule: device_stepE)
  case (peers r)
  then show ?thesis
    using assms(4) unshared_add [OF assms(1,2,4)] by (simp add: handle_peers_def unshared_pages)
next
  case (peer r)
  have "unshared e cfg (snd (handle_peer_sub e cfg r w))"
  proof -
    note archive = files_peer_archive [OF assms(1), THEN unshared_cong]
    show ?thesis
      using assms(4) unshared_delete [OF assms(1,4)]
      by (simp add: handle_peer_sub_def Let_def unshared_pages archive)
  qed
  then show ?thesis using peer by simp
next
  case (user name actor)
  then show ?thesis using unshared_user [OF assms(1,4)] by simp
next
  case other
  then show ?thesis using unshared_cong assms(4) by blast
qed

text \<open>C4. Devices never come to share an address: starting from a \<open>gw0.conf\<close> whose blocks use
  different octets, every sequence of requests to the pages of the devices, of account deletions and of
  steps that leave the file alone, also with failing writes and commands, keeps the octets different.\<close>

theorem addresses_distinct:
  assumes "(device_step e cfg)\<^sup>*\<^sup>* w0 w" and "device_dirs_ok cfg" and "0 \<le> peer_start cfg" and "unshared e cfg w0"
  shows "unshared e cfg w"
  using assms(1,4)
proof (induction rule: rtranclp_induct)
  case (step u v)
  then show ?case using unshared_step [OF assms(2,3)] by blast
qed

subsection \<open>Names that are too long\<close>

lemma peer_name_no_slash:
  "peer_name_for user tag = Inr name \<Longrightarrow> name \<noteq> [] \<and> CHR ''/'' \<notin> set name"
proof -
  have "\<not> is_lower (CHR ''/'')" "\<not> is_digit (CHR ''/'')" by (simp_all add: is_lower_def is_digit_def)
  then show "peer_name_for user tag = Inr name \<Longrightarrow> name \<noteq> [] \<and> CHR ''/'' \<notin> set name"
    by (auto simp: peer_name_for_def valid_username_def valid_device_tag_def list_all_iff split: if_splits list.splits)
qed


subsection \<open>One run\<close>

definition enrol_conf :: string where
  "enrol_conf = join [CHR 10] [''[Interface]'', ''Jc = 4'', [], ''# peer: a-pc'', ''[Peer]'', ''PublicKey = k'',
     ''AllowedIPs = 10.9.0.2/32'', []]"

definition enrol_world :: world where
  "enrol_world = blank_world\<lparr>files := [''/u'' \<mapsto> File (Yaml sample_root), ''/w/g.conf'' \<mapsto> File (Bytes enrol_conf)]\<rparr>"

definition enrol_request :: request where
  "enrol_request = sample_request\<lparr>rq_method := ''POST'', rq_path := ''/peers'',
     rq_headers := [(''X-Enrol-User'', ''a'')], rq_form := [(''device_tag'', ''My Phone'')]\<rparr>"

lemma subnet_sample: "subnet_prefix ''10.9.0.0/24'' = Inr ''10.9.0.''"
proof -
  have o: "parse_octet ''10'' = Some 10" "parse_octet ''9'' = Some 9" "parse_octet ''0'' = Some 0"
    "split2 CHR ''/'' ''10.9.0.0/24'' = [''10.9.0.0'', ''24'']" "split_on CHR ''.'' ''10.9.0.0'' = [''10'', ''9'', ''0'', ''0'']"
    "list_all is_digit ''24''" "digits_val ''24'' = 24" "show_nat 10 = ''10''" "show_nat 9 = ''9''" "show_nat 0 = ''0''"
    by code_simp+
  have "parse_cidr4 ''10.9.0.0/24'' = Some 168361984"
    unfolding parse_cidr4_def parse_ipv4_def o(4) by (simp add: o(1-3,5-7) is_digit_def)
  then show ?thesis by (simp add: subnet_prefix_def o(8-10))
qed

lemma enrol_parts:
  "viewer enrol_request = ''a''" "\<not> viewer_is_admin sample_config enrol_request"
  "normalize_device_tag (form_value enrol_request ''device_tag'') = ''my-phone''"
  "rq_form_error enrol_request = None" "peer_name_for ''a'' ''my-phone'' = Inr ''a-my-phone''"
  "conf_path sample_config = ''/w/g.conf''" "meta_path sample_config = ''/w/peers-meta.json''"
  "peer_subnet sample_config = ''10.9.0.0/24''" "peer_start sample_config = 2" "users_db_path sample_config = ''/u''"
  "pick_free_octet (parse_conf enrol_conf) ''10.9.0.'' 2 = Inr 3" "show_int 3 = ''3''"
  "used_octets (parse_conf enrol_conf) ''10.9.0.'' = [2]" "map e_allowed_ips (pc_peers (parse_conf enrol_conf)) = [''10.9.0.2/32'']"
  "\<not> list_ex (\<lambda>p. p_name p = ''a-my-phone'') (list_peers_with_meta (parse_conf enrol_conf) \<lparr>ms_path = ''/w/peers-meta.json'', ms_data = Some []\<rparr>)"
  by code_simp+

lemma enrol_files:
  "load_conf calm_env ''/w/g.conf'' enrol_world = Inr (parse_conf enrol_conf)"
  "new_meta_store calm_env ''/w/peers-meta.json'' enrol_world = Inr \<lparr>ms_path = ''/w/peers-meta.json'', ms_data = Some []\<rparr>"
  "\<exists>db. load_users_db calm_env ''/u'' enrol_world = Inr db \<and> db_get db ''a'' \<noteq> None"
proof -
  show "load_conf calm_env ''/w/g.conf'' enrol_world = Inr (parse_conf enrol_conf)"
    by (rule load_conf_written) (simp_all add: enrol_world_def)
  show "new_meta_store calm_env ''/w/peers-meta.json'' enrol_world = Inr \<lparr>ms_path = ''/w/peers-meta.json'', ms_data = Some []\<rparr>"
    by (simp add: new_meta_store_def read_file_def enrol_world_def)
  have "load_users_db calm_env ''/u'' enrol_world = Inr (sample_db\<lparr>db_path := ''/u''\<rparr>)"
    by (simp add: load_users_db_def read_file_def enrol_world_def calm_unmarshal_def sample_root_def
        users_content_def document_root_def find_child_def calm_encode_def calm_decode_def sample_user_def sample_db_def)
  then show "\<exists>db. load_users_db calm_env ''/u'' enrol_world = Inr db \<and> db_get db ''a'' \<noteq> None"
    by (auto simp: db_get_def sample_db_def)
qed

lemma calm_token:
  assumes "\<And>t r w. rs_status (f t r w) = 200"
  shows "rs_status (fst (with_token calm_env (\<lambda>t r w. (f t r w, g t r w)) r w)) = 200"
proof -
  have "\<exists>tc w1. ensure_csrf calm_env r w = (Some tc, w1)"
    by (auto simp: ensure_csrf_def new_csrf_token_def draw_bytes_def split: option.split)
  then obtain t c w1 where "ensure_csrf calm_env r w = (Some (t, c), w1)" by fastforce
  then show ?thesis using assms by (simp add: with_token_def with_cookie_def split: option.split)
qed

lemma enrol_accepted: "rs_status (fst (handle_add_peer calm_env sample_config enrol_request enrol_world)) = 200"
proof -
  obtain db u where db: "load_users_db calm_env ''/u'' enrol_world = Inr db" "db_get db ''a'' = Some u"
    using enrol_files(3) by blast
  obtain pub priv w1 where k: "gen_keypair calm_env enrol_world = (Inr (priv, pub), w1)" "files w1 = files enrol_world"
    by (simp add: gen_keypair_def)
  have "\<exists>w2. append_peer calm_env pc ''/w/g.conf'' p w1 = (Inr (), w2)" for pc p
    using k(2) by (simp add: append_peer_def atomic_write_def write_file_def rename_file_def enrol_world_def)
  then obtain w2 where w2: "append_peer calm_env (parse_conf enrol_conf) ''/w/g.conf''
      \<lparr>p_name = ''a-my-phone'', p_device_tag = ''my-phone'', p_public_key = pub, p_private_key = priv,
       p_ip = ''10.9.0.'' @ ''3'', p_added_by = ''a'', p_added_at = now w1\<rparr> w1 = (Inr (), w2)" by blast
  have fin: "rs_status (fst (finish_add_peer calm_env sample_config pc m p enrol_request w)) = 200" for pc m p w
    unfolding finish_add_peer_def Let_def case_prod_beta
    by (rule calm_token) (simp add: no_store_def html_page_def respond_def)
  show ?thesis
    unfolding handle_add_peer_def Let_def enrol_parts(1-10) enrol_files(1,2) sum.case option.case if_False db(1) subnet_sample
      enrol_parts(11,12) k(1) prod.case
    using db(2) w2 fin by (simp add: enrol_parts(2,5,15))
qed

lemma enrol_facts:
  "device_dirs_ok sample_config" "0 \<le> peer_start sample_config"
  "unshared calm_env sample_config enrol_world"
proof -
  show "device_dirs_ok sample_config" by code_simp
  show "0 \<le> peer_start sample_config" by (simp add: enrol_parts)
  show "unshared calm_env sample_config enrol_world"
    by (simp add: unshared_def enrol_parts enrol_files subnet_sample)
qed

theorem enrol_device_witness:
  "\<exists>pc'. load_conf calm_env ''/w/g.conf'' (snd (handle_add_peer calm_env sample_config enrol_request enrol_world)) = Inr pc'
     \<and> map (e_allowed_ips) (pc_peers pc') = [''10.9.0.2/32'', ''10.9.0.3/32'']"
proof -
  obtain rs w' where h: "handle_add_peer calm_env sample_config enrol_request enrol_world = (rs, w')" by fastforce
  have "rs_status rs = 200" using enrol_accepted h by simp
  then obtain pc prefix n p w1 pc' where r: "new_device calm_env sample_config enrol_request enrol_world pc prefix n p w1"
    "load_conf calm_env ''/w/g.conf'' w' = Inr pc'"
    "map kv (pc_peers pc') = map kv (pc_peers pc) @ [(p_public_key p, p_ip p @ ''/32'')]"
    using enrol_device [OF enrol_facts(1,2) h] unfolding enrol_parts(6) by blast
  have p: "pc = parse_conf enrol_conf" "prefix = ''10.9.0.''"
    using r(1) by (simp_all add: new_device_def enrol_parts enrol_files subnet_sample)
  then have i: "p_ip p = ''10.9.0.3''"
    using r(1) enrol_parts(9,11,12) unfolding new_device_def by auto
  have "map snd (map kv (pc_peers pc')) = map snd (map kv (pc_peers pc)) @ [''10.9.0.3/32'']"
    unfolding r(3) i by simp
  then have "map e_allowed_ips (pc_peers pc') = [''10.9.0.2/32'', ''10.9.0.3/32'']"
    using enrol_parts(14) by (simp add: kv_def comp_def p(1))
  then show ?thesis using r(2) h by simp
qed

theorem addresses_distinct_witness:
  "unshared calm_env sample_config (snd (handle_peers calm_env sample_config enrol_request enrol_world))"
  by (rule addresses_distinct [where e = calm_env and cfg = sample_config, OF _ enrol_facts])
    (rule r_into_rtranclp, rule device_step.peers)


end
