(* ===== verification/TagSpec.thy ===== *)
theory TagSpec
  imports Validate "HOL-Library.While_Combinator"
begin

text \<open>
  The loop of \<open>normalizeDeviceTag\<close> that replaces \<open>--\<close> by \<open>-\<close> until none is left: it ends, a pass
  halves every run of dashes, and the result keeps one dash of each run.
\<close>

subsection \<open>Runs of dashes\<close>

definition lead :: "string \<Rightarrow> nat" where
  "lead s = length (takeWhile (\<lambda>c. c = CHR ''-'') s)"

primrec longest :: "string \<Rightarrow> nat" where
  "longest [] = 0"
| "longest (x # s) = max (lead (x # s)) (longest s)"

lemma lead_simps [simp]:
  "lead [] = 0" "lead (x # s) = (if x = CHR ''-'' then Suc (lead s) else 0)"
  by (simp_all add: lead_def)

lemma lead_replace: "lead (replace_dashes s) = (lead s + 1) div 2"
  by (induction s rule: replace_dashes.induct) auto

lemma lead_longest: "lead s \<le> longest s"
  by (cases s) simp_all

lemma longest_replace: "longest (replace_dashes s) \<le> (longest s + 1) div 2"
proof (induction s rule: replace_dashes.induct)
  case (1 x y r)
  have h: "(a + 1) div 2 \<le> (b + 1) div 2" if "a \<le> b" for a b :: nat
    using that by (simp add: div_le_mono)
  have le: "longest r \<le> longest (x # y # r)" "longest (y # r) \<le> longest (x # y # r)"
    "lead (x # y # r) \<le> longest (x # y # r)" by simp_all
  have l: "lead (replace_dashes (x # y # r)) \<le> (longest (x # y # r) + 1) div 2"
    unfolding lead_replace by (rule h) (rule le(3))
  show ?case
  proof (cases "x = CHR ''-'' \<and> y = CHR ''-''")
    case True
    then have "longest (replace_dashes (x # y # r))
        = max (lead (replace_dashes (x # y # r))) (longest (replace_dashes r))" by simp
    then show ?thesis using l "1.IH"(1) [OF True] h [OF le(1)] by linarith
  next
    case False
    then have "longest (replace_dashes (x # y # r))
        = max (lead (replace_dashes (x # y # r))) (longest (replace_dashes (y # r)))" by auto
    then show ?thesis using l "1.IH"(2) [OF False] h [OF le(2)] by linarith
  qed
qed auto

lemma longest_passes: "longest s \<le> 2 ^ k \<Longrightarrow> longest ((replace_dashes ^^ k) s) \<le> 1"
proof (induction k arbitrary: s)
  case (Suc k)
  have "longest (replace_dashes s) \<le> 2 ^ k" using longest_replace [of s] Suc.prems by simp
  then show ?case using Suc.IH by (simp add: funpow_swap1)
qed simp

lemma contains_longest: "contains s ''--'' \<Longrightarrow> 2 \<le> longest s"
proof (induction s)
  case (Cons x s)
  then show ?case by (cases s) (auto simp: contains_Cons has_prefix_def)
qed simp

subsection \<open>The loop\<close>

lemma while_collapse: "while_option (\<lambda>s. contains s ''--'') replace_dashes s = Some (collapse_dashes s)"
proof (induction s rule: collapse_dashes.induct)
  case (1 s)
  then show ?case by (subst while_option_unfold) (simp add: collapse_dashes.simps [of s])
qed

lemma squeeze_passes: "squeeze ((replace_dashes ^^ k) s) = squeeze s"
  by (induction k) (simp_all add: squeeze_replace_dashes)

text \<open>C30. The loop over the dashes ends on every input, and soon: when no run of dashes is longer than
  \<open>2 ^ k\<close>, \<open>k\<close> passes are enough, since each pass halves every run. What it returns is the input with every
  run cut down to one dash, so a second call changes nothing.\<close>

theorem dashes_collapse:
  assumes "longest s \<le> 2 ^ k"
  shows "while_option (\<lambda>s. contains s ''--'') replace_dashes s = Some (collapse_dashes s)
     \<and> (replace_dashes ^^ k) s = collapse_dashes s \<and> collapse_dashes s = squeeze s
     \<and> \<not> contains (collapse_dashes s) ''--'' \<and> collapse_dashes (collapse_dashes s) = collapse_dashes s"
proof -
  have "\<not> contains ((replace_dashes ^^ k) s) ''--''"
    using longest_passes [OF assms] contains_longest by force
  then have "(replace_dashes ^^ k) s = squeeze s" using squeeze_id squeeze_passes by metis
  then show ?thesis
    using while_collapse collapse_dashes_no_double collapse_dashes.simps by (simp add: collapse_dashes_squeeze)
qed

theorem dashes_collapse_witness:
  "while_option (\<lambda>s. contains s ''--'') replace_dashes ''a-----b--c'' = Some (collapse_dashes ''a-----b--c'')
   \<and> (replace_dashes ^^ 3) ''a-----b--c'' = ''a-b-c''"
proof -
  have "longest ''a-----b--c'' \<le> 2 ^ 3" by simp
  moreover have "squeeze ''a-----b--c'' = ''a-b-c''" by simp
  ultimately show ?thesis using dashes_collapse [of "''a-----b--c''" 3] by metis
qed

end
