(* ===== verification/BackupLive.thy ===== *)
theory BackupLive
  imports Backup "HOL-Library.Multiset"
begin

text \<open>
  The subscribers of a running backup operation (\<open>append\<close>, \<open>snapshot\<close>, \<open>unsubscribe\<close> and the tailing
  loop of \<open>handleBackupEvents\<close> in \<open>backup.go\<close>), one step for what happens under the operation's lock
  and one for each channel operation. An \<open>append\<close> logs the frame and copies the list of subscribers
  under the lock, then sends without it; the channels hold 32 frames, and a full one drops the frame.
  Several goroutines may be between the two parts of an \<open>append\<close>.
\<close>

type_synonym frame = "string \<times> string"

subsection \<open>The operation and its readers\<close>

text \<open>Channels are numbered in the order of subscription; number \<open>i\<close> is the one of the \<open>i\<close>-th reader.\<close>

record live_op = backup_op +
  bo_subs :: "nat list"

text \<open>A reader: between its snapshot and the test of \<open>Done\<close>, in the loop, ended by the handler, or gone
  since the client closed the connection. What it was sent is the history, then the frames of the loop.\<close>

datatype reader_phase = Replayed | Tailing | Ended | Left

record stream_reader =
  rd_phase :: reader_phase
  rd_hist :: "frame list"
  rd_live :: "frame list"
  rd_queue :: "frame list"

record stream_state =
  ss_op :: live_op
  ss_sends :: "(frame \<times> nat list) list"
  ss_readers :: "stream_reader list"

definition live_snapshot :: "nat \<Rightarrow> live_op \<Rightarrow> frame list \<times> live_op" where
  "live_snapshot ch op = (bo_logs op, op\<lparr>bo_subs := bo_subs op @ [ch]\<rparr>)"

definition live_unsubscribe :: "nat \<Rightarrow> live_op \<Rightarrow> live_op" where
  "live_unsubscribe ch op = op\<lparr>bo_subs := filter (\<lambda>c. c \<noteq> ch) (bo_subs op)\<rparr>"

text \<open>The part of \<open>append\<close> under the lock, and one turn of its loop.\<close>

definition live_append :: "frame \<Rightarrow> live_op \<Rightarrow> live_op \<times> nat list" where
  "live_append fr op = (op\<lparr>bo_logs := bo_logs op @ [fr]\<rparr>, bo_subs op)"

definition chan_send :: "frame \<Rightarrow> stream_reader \<Rightarrow> stream_reader" where
  "chan_send fr rd = (if length (rd_queue rd) < 32 then rd\<lparr>rd_queue := rd_queue rd @ [fr]\<rparr> else rd)"

definition is_final :: "frame \<Rightarrow> bool" where
  "is_final fr \<longleftrightarrow> fst fr = ''done'' \<or> fst fr = ''error''"

subsection \<open>Steps\<close>

datatype stream_event = Emit frame | Send nat | Finish gotime bool | Subscribe | Look nat | Receive nat | Leave nat

definition with_reader :: "nat \<Rightarrow> reader_phase \<Rightarrow> (stream_reader \<Rightarrow> stream_state option) \<Rightarrow> stream_state \<Rightarrow> stream_state option" where
  "with_reader i ph f st =
     (if i < length (ss_readers st) \<and> rd_phase (ss_readers st ! i) = ph then f (ss_readers st ! i) else None)"

definition close_reader :: "nat \<Rightarrow> stream_reader \<Rightarrow> stream_state \<Rightarrow> stream_state" where
  "close_reader i rd st = st\<lparr>ss_op := live_unsubscribe i (ss_op st), ss_readers := (ss_readers st)[i := rd]\<rparr>"

fun stream_next :: "stream_event \<Rightarrow> stream_state \<Rightarrow> stream_state option" where
  "stream_next (Emit fr) st =
     (if bo_done (ss_op st) then None
      else (case live_append fr (ss_op st) of (op, subs) \<Rightarrow> Some (st\<lparr>ss_op := op, ss_sends := ss_sends st @ [(fr, subs)]\<rparr>)))"
| "stream_next (Send k) st =
     (case drop k (ss_sends st) of
        [] \<Rightarrow> None
      | (fr, []) # ys \<Rightarrow> Some (st\<lparr>ss_sends := take k (ss_sends st) @ ys\<rparr>)
      | (fr, c # cs) # ys \<Rightarrow>
          Some (st\<lparr>ss_sends := take k (ss_sends st) @ (fr, cs) # ys,
                  ss_readers := (ss_readers st)[c := chan_send fr (ss_readers st ! c)]\<rparr>))"
| "stream_next (Finish t failed) st =
     (if bo_done (ss_op st) \<or> ss_sends st \<noteq> [] then None
      else Some (st\<lparr>ss_op := (ss_op st)\<lparr>bo_done := True, bo_failed := failed, bo_done_at := t\<rparr>\<rparr>))"
| "stream_next Subscribe st =
     (case live_snapshot (length (ss_readers st)) (ss_op st) of (hist, op) \<Rightarrow>
        Some (st\<lparr>ss_op := op, ss_readers := ss_readers st
          @ [\<lparr>rd_phase = Replayed, rd_hist = hist, rd_live = [], rd_queue = []\<rparr>]\<rparr>))"
| "stream_next (Look i) st =
     with_reader i Replayed (\<lambda>rd.
       Some (if bo_done (ss_op st) then close_reader i (rd\<lparr>rd_phase := Ended\<rparr>) st
             else st\<lparr>ss_readers := (ss_readers st)[i := rd\<lparr>rd_phase := Tailing\<rparr>]\<rparr>)) st"
| "stream_next (Receive i) st =
     with_reader i Tailing (\<lambda>rd. case rd_queue rd of
         [] \<Rightarrow> None
       | fr # q \<Rightarrow>
           (let rd' = rd\<lparr>rd_live := rd_live rd @ [fr], rd_queue := q\<rparr>
            in Some (if is_final fr then close_reader i (rd'\<lparr>rd_phase := Ended\<rparr>) st
                     else st\<lparr>ss_readers := (ss_readers st)[i := rd']\<rparr>))) st"
| "stream_next (Leave i) st =
     with_reader i Tailing (\<lambda>rd. Some (close_reader i (rd\<lparr>rd_phase := Left\<rparr>) st)) st"

fun stream_run :: "stream_event list \<Rightarrow> stream_state \<Rightarrow> stream_state option" where
  "stream_run [] st = Some st"
| "stream_run (ev # evs) st = (case stream_next ev st of None \<Rightarrow> None | Some st' \<Rightarrow> stream_run evs st')"

inductive stream_step :: "stream_state \<Rightarrow> stream_state \<Rightarrow> bool" where
  "stream_next ev st = Some st' \<Longrightarrow> stream_step st st'"

inductive_cases stream_stepE: "stream_step st st'"

definition stream_start :: "backup_op \<Rightarrow> stream_state" where
  "stream_start op = \<lparr>ss_op = backup_op.extend op \<lparr>bo_subs = []\<rparr>, ss_sends = [], ss_readers = []\<rparr>"

lemma stream_run_steps: "stream_run evs st = Some st' \<Longrightarrow> stream_step\<^sup>*\<^sup>* st st'"
proof (induction evs arbitrary: st)
  case (Cons ev evs)
  then obtain v where "stream_next ev st = Some v" "stream_step\<^sup>*\<^sup>* v st'" by (auto split: option.splits)
  then show ?case by (meson converse_rtranclp_into_rtranclp stream_step.intros)
qed simp

lemma stream_run_append:
  "stream_run (xs @ ys) st = (case stream_run xs st of None \<Rightarrow> None | Some st' \<Rightarrow> stream_run ys st')"
  by (induction xs arbitrary: st) (auto split: option.splits)

text \<open>Without subscribers the steps of an append are the append of the buffer alone.\<close>

lemma append_buffer: "backup_op.truncate (fst (live_append fr op)) = op_append fr (backup_op.truncate op)"
  by (simp add: live_append_def op_append_def backup_op.truncate_def)

subsection \<open>What every reachable state keeps\<close>

text \<open>The frames that are on their way to a channel.\<close>

definition pending :: "nat \<Rightarrow> (frame \<times> nat list) list \<Rightarrow> frame multiset" where
  "pending i sends = image_mset fst (filter_mset (\<lambda>x. i \<in> set (snd x)) (mset sends))"

lemma pending_simps [simp]:
  "pending i [] = {#}"
  "pending i ((fr, cs) # xs) = (if i \<in> set cs then add_mset fr (pending i xs) else pending i xs)"
  "pending i (xs @ ys) = pending i xs + pending i ys"
  by (simp_all add: pending_def)

definition reader_ok :: "frame list \<Rightarrow> nat list \<Rightarrow> frame multiset \<Rightarrow> nat \<Rightarrow> stream_reader \<Rightarrow> bool" where
  "reader_ok logs subs pend i rd \<longleftrightarrow>
     (i \<in> set subs \<longleftrightarrow> rd_phase rd \<in> {Replayed, Tailing}) \<and> length (rd_queue rd) \<le> 32
     \<and> (rd_phase rd = Replayed \<longrightarrow> rd_live rd = [])
     \<and> (rd_phase rd \<in> {Replayed, Tailing} \<longrightarrow> \<not> list_ex is_final (rd_live rd))
     \<and> (\<exists>later lost. logs = rd_hist rd @ later \<and> mset later = mset (rd_live rd) + mset (rd_queue rd) + pend + lost
          \<and> (i \<in> set subs \<and> length later \<le> 32 \<longrightarrow> lost = {#}))"

definition stream_ok :: "stream_state \<Rightarrow> bool" where
  "stream_ok st \<longleftrightarrow>
     distinct (bo_subs (ss_op st)) \<and> set (bo_subs (ss_op st)) \<subseteq> {..<length (ss_readers st)}
     \<and> list_all (\<lambda>x. distinct (snd x) \<and> set (snd x) \<subseteq> {..<length (ss_readers st)}) (ss_sends st)
     \<and> (bo_done (ss_op st) \<longrightarrow> ss_sends st = [])
     \<and> (\<forall>i < length (ss_readers st).
          reader_ok (bo_logs (ss_op st)) (bo_subs (ss_op st)) (pending i (ss_sends st)) i (ss_readers st ! i))"

lemma reader_ok_emit:
  assumes "reader_ok logs subs pend i rd"
  shows "reader_ok (logs @ [fr]) subs (if i \<in> set subs then add_mset fr pend else pend) i rd"
proof -
  obtain later lost where l: "logs = rd_hist rd @ later" "mset later = mset (rd_live rd) + mset (rd_queue rd) + pend + lost"
    "i \<in> set subs \<and> length later \<le> 32 \<longrightarrow> lost = {#}"
    using assms by (auto simp: reader_ok_def)
  have "\<exists>later' lost'. logs @ [fr] = rd_hist rd @ later'
      \<and> mset later' = mset (rd_live rd) + mset (rd_queue rd) + (if i \<in> set subs then add_mset fr pend else pend) + lost'
      \<and> (i \<in> set subs \<and> length later' \<le> 32 \<longrightarrow> lost' = {#})"
    using l by (intro exI [of _ "later @ [fr]"] exI [of _ "if i \<in> set subs then lost else add_mset fr lost"]) auto
  then show ?thesis using assms by (simp add: reader_ok_def)
qed

lemma reader_ok_send:
  assumes "reader_ok logs subs (add_mset fr pend) i rd"
  shows "reader_ok logs subs pend i (chan_send fr rd)"
proof (cases "length (rd_queue rd) < 32")
  case True
  then show ?thesis using assms by (auto simp: reader_ok_def chan_send_def)
next
  case False
  obtain later lost where l: "logs = rd_hist rd @ later"
    "mset later = mset (rd_live rd) + mset (rd_queue rd) + add_mset fr pend + lost"
    using assms by (auto simp: reader_ok_def)
  have "length later = size (mset (rd_live rd) + mset (rd_queue rd) + add_mset fr pend + lost)"
    using l(2) by (metis size_mset)
  then have "\<not> length later \<le> 32" using False by simp
  then have "\<exists>later' lost'. logs = rd_hist rd @ later'
      \<and> mset later' = mset (rd_live rd) + mset (rd_queue rd) + pend + lost'
      \<and> (i \<in> set subs \<and> length later' \<le> 32 \<longrightarrow> lost' = {#})"
    using l by (intro exI [of _ later] exI [of _ "add_mset fr lost"]) auto
  then show ?thesis using assms False by (simp add: reader_ok_def chan_send_def)
qed

lemma reader_ok_subs:
  "reader_ok logs subs pend i rd \<Longrightarrow> (i \<in> set subs' \<longleftrightarrow> i \<in> set subs) \<Longrightarrow> reader_ok logs subs' pend i rd"
  by (auto simp: reader_ok_def)

lemma reader_ok_close:
  assumes "reader_ok logs subs pend i rd" and "ph \<in> {Ended, Left}" and "i \<notin> set subs'"
  shows "reader_ok logs subs' pend i (rd\<lparr>rd_phase := ph\<rparr>)"
  using assms by (fastforce simp: reader_ok_def)

lemma reader_ok_receive:
  assumes "reader_ok logs subs pend i rd" and "rd_queue rd = fr # q"
    and "rd_phase rd = Tailing"
  shows "\<not> is_final fr \<Longrightarrow> reader_ok logs subs pend i (rd\<lparr>rd_live := rd_live rd @ [fr], rd_queue := q\<rparr>)"
    and "i \<notin> set subs' \<Longrightarrow> reader_ok logs subs' pend i (rd\<lparr>rd_live := rd_live rd @ [fr], rd_queue := q, rd_phase := Ended\<rparr>)"
  using assms by (fastforce simp: reader_ok_def)+

lemma stream_ok_start: "stream_ok (stream_start op)"
  by (simp add: stream_ok_def stream_start_def backup_op.defs)

lemma stream_ok_close:
  assumes "stream_ok st" and "reader_ok (bo_logs (ss_op st)) (filter (\<lambda>c. c \<noteq> i) (bo_subs (ss_op st))) (pending i (ss_sends st)) i rd"
  shows "stream_ok (close_reader i rd st)"
  unfolding stream_ok_def
proof (intro conjI allI impI)
  fix j
  assume j: "j < length (ss_readers (close_reader i rd st))"
  show "reader_ok (bo_logs (ss_op (close_reader i rd st))) (bo_subs (ss_op (close_reader i rd st)))
      (pending j (ss_sends (close_reader i rd st))) j (ss_readers (close_reader i rd st) ! j)"
    using assms j reader_ok_subs [of _ "bo_subs (ss_op st)" _ j]
    by (cases "j = i") (auto simp: stream_ok_def close_reader_def live_unsubscribe_def)
qed (use assms(1) in \<open>auto simp: stream_ok_def close_reader_def live_unsubscribe_def\<close>)

lemma stream_ok_update:
  assumes "stream_ok st" and "reader_ok (bo_logs (ss_op st)) (bo_subs (ss_op st)) (pending i (ss_sends st)) i rd"
  shows "stream_ok (st\<lparr>ss_readers := (ss_readers st)[i := rd]\<rparr>)"
proof -
  have "reader_ok (bo_logs (ss_op st)) (bo_subs (ss_op st)) (pending j (ss_sends st)) j ((ss_readers st)[i := rd] ! j)"
    if "j < length (ss_readers st)" for j
    using assms that by (cases "j = i") (simp_all add: stream_ok_def)
  then show ?thesis using assms(1) by (simp add: stream_ok_def)
qed

lemma stream_ok_emit:
  assumes "stream_ok st" and "stream_next (Emit fr) st = Some st'"
  shows "stream_ok st'"
proof -
  have st': "st' = st\<lparr>ss_op := (ss_op st)\<lparr>bo_logs := bo_logs (ss_op st) @ [fr]\<rparr>,
      ss_sends := ss_sends st @ [(fr, bo_subs (ss_op st))]\<rparr>" "\<not> bo_done (ss_op st)"
    using assms(2) by (auto simp: live_append_def split: if_splits)
  have "reader_ok (bo_logs (ss_op st) @ [fr]) (bo_subs (ss_op st))
      (pending j (ss_sends st @ [(fr, bo_subs (ss_op st))])) j (ss_readers st ! j)" if "j < length (ss_readers st)" for j
  proof -
    have "reader_ok (bo_logs (ss_op st)) (bo_subs (ss_op st)) (pending j (ss_sends st)) j (ss_readers st ! j)"
      using assms(1) that by (simp add: stream_ok_def)
    from reader_ok_emit [OF this, of fr] show ?thesis by (auto split: if_splits)
  qed
  then show ?thesis using assms(1) st' by (simp add: stream_ok_def)
qed

lemma stream_ok_send:
  assumes ok: "stream_ok st" and s: "stream_next (Send k) st = Some st'"
  shows "stream_ok st'"
proof -
  obtain xs fr cs ys where d: "drop k (ss_sends st) = (fr, cs) # ys" "take k (ss_sends st) = xs"
    using s by (cases "drop k (ss_sends st)") auto
  then have e: "ss_sends st = xs @ (fr, cs) # ys" by (metis append_take_drop_id)
  have nd: "\<not> bo_done (ss_op st)" using ok e by (auto simp: stream_ok_def)
  show ?thesis
  proof (cases cs)
    case Nil
    then have "st' = st\<lparr>ss_sends := xs @ ys\<rparr>" using s by (simp add: d)
    then show ?thesis using ok nd Nil by (auto simp: stream_ok_def e)
  next
    case (Cons c cs')
    have st': "st' = st\<lparr>ss_sends := xs @ (fr, cs') # ys, ss_readers := (ss_readers st)[c := chan_send fr (ss_readers st ! c)]\<rparr>"
      using s by (simp add: d Cons)
    have c: "c < length (ss_readers st)" "c \<notin> set cs'" using ok by (simp_all add: stream_ok_def e Cons)
    have "reader_ok (bo_logs (ss_op st)) (bo_subs (ss_op st)) (pending j (xs @ (fr, cs') # ys)) j (ss_readers st' ! j)"
      if "j < length (ss_readers st)" for j
    proof (cases "j = c")
      case True
      have "reader_ok (bo_logs (ss_op st)) (bo_subs (ss_op st)) (add_mset fr (pending c (xs @ (fr, cs') # ys))) c (ss_readers st ! c)"
        using ok c by (auto simp: stream_ok_def e Cons)
      then show ?thesis using True c(1) reader_ok_send by (simp add: st')
    next
      case False
      then have "pending j (ss_sends st) = pending j (xs @ (fr, cs') # ys)" by (simp add: e Cons)
      then show ?thesis using ok that False by (auto simp: stream_ok_def st')
    qed
    then show ?thesis using ok nd by (auto simp: stream_ok_def st' e Cons)
  qed
qed

lemma stream_ok_subscribe:
  assumes ok: "stream_ok st" and s: "stream_next Subscribe st = Some st'"
  shows "stream_ok st'"
proof -
  let ?n = "length (ss_readers st)" and ?subs = "bo_subs (ss_op st)"
  define rd where "rd = \<lparr>rd_phase = Replayed, rd_hist = bo_logs (ss_op st), rd_live = [], rd_queue = []\<rparr>"
  have st': "st' = st\<lparr>ss_op := (ss_op st)\<lparr>bo_subs := ?subs @ [?n]\<rparr>, ss_readers := ss_readers st @ [rd]\<rparr>"
    using s by (simp add: live_snapshot_def rd_def)
  have n: "?n \<notin> set ?subs" "\<forall>x \<in> set (ss_sends st). ?n \<notin> set (snd x)"
    using ok by (auto simp: stream_ok_def list_all_iff)
  then have "pending ?n (ss_sends st) = {#}" by (simp add: pending_def filter_mset_eq_conv)
  then have new: "reader_ok (bo_logs (ss_op st)) (?subs @ [?n]) (pending ?n (ss_sends st)) ?n rd"
    by (simp add: reader_ok_def rd_def)
  have "reader_ok (bo_logs (ss_op st)) (?subs @ [?n]) (pending j (ss_sends st)) j ((ss_readers st @ [rd]) ! j)"
    if "j < Suc ?n" for j
    using new ok that reader_ok_subs [of _ ?subs _ j _ "?subs @ [?n]"]
    by (cases "j = ?n") (auto simp: stream_ok_def nth_append less_Suc_eq)
  moreover have "{..<?n} \<subseteq> {..<Suc ?n}" by auto
  ultimately show ?thesis using ok n(1) by (fastforce simp: stream_ok_def st' list_all_iff)
qed

lemma stream_ok_step: "stream_step st st' \<Longrightarrow> stream_ok st \<Longrightarrow> stream_ok st'"
proof (erule stream_stepE)
  fix ev
  assume s: "stream_next ev st = Some st'" and ok: "stream_ok st"
  have r: "reader_ok (bo_logs (ss_op st)) (bo_subs (ss_op st)) (pending i (ss_sends st)) i (ss_readers st ! i)"
    if "i < length (ss_readers st)" for i using ok that by (simp add: stream_ok_def)
  show "stream_ok st'"
  proof (cases ev)
    case (Finish t b)
    then show ?thesis using ok s by (auto simp: stream_ok_def split: if_splits)
  next
    case (Look i)
    then have i: "i < length (ss_readers st)" "rd_phase (ss_readers st ! i) = Replayed"
      using s by (auto simp: with_reader_def split: if_splits)
    have "reader_ok (bo_logs (ss_op st)) (bo_subs (ss_op st)) (pending i (ss_sends st)) i ((ss_readers st ! i)\<lparr>rd_phase := Tailing\<rparr>)"
      using r [OF i(1)] i(2) by (auto simp: reader_ok_def)
    then show ?thesis
      using s i stream_ok_update [OF ok] stream_ok_close [OF ok reader_ok_close [OF r [OF i(1)]]]
      by (auto simp: Look with_reader_def split: if_splits)
  next
    case (Receive i)
    then obtain fr q where i: "i < length (ss_readers st)" "rd_phase (ss_readers st ! i) = Tailing" "rd_queue (ss_readers st ! i) = fr # q"
      using s by (auto simp: with_reader_def split: if_splits list.splits)
    note rr = reader_ok_receive [OF r [OF i(1)] i(3,2)]
    show ?thesis
      using s i stream_ok_update [OF ok rr(1)] stream_ok_close [OF ok rr(2)]
      by (auto simp: Receive with_reader_def Let_def split: if_splits)
  next
    case (Leave i)
    then show ?thesis
      using s stream_ok_close [OF ok reader_ok_close [OF r]] by (auto simp: with_reader_def split: if_splits)
  qed (use ok s stream_ok_emit stream_ok_send stream_ok_subscribe in blast)+
qed

lemma stream_ok_reach: "stream_step\<^sup>*\<^sup>* st st' \<Longrightarrow> stream_ok st \<Longrightarrow> stream_ok st'"
  by (induction rule: rtranclp_induct) (auto intro: stream_ok_step)

subsection \<open>What a reader gets\<close>

text \<open>C14. What a reader of an event stream is sent: first the log as it was when it subscribed, then only
  frames that were logged after that, none of them twice. As long as no more than 32 frames were logged since,
  nothing is lost: each later frame was sent, waits in the channel of the reader, or is on its way there. It
  holds in every reachable state, whatever the interleaving of the goroutines that emit and of the readers
  that come and go.\<close>

theorem stream_complete:
  assumes "stream_step\<^sup>*\<^sup>* (stream_start op) st" and "i < length (ss_readers st)"
  shows "let rd = ss_readers st ! i in
     \<exists>later. bo_logs (ss_op st) = rd_hist rd @ later \<and> mset (rd_live rd) \<subseteq># mset later \<and> length (rd_queue rd) \<le> 32
       \<and> (rd_phase rd \<in> {Replayed, Tailing} \<and> length later \<le> 32 \<longrightarrow>
            mset later = mset (rd_live rd) + mset (rd_queue rd) + pending i (ss_sends st))"
proof -
  have "reader_ok (bo_logs (ss_op st)) (bo_subs (ss_op st)) (pending i (ss_sends st)) i (ss_readers st ! i)"
    using stream_ok_reach [OF assms(1) stream_ok_start] assms(2) by (simp add: stream_ok_def)
  then show ?thesis by (auto simp: reader_ok_def Let_def)
qed

lemma receive_all:
  assumes "i < length (ss_readers st)" and "rd_phase (ss_readers st ! i) = Tailing" and "rd_queue (ss_readers st ! i) = q @ fr # rest"
    and "\<not> list_ex is_final q" and "is_final fr"
  shows "\<exists>st'. stream_run (replicate (Suc (length q)) (Receive i)) st = Some st'
     \<and> ss_readers st' ! i = (ss_readers st ! i)\<lparr>rd_phase := Ended, rd_live := rd_live (ss_readers st ! i) @ q @ [fr], rd_queue := rest\<rparr>"
  using assms
proof (induction q arbitrary: st)
  case Nil
  then show ?case by (simp add: with_reader_def close_reader_def Let_def)
next
  case (Cons x q)
  let ?rd = "(ss_readers st ! i)\<lparr>rd_live := rd_live (ss_readers st ! i) @ [x], rd_queue := q @ fr # rest\<rparr>"
  let ?st = "st\<lparr>ss_readers := (ss_readers st)[i := ?rd]\<rparr>"
  have "stream_next (Receive i) st = Some ?st" using Cons.prems by (simp add: with_reader_def Let_def)
  moreover have "ss_readers ?st ! i = ?rd" using Cons.prems(1) by simp
  ultimately show ?case using Cons.IH [of ?st] Cons.prems by simp
qed

lemma mset_list_ex: "mset xs = mset ys + mset zs \<Longrightarrow> list_ex P xs \<longleftrightarrow> list_ex P ys \<or> list_ex P zs"
  by (metis list_ex_append list_ex_iff mset_append set_mset_mset)

lemma over_reader:
  assumes "stream_step\<^sup>*\<^sup>* (stream_start op) st" and "i < length (ss_readers st)" and "bo_done (ss_op st)"
  shows "ss_sends st = []" and "reader_ok (bo_logs (ss_op st)) (bo_subs (ss_op st)) {#} i (ss_readers st ! i)"
proof -
  have ok: "stream_ok st" using stream_ok_reach [OF assms(1) stream_ok_start] .
  then show e: "ss_sends st = []" using assms(3) by (simp add: stream_ok_def)
  have "reader_ok (bo_logs (ss_op st)) (bo_subs (ss_op st)) (pending i (ss_sends st)) i (ss_readers st ! i)"
    using ok assms(2) unfolding stream_ok_def by blast
  then show "reader_ok (bo_logs (ss_op st)) (bo_subs (ss_op st)) {#} i (ss_readers st ! i)" by (simp add: e)
qed


subsection \<open>Readers that miss the end\<close>

definition stuck :: "nat \<Rightarrow> stream_state \<Rightarrow> bool" where
  "stuck i st \<longleftrightarrow> i < length (ss_readers st) \<and> bo_done (ss_op st) \<and> ss_sends st = []
     \<and> (rd_phase (ss_readers st ! i) = Left
        \<or> rd_phase (ss_readers st ! i) = Tailing \<and> \<not> list_ex is_final (rd_queue (ss_readers st ! i)))
     \<and> \<not> list_ex is_final (rd_live (ss_readers st ! i))"

lemma stuck_step: "stream_step st st' \<Longrightarrow> stuck i st \<Longrightarrow> stuck i st'"
proof (erule stream_stepE)
  fix ev
  assume s: "stream_next ev st = Some st'" and st: "stuck i st"
  show "stuck i st'"
  proof (cases ev)
    case (Look j)
    then show ?thesis
      using s st by (cases "j = i") (auto simp: stuck_def with_reader_def close_reader_def live_unsubscribe_def split: if_splits)
  next
    case (Receive j)
    then show ?thesis
      using s st by (cases "j = i") (auto simp: stuck_def with_reader_def close_reader_def live_unsubscribe_def Let_def split: if_splits list.splits)
  next
    case (Leave j)
    then show ?thesis
      using s st by (cases "j = i") (auto simp: stuck_def with_reader_def close_reader_def live_unsubscribe_def split: if_splits)
  qed (use s st in \<open>auto simp: stuck_def live_snapshot_def nth_append split: if_splits\<close>)
qed

text \<open>C35. A reader that fell behind waits for ever: when the operation is finished and the channel of a
  reader in its loop holds no final frame (it was full when the final one came, and that frame was dropped), then
  in every later state the handler is still waiting or the client has gone away, and no final frame was sent.
  The connection stays open without an event, while the log has the final frame.\<close>

theorem slow_reader_stuck:
  assumes "stream_step\<^sup>*\<^sup>* (stream_start op) st" and "i < length (ss_readers st)" and "bo_done (ss_op st)"
    and "rd_phase (ss_readers st ! i) = Tailing" and "\<not> list_ex is_final (rd_queue (ss_readers st ! i))"
    and "stream_step\<^sup>*\<^sup>* st st'"
  shows "rd_phase (ss_readers st' ! i) \<in> {Tailing, Left} \<and> \<not> list_ex is_final (rd_live (ss_readers st' ! i))"
proof -
  note rd = over_reader [OF assms(1-3)]
  then have "stuck i st" using assms(2-5) by (auto simp: stuck_def reader_ok_def)
  with assms(6) have "stuck i st'" by (induction rule: rtranclp_induct) (auto intro: stuck_step)
  then show ?thesis by (auto simp: stuck_def)
qed


subsection \<open>Runs\<close>

definition sample_op :: backup_op where
  "sample_op = \<lparr>bo_id = ''enrol:create:1'', bo_stack = ''enrol'', bo_verb = ''create'', bo_started = 0, bo_done = False,
     bo_done_at = 0, bo_failed = False, bo_logs = [(''status'', ''s'')]\<rparr>"

text \<open>A reader in its loop that takes nothing, after some lines of the log.\<close>

definition tail_state :: "nat \<Rightarrow> stream_state" where
  "tail_state n =
     \<lparr>ss_op = backup_op.extend (sample_op\<lparr>bo_logs := (''status'', ''s'') # replicate n (''log'', ''x'')\<rparr>) \<lparr>bo_subs = [0]\<rparr>,
      ss_sends = [],
      ss_readers = [\<lparr>rd_phase = Tailing, rd_hist = [(''status'', ''s'')], rd_live = [],
        rd_queue = replicate n (''log'', ''x'')\<rparr>]\<rparr>"

definition end_events :: "stream_event list" where
  "end_events = [Emit (''done'', ''y''), Send 0, Send 0, Finish 0 False]"

lemmas stream_eval = with_reader_def close_reader_def live_snapshot_def live_unsubscribe_def live_append_def chan_send_def
  backup_op.defs sample_op_def is_final_def Let_def

lemma tail_start: "stream_run [Subscribe, Look 0] (stream_start sample_op) = Some (tail_state 0)"
  by (simp add: stream_start_def tail_state_def stream_eval)

lemma tail_emit:
  "n < 32 \<Longrightarrow> stream_run [Emit (''log'', ''x''), Send 0, Send 0] (tail_state n) = Some (tail_state (Suc n))"
  by (simp add: tail_state_def stream_eval replicate_append_same)

lemma tail_reach: "n \<le> 32 \<Longrightarrow> stream_step\<^sup>*\<^sup>* (stream_start sample_op) (tail_state n)"
proof (induction n)
  case 0
  then show ?case using stream_run_steps [OF tail_start] by simp
next
  case (Suc n)
  then show ?case using stream_run_steps [OF tail_emit [of n]] by (simp add: rtranclp_trans)
qed

definition tail_end :: "nat \<Rightarrow> frame list \<Rightarrow> stream_state" where
  "tail_end n q =
     \<lparr>ss_op = backup_op.extend (sample_op\<lparr>bo_logs := (''status'', ''s'') # replicate n (''log'', ''x'') @ [(''done'', ''y'')],
        bo_done := True\<rparr>) \<lparr>bo_subs = [0]\<rparr>,
      ss_sends = [],
      ss_readers = [\<lparr>rd_phase = Tailing, rd_hist = [(''status'', ''s'')], rd_live = [], rd_queue = q\<rparr>]\<rparr>"

lemma tail_final:
  "n \<le> 32 \<Longrightarrow> stream_run end_events (tail_state n)
     = Some (tail_end n (replicate n (''log'', ''x'') @ (if n < 32 then [(''done'', ''y'')] else [])))"
  by (simp add: tail_state_def tail_end_def end_events_def stream_eval)

lemma tail_end_reach:
  "n \<le> 32 \<Longrightarrow> stream_step\<^sup>*\<^sup>* (stream_start sample_op)
     (tail_end n (replicate n (''log'', ''x'') @ (if n < 32 then [(''done'', ''y'')] else [])))"
  using tail_reach [of n] stream_run_steps [OF tail_final [of n]] by (meson rtranclp_trans)

theorem stream_complete_witness:
  "\<exists>later. bo_logs (ss_op (tail_state 5)) = [(''status'', ''s'')] @ later
     \<and> mset later = mset (rd_queue (ss_readers (tail_state 5) ! 0))"
  using stream_complete [OF tail_reach [of 5], of 0] by (auto simp: tail_state_def backup_op.defs sample_op_def)


theorem slow_reader_stuck_witness:
  "let st = tail_end 32 (replicate 32 (''log'', ''x'')) in stream_step\<^sup>*\<^sup>* (stream_start sample_op) st
     \<and> (''done'', ''y'') \<in> set (bo_logs (ss_op st))
     \<and> rd_phase (the (map_option (\<lambda>st'. ss_readers st' ! 0) (stream_run [Receive 0] st))) \<in> {Tailing, Left}"
proof -
  let ?st = "tail_end 32 (replicate 32 (''log'', ''x''))"
  have r: "stream_step\<^sup>*\<^sup>* (stream_start sample_op) ?st" using tail_end_reach [of 32] by simp
  obtain st' where st': "stream_run [Receive 0] ?st = Some st'"
    by (simp add: tail_end_def stream_eval numeral_eq_Suc)
  have "rd_phase (ss_readers st' ! 0) \<in> {Tailing, Left}"
    using slow_reader_stuck [OF r, of 0 st'] stream_run_steps [OF st'] by (simp add: tail_end_def backup_op.defs is_final_def list_ex_iff)
  then show ?thesis using r st' by (simp add: Let_def tail_end_def backup_op.defs)
qed


end
