(* ===== verification/Handover.thy ===== *)
theory Handover
  imports FinalizeGate RoutesSpec
begin

text \<open>
  From the wizard to the daily console: the account of the administrator that the pipeline writes is
  the one the wizard stored, a successful run keeps it, and after it the server answers in its
  other mode.
\<close>

subsection \<open>The account of the administrator\<close>

definition admin_account :: "setup_state \<Rightarrow> user" where
  "admin_account st = \<lparr>u_disabled = False, u_displayname = st_admin_display_name st,
     u_password = st_admin_password_hash st, u_email = st_admin_email st, u_groups = [''admin'']\<rparr>"

text \<open>The text that seeds a missing file, \<open>users: {}\<close>, is read as the tree it stands for.\<close>

definition seed_ok :: "env \<Rightarrow> bool" where
  "seed_ok e \<longleftrightarrow> yaml_unmarshal e (Yaml empty_root) = Inr empty_root"

definition users_loaded :: "env \<Rightarrow> config \<Rightarrow> users_db res \<Rightarrow> world \<Rightarrow> bool" where
  "users_loaded e cfg old w \<longleftrightarrow> load_users_db e (users_db_path cfg) w = old"

text \<open>The account is in the file, and the other ones are those of the old file, if it could be read.\<close>

definition account_in :: "env \<Rightarrow> config \<Rightarrow> setup_state \<Rightarrow> users_db res \<Rightarrow> world \<Rightarrow> bool" where
  "account_in e cfg st old w \<longleftrightarrow>
     (\<exists>db. load_users_db e (users_db_path cfg) w = Inr db
        \<and> db_get db (st_admin_username st) = Some (admin_account st)
        \<and> (\<forall>db0. old = Inr db0 \<longrightarrow> db_get db = (db_get db0)(st_admin_username st \<mapsto> admin_account st)))"

lemma load_users_cong: "files w' p = files w p \<Longrightarrow> load_users_db e p w' = load_users_db e p w"
  by (simp only: load_users_db_def read_file_cong [of w' p w e])

lemma on_users_file: "on_file (users_db_path cfg) (users_loaded e cfg old)" "on_file (users_db_path cfg) (account_in e cfg st old)"
  unfolding about_def users_loaded_def account_in_def using load_users_cong by metis+

lemma ykind_empty: "ykind empty_root = YDocument"
  by (simp add: empty_root_def)

lemma seeded_users:
  assumes "seed_ok e" and "files w p = Some (File (Yaml empty_root))" and "load_users_db e p w = Inr db"
  shows "db_ok db"
proof -
  have "yaml_unmarshal e (Yaml empty_root) = Inr empty_root" using assms(1) by (simp add: seed_ok_def)
  then have "db_root db = empty_root"
    using assms(2,3) by (auto simp: load_users_db_def read_file_def Let_def ykind_empty split: option.splits sum.splits if_splits)
  then show ?thesis
    by (simp add: db_ok_def db_content_def pairs_ok_def empty_root_def users_content_def document_root_def find_child_def)
qed

lemma write_admin_account:
  assumes "yaml_ok e" and "seed_ok e" and "users_db_path cfg \<noteq> filepath_dir (users_db_path cfg)"
    and "\<And>db. old = Inr db \<Longrightarrow> db_ok db" and "users_loaded e cfg old w"
    and "finalize_write_admin e cfg st w = (Inr (), w')"
  shows "account_in e cfg st old w'"
proof -
  let ?p = "users_db_path cfg" and ?n = "st_admin_username st"
  define seed where "seed w1 = (case stat_file e ?p w1 of
      Inl err \<Rightarrow> if is_not_exist err then write_file e ?p (Yaml empty_root) w1 else (Inr (), w1) | Inr _ \<Rightarrow> (Inr (), w1))" for w1
  obtain r1 w1 r2 w2 where mk: "mkdir_all e (filepath_dir ?p) w = (r1, w1)" and se: "seed w1 = (r2, w2)" by fastforce
  note d = assms(6) [unfolded finalize_write_admin_def Let_def mk seed_def [symmetric] admin_account_def [symmetric]]
  have nn: "\<not> (st_admin_username st = [] \<or> st_admin_password_hash st = [])"
  proof
    assume c: "st_admin_username st = [] \<or> st_admin_password_hash st = []"
    show False using d [unfolded if_P [OF c]] by blast
  qed
  note d1 = d [unfolded if_not_P [OF nn]]
  obtain u1 where m: "r1 = Inr u1" using d1 by (cases r1) simp_all
  note d2 = d1 [unfolded m prod.case sum.case se]
  obtain u2 where s: "r2 = Inr u2" using d2 by (cases r2) simp_all
  note d3 = d2 [unfolded s prod.case sum.case]
  obtain db where l: "load_users_db e ?p w2 = Inr db" using d3 by (cases "load_users_db e ?p w2") simp_all
  note d4 = d3 [unfolded l sum.case]
  obtain db2 where u: "upsert e ?n (admin_account st) db = Inr db2" using d4 by (cases "upsert e ?n (admin_account st) db") simp_all
  note d5 = d4 [unfolded u sum.case]
  obtain r3 w3 where f0: "flush_users e db2 w2 = (r3, w3)" by fastforce
  have f: "flush_users e db2 w2 = (Inr (), w')" using d5 unfolding f0 by (cases r3) simp_all
  have "files w1 ?p = files w ?p" using mkdir_all_frame(1) [OF assms(3), of e w] mk by simp
  from load_users_cong [OF this, of e] have l1: "load_users_db e ?p w1 = old" using assms(5) by (simp add: users_loaded_def)
  have "(load_users_db e ?p w2 = old) \<or> (files w2 ?p = Some (File (Yaml empty_root)) \<and> \<not> is_ok old)"
  proof (cases "\<exists>err. stat_file e ?p w1 = Inl err \<and> is_not_exist err")
    case True
    then have none: "files w1 ?p = None" by (auto simp: stat_file_def split: option.splits)
    have "\<not> is_ok old" using none unfolding l1 [symmetric] by (auto simp: load_users_db_def read_file_def split: option.split)
    moreover have "files w2 ?p = Some (File (Yaml empty_root))" using True s se by (auto simp: seed_def ok_simps)
    ultimately show ?thesis by blast
  next
    case False
    then have "w2 = w1" using se by (auto simp: seed_def split: sum.splits if_splits)
    then show ?thesis using l1 by simp
  qed
  then have ok: "db_ok db" and same: "old = Inr db0 \<Longrightarrow> db0 = db" for db0
    using l assms(4) seeded_users [OF assms(2) _ l] by auto
  obtain db3 where "load_users_db e ?p w' = Inr db3" "db_get db3 = (db_get db)(?n \<mapsto> admin_account st)"
    using upsert_reload [OF assms(1) l ok u f] by blast
  then show ?thesis using same by (auto simp: account_in_def)
qed

text \<open>Where the accounts are kept, nothing else is written.\<close>

definition users_apart :: "config \<Rightarrow> setup_state \<Rightarrow> bool" where
  "users_apart cfg st \<longleftrightarrow>
     (let p = users_db_path cfg; s = setup_complete_sentinel cfg in
      p \<noteq> filepath_dir p \<and> p \<notin> later_paths cfg st
      \<and> p \<notin> {s, filepath_dir s, secret_cache_file (st_admin_username st)})"

lemma users_step:
  assumes "yaml_ok e" and "seed_ok e" and "users_apart cfg st" and "\<And>db. old = Inr db \<Longrightarrow> db_ok db"
    and "\<not> cs_users_db_written (st_completed st)"
  shows "triple (users_loaded e cfg old) (step_users_db e cfg st) (\<lambda>st' w. account_in e cfg st old w \<and> kin st st') (\<lambda>_. True)"
proof -
  let ?A = "account_in e cfg st old"
  have p: "users_db_path cfg \<noteq> filepath_dir (users_db_path cfg)" "users_db_path cfg \<notin> state_files cfg"
    using assms(3) by (auto simp: users_apart_def later_paths_def Let_def)
  have w: "triple (users_loaded e cfg old) (silent n (finalize_write_admin e cfg st)) (\<lambda>_. ?A) (\<lambda>_. True)" for n
    using write_admin_account [OF assms(1,2) p(1) assms(4)]
    by (auto simp: triple_def silent_def logged_def split: sum.split prod.split)
  have c: "triple ?A (checked n f) (\<lambda>_. ?A) (\<lambda>_. True)" for n f
    by (rule triple_weaken [OF triple_checked [of ?A]]) auto
  have s: "triple ?A (persist e cfg st2) (\<lambda>_. ?A) (\<lambda>_. True)" for st2
    by (rule triple_weaken [OF triple_same [OF on_users_file(2) keeps_persist [OF p(2)]]]) auto
  show ?thesis
    unfolding step_users_db_def run_step_def if_not_P [OF assms(5)]
    by (intro triple_and_then [OF triple_emit, where R = "\<lambda>_. users_loaded e cfg old"] triple_and_then [OF triple_and_then [OF w c]]
        triple_and_then [OF s] triple_give) (simp_all add: kin_mark)
qed

lemma account_pipeline:
  assumes "yaml_ok e" and "seed_ok e" and "users_apart cfg st" and "\<And>db. old = Inr db \<Longrightarrow> db_ok db"
    and "\<not> cs_users_db_written (st_completed st)" and "scripts_spare e (users_db_path cfg)"
  shows "triple (users_loaded e cfg old) (finalize_steps e cfg st) (\<lambda>_. account_in e cfg st old) (\<lambda>_. True)"
proof -
  let ?A = "account_in e cfg st old" and ?p = "users_db_path cfg"
  have p: "?p \<notin> later_paths cfg st" "?p \<notin> state_files cfg"
    "?p \<notin> {setup_complete_sentinel cfg, filepath_dir (setup_complete_sentinel cfg)} \<union> state_files cfg"
    "?p \<noteq> secret_cache_file (st_admin_username st)"
    using assms(3) by (auto simp: users_apart_def later_paths_def Let_def)
  have keep: "triple ?A m (\<lambda>_. ?A) (\<lambda>_. True)" if "keeps ?p m" for m :: "'a pipe"
    using triple_same [OF on_users_file(2) that] by (rule triple_weaken) auto
  have keep6: "triple ?A (step_sentinel e cfg st5) (\<lambda>st6 w. ?A w \<and> st_admin_username st6 = st_admin_username st5) (\<lambda>_. True)" for st5
    by (rule triple_weaken [OF triple_conj [OF triple_same [OF on_users_file(2) keeps_sentinel [OF p(3)]] sentinel_state]]) auto
  have v: "keeps ?p (verify_step e cfg st5)" for st5
    unfolding same_def by (metis prod_cases3 snd_conv verify_step_result(1))
  have tail: "triple ?A (and_then (emit ev) (\<lambda>_. and_then (verify_step e cfg st5)
     (\<lambda>_. and_then (step_sentinel e cfg st5) (step_scrub e cfg)))) (\<lambda>_. ?A) (\<lambda>_. True)" if k: "kin st st5" for st5 ev
  proof (intro triple_and_then [OF triple_emit, where R = "\<lambda>_. ?A"] triple_and_then [OF triple_weaken [OF triple_same [OF on_users_file(2) v]], where R = "\<lambda>_. ?A"]
      triple_and_then [OF keep6] triple_fact)
    fix st6 :: setup_state
    assume "st_admin_username st6 = st_admin_username st5"
    then have "st_admin_username st6 = st_admin_username st" using k by (simp add: kin_def)
    then show "triple ?A (step_scrub e cfg st6) (\<lambda>_. ?A) (\<lambda>_. True)" using p(2,4) by (intro keep keeps_scrub) auto
  qed auto
  show ?thesis
    unfolding finalize_steps_def
    by (intro triple_and_then [OF users_step [OF assms(1-5)]] triple_fact
        triple_laters [OF on_users_file(2) p(1) assms(6)] tail) auto
qed


subsection \<open>The change of mode\<close>

definition setup_path :: "string \<Rightarrow> bool" where
  "setup_path p \<longleftrightarrow> p = ''/setup'' \<or> has_prefix p ''/setup/''"

text \<open>C11. A successful run of the pipeline hands the server over: before it, every page but the wizard's
  (and the root, the static files and the health check) leads to the wizard; after it the pages of the
  wizard are not found, and every other request goes to the table of routes. The same request is
  answered in both modes without a restart, since the gate looks at the sentinel each time.\<close>

theorem setup_handover:
  assumes "load_setup_state e cfg w = Inr st" and "setup_mode_active e cfg w"
    and "apart cfg st" and "scripts_spare e (setup_complete_sentinel cfg)" and "setup_ready e cfg" and "state_ok st"
    and "\<not> cs_sentinel_touched (st_completed st)" and "run_finalize e cfg w = (Inr (), evs, w')"
  shows "(setup_path (rq_path r) \<or> rq_path r = ''/'' \<or> has_prefix (rq_path r) ''/static/'' \<or> rq_path r = ''/healthz''
       \<or> routes e cfg fs r w = (redirect ''/'' 303, w))
     \<and> routes e cfg fs r w' = (if setup_path (rq_path r) then (not_found, w') else mux (route_table e cfg fs) r w')"
proof -
  have "\<not> setup_mode_active e cfg w'" using pipeline_gate [OF assms(1-6,8)] assms(7) by blast
  then show ?thesis using assms(2) by (simp add: routes_def setup_route_gate_def setup_path_def Let_def)
qed

subsection \<open>One installation\<close>

definition root_hash :: string where
  "root_hash = ''$argon2id$v=19$m=1,t=1,p=1$AAAA$cHcA''"

lemma root_verifies: "argon2id_verify gate_env ''pw'' root_hash = Inr True"
proof -
  have s: "split_on CHR ''$'' root_hash = [[], ''argon2id'', ''v=19'', ''m=1,t=1,p=1'', ''AAAA'', ''cHcA'']" by code_simp
  have v: "has_prefix ''v=19'' ''v=''" "atoi (trim_prefix ''v=19'' ''v='') = Some 19"
    by (simp_all add: trim_prefix_def has_prefix_def atoi_def is_digit_def digits_val_def digit_val_def)
  have d: "scan_params ''m=1,t=1,p=1'' = Some (1, 1, 1)"
    by (simp add: scan_params_def scan_lit_def scan_uint_def has_prefix_def is_digit_def digits_val_def digit_val_def)
  have b: "b64_raw_decode ''AAAA'' = Some [CHR 0x00, CHR 0x00, CHR 0x00]" "b64_raw_decode ''cHcA'' = Some [CHR ''p'', CHR ''w'', CHR 0x00]"
    by (simp_all add: b64_raw_decode_def b64_index_def char_of_eq_iff)
  show ?thesis
    unfolding argon2id_verify_def s list.case v(2) d b option.case prod.case using v(1) by (simp add: gate_env_def)
qed

definition handover_state :: json where
  "handover_state = JObj [(''step'', JStr ''finalize''), (''domain'', JStr ''d''), (''admin_username'', JStr ''root''),
     (''admin_email'', JStr ''r@e.org''), (''admin_password_hash'', JStr root_hash),
     (''completed_steps'', JObj [(''oidc_rotated'', JBool True),
        (''templates_rendered'', JBool True), (''cert_issued'', JBool True), (''npm_routes_wired'', JBool True)])]"

definition handover_world :: world where
  "handover_world = (gate_world False)\<lparr>files := (files (gate_world False))
     (''/t/state.json'' \<mapsto> File (Json handover_state),
      ''/u'' \<mapsto> File (Yaml (YNode YDocument [] [] [YNode YMapping [] [] [YNode YScalar [] ''users'' [], YNode YMapping [] [] []]])))\<rparr>"

definition handover_loaded :: setup_state where
  "handover_loaded = zero_state\<lparr>st_step := step_of ''finalize'', st_domain := ''d'', st_admin_username := ''root'',
     st_admin_email := ''r@e.org'', st_admin_password_hash := root_hash,
     st_completed := \<lparr>cs_users_db_written = False, cs_oidc_rotated = True, cs_templates_rendered = True,
       cs_cert_issued = True, cs_npm_routes_wired = True, cs_sentinel_touched = False\<rparr>\<rparr>"

lemma handover_facts:
  "load_setup_state gate_env sample_config handover_world = Inr handover_loaded"
  "users_apart sample_config handover_loaded" "apart sample_config handover_loaded"
  "gate_prefix handover_loaded handover_world" "setup_mode_active gate_env sample_config handover_world"
  "state_ok handover_loaded"
  by code_simp+

lemma handover_runs: "\<exists>evs w'. run_finalize gate_env sample_config handover_world = (Inr (), evs, w')"
  using gate_finishes [OF handover_facts(4)] run_finalize_steps [OF handover_facts(1)] by simp

lemma gate_yaml: "yaml_ok gate_env" "seed_ok gate_env"
  by (auto simp: gate_env_def yaml_ok_def seed_ok_def yaml_like_refl calm_decode_encode calm_unmarshal_def empty_root_def
      split: content.splits if_splits list.splits)


theorem setup_handover_witness:
  "\<exists>evs w'. run_finalize gate_env sample_config handover_world = (Inr (), evs, w')
     \<and> routes gate_env sample_config no_files (user_request ''/users'') handover_world = (redirect ''/'' 303, handover_world)
     \<and> routes gate_env sample_config no_files (user_request ''/setup/admin'') w' = (not_found, w')"
proof -
  obtain evs w' where r: "run_finalize gate_env sample_config handover_world = (Inr (), evs, w')" using handover_runs by blast
  have t: "\<not> cs_sentinel_touched (st_completed handover_loaded)" by (simp add: handover_loaded_def)
  note h = setup_handover [OF handover_facts(1,5,3) gate_facts(6,5) handover_facts(6) t r, where fs = no_files]
  show ?thesis
    using h [of "user_request ''/users''"] h [of "user_request ''/setup/admin''"] r
    by (auto simp: user_request_def setup_path_def has_prefix_def)
qed

end
