(* ===== verification/Spec2Isabelle.thy ===== *)
theory Spec2Isabelle
  imports UsersSpec EnvFile HttpSpec PeerHandlers LauncherStore WizardSpec Sse OidcSpec FinalizeGate BackupRuns RoutesSpec EnrolSpec
    TagSpec BackupLive Handover
begin

text \<open>
  The enrol service of the installer (\<open>src/stacks/enrol\<close>, one Go program): the web console of a
  small server. It enrols VPN devices, manages the accounts of the single sign-on, shows the
  landing page with its applications, backs the stacks up, and on a fresh machine runs the
  wizard that installs everything.

  \<^bold>\<open>How the parts interact.\<close> \<open>main.go\<close> reads the configuration and starts the server or the
  command line of the backups. A request passes the gate of the wizard, the mux, the gates of
  \<open>auth.go\<close> and \<open>csrf.go\<close>, and reaches a handler of \<open>server.go\<close>, \<open>setup.go\<close> or \<open>backup.go\<close>. The
  handlers work on shared state: \<open>gw0.conf\<close> and its JSON sidecar (devices), the YAML file of
  Authelia (accounts), the launcher's JSON file, the wizard's state file, the audit log, the
  tracker of running backups, and caches in memory. Installation and backups are long-running
  programs that stream their progress as server-sent events.

  \<^bold>\<open>How the model is made.\<close> A Go function is a HOL function of the same name in snake case. One that
  returns \<open>(T, error)\<close> returns a \<open>res\<close> (\<open>Inl\<close> the error, \<open>Inr\<close> the value); one with effects takes
  and returns a \<open>world\<close>; every early return is a branch. What is not code of the repository (the
  file system's faults, commands, random bytes, argon2id and PBKDF2, YAML, certificates, the
  network) is the record \<open>env\<close>, an argument of the definitions, with \<open>calm_env\<close> as the concrete
  instance of the witnesses. Laws the code relies on are hypotheses with names: \<open>yaml_ok\<close> (what
  is marshalled is read back), \<open>seed_ok\<close> (\<open>users: {}\<close> is read as the tree it stands for), the length of a digest, \<open>scripts_spare\<close> (a script leaves a file
  alone), \<open>tags_any\<close> (how restic reads several tag options).

  \<^bold>\<open>Theories and sources.\<close>
  \<^item> \<open>Prelude\<close>: results, rewrite collections, sorting by insertion, the locale \<open>keyed_store\<close> (what a
    lookup returns after an update), interpreted by the sidecar (\<open>MetaSpec\<close>) and by the children
    of a YAML mapping (\<open>UsersSpec\<close>). \<open>GoStrings\<close>, \<open>GoPath\<close>, \<open>GoTime\<close>, \<open>GoUrl\<close>, \<open>Base64\<close>: the standard
    library as far as the program uses it. \<open>World\<close>: \<open>env\<close>, \<open>world\<close> and the file operations.
    \<open>DocStore\<close>: the locale of a document kept in one file, interpreted by the launcher
    (\<open>LauncherStore\<close>) and the wizard (\<open>SetupSpec\<close>).
  \<^item> Devices, \<open>peers.go\<close> and \<open>peers_archive.go\<close>: \<open>Validate\<close> (names), \<open>WgConf\<close> (parser and writers of
    \<open>gw0.conf\<close>), \<open>MetaStore\<close> (sidecar), \<open>PeerOps\<close> (keys, client configuration, archive). \<open>WgConfSpec\<close>,
    \<open>WgConfEdit\<close>, \<open>WgConfAppend\<close>, \<open>WgConfReload\<close>: what reading the file back gives after each rewrite.
    \<open>MetaSpec\<close>, \<open>PeerSpec\<close>: round trips of sidecar, comment and archive. \<open>TagSpec\<close>: the loop that
    normalises device tags. \<open>EnrolSpec\<close>: the requests that add and delete devices, and the step relation
    \<open>device_step\<close> under which addresses stay distinct.
  \<^item> Accounts, \<open>users.go\<close>: \<open>UsersDb\<close> (YAML tree and account map), \<open>UsersSpec\<close> (the tree refines the map
    across a flush and a load; password hashes). \<open>AuditLog\<close> is \<open>audit.go\<close>.
  \<^item> Neighbours: \<open>Integrations\<close> (\<open>totp.go\<close>, \<open>authelia_bans.go\<close>, \<open>task_client.go\<close>), \<open>EnvFile\<close>
    (\<open>envfile.go\<close>), \<open>Storage\<close> (\<open>storage.go\<close>), \<open>Config\<close> (\<open>main.go\<close>).
  \<^item> Requests: \<open>Http\<close> (requests, responses, the gates of \<open>auth.go\<close> and \<open>csrf.go\<close>), \<open>HttpSpec\<close>; \<open>Pages\<close>
    (the data of every template); \<open>UserHandlers\<close>, \<open>PeerHandlers\<close>, \<open>LauncherHandlers\<close> (\<open>server.go\<close>);
    \<open>Routes\<close> (route tables, mux, wizard gate, \<open>logout.go\<close>, start-up), \<open>RoutesSpec\<close> (who reaches what).
  \<^item> Outgoing HTTP: \<open>HttpClient\<close> (lookup, dial hook, send) with the locale \<open>dial_policy\<close>: a client whose
    hook refuses an address never connects to it; interpreted by the launcher's icon client
    (\<open>Launcher\<close>, \<open>LauncherSpec\<close>: public addresses only) and the proxy manager's client
    (\<open>npm_client.go\<close>: \<open>NpmClient\<close>, \<open>NpmSpec\<close>: private addresses only). \<open>LauncherStore\<close>: the
    invariant of the list of applications.
  \<^item> Wizard, \<open>setup.go\<close>: \<open>DnsProviders\<close>, \<open>SetupState\<close>, \<open>SetupWizard\<close>; \<open>SetupSpec\<close> (state file),
    \<open>WizardSpec\<close> (step relation \<open>wizard_step\<close>, its invariant, the administrator's form).
  \<^item> Installation: \<open>Sse\<close> (\<open>sse.go\<close>), \<open>Streaming\<close> (\<open>runStreaming\<close>), \<open>Oidc\<close> and \<open>OidcSpec\<close> (\<open>oidc.go\<close>),
    \<open>Pipeline\<close> (programs that emit events; frames \<open>same\<close>, triples \<open>triple\<close>, and the locale
    \<open>effect_order\<close>: a reflexive and transitive relation on worlds that every step respects,
    interpreted by "a component of the world is unchanged" and by the engine of the backups),
    \<open>FinalizeVerify\<close> (\<open>finalize_verify.go\<close>), \<open>Finalize\<close> (\<open>runFinalize\<close>), \<open>FinalizeSpec\<close>
    (which step writes what), \<open>FinalizeGate\<close> (the pipeline as a whole), \<open>Handover\<close> (from the wizard's answers
    to the account in the users database, and from one mode of the server to the other).
  \<^item> Backups, \<open>backup.go\<close>: \<open>Backup\<close> (recipes, tracker, JSON of restic, sizes), \<open>BackupEngine\<close>
    (backup, restore, retention), \<open>BackupHandlers\<close> (pages, event stream, download, command line),
    \<open>BackupSpec\<close> (step relation \<open>backup_step\<close>, the lock), \<open>BackupRuns\<close> (one run in detail),
    \<open>BackupLive\<close> (the emitters and the subscribers of one operation as a state machine, \<open>stream_step\<close>).

  \<^bold>\<open>Properties.\<close> They carry the ids C1, C2, ... in the text above each, with a concrete run as its
  witness where there is a hypothesis. A server in any mode answers strangers with redirects and
  refusals only; adding and removing devices changes exactly the blocks it should, and no two devices
  share an address; account changes refine a map; the two HTTP clients keep to their side of the
  network; setup mode ends only when the checks pass and leaves no secret, and the administrator of the
  wizard can log in after it; at most one backup operation runs in any reachable state, a restore saves
  first, retention keeps the newest, and a reader of the event stream that keeps up misses nothing. Some
  theorems show where the code falls short of its comments or its purpose (retention across stacks,
  two ways to miss the final event, device names that are too long to be deleted, the recovery
  recipe, the silent truncation of a download).

  \<^bold>\<open>Bounds and fuel.\<close> No definition takes fuel. Loops are structural recursion or terminate by a
  measure: redirects by the number left (three requests of the launcher's client, ten of the
  proxy manager's), the collapsing of dashes and the chunked reader by length (a pass over the
  dashes halves every run, \<open>TagSpec\<close>), the address allocator by the distance to 254. The channel of a
  reader holds 32 frames. Sizes and counts of the storage page and of restic are
  unbounded integers; \<open>atoi\<close> refuses what does not fit 64 bits, as Go does.

  \<^bold>\<open>Not modelled.\<close> The markup the templates produce (\<open>Pages\<close> holds their data) and the template
  functions \<open>pct\<close> and \<open>sub\<close>, used only there; the files under \<open>/static/\<close> (an argument of \<open>routes\<close>); timeouts, contexts
  and keep-alive comments of streams; file modes and owners; the zeroing of password slices; log
  lines on standard error; the environment variables handed to commands. A handler, and the
  goroutine of one backup operation, runs as one step: interleavings are those of whole
  steps, except in \<open>BackupLive\<close>, where every access to the buffer and the channels is a step. The installer's shell scripts are
  outside: commands act through \<open>run\<close> and \<open>effect\<close> of \<open>env\<close>.
\<close>

end
